(* ===== verification/Prelude.thy ===== *)
theory Prelude
  imports Complex_Main "HOL-Library.Word" "HOL-Library.Char_ord" "HOL-Library.List_Lexorder"
begin

text \<open>
  Shared vocabulary of the development.

  It holds the machine integers of the Rust sources at their width, with the checked and
  saturating operations the code calls; the outcome of a fallible call (\<open>Ok\<close>, \<open>Err\<close> or a
  panic); stateful operations as functions from a state to an outcome and the next state,
  composed as Rust's \<open>?\<close> composes them; \<open>Option::get_or_insert\<close>; and the generic lemmas the
  components use on all of these.  Rust strings are their UTF-8 bytes: \<open>string\<close>, ordered
  bytewise by \<open>List_Lexorder\<close> over \<open>Char_ord\<close> as \<open>str\<close> is ordered.
\<close>

named_theorems outcome_simps "unfolding rules for outcomes and stateful composition"
named_theorems step_defs "definitions of the operations a component's step function calls"

section \<open>Machine integers\<close>

type_synonym u8 = "8 word"
type_synonym u16 = "16 word"
type_synonym u32 = "32 word"
type_synonym u64 = "64 word"

text \<open>\<open>checked_add\<close> and \<open>saturating_add\<close> of the unsigned integer types.\<close>

definition checked_add :: "'a::len word \<Rightarrow> 'a word \<Rightarrow> 'a word option" where
  "checked_add a b = (if uint a + uint b < 2 ^ LENGTH('a) then Some (a + b) else None)"

definition saturating_add :: "'a::len word \<Rightarrow> 'a word \<Rightarrow> 'a word" where
  "saturating_add a b = (if uint a + uint b < 2 ^ LENGTH('a) then a + b else - 1)"

definition saturating_mul :: "'a::len word \<Rightarrow> 'a word \<Rightarrow> 'a word" where
  "saturating_mul a b = (if uint a * uint b < 2 ^ LENGTH('a) then a * b else - 1)"

definition checked_div :: "'a::len word \<Rightarrow> 'a word \<Rightarrow> 'a word option" where
  "checked_div a b = (if b = 0 then None else Some (a div b))"

lemma unat_max_word: "unat (- 1 :: 'a::len word) = 2 ^ LENGTH('a) - 1"
  by transfer (simp add: take_bit_minus_one_eq_mask mask_eq_exp_minus_1 nat_diff_distrib' nat_power_eq)

lemma uint_add_less_iff:
  fixes a b :: "'a::len word"
  shows "uint a + uint b < 2 ^ LENGTH('a) \<longleftrightarrow> unat a + unat b < 2 ^ LENGTH('a)"
proof -
  have "uint a + uint b = int (unat a + unat b)" by simp
  moreover have "(2 :: int) ^ LENGTH('a) = int (2 ^ LENGTH('a))" by simp
  ultimately show ?thesis by (simp only: of_nat_less_iff)
qed

lemma unat_add_no_overflow:
  fixes a b :: "'a::len word"
  assumes "unat a + unat b < 2 ^ LENGTH('a)"
  shows "unat (a + b) = unat a + unat b"
  using assms by (simp add: unat_word_ariths)

lemma checked_add_Some:
  "checked_add a b = Some c \<Longrightarrow> unat c = unat a + unat b"
  by (auto simp: checked_add_def uint_add_less_iff unat_add_no_overflow split: if_splits)

lemma checked_add_None_iff:
  fixes a b :: "'a::len word"
  shows "checked_add a b = None \<longleftrightarrow> 2 ^ LENGTH('a) \<le> unat a + unat b"
  by (auto simp: checked_add_def uint_add_less_iff)

lemma checked_add_one_None: "checked_add a 1 = None \<longleftrightarrow> a = - 1"
  for a :: "'a::len word"
proof -
  have "unat a < 2 ^ LENGTH('a)" and one: "unat (1 :: 'a word) = 1" by simp_all
  then have "2 ^ LENGTH('a) \<le> unat a + unat (1 :: 'a word) \<longleftrightarrow> unat a = unat (- 1 :: 'a word)"
    unfolding unat_max_word one by linarith
  then show ?thesis by (simp add: checked_add_None_iff word_unat_eq_iff)
qed

lemma unat_saturating_add:
  fixes a b :: "'a::len word"
  shows "unat (saturating_add a b) = min (unat a + unat b) (2 ^ LENGTH('a) - 1)"
proof (cases "unat a + unat b < 2 ^ LENGTH('a)")
  case True
  then show ?thesis by (simp add: saturating_add_def uint_add_less_iff unat_add_no_overflow)
next
  case False
  then show ?thesis by (simp add: saturating_add_def uint_add_less_iff unat_max_word)
qed

lemma saturating_add_ge: "a \<le> saturating_add a b"
proof -
  have "unat a < 2 ^ LENGTH('a)" by simp
  then have "unat a \<le> 2 ^ LENGTH('a) - 1" by linarith
  then show ?thesis by (simp add: word_le_nat_alt unat_saturating_add)
qed

lemma saturating_add_less:
  "a \<noteq> - 1 \<Longrightarrow> a < saturating_add a 1"
  for a :: "'a::len word"
proof -
  assume "a \<noteq> - 1"
  then have "unat a \<noteq> 2 ^ LENGTH('a) - 1"
    by (metis unat_max_word word_unat_eq_iff)
  moreover have "unat a < 2 ^ LENGTH('a)" by simp
  ultimately have "unat a < 2 ^ LENGTH('a) - 1" by linarith
  then show ?thesis
    by (simp add: word_less_nat_alt unat_saturating_add)
qed

section \<open>Outcomes of fallible calls\<close>

text \<open>
  \<open>Result<T, E>\<close> with the panics of \<open>expect\<close> and \<open>unwrap\<close> made visible.
\<close>

datatype ('a, 'e) outcome = Ok 'a | Err 'e | Panic

definition is_ok :: "('a, 'e) outcome \<Rightarrow> bool" where
  "is_ok r \<longleftrightarrow> (case r of Ok _ \<Rightarrow> True | _ \<Rightarrow> False)"

fun and_then :: "('a, 'e) outcome \<Rightarrow> ('a \<Rightarrow> ('b, 'e) outcome) \<Rightarrow> ('b, 'e) outcome" where
  "and_then (Ok x) f = f x"
| "and_then (Err e) f = Err e"
| "and_then Panic f = Panic"

fun map_err :: "('e \<Rightarrow> 'f) \<Rightarrow> ('a, 'e) outcome \<Rightarrow> ('a, 'f) outcome" where
  "map_err g (Ok x) = Ok x"
| "map_err g (Err e) = Err (g e)"
| "map_err g Panic = Panic"

definition ok_or :: "'e \<Rightarrow> 'a option \<Rightarrow> ('a, 'e) outcome" where
  "ok_or e x = (case x of None \<Rightarrow> Err e | Some v \<Rightarrow> Ok v)"

lemma is_ok_simps [simp]:
  "is_ok (Ok x)" "\<not> is_ok (Err e)" "\<not> is_ok Panic"
  by (simp_all add: is_ok_def)

lemma is_okE: "is_ok r \<Longrightarrow> (\<And>x. r = Ok x \<Longrightarrow> P) \<Longrightarrow> P"
  by (cases r) auto

lemma and_then_eq_Ok [simp]:
  "and_then r f = Ok y \<longleftrightarrow> (\<exists>x. r = Ok x \<and> f x = Ok y)"
  by (cases r) auto

lemma and_then_eq_Panic [simp]:
  "and_then r f = Panic \<longleftrightarrow> r = Panic \<or> (\<exists>x. r = Ok x \<and> f x = Panic)"
  by (cases r) auto

lemma ok_or_not_Panic [simp]: "ok_or e x \<noteq> Panic"
  by (simp add: ok_or_def split: option.splits)

lemma ok_or_eq_Ok [simp]: "ok_or e x = Ok v \<longleftrightarrow> x = Some v"
  by (auto simp: ok_or_def split: option.splits)

lemma map_err_eq_Ok [simp]: "map_err g r = Ok x \<longleftrightarrow> r = Ok x"
  by (cases r) auto

section \<open>Stateful operations\<close>

text \<open>
  A method on \<open>&mut self\<close> that returns a \<open>Result\<close>: the state it leaves behind is part of
  the value, also when it returns an error halfway.
\<close>

type_synonym ('s, 'a, 'e) stateful = "'s \<Rightarrow> ('a, 'e) outcome \<times> 's"

definition bind_st ::
    "('s, 'a, 'e) stateful \<Rightarrow> ('a \<Rightarrow> ('s, 'b, 'e) stateful) \<Rightarrow> ('s, 'b, 'e) stateful" where
  "bind_st m f s =
     (case m s of (Ok x, s') \<Rightarrow> f x s' | (Err e, s') \<Rightarrow> (Err e, s') | (Panic, s') \<Rightarrow> (Panic, s'))"

definition seq_st ::
    "('s, unit, 'e) stateful \<Rightarrow> ('s, 'b, 'e) stateful \<Rightarrow> ('s, 'b, 'e) stateful" where
  "seq_st m n = bind_st m (\<lambda>_. n)"

definition return_st :: "'a \<Rightarrow> ('s, 'a, 'e) stateful" where
  "return_st x s = (Ok x, s)"

definition modify_st :: "('s \<Rightarrow> 's) \<Rightarrow> ('s, unit, 'e) stateful" where
  "modify_st f s = (Ok (), f s)"

text \<open>Run an operation of a component held in a field of a larger state.\<close>

definition zoom_st ::
    "('t \<Rightarrow> 's) \<Rightarrow> ('s \<Rightarrow> 't \<Rightarrow> 't) \<Rightarrow> ('e \<Rightarrow> 'f) \<Rightarrow> ('s, 'a, 'e) stateful \<Rightarrow> ('t, 'a, 'f) stateful" where
  "zoom_st get put err m t = (case m (get t) of (r, s') \<Rightarrow> (map_err err r, put s' t))"

lemma bind_st_Ok [outcome_simps]: "m s = (Ok x, s') \<Longrightarrow> bind_st m f s = f x s'"
  by (simp add: bind_st_def)

lemma bind_st_Err [outcome_simps]: "m s = (Err e, s') \<Longrightarrow> bind_st m f s = (Err e, s')"
  by (simp add: bind_st_def)

lemma bind_st_eq_Ok:
  "bind_st m f s = (Ok y, t) \<longleftrightarrow> (\<exists>x s'. m s = (Ok x, s') \<and> f x s' = (Ok y, t))"
  by (auto simp: bind_st_def split: prod.splits outcome.splits)

lemma seq_st_eq_Ok:
  "seq_st m n s = (Ok y, t) \<longleftrightarrow> (\<exists>s'. m s = (Ok (), s') \<and> n s' = (Ok y, t))"
  by (simp add: seq_st_def bind_st_eq_Ok)

lemma zoom_st_eq_Ok:
  "zoom_st get put err m t = (Ok x, t') \<longleftrightarrow> (\<exists>s'. m (get t) = (Ok x, s') \<and> t' = put s' t)"
  by (auto simp: zoom_st_def split: prod.splits)

lemma modify_st_eq [simp]: "modify_st f s = (Ok (), f s)"
  by (simp add: modify_st_def)

lemma return_st_eq [simp]: "return_st x s = (Ok x, s)"
  by (simp add: return_st_def)

text \<open>A state invariant kept by both halves of a sequence is kept by the sequence, on every path.\<close>

lemma bind_st_inv:
  assumes "I (snd (m s))" and "\<And>x s'. m s = (Ok x, s') \<Longrightarrow> I (snd (f x s'))"
  shows "I (snd (bind_st m f s))"
  using assms by (auto simp: bind_st_def split: prod.splits outcome.splits)

lemma seq_st_inv:
  assumes "I (snd (m s))" and "\<And>s'. m s = (Ok (), s') \<Longrightarrow> I (snd (n s'))"
  shows "I (snd (seq_st m n s))"
  using assms by (simp add: seq_st_def bind_st_inv)

lemma zoom_st_inv:
  assumes "I (put (snd (m (get t))) t)"
  shows "I (snd (zoom_st get put err m t))"
  using assms by (cases "m (get t)") (simp add: zoom_st_def)

section \<open>Options\<close>

text \<open>\<open>Option::get_or_insert\<close>: the first value written stays.\<close>

definition get_or_insert :: "'a option \<Rightarrow> 'a \<Rightarrow> 'a option" where
  "get_or_insert x v = (case x of None \<Rightarrow> Some v | Some w \<Rightarrow> Some w)"

lemma get_or_insert_simps [simp]:
  "get_or_insert None v = Some v" "get_or_insert (Some w) v = Some w"
  by (simp_all add: get_or_insert_def)

lemma get_or_insert_not_None [simp]: "get_or_insert x v \<noteq> None"
  by (cases x) simp_all

lemma get_or_insert_ex_Some [simp]: "\<exists>w. get_or_insert x v = Some w"
  by (cases x) simp_all

lemma get_or_insert_keeps: "x = Some w \<Longrightarrow> get_or_insert x v = Some w"
  by simp

section \<open>JSON values\<close>

text \<open>The shape of \<open>serde_json::Value\<close>, as the sources build it with \<open>json!\<close>.\<close>

datatype json =
    JNull
  | JBool bool
  | JNum int
  | JStr string
  | JArr "json list"
  | JObj "(string \<times> json) list"

end
