(* ===== verification/BTree_Map.thy ===== *)
theory BTree_Map
  imports Prelude
begin

text \<open>
  \<open>std::collections::BTreeMap\<close> as the sources use it: an association list kept in strictly
  increasing key order, so that iteration visits the keys in order.  The interface the
  components rely on is the locale \<open>ordered_map\<close>; the interpretation \<open>bt\<close> discharges its laws
  for the functions below.
\<close>

type_synonym ('k, 'v) BTreeMap = "('k \<times> 'v) list"

definition bt_wf :: "('k::linorder, 'v) BTreeMap \<Rightarrow> bool" where
  "bt_wf m \<longleftrightarrow> sorted_wrt (<) (map fst m)"

definition bt_get :: "('k::linorder, 'v) BTreeMap \<Rightarrow> 'k \<Rightarrow> 'v option" where
  "bt_get m k = map_of m k"

fun bt_insert :: "'k::linorder \<Rightarrow> 'v \<Rightarrow> ('k, 'v) BTreeMap \<Rightarrow> ('k, 'v) BTreeMap" where
  "bt_insert k v [] = [(k, v)]"
| "bt_insert k v ((a, b) # m) =
     (if k < a then (k, v) # (a, b) # m
      else if k = a then (k, v) # m
      else (a, b) # bt_insert k v m)"

definition bt_remove :: "'k::linorder \<Rightarrow> ('k, 'v) BTreeMap \<Rightarrow> ('k, 'v) BTreeMap" where
  "bt_remove k m = filter (\<lambda>(a, b). a \<noteq> k) m"

definition bt_contains_key :: "('k::linorder, 'v) BTreeMap \<Rightarrow> 'k \<Rightarrow> bool" where
  "bt_contains_key m k \<longleftrightarrow> bt_get m k \<noteq> None"

definition bt_keys :: "('k::linorder, 'v) BTreeMap \<Rightarrow> 'k list" where
  "bt_keys m = map fst m"

definition bt_values :: "('k::linorder, 'v) BTreeMap \<Rightarrow> 'v list" where
  "bt_values m = map snd m"

text \<open>A loop over \<open>values_mut\<close> or over the entries with mutable values.\<close>

definition bt_map :: "('k \<Rightarrow> 'v \<Rightarrow> 'v) \<Rightarrow> ('k::linorder, 'v) BTreeMap \<Rightarrow> ('k, 'v) BTreeMap" where
  "bt_map f m = map (\<lambda>(k, v). (k, f k v)) m"

section \<open>The interface\<close>

locale ordered_map =
  fixes get :: "'m \<Rightarrow> 'k::linorder \<Rightarrow> 'v option"
    and put :: "'k \<Rightarrow> 'v \<Rightarrow> 'm \<Rightarrow> 'm"
    and remove :: "'k \<Rightarrow> 'm \<Rightarrow> 'm"
    and keys :: "'m \<Rightarrow> 'k list"
    and wf :: "'m \<Rightarrow> bool"
  assumes get_put: "get (put k v m) = (get m)(k \<mapsto> v)"
    and get_remove: "get (remove k m) = (get m)(k := None)"
    and set_keys: "set (keys m) = dom (get m)"
    and keys_sorted: "wf m \<Longrightarrow> sorted_wrt (<) (keys m)"
    and wf_put: "wf m \<Longrightarrow> wf (put k v m)"
    and wf_remove: "wf m \<Longrightarrow> wf (remove k m)"
    and extensional: "wf m \<Longrightarrow> wf n \<Longrightarrow> get m = get n \<Longrightarrow> m = n"
begin

lemma get_put_same: "get (put k v m) k = Some v"
  by (simp add: get_put)

lemma get_put_other: "k' \<noteq> k \<Longrightarrow> get (put k v m) k' = get m k'"
  by (simp add: get_put)

lemma distinct_keys: "wf m \<Longrightarrow> distinct (keys m)"
  using keys_sorted strict_sorted_iff by blast

lemma length_keys: "wf m \<Longrightarrow> length (keys m) = card (dom (get m))"
  by (metis distinct_card distinct_keys set_keys)

lemma finite_dom: "finite (dom (get m))"
  by (metis List.finite_set set_keys)

lemma length_keys_put_fresh:
  "wf m \<Longrightarrow> get m k = None \<Longrightarrow> length (keys (put k v m)) = Suc (length (keys m))"
  by (simp add: length_keys wf_put get_put finite_dom domIff)

lemma length_keys_put_present:
  "wf m \<Longrightarrow> get m k = Some w \<Longrightarrow> length (keys (put k v m)) = length (keys m)"
  by (simp add: length_keys wf_put get_put insert_absorb domIff)

lemma put_put_same: "wf m \<Longrightarrow> put k v (put k w m) = put k v m"
  by (rule extensional) (simp_all add: wf_put get_put)

lemma put_put_commute:
  "wf m \<Longrightarrow> k \<noteq> k' \<Longrightarrow> put k v (put k' w m) = put k' w (put k v m)"
  by (rule extensional) (auto simp: wf_put get_put)

lemma put_get_id: "wf m \<Longrightarrow> get m k = Some v \<Longrightarrow> put k v m = m"
  by (rule extensional) (auto simp: wf_put get_put)

end

section \<open>The laws hold\<close>

lemma bt_get_insert: "bt_get (bt_insert k v m) = (bt_get m)(k \<mapsto> v)"
  by (induction k v m rule: bt_insert.induct) (auto simp: bt_get_def)

lemma bt_get_remove: "bt_get (bt_remove k m) = (bt_get m)(k := None)"
  by (induction m) (auto simp: bt_get_def bt_remove_def)

lemma set_bt_keys: "set (bt_keys m) = dom (bt_get m)"
  by (simp add: bt_keys_def bt_get_def [abs_def] dom_map_of_conv_image_fst)

lemma keys_bt_insert: "fst ` set (bt_insert k v m) = insert k (fst ` set m)"
  by (induction k v m rule: bt_insert.induct) auto

lemma bt_wf_insert: "bt_wf m \<Longrightarrow> bt_wf (bt_insert k v m)"
  unfolding bt_wf_def
proof (induction k v m rule: bt_insert.induct)
  case (2 k v a b m)
  then show ?case
    using keys_bt_insert [of k v m] by (auto simp flip: image_set simp: not_less)
qed simp

lemma bt_wf_remove: "bt_wf m \<Longrightarrow> bt_wf (bt_remove k m)"
  unfolding bt_wf_def bt_remove_def by (induction m) auto

lemma bt_wf_distinct: "bt_wf m \<Longrightarrow> distinct (map fst m)"
  unfolding bt_wf_def using strict_sorted_iff by blast

lemma bt_extensional:
  assumes "bt_wf m" and "bt_wf n" and "bt_get m = bt_get n"
  shows "m = n"
proof -
  have "map fst m = map fst n"
    using assms unfolding bt_wf_def bt_get_def
    by (metis dom_map_of_conv_image_fst list.set_map strict_sorted_equal)
  moreover have "map snd m = map (\<lambda>k. the (map_of m k)) (map fst m)" if "bt_wf m" for m :: "('a, 'b) BTreeMap"
    using bt_wf_distinct [OF that] by (auto intro!: map_cong)
  ultimately show ?thesis
    using assms unfolding bt_get_def by (metis zip_map_fst_snd)
qed

interpretation bt: ordered_map bt_get bt_insert bt_remove bt_keys bt_wf
proof
  fix m :: "('a, 'b) BTreeMap"
  show "bt_wf m \<Longrightarrow> sorted_wrt (<) (bt_keys m)"
    by (simp add: bt_wf_def bt_keys_def)
qed (simp_all add: bt_get_insert bt_get_remove set_bt_keys bt_wf_insert bt_wf_remove bt_extensional)

section \<open>Further operations\<close>

lemma bt_wf_Nil [simp]: "bt_wf []"
  by (simp add: bt_wf_def)

lemma bt_get_Nil [simp]: "bt_get [] k = None"
  by (simp add: bt_get_def)

lemma bt_wf_map [simp]: "bt_wf (bt_map f m) = bt_wf m"
  by (simp add: bt_wf_def bt_map_def case_prod_beta comp_def)

lemma bt_get_map: "bt_get (bt_map f m) k = map_option (f k) (bt_get m k)"
  by (induction m) (auto simp: bt_get_def bt_map_def)

lemma bt_keys_map [simp]: "bt_keys (bt_map f m) = bt_keys m"
  by (simp add: bt_keys_def bt_map_def case_prod_beta comp_def)

lemma bt_get_in_values: "bt_get m k = Some v \<Longrightarrow> v \<in> set (bt_values m)"
  by (force simp: bt_get_def bt_values_def dest: map_of_SomeD)

lemma bt_in_values_iff: "bt_wf m \<Longrightarrow> v \<in> set (bt_values m) \<longleftrightarrow> (\<exists>k. bt_get m k = Some v)"
  using bt_wf_distinct [of m] by (auto simp: bt_get_def bt_values_def) (force dest: map_of_SomeD)

lemma bt_contains_key_insert:
  "bt_contains_key (bt_insert k v m) k' \<longleftrightarrow> k' = k \<or> bt_contains_key m k'"
  by (simp add: bt_contains_key_def bt.get_put)

lemma bt_contains_key_map [simp]: "bt_contains_key (bt_map f m) k = bt_contains_key m k"
  by (simp add: bt_contains_key_def bt_get_map)

lemmas bt_simps = bt.get_put bt_get_map bt_contains_key_insert bt_contains_key_def

end
