(* ===== verification/Call_Types.thy ===== *)
theory Call_Types
  imports BTree_Map
begin

text \<open>
  The call vocabulary of \<open>crates/voipswitch-core/src/types\<close>: call and leg states with their
  transition tables, hangup causes, and extension numbers.  The three life cycles of the
  system (calls, legs, callee attempts) share the contract \<open>lifecycle\<close>: every transition
  climbs a rank, one class of states is final, and every other state can still move.
\<close>

section \<open>Identifiers (types/ids.rs)\<close>

text \<open>Every identifier is a newtype over \<open>String\<close>; equality and order are those of the string.\<close>

type_synonym DomainId = string
type_synonym EndpointId = string
type_synonym TrunkId = string
type_synonym CallId = string
type_synonym SessionId = string
type_synonym AdapterCallLegId = string
type_synonym CalleeAttemptId = string
type_synonym MediaBridgeId = string
type_synonym MediaLegId = string
type_synonym BridgeId = string
type_synonym BusinessOperationId = string
type_synonym CollectorId = string
type_synonym MediaCapabilityLeaseId = string

section \<open>Life cycles\<close>

locale lifecycle =
  fixes valid :: "'s \<Rightarrow> 's \<Rightarrow> bool"
    and rank :: "'s \<Rightarrow> nat"
    and final :: "'s \<Rightarrow> bool"
    and top :: nat
  assumes rank_climbs: "valid s t \<Longrightarrow> rank s < rank t"
    and rank_bounded: "rank s \<le> top"
    and final_stuck: "final s \<Longrightarrow> \<not> valid s t"
    and progress: "\<not> final s \<Longrightarrow> \<exists>t. valid s t"
begin

lemma path_rank: "valid\<^sup>+\<^sup>+ s t \<Longrightarrow> rank s < rank t"
  by (induction rule: tranclp_induct) (auto dest: rank_climbs)

lemma no_return: "valid\<^sup>+\<^sup>+ s t \<Longrightarrow> \<not> valid\<^sup>*\<^sup>* t s"
  using path_rank by (metis less_irrefl tranclp_rtranclp_tranclp)

lemma reaches_final: "\<exists>t. final t \<and> valid\<^sup>*\<^sup>* s t"
proof (induction "top - rank s" arbitrary: s rule: less_induct)
  case less
  show ?case
  proof (cases "final s")
    case False
    then obtain u where u: "valid s u" using progress by blast
    then have "top - rank u < top - rank s"
      using rank_climbs rank_bounded [of u] by (metis diff_less_mono2 less_le_trans)
    with less u show ?thesis by (meson converse_rtranclp_into_rtranclp)
  qed auto
qed

lemma history_ranks: "successively valid p \<Longrightarrow> sorted_wrt (\<lambda>s t. rank s < rank t) p"
proof (induction p)
  case (Cons s p)
  then show ?case
    by (cases p) (auto simp: successively_Cons dest: rank_climbs less_trans)
qed simp

text \<open>A history visits no state twice, so it has at most \<open>top + 1\<close> entries.\<close>

lemma history_bounded: "successively valid p \<Longrightarrow> distinct p \<and> length p \<le> Suc top"
proof -
  assume "successively valid p"
  then have ranks: "sorted_wrt (<) (map rank p)"
    using history_ranks by (simp add: sorted_wrt_map)
  then have d: "distinct (map rank p)"
    using strict_sorted_iff by blast
  moreover have "set (map rank p) \<subseteq> {..top}"
    using rank_bounded by auto
  ultimately have "length (map rank p) \<le> card {..top}"
    by (metis card_mono distinct_card finite_atMost)
  with d show ?thesis by (auto simp: distinct_map)
qed

end

section \<open>Calls and legs (types/call.rs)\<close>

datatype CallDirection = Inbound | Outbound | Internal

datatype LegDirection = Inbound | Outbound

datatype CallState = Establishing | Answering | Connected | Terminating | Completed

fun call_is_terminal :: "CallState \<Rightarrow> bool" where
  "call_is_terminal Completed = True"
| "call_is_terminal _ = False"

fun is_terminating_or_completed :: "CallState \<Rightarrow> bool" where
  "is_terminating_or_completed Terminating = True"
| "is_terminating_or_completed Completed = True"
| "is_terminating_or_completed _ = False"

fun call_state_as_str :: "CallState \<Rightarrow> string" where
  "call_state_as_str Establishing = ''establishing''"
| "call_state_as_str Answering = ''answering''"
| "call_state_as_str Connected = ''connected''"
| "call_state_as_str Terminating = ''terminating''"
| "call_state_as_str Completed = ''completed''"

fun valid_call_state_transition :: "CallState \<Rightarrow> CallState \<Rightarrow> bool" where
  "valid_call_state_transition Establishing Answering = True"
| "valid_call_state_transition Establishing Terminating = True"
| "valid_call_state_transition Answering Connected = True"
| "valid_call_state_transition Answering Terminating = True"
| "valid_call_state_transition Connected Terminating = True"
| "valid_call_state_transition Terminating Completed = True"
| "valid_call_state_transition _ _ = False"

datatype LegState = Idle | Routing | Dialing | WaitForAnswer | Bridged | HangingUp | Destroyed

fun leg_is_terminal :: "LegState \<Rightarrow> bool" where
  "leg_is_terminal Destroyed = True"
| "leg_is_terminal _ = False"

datatype HangupCause =
    NormalClearing | OriginatorCancel | NoRoute | UnallocatedNumber | NoAnswer
  | NoUserResponse | UserBusy | UserNotRegistered | CallRejected | InvalidNumberFormat
  | ResourceLimit | LineBusy | IncompatibleDestination | NetworkFailure | TemporaryFailure
  | RecoveryOnTimerExpire | DomainDisabled | SystemShutdown | InternalError

fun as_cdr_string :: "HangupCause \<Rightarrow> string" where
  "as_cdr_string NormalClearing = ''normal_clearing''"
| "as_cdr_string OriginatorCancel = ''originator_cancel''"
| "as_cdr_string NoRoute = ''no_route''"
| "as_cdr_string UnallocatedNumber = ''unallocated_number''"
| "as_cdr_string NoAnswer = ''no_answer''"
| "as_cdr_string NoUserResponse = ''no_user_response''"
| "as_cdr_string UserBusy = ''user_busy''"
| "as_cdr_string UserNotRegistered = ''user_not_registered''"
| "as_cdr_string CallRejected = ''call_rejected''"
| "as_cdr_string InvalidNumberFormat = ''invalid_number_format''"
| "as_cdr_string ResourceLimit = ''resource_limit''"
| "as_cdr_string LineBusy = ''line_busy''"
| "as_cdr_string IncompatibleDestination = ''incompatible_destination''"
| "as_cdr_string NetworkFailure = ''network_failure''"
| "as_cdr_string TemporaryFailure = ''temporary_failure''"
| "as_cdr_string RecoveryOnTimerExpire = ''recovery_on_timer_expire''"
| "as_cdr_string DomainDisabled = ''domain_disabled''"
| "as_cdr_string SystemShutdown = ''system_shutdown''"
| "as_cdr_string InternalError = ''internal_error''"

text \<open>The derived order of \<open>CallState\<close> is the declaration order, its rank.\<close>

fun call_rank :: "CallState \<Rightarrow> nat" where
  "call_rank Establishing = 0"
| "call_rank Answering = 1"
| "call_rank Connected = 2"
| "call_rank Terminating = 3"
| "call_rank Completed = 4"

fun leg_rank :: "LegState \<Rightarrow> nat" where
  "leg_rank Idle = 0"
| "leg_rank Routing = 1"
| "leg_rank Dialing = 2"
| "leg_rank WaitForAnswer = 3"
| "leg_rank Bridged = 4"
| "leg_rank HangingUp = 5"
| "leg_rank Destroyed = 6"

instantiation CallState :: linorder
begin

definition less_eq_CallState :: "CallState \<Rightarrow> CallState \<Rightarrow> bool" where
  "less_eq_CallState a b \<longleftrightarrow> call_rank a \<le> call_rank b"

definition less_CallState :: "CallState \<Rightarrow> CallState \<Rightarrow> bool" where
  "less_CallState a b \<longleftrightarrow> call_rank a < call_rank b"

lemma call_rank_inject: "call_rank a = call_rank b \<Longrightarrow> a = b"
  by (cases a; cases b) simp_all

instance
  by standard (auto simp: less_eq_CallState_def less_CallState_def intro: call_rank_inject)

end

interpretation call_lc: lifecycle valid_call_state_transition call_rank call_is_terminal 4
proof
  fix s t
  show "valid_call_state_transition s t \<Longrightarrow> call_rank s < call_rank t"
    by (cases s; cases t) simp_all
  show "call_rank s \<le> 4" by (cases s) simp_all
  show "call_is_terminal s \<Longrightarrow> \<not> valid_call_state_transition s t" by (cases s) simp_all
  show "\<not> call_is_terminal s \<Longrightarrow> \<exists>t. valid_call_state_transition s t"
    by (cases s) (auto intro: exI [of _ Terminating] exI [of _ Completed])
qed

section \<open>Extension numbers (types/number.rs)\<close>

definition MAX_EXTENSION_NUMBER_LEN :: nat where
  "MAX_EXTENSION_NUMBER_LEN = 32"

text \<open>
  \<open>InvalidCharacter\<close> carries the byte index and the offending character, as its UTF-8 bytes.
\<close>

datatype NumberError = Empty | TooLong nat | InvalidCharacter nat string

definition is_ascii_digit :: "char \<Rightarrow> bool" where
  "is_ascii_digit c \<longleftrightarrow> 48 \<le> (of_char c :: nat) \<and> (of_char c :: nat) \<le> 57"

text \<open>The width of a UTF-8 character, from its first byte.\<close>

definition utf8_width :: "char \<Rightarrow> nat" where
  "utf8_width c =
     (let b = (of_char c :: nat) in
      if b < 192 then 1 else if b < 224 then 2 else if b < 240 then 3 else 4)"

fun find_non_digit :: "nat \<Rightarrow> string \<Rightarrow> (nat \<times> string) option" where
  "find_non_digit i [] = None"
| "find_non_digit i (c # cs) =
     (if is_ascii_digit c then find_non_digit (Suc i) cs
      else Some (i, take (utf8_width c) (c # cs)))"

definition parse_extension_number :: "string \<Rightarrow> (string, NumberError) outcome" where
  "parse_extension_number input =
     (if input = [] then Err Empty
      else if length input > MAX_EXTENSION_NUMBER_LEN then Err (TooLong MAX_EXTENSION_NUMBER_LEN)
      else case find_non_digit 0 input of
             Some (index, character) \<Rightarrow> Err (InvalidCharacter index character)
           | None \<Rightarrow> Ok input)"

lemma find_non_digit_None: "find_non_digit i cs = None \<longleftrightarrow> list_all is_ascii_digit cs"
  by (induction cs arbitrary: i) simp_all

lemma find_non_digit_Some:
  "find_non_digit i cs = Some (j, ch) \<Longrightarrow>
     \<exists>k. j = i + k \<and> k < length cs \<and> \<not> is_ascii_digit (cs ! k) \<and>
         list_all is_ascii_digit (take k cs) \<and> ch = take (utf8_width (cs ! k)) (drop k cs)"
proof (induction cs arbitrary: i)
  case (Cons c cs)
  show ?case
  proof (cases "is_ascii_digit c")
    case True
    with Cons.prems have "find_non_digit (Suc i) cs = Some (j, ch)" by simp
    from Cons.IH [OF this] obtain k where "j = Suc i + k" "k < length cs" "\<not> is_ascii_digit (cs ! k)"
      "list_all is_ascii_digit (take k cs)" "ch = take (utf8_width (cs ! k)) (drop k cs)"
      by blast
    with True show ?thesis by (intro exI [of _ "Suc k"]) simp
  qed (use Cons.prems in auto)
qed simp

text \<open>An extension number is accepted exactly when it has 1 to 32 bytes, all of them ASCII digits,
  and then it is returned unchanged; a rejected character is reported at the first non-digit.\<close>

theorem parse_extension_number_spec:
  "(parse_extension_number input = Ok n \<longleftrightarrow>
      n = input \<and> input \<noteq> [] \<and> length input \<le> 32 \<and> list_all is_ascii_digit input) \<and>
   (parse_extension_number input = Err (InvalidCharacter i ch) \<longrightarrow>
      i < length input \<and> \<not> is_ascii_digit (input ! i) \<and> list_all is_ascii_digit (take i input) \<and>
      ch = take (utf8_width (input ! i)) (drop i input))"
  using find_non_digit_None [of 0 input]
  by (auto simp: parse_extension_number_def MAX_EXTENSION_NUMBER_LEN_def
           split: if_splits option.splits dest: find_non_digit_Some)

theorem parse_extension_number_witness:
  "parse_extension_number ''1001'' = Ok ''1001'' \<and>
   parse_extension_number ''10*1'' = Err (InvalidCharacter 2 ''*'') \<and>
   \<not> is_ascii_digit (''10*1'' ! 2)"
proof -
  have e: "parse_extension_number ''10*1'' = Err (InvalidCharacter 2 ''*'')"
    by code_simp
  moreover have "parse_extension_number ''1001'' = Ok ''1001''"
    by code_simp
  ultimately show ?thesis
    using parse_extension_number_spec [of "''10*1''" "[]" 2 "''*''"] by blast
qed

end
