(* ===== verification/Media_Stats.thy ===== *)
theory Media_Stats
  imports Call_Types
begin

text \<open>
  Media statistics and forwarding history of \<open>crates/voipswitch-core/src/media/mod.rs\<close> (the part
  from \<open>RtpDirectionStats\<close> on): snapshots merged as reports arrive, the fast-path counters, the
  promotion history of a bridge and the set of observed SSRCs.  The \<open>f64\<close> readings (jitter,
  loss fraction, round-trip time) are only copied by this code; they are carried as \<open>real\<close>.
\<close>

record RtpDirectionStats =
  packets :: u64
  bytes :: u64
  lost :: u64
  out_of_order :: u64
  duplicates :: u64
  jitter_rtp_units :: "real option"
  jitter_ms :: "real option"
  ssrc_count :: u32

record RtcpStats =
  reports :: u64
  fraction_lost :: "real option"
  cumulative_lost :: "int option"
  interarrival_jitter :: "u32 option"
  round_trip_time_ms :: "real option"

record RecordingStats =
  rec_enabled :: bool
  packets_tapped :: u64
  packets_dropped :: u64
  bytes_tapped :: u64
  rec_error :: "string option"

record MediaStatsSnapshot =
  ms_observed_at_ms :: u64
  first_rtp_at_ms :: "u64 option"
  last_rtp_at_ms :: "u64 option"
  rx :: RtpDirectionStats
  tx :: RtpDirectionStats
  rtcp :: "RtcpStats option"
  recording :: RecordingStats

text \<open>\<open>if later.x.is_some() { self.x = later.x }\<close>\<close>

definition newer :: "'a option \<Rightarrow> 'a option \<Rightarrow> 'a option" where
  "newer current later = (case later of None \<Rightarrow> current | Some v \<Rightarrow> Some v)"

text \<open>The matches over \<open>(Some, Some)\<close> pairs with \<open>left.or(right)\<close> as the default arm.\<close>

definition merge_opt :: "('a \<Rightarrow> 'a \<Rightarrow> 'a) \<Rightarrow> 'a option \<Rightarrow> 'a option \<Rightarrow> 'a option" where
  "merge_opt f left right =
     (case (left, right) of
        (Some l, Some r) \<Rightarrow> Some (f l r)
      | (Some l, None) \<Rightarrow> Some l
      | (None, r) \<Rightarrow> r)"

definition merge_rtp_stats :: "RtpDirectionStats \<Rightarrow> RtpDirectionStats \<Rightarrow> RtpDirectionStats" where
  "merge_rtp_stats current later =
     \<lparr> packets = max (packets current) (packets later),
       bytes = max (bytes current) (bytes later),
       lost = max (lost current) (lost later),
       out_of_order = max (out_of_order current) (out_of_order later),
       duplicates = max (duplicates current) (duplicates later),
       jitter_rtp_units = newer (jitter_rtp_units current) (jitter_rtp_units later),
       jitter_ms = newer (jitter_ms current) (jitter_ms later),
       ssrc_count = max (ssrc_count current) (ssrc_count later) \<rparr>"

definition merge_from :: "MediaStatsSnapshot \<Rightarrow> MediaStatsSnapshot \<Rightarrow> MediaStatsSnapshot" where
  "merge_from self later =
     \<lparr> ms_observed_at_ms = max (ms_observed_at_ms self) (ms_observed_at_ms later),
       first_rtp_at_ms = merge_opt min (first_rtp_at_ms self) (first_rtp_at_ms later),
       last_rtp_at_ms = merge_opt max (last_rtp_at_ms self) (last_rtp_at_ms later),
       rx = merge_rtp_stats (rx self) (rx later),
       tx = merge_rtp_stats (tx self) (tx later),
       rtcp = newer (rtcp self) (rtcp later),
       recording =
         \<lparr> rec_enabled = (rec_enabled (recording self) \<or> rec_enabled (recording later)),
           packets_tapped = max (packets_tapped (recording self)) (packets_tapped (recording later)),
           packets_dropped = max (packets_dropped (recording self)) (packets_dropped (recording later)),
           bytes_tapped = max (bytes_tapped (recording self)) (bytes_tapped (recording later)),
           rec_error = newer (rec_error (recording self)) (rec_error (recording later)) \<rparr> \<rparr>"

record CodecSummary =
  codec_name :: string
  codec_payload_type :: u8
  codec_clock_rate :: u32
  codec_channels :: u8

record SessionMediaState =
  media_bridge_id :: MediaBridgeId
  media_leg_id :: MediaLegId
  codec :: "CodecSummary option"
  latest_stats :: MediaStatsSnapshot

section \<open>Merging\<close>

lemma newer_simps [simp]:
  "newer c None = c" "newer c (Some v) = Some v" "newer None l = l" "newer c c = c"
  "newer (newer a b) c = newer a (newer b c)"
  by (auto simp: newer_def split: option.splits)

lemma merge_opt_simps [simp]:
  "merge_opt f None r = r" "merge_opt f l None = l"
  "merge_opt f (Some a) (Some b) = Some (f a b)"
  by (auto simp: merge_opt_def split: option.splits)

lemma merge_opt_assoc:
  "(\<And>a b c. f (f a b) c = f a (f b c)) \<Longrightarrow>
     merge_opt f (merge_opt f x y) z = merge_opt f x (merge_opt f y z)"
  by (cases x; cases y; cases z) simp_all

lemma merge_opt_idem: "(\<And>a. f a a = a) \<Longrightarrow> merge_opt f x x = x"
  by (cases x) simp_all

lemma merge_rtp_stats_idem: "merge_rtp_stats s s = s"
  by (simp add: merge_rtp_stats_def)

lemma merge_rtp_stats_assoc:
  "merge_rtp_stats (merge_rtp_stats a b) c = merge_rtp_stats a (merge_rtp_stats b c)"
  by (simp add: merge_rtp_stats_def max.assoc)

text \<open>Merging media reports is idempotent and associative, so delivering a report twice, or
  merging reports in batches, gives the same snapshot.\<close>

theorem merge_from_idem_assoc:
  "merge_from s s = s \<and> merge_from (merge_from a b) c = merge_from a (merge_from b c)"
  by (simp add: merge_from_def merge_rtp_stats_idem merge_rtp_stats_assoc merge_opt_idem
      merge_opt_assoc max.assoc min.assoc)

text \<open>The counters of a direction never decrease when a report is merged.\<close>

definition counters_le :: "RtpDirectionStats \<Rightarrow> RtpDirectionStats \<Rightarrow> bool" where
  "counters_le a b \<longleftrightarrow> packets a \<le> packets b \<and> bytes a \<le> bytes b \<and> lost a \<le> lost b \<and>
     out_of_order a \<le> out_of_order b \<and> duplicates a \<le> duplicates b \<and> ssrc_count a \<le> ssrc_count b"

lemma counters_le_merge: "counters_le a (merge_rtp_stats a b)" "counters_le b (merge_rtp_stats a b)"
  by (simp_all add: counters_le_def merge_rtp_stats_def)

section \<open>Forwarding history\<close>

datatype MediaForwardingMode = Userspace | FastPath | Mixed

datatype MediaFlowDirection = CallerToCallee | CalleeToCaller

fun forwarding_mode_as_str :: "MediaForwardingMode \<Rightarrow> string" where
  "forwarding_mode_as_str Userspace = ''userspace''"
| "forwarding_mode_as_str FastPath = ''fast_path''"
| "forwarding_mode_as_str Mixed = ''mixed''"

definition forwarding_mode_from_str :: "string \<Rightarrow> (MediaForwardingMode, string) outcome" where
  "forwarding_mode_from_str value =
     (if value = ''userspace'' then Ok Userspace
      else if value = ''fast_path'' then Ok FastPath
      else if value = ''mixed'' then Ok Mixed
      else Err (''unknown media forwarding mode: '' @ value))"

record DirectionForwardingHistory =
  promoted :: bool
  demoted :: bool

record MediaForwardingHistory =
  caller_to_callee :: DirectionForwardingHistory
  callee_to_caller :: DirectionForwardingHistory

definition history_default :: MediaForwardingHistory where
  "history_default =
     \<lparr> caller_to_callee = \<lparr> promoted = False, demoted = False \<rparr>,
       callee_to_caller = \<lparr> promoted = False, demoted = False \<rparr> \<rparr>"

fun direction_mut ::
    "MediaFlowDirection \<Rightarrow> (DirectionForwardingHistory \<Rightarrow> DirectionForwardingHistory) \<Rightarrow>
     MediaForwardingHistory \<Rightarrow> MediaForwardingHistory" where
  "direction_mut CallerToCallee f h = h\<lparr>caller_to_callee := f (caller_to_callee h)\<rparr>"
| "direction_mut CalleeToCaller f h = h\<lparr>callee_to_caller := f (callee_to_caller h)\<rparr>"

definition mark_promoted ::
    "MediaFlowDirection \<Rightarrow> MediaForwardingHistory \<Rightarrow> MediaForwardingHistory" where
  "mark_promoted direction = direction_mut direction (\<lambda>d. d\<lparr>promoted := True\<rparr>)"

definition mark_demoted ::
    "MediaFlowDirection \<Rightarrow> MediaForwardingHistory \<Rightarrow> MediaForwardingHistory" where
  "mark_demoted direction =
     direction_mut direction (\<lambda>d. if promoted d then d\<lparr>demoted := True\<rparr> else d)"

definition forwarding_mode :: "MediaForwardingHistory \<Rightarrow> MediaForwardingMode" where
  "forwarding_mode h =
     (let a = caller_to_callee h; b = callee_to_caller h in
      if \<not> promoted a \<and> \<not> promoted b then Userspace
      else if promoted a \<and> promoted b \<and> \<not> demoted a \<and> \<not> demoted b then FastPath
      else Mixed)"

record FastPathStats =
  caller_to_callee_packets :: u64
  caller_to_callee_bytes :: u64
  caller_to_callee_redirect_errors :: u64
  callee_to_caller_packets :: u64
  callee_to_caller_bytes :: u64
  callee_to_caller_redirect_errors :: u64
  caller_to_callee_rtcp_packets :: u64
  caller_to_callee_rtcp_bytes :: u64
  caller_to_callee_rtcp_redirect_errors :: u64
  callee_to_caller_rtcp_packets :: u64
  callee_to_caller_rtcp_bytes :: u64
  callee_to_caller_rtcp_redirect_errors :: u64

definition fastpath_merge_from :: "FastPathStats \<Rightarrow> FastPathStats \<Rightarrow> FastPathStats" where
  "fastpath_merge_from self later =
     \<lparr> caller_to_callee_packets =
         saturating_add (caller_to_callee_packets self) (caller_to_callee_packets later),
       caller_to_callee_bytes =
         saturating_add (caller_to_callee_bytes self) (caller_to_callee_bytes later),
       caller_to_callee_redirect_errors =
         saturating_add (caller_to_callee_redirect_errors self) (caller_to_callee_redirect_errors later),
       callee_to_caller_packets =
         saturating_add (callee_to_caller_packets self) (callee_to_caller_packets later),
       callee_to_caller_bytes =
         saturating_add (callee_to_caller_bytes self) (callee_to_caller_bytes later),
       callee_to_caller_redirect_errors =
         saturating_add (callee_to_caller_redirect_errors self) (callee_to_caller_redirect_errors later),
       caller_to_callee_rtcp_packets =
         saturating_add (caller_to_callee_rtcp_packets self) (caller_to_callee_rtcp_packets later),
       caller_to_callee_rtcp_bytes =
         saturating_add (caller_to_callee_rtcp_bytes self) (caller_to_callee_rtcp_bytes later),
       caller_to_callee_rtcp_redirect_errors =
         saturating_add (caller_to_callee_rtcp_redirect_errors self)
           (caller_to_callee_rtcp_redirect_errors later),
       callee_to_caller_rtcp_packets =
         saturating_add (callee_to_caller_rtcp_packets self) (callee_to_caller_rtcp_packets later),
       callee_to_caller_rtcp_bytes =
         saturating_add (callee_to_caller_rtcp_bytes self) (callee_to_caller_rtcp_bytes later),
       callee_to_caller_rtcp_redirect_errors =
         saturating_add (callee_to_caller_rtcp_redirect_errors self)
           (callee_to_caller_rtcp_redirect_errors later) \<rparr>"

definition effective_mode :: "MediaForwardingHistory \<Rightarrow> FastPathStats \<Rightarrow> MediaForwardingMode" where
  "effective_mode h stats =
     (let mode = forwarding_mode h in
      if mode = Mixed then mode
      else
        let fast_path_packets =
              saturating_add (caller_to_callee_packets stats) (callee_to_caller_packets stats);
            redirect_errors =
              saturating_add (caller_to_callee_redirect_errors stats)
                (callee_to_caller_redirect_errors stats)
        in if redirect_errors = 0 then mode
           else if fast_path_packets = 0 then Userspace
           else Mixed)"

datatype forwarding_event = Promote MediaFlowDirection | Demote MediaFlowDirection

fun forwarding_step :: "MediaForwardingHistory \<Rightarrow> forwarding_event \<Rightarrow> MediaForwardingHistory" where
  "forwarding_step h (Promote d) = mark_promoted d h"
| "forwarding_step h (Demote d) = mark_demoted d h"

text \<open>What a list of events says of one direction: promoted at some point, and demoted after it.\<close>

fun ever_promoted :: "MediaFlowDirection \<Rightarrow> forwarding_event list \<Rightarrow> bool" where
  "ever_promoted d es \<longleftrightarrow> Promote d \<in> set es"

definition demoted_after :: "MediaFlowDirection \<Rightarrow> forwarding_event list \<Rightarrow> bool" where
  "demoted_after d es \<longleftrightarrow> (\<exists>xs ys. es = xs @ Demote d # ys \<and> Promote d \<in> set xs)"

fun history_of :: "MediaFlowDirection \<Rightarrow> MediaForwardingHistory \<Rightarrow> DirectionForwardingHistory" where
  "history_of CallerToCallee h = caller_to_callee h"
| "history_of CalleeToCaller h = callee_to_caller h"

lemma history_of_direction_mut:
  "history_of d (direction_mut e f h) = (if d = e then f (history_of d h) else history_of d h)"
  by (cases d; cases e) simp_all

lemma demoted_after_snoc:
  "demoted_after d (es @ [e]) \<longleftrightarrow> demoted_after d es \<or> (e = Demote d \<and> Promote d \<in> set es)"
proof
  assume "demoted_after d (es @ [e])"
  then obtain xs ys where *: "es @ [e] = xs @ Demote d # ys" "Promote d \<in> set xs"
    by (auto simp: demoted_after_def)
  then show "demoted_after d es \<or> (e = Demote d \<and> Promote d \<in> set es)"
    by (cases ys rule: rev_cases) (auto simp: demoted_after_def)
next
  assume "demoted_after d es \<or> (e = Demote d \<and> Promote d \<in> set es)"
  then show "demoted_after d (es @ [e])"
    by (auto simp: demoted_after_def) (metis append.assoc append_Cons)+
qed

lemma forwarding_run:
  fixes es d
  defines "h \<equiv> foldl forwarding_step history_default es"
  shows "promoted (history_of d h) \<longleftrightarrow> ever_promoted d es"
    and "demoted (history_of d h) \<longleftrightarrow> demoted_after d es"
proof -
  have "(promoted (history_of d (foldl forwarding_step history_default es)) \<longleftrightarrow> ever_promoted d es) \<and>
        (demoted (history_of d (foldl forwarding_step history_default es)) \<longleftrightarrow> demoted_after d es)"
  proof (induction es rule: rev_induct)
    case Nil
    show ?case by (cases d) (simp_all add: history_default_def demoted_after_def)
  next
    case (snoc e es)
    then show ?case
      by (cases e)
        (auto simp: mark_promoted_def mark_demoted_def history_of_direction_mut demoted_after_snoc)
  qed
  then show "promoted (history_of d h) \<longleftrightarrow> ever_promoted d es"
    and "demoted (history_of d h) \<longleftrightarrow> demoted_after d es"
    by (simp_all add: h_def)
qed

text \<open>After any sequence of promotions and demotions the reported forwarding mode is
  \<open>userspace\<close> when no direction was ever promoted, \<open>fast_path\<close> when both directions were promoted and
  neither was demoted afterwards, and \<open>mixed\<close> otherwise.\<close>

theorem forwarding_mode_of_events:
  "forwarding_mode (foldl forwarding_step history_default es) =
     (if \<forall>d. \<not> ever_promoted d es then Userspace
      else if \<forall>d. ever_promoted d es \<and> \<not> demoted_after d es then FastPath
      else Mixed)"
proof -
  have all: "(\<forall>d. P d) \<longleftrightarrow> P CallerToCallee \<and> P CalleeToCaller" for P
    by (metis MediaFlowDirection.exhaust)
  show ?thesis
    using forwarding_run [where d = CallerToCallee and es = es]
      forwarding_run [where d = CalleeToCaller and es = es]
    by (auto simp: forwarding_mode_def Let_def all)
qed

lemma forwarding_mode_str_roundtrip:
  "forwarding_mode_from_str (forwarding_mode_as_str m) = Ok m"
  by (cases m) (simp_all add: forwarding_mode_from_str_def)

section \<open>SSRC set\<close>

type_synonym SsrcSet = "u32 set"

definition ssrc_observe :: "u32 \<Rightarrow> SsrcSet \<Rightarrow> SsrcSet" where
  "ssrc_observe ssrc values = insert ssrc values"

definition ssrc_set_count :: "SsrcSet \<Rightarrow> u32" where
  "ssrc_set_count values = (if card values < 2 ^ 32 then of_nat (card values) else - 1)"

lemma ssrc_set_count_run:
  "length (remdups xs) < 2 ^ 32 \<Longrightarrow>
     unat (ssrc_set_count (foldl (\<lambda>s x. ssrc_observe x s) {} xs)) = length (remdups xs)"
proof -
  assume "length (remdups xs) < 2 ^ 32"
  moreover have "foldl (\<lambda>s x. ssrc_observe x s) A xs = A \<union> set xs" for A
    by (induction xs arbitrary: A) (auto simp: ssrc_observe_def)
  ultimately show ?thesis
    by (simp add: ssrc_set_count_def length_remdups_card_conv unat_of_nat take_bit_nat_eq_self)
qed

end
