(* ===== verification/Session_Leg.thy ===== *)
theory Session_Leg
  imports Media_Stats
begin

text \<open>
  One call leg: \<open>crates/voipswitch-core/src/session/mod.rs\<close>.  A session moves through the leg
  states; its answer time and its hangup cause are written once.
\<close>

section \<open>Data\<close>

record EndpointRef =
  ep_endpoint_id :: EndpointId
  ep_number :: string

datatype LegRole = Caller | Callee (attempt_of: CalleeAttemptId)

datatype SessionEndpoint =
    Endpoint EndpointRef
  | TrunkEndpoint TrunkId
  | External string
  | AiAgentEndpoint string

record SipBinding =
  sip_adapter_call_leg_id :: AdapterCallLegId
  sip_generation :: u64

record Session =
  ses_id :: SessionId
  ses_domain_id :: DomainId
  ses_call_id :: CallId
  ses_role :: LegRole
  ses_direction :: LegDirection
  ses_endpoint :: SessionEndpoint
  ses_state :: LegState
  ses_sip :: "SipBinding option"
  ses_peer :: "SessionId option"
  ses_media :: "SessionMediaState option"
  ses_variables :: "(string, json) BTreeMap"
  ses_created_at_ms :: u64
  ses_answered_at_ms :: "u64 option"
  ses_hangup_cause :: "HangupCause option"

datatype SessionError = InvalidTransition LegState LegState

section \<open>Operations\<close>

fun valid_transition :: "LegState \<Rightarrow> LegState \<Rightarrow> bool" where
  "valid_transition Idle Routing = True"
| "valid_transition Idle Dialing = True"
| "valid_transition Idle HangingUp = True"
| "valid_transition Routing Dialing = True"
| "valid_transition Routing HangingUp = True"
| "valid_transition Dialing WaitForAnswer = True"
| "valid_transition Dialing HangingUp = True"
| "valid_transition WaitForAnswer Bridged = True"
| "valid_transition WaitForAnswer HangingUp = True"
| "valid_transition Bridged HangingUp = True"
| "valid_transition HangingUp Destroyed = True"
| "valid_transition _ _ = False"

definition transition :: "LegState \<Rightarrow> (Session, unit, SessionError) stateful" where
  "transition next s =
     (if ses_state s = next then (Ok (), s)
      else if \<not> valid_transition (ses_state s) next then (Err (InvalidTransition (ses_state s) next), s)
      else (Ok (), s\<lparr>ses_state := next\<rparr>))"

definition session_mark_answered :: "u64 \<Rightarrow> Session \<Rightarrow> Session" where
  "session_mark_answered answered_at_ms s =
     s\<lparr>ses_answered_at_ms := get_or_insert (ses_answered_at_ms s) answered_at_ms\<rparr>"

definition begin_hangup :: "HangupCause \<Rightarrow> (Session, unit, SessionError) stateful" where
  "begin_hangup cause s =
     transition HangingUp (s\<lparr>ses_hangup_cause := get_or_insert (ses_hangup_cause s) cause\<rparr>)"

definition update_media_stats :: "MediaStatsSnapshot \<Rightarrow> Session \<Rightarrow> Session" where
  "update_media_stats stats s =
     (case ses_media s of
        None \<Rightarrow> s
      | Some media \<Rightarrow> s\<lparr>ses_media := Some (media\<lparr>latest_stats := merge_from (latest_stats media) stats\<rparr>)\<rparr>)"

section \<open>The leg life cycle\<close>

interpretation leg_lc: lifecycle valid_transition leg_rank leg_is_terminal 6
proof
  fix s t
  show "valid_transition s t \<Longrightarrow> leg_rank s < leg_rank t" by (cases s; cases t) simp_all
  show "leg_rank s \<le> 6" by (cases s) simp_all
  show "leg_is_terminal s \<Longrightarrow> \<not> valid_transition s t" by (cases s) simp_all
  show "\<not> leg_is_terminal s \<Longrightarrow> \<exists>t. valid_transition s t"
    by (cases s) (auto intro: exI [of _ HangingUp] exI [of _ Destroyed])
qed

datatype session_op =
    OpTransition LegState
  | OpMarkAnswered u64
  | OpBeginHangup HangupCause
  | OpUpdateMediaStats MediaStatsSnapshot

fun session_step :: "Session \<Rightarrow> session_op \<Rightarrow> Session" where
  "session_step s (OpTransition next) = snd (transition next s)"
| "session_step s (OpMarkAnswered t) = session_mark_answered t s"
| "session_step s (OpBeginHangup cause) = snd (begin_hangup cause s)"
| "session_step s (OpUpdateMediaStats stats) = update_media_stats stats s"

lemmas session_op_defs = transition_def session_mark_answered_def begin_hangup_def update_media_stats_def

lemma session_step_state:
  "ses_state (session_step s op) = ses_state s \<or>
     valid_transition (ses_state s) (ses_state (session_step s op))"
  by (cases op) (auto simp: session_op_defs split: option.splits)

lemma session_step_write_once:
  "ses_answered_at_ms s = Some t \<Longrightarrow> ses_answered_at_ms (session_step s op) = Some t"
  "ses_hangup_cause s = Some c \<Longrightarrow> ses_hangup_cause (session_step s op) = Some c"
  by (cases op; auto simp: session_op_defs split: option.splits)+

lemma session_step_identity:
  "ses_id (session_step s op) = ses_id s \<and> ses_call_id (session_step s op) = ses_call_id s \<and>
   ses_role (session_step s op) = ses_role s"
  by (cases op) (auto simp: session_op_defs split: option.splits)

text \<open>under any sequence of session operations the leg state only moves forward along the
  transition table and a destroyed leg stays destroyed; the answer time and the hangup cause,
  once set, never change.\<close>

theorem session_run_monotone:
  "valid_transition\<^sup>*\<^sup>* (ses_state s) (ses_state (foldl session_step s ops)) \<and>
   (leg_is_terminal (ses_state s) \<longrightarrow> ses_state (foldl session_step s ops) = ses_state s) \<and>
   (\<forall>t. ses_answered_at_ms s = Some t \<longrightarrow> ses_answered_at_ms (foldl session_step s ops) = Some t) \<and>
   (\<forall>c. ses_hangup_cause s = Some c \<longrightarrow> ses_hangup_cause (foldl session_step s ops) = Some c)"
proof (induction ops rule: rev_induct)
  case (snoc op ops)
  let ?u = "foldl session_step s ops"
  have "valid_transition\<^sup>*\<^sup>* (ses_state s) (ses_state (session_step ?u op))"
    using session_step_state [of ?u op] snoc by (auto intro: rtranclp.rtrancl_into_rtrancl)
  moreover have "leg_is_terminal (ses_state s) \<longrightarrow> ses_state (session_step ?u op) = ses_state s"
    using session_step_state [of ?u op] snoc leg_lc.final_stuck by force
  ultimately show ?case
    using snoc session_step_write_once by (simp add: foldl_append)
qed simp

definition demo_session :: Session where
  "demo_session =
     \<lparr> ses_id = ''session-1'', ses_domain_id = ''domain-1'', ses_call_id = ''call-1'',
       ses_role = Caller, ses_direction = LegDirection.Inbound, ses_endpoint = External ''1000'',
       ses_state = Idle, ses_sip = None, ses_peer = None, ses_media = None, ses_variables = [],
       ses_created_at_ms = 1, ses_answered_at_ms = None, ses_hangup_cause = None \<rparr>"

theorem session_run_monotone_witness:
  "ses_answered_at_ms (foldl session_step (demo_session\<lparr>ses_answered_at_ms := Some 5\<rparr>)
       [OpTransition Dialing, OpMarkAnswered 9]) = Some 5"
  using session_run_monotone [of "demo_session\<lparr>ses_answered_at_ms := Some 5\<rparr>"
      "[OpTransition Dialing, OpMarkAnswered 9]"]
  by simp

end
