(* ===== verification/Route_Analysis.thy ===== *)
theory Route_Analysis
  imports Session_Leg "HOL-Library.Product_Lexorder" "HOL-Library.Multiset"
begin

text \<open>
  Number analysis: \<open>crates/voipswitch-core/src/analysis/mod.rs\<close>.  Analyzers register with a phase
  and a priority; a request runs through the eight phases in their fixed order and, inside a
  phase, by priority and then by registration order, and the first decision other than
  \<open>Continue\<close> wins.  An analyzer (\<open>dyn NumberAnalyzer\<close>) is a record of its four methods.
\<close>

section \<open>Data\<close>

datatype AnalysisPhase =
    CallerAnalysis | CallerBusinessAnalysis | CalleePreAnalysis | InboundRoute
  | CalleeAnalysis | CalleeBusinessAnalysis | OutboundRoute | ResultHook

definition ORDERED :: "AnalysisPhase list" where
  "ORDERED =
     [CallerAnalysis, CallerBusinessAnalysis, CalleePreAnalysis, InboundRoute,
      CalleeAnalysis, CalleeBusinessAnalysis, OutboundRoute, ResultHook]"

record NumberAnalysisRequest =
  req_domain_id :: DomainId
  req_caller :: string
  req_callee :: string

datatype RouteRejectReason =
    InvalidNumberFormat | NoSuchExtension | NoBusinessModuleMatch | UnsupportedBusinessTarget
  | BusinessTargetNotFound | BusinessTargetDisabled | BusinessTargetUnavailable
  | BusinessTargetBusy | NoAvailableTrunk | DomainDisabled | Forbidden | InternalError

record RouteReject =
  rej_cause :: HangupCause
  rej_sip_status :: u16
  rej_reason :: RouteRejectReason

definition reject_not_found :: "RouteRejectReason \<Rightarrow> RouteReject" where
  "reject_not_found reason = \<lparr> rej_cause = NoRoute, rej_sip_status = 404, rej_reason = reason \<rparr>"

definition reject_disabled :: "RouteRejectReason \<Rightarrow> RouteReject" where
  "reject_disabled reason = \<lparr> rej_cause = CallRejected, rej_sip_status = 480, rej_reason = reason \<rparr>"

record CalleeHook =
  hook_module :: string
  hook_name :: string
  hook_arguments :: json

record CalleeSessionPlan =
  plan_business_module :: "string option"
  plan_initial_state :: json
  plan_hooks :: "CalleeHook list"
  plan_variables :: "(string, json) BTreeMap"

record ExtensionRoute =
  er_domain_id :: DomainId
  er_extension :: string
  er_endpoint :: EndpointRef
  er_transformed_caller :: string
  er_transformed_callee :: string
  er_callee_session_plan :: "CalleeSessionPlan option"

datatype CalleeSetPolicy = Single | ParallelFirstAnswer | SequentialHunt

datatype CalleeTarget =
    ExtensionTarget EndpointId string
  | TrunkTarget TrunkId
  | AiAgentTarget string

record CalleeAttemptPlan =
  ap_target :: CalleeTarget
  ap_callee_session_plan :: "CalleeSessionPlan option"

record CalleeSetRoute =
  cs_domain_id :: DomainId
  cs_members :: "CalleeAttemptPlan list"
  cs_policy :: CalleeSetPolicy
  cs_original_caller :: string
  cs_original_callee :: string
  cs_transformed_caller :: string
  cs_transformed_callee :: string

record BusinessModuleRoute =
  bm_domain_id :: DomainId
  bm_module :: string
  bm_target_id :: string
  bm_original_caller :: string
  bm_original_callee :: string
  bm_transformed_caller :: string
  bm_transformed_callee :: string
  bm_callee_session_plan :: "CalleeSessionPlan option"

record TrunkRoute =
  tr_domain_id :: DomainId
  tr_route_id :: string
  tr_route_name :: string
  tr_trunks :: "TrunkId list"
  tr_original_caller :: string
  tr_original_callee :: string
  tr_transformed_caller :: string
  tr_transformed_callee :: string

datatype RouteResult =
    ExtensionResult ExtensionRoute
  | CalleeSetResult CalleeSetRoute
  | BusinessModuleResult BusinessModuleRoute
  | TrunkResult TrunkRoute

datatype RouteDecision = Continue | Matched RouteResult | Reject RouteReject

record NumberAnalyzer =
  an_name :: string
  an_phase :: AnalysisPhase
  an_priority :: int
  an_analyze :: "NumberAnalysisRequest \<Rightarrow> RouteDecision"

record AnalyzerEntry =
  analyzer :: NumberAnalyzer
  registered_order :: u64

record AnalysisRegistry =
  analyzers :: "AnalyzerEntry list"
  next_registered_order :: u64

record RegisteredAnalyzer =
  ra_name :: string
  ra_phase :: AnalysisPhase
  ra_priority :: int
  ra_registered_order :: u64

text \<open>The derived order of the phases is their declaration order.\<close>

fun phase_rank :: "AnalysisPhase \<Rightarrow> nat" where
  "phase_rank CallerAnalysis = 0"
| "phase_rank CallerBusinessAnalysis = 1"
| "phase_rank CalleePreAnalysis = 2"
| "phase_rank InboundRoute = 3"
| "phase_rank CalleeAnalysis = 4"
| "phase_rank CalleeBusinessAnalysis = 5"
| "phase_rank OutboundRoute = 6"
| "phase_rank ResultHook = 7"

instantiation AnalysisPhase :: linorder
begin

definition less_eq_AnalysisPhase :: "AnalysisPhase \<Rightarrow> AnalysisPhase \<Rightarrow> bool" where
  "less_eq_AnalysisPhase a b \<longleftrightarrow> phase_rank a \<le> phase_rank b"

definition less_AnalysisPhase :: "AnalysisPhase \<Rightarrow> AnalysisPhase \<Rightarrow> bool" where
  "less_AnalysisPhase a b \<longleftrightarrow> phase_rank a < phase_rank b"

lemma phase_rank_inject: "phase_rank a = phase_rank b \<Longrightarrow> a = b"
  by (cases a; cases b) simp_all

instance
  by standard (auto simp: less_eq_AnalysisPhase_def less_AnalysisPhase_def intro: phase_rank_inject)

end

section \<open>Operations\<close>

text \<open>
  \<open>register\<close> takes its number from an atomic counter before it takes the lock, so that the two
  halves of concurrent registrations may interleave: \<open>reserve_order\<close> and \<open>insert_entry\<close>.
\<close>

definition sort_position :: "AnalyzerEntry \<Rightarrow> AnalysisPhase \<times> int \<times> u64" where
  "sort_position e = (an_phase (analyzer e), an_priority (analyzer e), registered_order e)"

definition reserve_order :: "AnalysisRegistry \<Rightarrow> u64 \<times> AnalysisRegistry" where
  "reserve_order reg =
     (next_registered_order reg, reg\<lparr>next_registered_order := next_registered_order reg + 1\<rparr>)"

definition insert_entry :: "AnalyzerEntry \<Rightarrow> AnalysisRegistry \<Rightarrow> AnalysisRegistry" where
  "insert_entry e reg = reg\<lparr>analyzers := sort_key sort_position (analyzers reg @ [e])\<rparr>"

definition register :: "NumberAnalyzer \<Rightarrow> AnalysisRegistry \<Rightarrow> u64 \<times> AnalysisRegistry" where
  "register a reg =
     (let (order, reg') = reserve_order reg in
      (order, insert_entry \<lparr> analyzer = a, registered_order = order \<rparr> reg'))"

fun first_decision :: "NumberAnalysisRequest \<Rightarrow> AnalyzerEntry list \<Rightarrow> RouteDecision" where
  "first_decision request [] = Continue"
| "first_decision request (e # es) =
     (case an_analyze (analyzer e) request of
        Continue \<Rightarrow> first_decision request es
      | decision \<Rightarrow> decision)"

definition analyze_phase ::
    "AnalysisPhase \<Rightarrow> NumberAnalysisRequest \<Rightarrow> AnalysisRegistry \<Rightarrow> RouteDecision" where
  "analyze_phase phase request reg =
     first_decision request (filter (\<lambda>e. an_phase (analyzer e) = phase) (analyzers reg))"

fun analyze_phases ::
    "AnalysisPhase list \<Rightarrow> NumberAnalysisRequest \<Rightarrow> AnalysisRegistry \<Rightarrow> RouteDecision" where
  "analyze_phases [] request reg = Reject (reject_not_found NoBusinessModuleMatch)"
| "analyze_phases (p # ps) request reg =
     (case analyze_phase p request reg of
        Continue \<Rightarrow> analyze_phases ps request reg
      | decision \<Rightarrow> decision)"

definition analyze :: "NumberAnalysisRequest \<Rightarrow> AnalysisRegistry \<Rightarrow> RouteDecision" where
  "analyze request reg = analyze_phases ORDERED request reg"

definition registered_analyzers :: "AnalysisRegistry \<Rightarrow> RegisteredAnalyzer list" where
  "registered_analyzers reg =
     map (\<lambda>e. \<lparr> ra_name = an_name (analyzer e), ra_phase = an_phase (analyzer e),
               ra_priority = an_priority (analyzer e), ra_registered_order = registered_order e \<rparr>)
       (analyzers reg)"

definition analyzer_names :: "AnalysisRegistry \<Rightarrow> string list" where
  "analyzer_names reg = map ra_name (registered_analyzers reg)"

definition empty_registry :: AnalysisRegistry where
  "empty_registry = \<lparr> analyzers = [], next_registered_order = 0 \<rparr>"

section \<open>Order of analysis\<close>

definition registry_sorted :: "AnalysisRegistry \<Rightarrow> bool" where
  "registry_sorted reg \<longleftrightarrow> sorted (map sort_position (analyzers reg))"

lemma registry_sorted_insert_entry: "registry_sorted (insert_entry e reg)"
  by (simp add: registry_sorted_def insert_entry_def)

lemma set_insert_entry: "set (analyzers (insert_entry e reg)) = insert e (set (analyzers reg))"
  by (simp add: insert_entry_def)

lemma first_decision_append:
  "first_decision request (xs @ ys) =
     (case first_decision request xs of Continue \<Rightarrow> first_decision request ys | d \<Rightarrow> d)"
  by (induction xs) (auto split: RouteDecision.splits)

text \<open>
  Splitting a list sorted by phase at a phase boundary: the loop over the phases visits the
  entries in list order.
\<close>

lemma filter_sorted_split:
  fixes f :: "'a \<Rightarrow> 'b::linorder"
  assumes "sorted (map f xs)"
  shows "filter (\<lambda>x. p \<le> f x) xs = filter (\<lambda>x. f x = p) xs @ filter (\<lambda>x. p < f x) xs"
  using assms
proof (induction xs)
  case (Cons x xs)
  show ?case
  proof (cases "p < f x")
    case True
    then have "filter (\<lambda>x. f x = p) xs = []"
      using Cons.prems by (auto simp: filter_empty_conv)
    with True Cons show ?thesis by auto
  qed (use Cons in auto)
qed simp

definition decisions_from :: "nat \<Rightarrow> AnalyzerEntry list \<Rightarrow> AnalyzerEntry list" where
  "decisions_from n es = filter (\<lambda>e. n \<le> phase_rank (an_phase (analyzer e))) es"

lemma decisions_from_Suc:
  assumes "registry_sorted reg"
  shows "decisions_from (phase_rank p) (analyzers reg) =
         filter (\<lambda>e. an_phase (analyzer e) = p) (analyzers reg) @
         decisions_from (Suc (phase_rank p)) (analyzers reg)"
proof -
  let ?f = "\<lambda>e. phase_rank (an_phase (analyzer e))"
  have "sorted (map ?f (analyzers reg))"
    using assms unfolding registry_sorted_def sorted_map
    by (rule sorted_wrt_mono_rel [rotated])
      (auto simp: sort_position_def less_eq_AnalysisPhase_def less_AnalysisPhase_def)
  from filter_sorted_split [OF this, of "phase_rank p"] show ?thesis
    by (simp add: decisions_from_def Suc_le_eq)
      (metis (mono_tags, lifting) phase_rank_inject)
qed

definition decide :: "RouteDecision \<Rightarrow> RouteDecision" where
  "decide d = (case d of Continue \<Rightarrow> Reject (reject_not_found NoBusinessModuleMatch) | _ \<Rightarrow> d)"

lemma analyze_phases_step:
  assumes "registry_sorted reg"
    and "analyze_phases ps request reg =
           decide (first_decision request (decisions_from (Suc (phase_rank p)) (analyzers reg)))"
  shows "analyze_phases (p # ps) request reg =
           decide (first_decision request (decisions_from (phase_rank p) (analyzers reg)))"
  using assms
  by (auto simp: analyze_phase_def decisions_from_Suc first_decision_append decide_def
      split: RouteDecision.splits)

lemma decisions_from_top: "decisions_from 8 es = []"
proof -
  have "phase_rank p < 8" for p by (cases p) simp_all
  then show ?thesis by (auto simp: decisions_from_def filter_empty_conv not_le)
qed

lemma analyze_phases_suffix:
  assumes "registry_sorted reg"
  shows "n \<le> 8 \<Longrightarrow> analyze_phases (drop n ORDERED) request reg =
           decide (first_decision request (decisions_from n (analyzers reg)))"
proof (induction "8 - n" arbitrary: n)
  case 0
  then show ?case by (simp add: ORDERED_def decisions_from_top decide_def)
next
  case (Suc k)
  then have n: "n < 8" and IH: "analyze_phases (drop (Suc n) ORDERED) request reg =
      decide (first_decision request (decisions_from (Suc n) (analyzers reg)))" by auto
  have len: "length ORDERED = 8" by (simp add: ORDERED_def)
  have "\<forall>i < 8. phase_rank (ORDERED ! i) = i"
    by (simp add: ORDERED_def All_less_Suc2 eval_nat_numeral)
  with n have "phase_rank (ORDERED ! n) = n" by blast
  with IH analyze_phases_step [OF assms, of "drop (Suc n) ORDERED" request "ORDERED ! n"]
  show ?case using n len by (simp add: Cons_nth_drop_Suc)
qed

lemma analyze_single_pass:
  assumes "registry_sorted reg"
  shows "analyze request reg = decide (first_decision request (analyzers reg))"
  using analyze_phases_suffix [OF assms, of 0 request]
  by (simp add: analyze_def decisions_from_def)

definition register_all :: "NumberAnalyzer list \<Rightarrow> AnalysisRegistry \<Rightarrow> AnalysisRegistry" where
  "register_all = fold (\<lambda>a reg. snd (register a reg))"

lemma registry_sorted_register_all:
  "registry_sorted reg \<Longrightarrow> registry_sorted (register_all as reg)"
  unfolding register_all_def
  by (induction as arbitrary: reg)
    (simp_all add: register_def reserve_order_def registry_sorted_insert_entry)

lemma mset_register_all:
  "mset (map analyzer (analyzers (register_all as reg))) = mset as + mset (map analyzer (analyzers reg))"
  unfolding register_all_def
  by (induction as arbitrary: reg) (simp_all add: register_def reserve_order_def insert_entry_def)

text \<open>whatever was registered and in whatever order, the eight-phase analysis loop returns the
  first decision other than \<open>Continue\<close> of the registered analyzers taken by phase, priority and
  registration number, and rejects with 404 when every analyzer continues; no registered
  analyzer is lost or duplicated.\<close>

theorem analyze_first_decision:
  "analyze request (register_all as empty_registry) =
     decide (first_decision request (analyzers (register_all as empty_registry))) \<and>
   sorted (map sort_position (analyzers (register_all as empty_registry))) \<and>
   mset (map analyzer (analyzers (register_all as empty_registry))) = mset as"
proof -
  have "registry_sorted (register_all as empty_registry)"
    by (rule registry_sorted_register_all) (simp add: registry_sorted_def empty_registry_def)
  moreover have "mset (map analyzer (analyzers (register_all as empty_registry))) = mset as"
    by (subst mset_register_all) (simp add: empty_registry_def)
  ultimately show ?thesis
    by (simp add: analyze_single_pass registry_sorted_def)
qed

lemma analyzers_fold_insert_entry:
  "es \<noteq> [] \<Longrightarrow> registry_sorted (fold insert_entry es reg)"
  "mset (analyzers (fold insert_entry es reg)) = mset es + mset (analyzers reg)"
  "next_registered_order (fold insert_entry es reg) = next_registered_order reg"
proof -
  show "es \<noteq> [] \<Longrightarrow> registry_sorted (fold insert_entry es reg)"
    by (induction es rule: rev_induct) (simp_all add: registry_sorted_insert_entry)
qed (induction es arbitrary: reg; simp add: insert_entry_def)+

text \<open>concurrent registrations.  Each registration reserves its number first and inserts its entry
  later; whatever the order in which the reserved entries reach the registry, the resulting
  registry is the same.\<close>

theorem registration_order_irrelevant:
  assumes "mset es = mset es'" and "distinct (map registered_order es)"
  shows "fold insert_entry es empty_registry = fold insert_entry es' empty_registry"
proof (cases "es = []")
  case True
  with assms show ?thesis by simp
next
  case False
  with assms(1) have "es' \<noteq> []" by auto
  let ?a = "analyzers (fold insert_entry es empty_registry)"
  let ?b = "analyzers (fold insert_entry es' empty_registry)"
  have same: "mset ?a = mset ?b"
    using assms(1) by (simp add: analyzers_fold_insert_entry)
  have "set ?a = set es"
    using analyzers_fold_insert_entry(2) [of es empty_registry]
    by (metis AnalysisRegistry.select_convs(1) add_0_right empty_registry_def mset.simps(1) set_mset_mset)
  then have inj: "inj_on sort_position (set ?a)"
    using assms(2) by (auto simp: inj_on_def sort_position_def distinct_map)
  have "sorted (map sort_position ?a)" "sorted (map sort_position ?b)"
    using analyzers_fold_insert_entry(1) [OF False, of empty_registry]
      analyzers_fold_insert_entry(1) [OF \<open>es' \<noteq> []\<close>, of empty_registry]
    by (simp_all add: registry_sorted_def)
  then have "?a = ?b"
    using sort_key_inj_key_eq [OF refl inj] sort_key_inj_key_eq [OF same inj] by metis
  then show ?thesis
    by (simp add: analyzers_fold_insert_entry AnalysisRegistry.equality)
qed

definition probe_entry :: "AnalysisPhase \<Rightarrow> u64 \<Rightarrow> AnalyzerEntry" where
  "probe_entry p n =
     \<lparr> analyzer = \<lparr> an_name = ''probe'', an_phase = p, an_priority = 100, an_analyze = (\<lambda>_. Continue) \<rparr>,
       registered_order = n \<rparr>"

theorem registration_order_irrelevant_witness:
  "fold insert_entry [probe_entry CalleeAnalysis 0, probe_entry CallerAnalysis 1] empty_registry =
   fold insert_entry [probe_entry CallerAnalysis 1, probe_entry CalleeAnalysis 0] empty_registry"
  by (rule registration_order_irrelevant) (simp_all add: probe_entry_def)

end
