(* ===== verification/Call_Aggregate.thy ===== *)
theory Call_Aggregate
  imports Route_Analysis
begin

text \<open>
  The call aggregate: \<open>crates/voipswitch-core/src/call/mod.rs\<close>.  It owns the legs of a call, the
  callee attempts with their single winner, the bridges between legs and the coordinator with
  its generation.  Every mutator is a stateful operation; \<open>call_step\<close> collects them, and the
  invariant \<open>call_wf\<close> is kept by each.
\<close>

section \<open>Data\<close>

datatype BridgePolicy = SingleCallee | ParallelFirstAnswer | SequentialHunt

record LegRoleAssignment =
  ra_role :: LegRole
  ra_effective_at_ms :: u64

record CallLeg =
  leg_session_id :: SessionId
  leg_domain_id :: DomainId
  leg_role :: LegRole
  leg_endpoint :: SessionEndpoint
  leg_state :: LegState
  leg_role_history :: "LegRoleAssignment list"
  leg_joined_at_ms :: u64
  leg_left_at_ms :: "u64 option"

definition leg_from_session :: "Session \<Rightarrow> CallLeg" where
  "leg_from_session v =
     \<lparr> leg_session_id = ses_id v, leg_domain_id = ses_domain_id v, leg_role = ses_role v,
       leg_endpoint = ses_endpoint v, leg_state = ses_state v,
       leg_role_history = [\<lparr> ra_role = ses_role v, ra_effective_at_ms = ses_created_at_ms v \<rparr>],
       leg_joined_at_ms = ses_created_at_ms v, leg_left_at_ms = None \<rparr>"

datatype BridgeState = Planned | Active | Released

record BridgeEdge =
  br_bridge_id :: BridgeId
  br_leg_a :: SessionId
  br_leg_b :: SessionId
  br_media_generation :: u64
  br_state :: BridgeState
  br_created_at_ms :: u64
  br_active_at_ms :: "u64 option"
  br_released_at_ms :: "u64 option"

datatype CalleeAttemptState =
    Planned | Dialing | Ringing | Answered | Selected | Cancelled | Failed | Destroyed

fun attempt_is_terminal :: "CalleeAttemptState \<Rightarrow> bool" where
  "attempt_is_terminal Cancelled = True"
| "attempt_is_terminal Failed = True"
| "attempt_is_terminal CalleeAttemptState.Destroyed = True"
| "attempt_is_terminal _ = False"

record CalleeAttempt =
  att_attempt_id :: CalleeAttemptId
  att_session_id :: SessionId
  att_target :: CalleeTarget
  att_state :: CalleeAttemptState
  att_failure_cause :: "HangupCause option"

record CallSnapshot =
  snap_id :: CallId
  snap_domain_id :: DomainId
  snap_caller_leg :: SessionId
  snap_coordinator :: SessionId
  snap_coordinator_generation :: u64
  snap_legs :: "CallLeg list"
  snap_callee_attempts :: "CalleeAttempt list"
  snap_bridges :: "BridgeEdge list"
  snap_bridge_policy :: BridgePolicy
  snap_winner :: "CalleeAttemptId option"
  snap_started_at_ms :: u64
  snap_answered_at_ms :: "u64 option"
  snap_context :: "(string, json) BTreeMap"

record WinnerSelection =
  winner_session_id :: SessionId
  cancelled_sessions :: "SessionId list"

record CallAggregate =
  agg_id :: CallId
  agg_domain_id :: DomainId
  agg_caller_leg :: SessionId
  agg_coordinator :: SessionId
  agg_coordinator_generation :: u64
  agg_bridge_policy :: BridgePolicy
  agg_started_at_ms :: u64
  agg_context :: "(string, json) BTreeMap"
  agg_legs :: "(SessionId, CallLeg) BTreeMap"
  agg_callee_attempts :: "(CalleeAttemptId, CalleeAttempt) BTreeMap"
  agg_bridges :: "(BridgeId, BridgeEdge) BTreeMap"
  agg_winner :: "CalleeAttemptId option"
  agg_answered_at_ms :: "u64 option"

datatype CallError =
    CallerRoleRequired
  | ForeignSession SessionId
  | DuplicateSession SessionId
  | SessionNotFound SessionId
  | DuplicateAttempt CalleeAttemptId
  | SingleCalleeLimitExceeded
  | AttemptNotFound CalleeAttemptId
  | AttemptRoleMismatch CalleeAttemptId SessionId
  | AttemptNotAnswered CalleeAttemptId
  | WinnerAlreadySelected CalleeAttemptId
  | InvalidAttemptTransition CalleeAttemptId CalleeAttemptState CalleeAttemptState
  | DuplicateBridge BridgeId
  | BridgeNotFound BridgeId
  | BridgeRequiresDistinctLegs
  | BridgeGenerationMismatch BridgeId u64 u64
  | BridgeAlreadyReleased BridgeId
  | StaleCoordinator SessionId u64
  | CoordinatorTargetUnavailable SessionId
  | CoordinatorGenerationExhausted

type_synonym 'a call_op_result = "(CallAggregate, 'a, CallError) stateful"

section \<open>Operations\<close>

definition aggregate_new ::
    "Session \<Rightarrow> BridgePolicy \<Rightarrow> u64 \<Rightarrow> (string, json) BTreeMap \<Rightarrow> (CallAggregate, CallError) outcome" where
  "aggregate_new caller bridge_policy started_at_ms context =
     (if ses_role caller \<noteq> Caller then Err CallerRoleRequired
      else Ok \<lparr> agg_id = ses_call_id caller, agg_domain_id = ses_domain_id caller,
               agg_caller_leg = ses_id caller, agg_coordinator = ses_id caller,
               agg_coordinator_generation = 1, agg_bridge_policy = bridge_policy,
               agg_started_at_ms = started_at_ms, agg_context = context,
               agg_legs = bt_insert (ses_id caller) (leg_from_session caller) [],
               agg_callee_attempts = [], agg_bridges = [], agg_winner = None,
               agg_answered_at_ms = None \<rparr>)"

definition aggregate_attempt :: "CalleeAttemptId \<Rightarrow> CallAggregate \<Rightarrow> CalleeAttempt option" where
  "aggregate_attempt attempt_id c = bt_get (agg_callee_attempts c) attempt_id"

definition aggregate_leg :: "SessionId \<Rightarrow> CallAggregate \<Rightarrow> CallLeg option" where
  "aggregate_leg session_id c = bt_get (agg_legs c) session_id"

definition aggregate_bridge :: "BridgeId \<Rightarrow> CallAggregate \<Rightarrow> BridgeEdge option" where
  "aggregate_bridge bridge_id c = bt_get (agg_bridges c) bridge_id"

definition put_leg :: "SessionId \<Rightarrow> CallLeg \<Rightarrow> CallAggregate \<Rightarrow> CallAggregate" where
  "put_leg session_id leg c = c\<lparr>agg_legs := bt_insert session_id leg (agg_legs c)\<rparr>"

definition put_attempt :: "CalleeAttemptId \<Rightarrow> CalleeAttempt \<Rightarrow> CallAggregate \<Rightarrow> CallAggregate" where
  "put_attempt attempt_id a c = c\<lparr>agg_callee_attempts := bt_insert attempt_id a (agg_callee_attempts c)\<rparr>"

definition put_bridge :: "BridgeId \<Rightarrow> BridgeEdge \<Rightarrow> CallAggregate \<Rightarrow> CallAggregate" where
  "put_bridge bridge_id b c = c\<lparr>agg_bridges := bt_insert bridge_id b (agg_bridges c)\<rparr>"

definition update_leg_role :: "SessionId \<Rightarrow> LegRole \<Rightarrow> u64 \<Rightarrow> unit call_op_result" where
  "update_leg_role session_id role effective_at_ms c =
     (case bt_get (agg_legs c) session_id of
        None \<Rightarrow> (Err (SessionNotFound session_id), c)
      | Some leg \<Rightarrow>
          if leg_role leg = role then (Ok (), c)
          else (Ok (), put_leg session_id
                  (leg\<lparr>leg_role := role,
                       leg_role_history := leg_role_history leg @
                         [\<lparr> ra_role = role, ra_effective_at_ms = effective_at_ms \<rparr>]\<rparr>) c))"

definition mark_leg_left :: "SessionId \<Rightarrow> u64 \<Rightarrow> unit call_op_result" where
  "mark_leg_left session_id left_at_ms c =
     (case bt_get (agg_legs c) session_id of
        None \<Rightarrow> (Err (SessionNotFound session_id), c)
      | Some leg \<Rightarrow>
          (Ok (), put_leg session_id
             (leg\<lparr>leg_left_at_ms := get_or_insert (leg_left_at_ms leg) left_at_ms,
                  leg_state := LegState.Destroyed\<rparr>) c))"

definition add_bridge :: "BridgeId \<Rightarrow> SessionId \<Rightarrow> SessionId \<Rightarrow> u64 \<Rightarrow> u64 \<Rightarrow> unit call_op_result" where
  "add_bridge bridge_id leg_a leg_b media_generation created_at_ms c =
     (if leg_a = leg_b then (Err BridgeRequiresDistinctLegs, c)
      else if \<not> bt_contains_key (agg_legs c) leg_a then (Err (SessionNotFound leg_a), c)
      else if \<not> bt_contains_key (agg_legs c) leg_b then (Err (SessionNotFound leg_b), c)
      else if bt_contains_key (agg_bridges c) bridge_id then (Err (DuplicateBridge bridge_id), c)
      else (Ok (), put_bridge bridge_id
              \<lparr> br_bridge_id = bridge_id, br_leg_a = leg_a, br_leg_b = leg_b,
                br_media_generation = media_generation, br_state = BridgeState.Planned,
                br_created_at_ms = created_at_ms, br_active_at_ms = None,
                br_released_at_ms = None \<rparr> c))"

definition activate_bridge :: "BridgeId \<Rightarrow> u64 \<Rightarrow> u64 \<Rightarrow> unit call_op_result" where
  "activate_bridge bridge_id media_generation active_at_ms c =
     (case bt_get (agg_bridges c) bridge_id of
        None \<Rightarrow> (Err (BridgeNotFound bridge_id), c)
      | Some bridge \<Rightarrow>
          if br_media_generation bridge \<noteq> media_generation then
            (Err (BridgeGenerationMismatch bridge_id (br_media_generation bridge) media_generation), c)
          else
            (case br_state bridge of
               BridgeState.Planned \<Rightarrow>
                 (Ok (), put_bridge bridge_id
                    (bridge\<lparr>br_state := Active,
                            br_active_at_ms := get_or_insert (br_active_at_ms bridge) active_at_ms\<rparr>) c)
             | Active \<Rightarrow> (Ok (), c)
             | Released \<Rightarrow> (Err (BridgeAlreadyReleased bridge_id), c)))"

definition released :: "u64 \<Rightarrow> BridgeEdge \<Rightarrow> BridgeEdge" where
  "released released_at_ms bridge =
     bridge\<lparr>br_state := Released,
            br_released_at_ms := get_or_insert (br_released_at_ms bridge) released_at_ms\<rparr>"

definition release_bridge :: "BridgeId \<Rightarrow> u64 \<Rightarrow> unit call_op_result" where
  "release_bridge bridge_id released_at_ms c =
     (case bt_get (agg_bridges c) bridge_id of
        None \<Rightarrow> (Err (BridgeNotFound bridge_id), c)
      | Some bridge \<Rightarrow> (Ok (), put_bridge bridge_id (released released_at_ms bridge) c))"

definition release_all_bridges :: "u64 \<Rightarrow> CallAggregate \<Rightarrow> CallAggregate" where
  "release_all_bridges released_at_ms c =
     c\<lparr>agg_bridges := bt_map (\<lambda>_. released released_at_ms) (agg_bridges c)\<rparr>"

definition handoff_coordinator :: "SessionId \<Rightarrow> u64 \<Rightarrow> SessionId \<Rightarrow> u64 call_op_result" where
  "handoff_coordinator expected_owner expected_generation target c =
     (if agg_coordinator c \<noteq> expected_owner \<or> agg_coordinator_generation c \<noteq> expected_generation then
        (Err (StaleCoordinator (agg_coordinator c) (agg_coordinator_generation c)), c)
      else
        (case bt_get (agg_legs c) target of
           None \<Rightarrow> (Err (SessionNotFound target), c)
         | Some target_leg \<Rightarrow>
             if leg_is_terminal (leg_state target_leg) \<or> leg_left_at_ms target_leg \<noteq> None then
               (Err (CoordinatorTargetUnavailable target), c)
             else if target = expected_owner then (Ok (agg_coordinator_generation c), c)
             else
               (case checked_add (agg_coordinator_generation c) 1 of
                  None \<Rightarrow> (Err CoordinatorGenerationExhausted, c)
                | Some next_generation \<Rightarrow>
                    (Ok next_generation,
                     c\<lparr>agg_coordinator := target, agg_coordinator_generation := next_generation\<rparr>))))"

definition leg_available :: "CallAggregate \<Rightarrow> CallLeg \<Rightarrow> bool" where
  "leg_available c leg \<longleftrightarrow>
     leg_session_id leg \<noteq> agg_coordinator c \<and> \<not> leg_is_terminal (leg_state leg) \<and>
     leg_left_at_ms leg = None"

definition leg_bridged :: "CallAggregate \<Rightarrow> CallLeg \<Rightarrow> bool" where
  "leg_bridged c leg \<longleftrightarrow>
     leg_state leg = Bridged \<and>
     list_ex (\<lambda>b. br_state b = Active \<and>
                 (br_leg_a b = leg_session_id leg \<or> br_leg_b b = leg_session_id leg))
       (bt_values (agg_bridges c))"

definition handoff_rank ::
    "SessionId option \<Rightarrow> CallAggregate \<Rightarrow> CallLeg \<Rightarrow> bool \<times> bool \<times> u64 \<times> SessionId" where
  "handoff_rank continuation c leg =
     (continuation \<noteq> Some (leg_session_id leg), \<not> leg_bridged c leg,
      leg_joined_at_ms leg, leg_session_id leg)"

definition handoff_candidates :: "SessionId option \<Rightarrow> CallAggregate \<Rightarrow> SessionId list" where
  "handoff_candidates continuation c =
     map leg_session_id
       (sort_key (handoff_rank continuation c) (filter (leg_available c) (bt_values (agg_legs c))))"

definition add_leg :: "Session \<Rightarrow> unit call_op_result" where
  "add_leg session c =
     (if ses_domain_id session \<noteq> agg_domain_id c \<or> ses_call_id session \<noteq> agg_id c then
        (Err (ForeignSession (ses_id session)), c)
      else if bt_contains_key (agg_legs c) (ses_id session) then
        (Err (DuplicateSession (ses_id session)), c)
      else (Ok (), put_leg (ses_id session) (leg_from_session session) c))"

definition add_callee_attempt :: "CalleeAttemptId \<Rightarrow> SessionId \<Rightarrow> CalleeTarget \<Rightarrow> unit call_op_result" where
  "add_callee_attempt attempt_id session_id target c =
     (case bt_get (agg_legs c) session_id of
        None \<Rightarrow> (Err (SessionNotFound session_id), c)
      | Some leg \<Rightarrow>
          if leg_role leg \<noteq> Callee attempt_id then
            (Err (AttemptRoleMismatch attempt_id session_id), c)
          else if bt_contains_key (agg_callee_attempts c) attempt_id then
            (Err (DuplicateAttempt attempt_id), c)
          else if agg_bridge_policy c = SingleCallee \<and> agg_callee_attempts c \<noteq> [] then
            (Err SingleCalleeLimitExceeded, c)
          else (Ok (), put_attempt attempt_id
                  \<lparr> att_attempt_id = attempt_id, att_session_id = session_id, att_target = target,
                    att_state = CalleeAttemptState.Planned, att_failure_cause = None \<rparr> c))"

definition update_leg_state :: "SessionId \<Rightarrow> LegState \<Rightarrow> unit call_op_result" where
  "update_leg_state session_id state c =
     (case bt_get (agg_legs c) session_id of
        None \<Rightarrow> (Err (SessionNotFound session_id), c)
      | Some leg \<Rightarrow> (Ok (), put_leg session_id (leg\<lparr>leg_state := state\<rparr>) c))"

fun valid_attempt_transition :: "CalleeAttemptState \<Rightarrow> CalleeAttemptState \<Rightarrow> bool" where
  "valid_attempt_transition CalleeAttemptState.Planned to =
     (to = CalleeAttemptState.Dialing \<or> to = Cancelled \<or> to = Failed)"
| "valid_attempt_transition CalleeAttemptState.Dialing to =
     (to = Ringing \<or> to = Answered \<or> to = Cancelled \<or> to = Failed)"
| "valid_attempt_transition Ringing to = (to = Answered \<or> to = Cancelled \<or> to = Failed)"
| "valid_attempt_transition Answered to = (to = Selected \<or> to = Cancelled \<or> to = Failed)"
| "valid_attempt_transition Selected to = (to = CalleeAttemptState.Destroyed)"
| "valid_attempt_transition Cancelled to = (to = CalleeAttemptState.Destroyed)"
| "valid_attempt_transition Failed to = (to = CalleeAttemptState.Destroyed)"
| "valid_attempt_transition CalleeAttemptState.Destroyed to = False"

definition update_attempt_state ::
    "CalleeAttemptId \<Rightarrow> CalleeAttemptState \<Rightarrow> HangupCause option \<Rightarrow> unit call_op_result" where
  "update_attempt_state attempt_id state cause c =
     (case bt_get (agg_callee_attempts c) attempt_id of
        None \<Rightarrow> (Err (AttemptNotFound attempt_id), c)
      | Some attempt \<Rightarrow>
          if att_state attempt = state then (Ok (), c)
          else if \<not> valid_attempt_transition (att_state attempt) state then
            (Err (InvalidAttemptTransition attempt_id (att_state attempt) state), c)
          else (Ok (), put_attempt attempt_id
                  (attempt\<lparr>att_state := state,
                           att_failure_cause :=
                             (if cause \<noteq> None then cause else att_failure_cause attempt)\<rparr>) c))"

text \<open>
  The loop over the other attempts that \<open>select_winner\<close> and \<open>replace_winner\<close> share: every attempt
  but the winner that is not terminal is cancelled and its session listed, in key order.
\<close>

definition cancels :: "CalleeAttemptId \<Rightarrow> CalleeAttemptId \<Rightarrow> CalleeAttempt \<Rightarrow> bool" where
  "cancels attempt_id other_id attempt \<longleftrightarrow>
     other_id \<noteq> attempt_id \<and> \<not> attempt_is_terminal (att_state attempt)"

definition cancel_others ::
    "CalleeAttemptId \<Rightarrow> (CalleeAttemptId, CalleeAttempt) BTreeMap \<Rightarrow>
     (CalleeAttemptId, CalleeAttempt) BTreeMap \<times> SessionId list" where
  "cancel_others attempt_id attempts =
     (bt_map (\<lambda>other_id a. if cancels attempt_id other_id a then a\<lparr>att_state := Cancelled\<rparr> else a) attempts,
      map (att_session_id \<circ> snd) (filter (\<lambda>(other_id, a). cancels attempt_id other_id a) attempts))"

definition promote_attempt :: "CalleeAttemptId \<Rightarrow> u64 \<Rightarrow> WinnerSelection call_op_result" where
  "promote_attempt attempt_id answered_at_ms c =
     (case bt_get (agg_callee_attempts c) attempt_id of
        None \<Rightarrow> (Err (AttemptNotFound attempt_id), c)
      | Some attempt \<Rightarrow>
          if att_state attempt \<noteq> Answered then (Err (AttemptNotAnswered attempt_id), c)
          else
            let c1 = put_attempt attempt_id (attempt\<lparr>att_state := Selected\<rparr>) c;
                (attempts, cancelled) = cancel_others attempt_id (agg_callee_attempts c1)
            in (Ok \<lparr> winner_session_id = att_session_id attempt, cancelled_sessions = cancelled \<rparr>,
                c1\<lparr>agg_callee_attempts := attempts, agg_winner := Some attempt_id,
                   agg_answered_at_ms := get_or_insert (agg_answered_at_ms c) answered_at_ms\<rparr>))"

definition select_winner :: "CalleeAttemptId \<Rightarrow> u64 \<Rightarrow> WinnerSelection call_op_result" where
  "select_winner attempt_id answered_at_ms c =
     (case agg_winner c of
        Some winner \<Rightarrow>
          if winner = attempt_id then
            (case bt_get (agg_callee_attempts c) attempt_id of
               None \<Rightarrow> (Panic, c)
             | Some attempt \<Rightarrow>
                 (Ok \<lparr> winner_session_id = att_session_id attempt, cancelled_sessions = [] \<rparr>, c))
          else (Err (WinnerAlreadySelected winner), c)
      | None \<Rightarrow> promote_attempt attempt_id answered_at_ms c)"

definition replace_winner :: "CalleeAttemptId \<Rightarrow> u64 \<Rightarrow> WinnerSelection call_op_result" where
  "replace_winner attempt_id answered_at_ms c =
     (if agg_winner c = Some attempt_id then select_winner attempt_id answered_at_ms c
      else promote_attempt attempt_id answered_at_ms c)"

definition snapshot :: "CallAggregate \<Rightarrow> CallSnapshot" where
  "snapshot c =
     \<lparr> snap_id = agg_id c, snap_domain_id = agg_domain_id c, snap_caller_leg = agg_caller_leg c,
       snap_coordinator = agg_coordinator c, snap_coordinator_generation = agg_coordinator_generation c,
       snap_legs = bt_values (agg_legs c), snap_callee_attempts = bt_values (agg_callee_attempts c),
       snap_bridges = bt_values (agg_bridges c), snap_bridge_policy = agg_bridge_policy c,
       snap_winner = agg_winner c, snap_started_at_ms = agg_started_at_ms c,
       snap_answered_at_ms = agg_answered_at_ms c, snap_context = agg_context c \<rparr>"

definition is_finished :: "CallAggregate \<Rightarrow> bool" where
  "is_finished c \<longleftrightarrow> list_all (\<lambda>leg. leg_is_terminal (leg_state leg)) (bt_values (agg_legs c))"

end
