(* ===== verification/Machines.thy ===== *)
theory Machines
  imports Prelude
begin

text \<open>
  Step functions with an invariant: the interface through which the components state what holds
  after every sequence of their operations.
\<close>

locale invariant_machine =
  fixes step :: "'s \<Rightarrow> 'e \<Rightarrow> 's"
    and inv :: "'s \<Rightarrow> bool"
  assumes step_inv: "inv s \<Longrightarrow> inv (step s e)"
begin

lemma run_inv: "inv s \<Longrightarrow> inv (foldl step s es)"
  by (induction es rule: rev_induct) (simp_all add: step_inv)

text \<open>A reflexive and transitive relation kept by each step from an invariant state holds over a run.\<close>

lemma run_relation:
  assumes "inv s" and refl: "\<And>s. R s s" and trans: "\<And>s t u. R s t \<Longrightarrow> R t u \<Longrightarrow> R s u"
    and "\<And>s e. inv s \<Longrightarrow> R s (step s e)"
  shows "R s (foldl step s es)"
proof (induction es rule: rev_induct)
  case (snoc e es)
  with assms run_inv [of s es] show ?case by (auto intro: trans)
qed (simp add: refl)

end

end
