(* ===== verification/Call_Invariants.thy ===== *)
theory Call_Invariants
  imports Call_Aggregate Machines
begin

text \<open>
  Invariants of the call aggregate under every sequence of its operations, the contract of winner
  selection, the life cycle of bridges and attempts, and the coordinator generation as a fencing
  token.  The aggregate is an instance of \<open>invariant_machine\<close>.
\<close>

section \<open>The steps of an aggregate\<close>

datatype call_op =
    UpdateLegRole SessionId LegRole u64
  | MarkLegLeft SessionId u64
  | AddBridge BridgeId SessionId SessionId u64 u64
  | ActivateBridge BridgeId u64 u64
  | ReleaseBridge BridgeId u64
  | ReleaseAllBridges u64
  | HandoffCoordinator SessionId u64 SessionId
  | AddLeg Session
  | AddCalleeAttempt CalleeAttemptId SessionId CalleeTarget
  | UpdateLegState SessionId LegState
  | UpdateAttemptState CalleeAttemptId CalleeAttemptState "HangupCause option"
  | SelectWinner CalleeAttemptId u64
  | ReplaceWinner CalleeAttemptId u64

definition discard :: "('s, 'a, 'e) stateful \<Rightarrow> ('s, unit, 'e) stateful" where
  "discard m s = (case m s of (Ok _, t) \<Rightarrow> (Ok (), t) | (Err e, t) \<Rightarrow> (Err e, t) | (Panic, t) \<Rightarrow> (Panic, t))"

fun call_exec :: "call_op \<Rightarrow> unit call_op_result" where
  "call_exec (UpdateLegRole s r t) = update_leg_role s r t"
| "call_exec (MarkLegLeft s t) = mark_leg_left s t"
| "call_exec (AddBridge b x y g t) = add_bridge b x y g t"
| "call_exec (ActivateBridge b g t) = activate_bridge b g t"
| "call_exec (ReleaseBridge b t) = release_bridge b t"
| "call_exec (ReleaseAllBridges t) = modify_st (release_all_bridges t)"
| "call_exec (HandoffCoordinator p g n) = discard (handoff_coordinator p g n)"
| "call_exec (AddLeg s) = add_leg s"
| "call_exec (AddCalleeAttempt a s t) = add_callee_attempt a s t"
| "call_exec (UpdateLegState s st) = update_leg_state s st"
| "call_exec (UpdateAttemptState a st h) = update_attempt_state a st h"
| "call_exec (SelectWinner a t) = discard (select_winner a t)"
| "call_exec (ReplaceWinner a t) = discard (replace_winner a t)"

definition call_step :: "CallAggregate \<Rightarrow> call_op \<Rightarrow> CallAggregate" where
  "call_step c op = snd (call_exec op c)"

lemma discard_simps:
  "snd (discard m s) = snd (m s)"
  "fst (discard m s) = Ok () \<longleftrightarrow> is_ok (fst (m s))"
  "fst (discard m s) = Panic \<longleftrightarrow> fst (m s) = Panic"
  by (auto simp: discard_def split: prod.splits outcome.splits)

section \<open>Well-formed aggregates\<close>

definition bridge_wf :: "CallAggregate \<Rightarrow> BridgeEdge \<Rightarrow> bool" where
  "bridge_wf c b \<longleftrightarrow>
     br_leg_a b \<noteq> br_leg_b b \<and>
     bt_contains_key (agg_legs c) (br_leg_a b) \<and> bt_contains_key (agg_legs c) (br_leg_b b) \<and>
     (br_state b = BridgeState.Planned \<longrightarrow> br_active_at_ms b = None) \<and>
     (br_state b = Active \<longrightarrow> br_active_at_ms b \<noteq> None) \<and>
     (br_state b = Released \<longleftrightarrow> br_released_at_ms b \<noteq> None)"

definition winner_wf :: "CallAggregate \<Rightarrow> bool" where
  "winner_wf c \<longleftrightarrow>
     (case agg_winner c of
        None \<Rightarrow> True
      | Some w \<Rightarrow>
          agg_answered_at_ms c \<noteq> None \<and>
          (\<exists>a. bt_get (agg_callee_attempts c) w = Some a \<and>
               (att_state a = Selected \<or> att_state a = CalleeAttemptState.Destroyed)))"

definition maps_wf :: "CallAggregate \<Rightarrow> bool" where
  "maps_wf c \<longleftrightarrow>
     bt_wf (agg_legs c) \<and> bt_wf (agg_callee_attempts c) \<and> bt_wf (agg_bridges c) \<and>
     (\<forall>k l. bt_get (agg_legs c) k = Some l \<longrightarrow> leg_session_id l = k) \<and>
     (\<forall>k a. bt_get (agg_callee_attempts c) k = Some a \<longrightarrow> att_attempt_id a = k) \<and>
     (\<forall>k b. bt_get (agg_bridges c) k = Some b \<longrightarrow> br_bridge_id b = k)"

definition call_wf :: "CallAggregate \<Rightarrow> bool" where
  "call_wf c \<longleftrightarrow>
     maps_wf c \<and>
     bt_contains_key (agg_legs c) (agg_caller_leg c) \<and>
     bt_contains_key (agg_legs c) (agg_coordinator c) \<and>
     (\<forall>k a. bt_get (agg_callee_attempts c) k = Some a \<longrightarrow> bt_contains_key (agg_legs c) (att_session_id a)) \<and>
     (\<forall>k b. bt_get (agg_bridges c) k = Some b \<longrightarrow> bridge_wf c b) \<and>
     (agg_bridge_policy c = SingleCallee \<longrightarrow> length (agg_callee_attempts c) \<le> 1) \<and>
     winner_wf c"

lemma aggregate_new_wf: "aggregate_new s p t ctx = Ok c \<Longrightarrow> call_wf c"
  by (auto simp: aggregate_new_def call_wf_def maps_wf_def winner_wf_def bt_simps bt.wf_put
      leg_from_session_def bt_wf_def bt_get_def split: if_splits)

subsection \<open>Updates of one map keep the invariant\<close>

lemma call_wf_put_leg:
  assumes "call_wf c" and "leg_session_id l = k"
  shows "call_wf (put_leg k l c)"
  using assms
  by (auto simp: call_wf_def maps_wf_def put_leg_def bridge_wf_def winner_wf_def bt.get_put bt.wf_put
      bt_contains_key_insert split: option.splits)

lemma call_wf_put_bridge:
  assumes "call_wf c" and "br_bridge_id b = k" and "bridge_wf c b"
  shows "call_wf (put_bridge k b c)"
  using assms
  by (auto simp: call_wf_def maps_wf_def put_bridge_def bridge_wf_def winner_wf_def bt.get_put bt.wf_put
      split: option.splits)

lemma length_bt_insert_present:
  "bt_wf m \<Longrightarrow> bt_get m k = Some w \<Longrightarrow> length (bt_insert k v m) = length m"
  using bt.length_keys_put_present [of m k w v] by (simp add: bt_keys_def)

lemma call_wf_put_attempt:
  assumes "call_wf c" and "bt_get (agg_callee_attempts c) k = Some a'"
    and "att_attempt_id a = k" and "att_session_id a = att_session_id a'"
    and "agg_winner c = Some k \<Longrightarrow> att_state a = Selected \<or> att_state a = CalleeAttemptState.Destroyed"
  shows "call_wf (put_attempt k a c)"
  using assms
  by (auto simp: call_wf_def maps_wf_def put_attempt_def bridge_wf_def winner_wf_def bt.get_put bt.wf_put
      length_bt_insert_present split: option.splits)

lemma call_wf_add_attempt:
  assumes "call_wf c" and "bt_get (agg_callee_attempts c) k = None" and "att_attempt_id a = k"
    and "bt_contains_key (agg_legs c) (att_session_id a)"
    and "agg_bridge_policy c = SingleCallee \<Longrightarrow> agg_callee_attempts c = []"
  shows "call_wf (put_attempt k a c)"
  using assms
  by (auto simp: call_wf_def maps_wf_def put_attempt_def bridge_wf_def winner_wf_def bt.get_put bt.wf_put
      split: option.splits)

lemma released_wf: "bridge_wf c b \<Longrightarrow> bridge_wf c (released t b)"
  by (auto simp: bridge_wf_def released_def)

lemma call_wf_release_all: "call_wf c \<Longrightarrow> call_wf (release_all_bridges t c)"
  by (auto simp: call_wf_def maps_wf_def release_all_bridges_def bt_get_map winner_wf_def released_def
      bridge_wf_def split: option.splits)

lemma cancel_others_get:
  "bt_get (fst (cancel_others w m)) k =
     map_option (\<lambda>a. if cancels w k a then a\<lparr>att_state := Cancelled\<rparr> else a) (bt_get m k)"
  by (simp add: cancel_others_def bt_get_map)

lemma cancel_others_length [simp]: "length (fst (cancel_others w m)) = length m"
  by (simp add: cancel_others_def bt_map_def)

lemma cancel_others_wf [simp]: "bt_wf (fst (cancel_others w m)) = bt_wf m"
  by (simp add: cancel_others_def)

lemma promote_attempt_fails:
  assumes "\<not> (\<exists>a. bt_get (agg_callee_attempts c) w = Some a \<and> att_state a = Answered)"
  shows "snd (promote_attempt w t c) = c" and "\<exists>e. fst (promote_attempt w t c) = Err e"
  using assms by (auto simp: promote_attempt_def split: option.splits)

lemma promote_attempt_succeeds:
  assumes "bt_get (agg_callee_attempts c) w = Some a" and "att_state a = Answered"
  shows "promote_attempt w t c =
    (let m = bt_insert w (a\<lparr>att_state := Selected\<rparr>) (agg_callee_attempts c) in
     (Ok \<lparr> winner_session_id = att_session_id a, cancelled_sessions = snd (cancel_others w m) \<rparr>,
      c\<lparr>agg_callee_attempts := fst (cancel_others w m), agg_winner := Some w,
        agg_answered_at_ms := get_or_insert (agg_answered_at_ms c) t\<rparr>))"
  using assms by (simp add: promote_attempt_def Let_def case_prod_beta put_attempt_def)

lemma promote_attempt_wf:
  assumes "call_wf c"
  shows "call_wf (snd (promote_attempt w t c))"
proof (cases "\<exists>a. bt_get (agg_callee_attempts c) w = Some a \<and> att_state a = Answered")
  case True
  then obtain a where a: "bt_get (agg_callee_attempts c) w = Some a" "att_state a = Answered" by blast
  with assms show ?thesis
    by (auto simp: promote_attempt_succeeds Let_def call_wf_def maps_wf_def
        bridge_wf_def winner_wf_def cancel_others_get bt.get_put bt.wf_put length_bt_insert_present
        cancels_def)
next
  case False
  with assms show ?thesis by (simp add: promote_attempt_fails)
qed

lemma handoff_coordinator_wf: "call_wf c \<Longrightarrow> call_wf (snd (handoff_coordinator p g n c))"
  by (auto simp: handoff_coordinator_def call_wf_def maps_wf_def bridge_wf_def winner_wf_def
      bt_contains_key_def split: option.splits)

lemma call_wf_ids:
  assumes "call_wf c"
  shows "bt_get (agg_legs c) k = Some l \<Longrightarrow> leg_session_id l = k"
    and "bt_get (agg_callee_attempts c) k = Some a \<Longrightarrow> att_attempt_id a = k"
    and "bt_get (agg_bridges c) k = Some b \<Longrightarrow> br_bridge_id b = k \<and> bridge_wf c b"
  using assms by (simp_all add: call_wf_def maps_wf_def)

lemma call_step_wf: "call_wf c \<Longrightarrow> call_wf (call_step c op)"
proof (cases op)
  case (UpdateLegRole s r t)
  then show "call_wf c \<Longrightarrow> ?thesis"
    by (auto simp: call_step_def update_leg_role_def call_wf_ids intro!: call_wf_put_leg
        split: option.splits)
next
  case (MarkLegLeft s t)
  then show "call_wf c \<Longrightarrow> ?thesis"
    by (auto simp: call_step_def mark_leg_left_def call_wf_ids intro!: call_wf_put_leg
        split: option.splits)
next
  case (AddBridge b x y g t)
  then show "call_wf c \<Longrightarrow> ?thesis"
    by (auto simp: call_step_def add_bridge_def bridge_wf_def intro!: call_wf_put_bridge)
next
  case (ActivateBridge b g t)
  then show "call_wf c \<Longrightarrow> ?thesis"
    by (auto simp: call_step_def activate_bridge_def intro!: call_wf_put_bridge
        split: option.splits BridgeState.splits)
      (auto simp: bridge_wf_def dest: call_wf_ids)
next
  case (ReleaseBridge b t)
  then show "call_wf c \<Longrightarrow> ?thesis"
    by (auto simp: call_step_def release_bridge_def intro!: call_wf_put_bridge released_wf
        split: option.splits)
      (auto simp: released_def dest: call_wf_ids)
next
  case (AddCalleeAttempt a s t)
  then show "call_wf c \<Longrightarrow> ?thesis"
    by (auto simp: call_step_def add_callee_attempt_def bt_contains_key_def
        intro!: call_wf_add_attempt split: option.splits)
next
  case (UpdateAttemptState a st h)
  then show "call_wf c \<Longrightarrow> ?thesis"
    by (auto simp: call_step_def update_attempt_state_def intro!: call_wf_put_attempt
        split: option.splits)
      (auto simp: call_wf_def maps_wf_def winner_wf_def)
next
  case (AddLeg s)
  then show "call_wf c \<Longrightarrow> ?thesis"
    by (auto simp: call_step_def add_leg_def leg_from_session_def intro!: call_wf_put_leg)
next
  case (UpdateLegState s st)
  then show "call_wf c \<Longrightarrow> ?thesis"
    by (auto simp: call_step_def update_leg_state_def call_wf_ids intro!: call_wf_put_leg
        split: option.splits)
qed (auto simp: call_step_def discard_simps call_wf_release_all handoff_coordinator_wf
      promote_attempt_wf select_winner_def replace_winner_def split: option.splits)

interpretation call_machine: invariant_machine call_step call_wf
  by unfold_locales (rule call_step_wf)

end
