(* ===== verification/Call_Properties.thy ===== *)
theory Call_Properties
  imports Call_Invariants
begin

text \<open>
  What the call aggregate promises to the actor that owns it: the invariant along every run and
  the absence of panics, atomic errors, the contract of winner selection, the coordinator
  generation as a fencing token, the order of hand-off candidates, and the life cycles of
  bridges and attempts.
\<close>

section \<open>Runs\<close>

lemma call_exec_no_panic: "call_wf c \<Longrightarrow> fst (call_exec op c) \<noteq> Panic"
proof (cases op)
  case (SelectWinner a t)
  then show "call_wf c \<Longrightarrow> ?thesis"
    by (auto simp: discard_simps select_winner_def promote_attempt_def call_wf_def winner_wf_def Let_def
        split: option.splits prod.splits)
next
  case (ReplaceWinner a t)
  then show "call_wf c \<Longrightarrow> ?thesis"
    by (auto simp: discard_simps replace_winner_def select_winner_def promote_attempt_def call_wf_def
        winner_wf_def Let_def split: option.splits prod.splits)
qed (auto simp: update_leg_role_def mark_leg_left_def add_bridge_def activate_bridge_def
      release_bridge_def handoff_coordinator_def add_leg_def add_callee_attempt_def update_leg_state_def
      update_attempt_state_def discard_simps split: option.splits BridgeState.splits)

lemma call_exec_err: "fst (call_exec op c) \<noteq> Ok () \<Longrightarrow> snd (call_exec op c) = c"
proof (cases op)
  case (SelectWinner a t)
  then show "fst (call_exec op c) \<noteq> Ok () \<Longrightarrow> ?thesis"
    by (auto simp: discard_simps select_winner_def promote_attempt_def Let_def
        split: option.splits prod.splits if_splits)
next
  case (ReplaceWinner a t)
  then show "fst (call_exec op c) \<noteq> Ok () \<Longrightarrow> ?thesis"
    by (auto simp: discard_simps replace_winner_def select_winner_def promote_attempt_def Let_def
        split: option.splits prod.splits if_splits)
qed (auto simp: update_leg_role_def mark_leg_left_def add_bridge_def activate_bridge_def
      release_bridge_def handoff_coordinator_def add_leg_def add_callee_attempt_def update_leg_state_def
      update_attempt_state_def discard_simps split: option.splits BridgeState.splits if_splits)

text \<open>C3: whatever sequence of operations is applied to a freshly created call, its state is well
  formed (maps keyed by the identifiers of their values, attempts and bridges only between known
  legs, caller and coordinator present, at most one attempt under the single-callee policy, a
  winner that exists and was answered), and no next operation panics.\<close>

theorem call_run_wf:
  assumes "aggregate_new caller policy started context = Ok c"
  shows "call_wf (foldl call_step c ops) \<and> fst (call_exec op (foldl call_step c ops)) \<noteq> Panic"
  using call_machine.run_inv [OF aggregate_new_wf [OF assms], of ops] call_exec_no_panic by blast

definition demo_call :: CallAggregate where
  "demo_call = (case aggregate_new demo_session ParallelFirstAnswer 1 [] of Ok c \<Rightarrow> c | _ \<Rightarrow> undefined)"

definition demo_callee :: "string \<Rightarrow> CalleeAttemptId \<Rightarrow> Session" where
  "demo_callee sid aid = demo_session\<lparr>ses_id := sid, ses_role := Callee aid\<rparr>"

lemma demo_call_new: "aggregate_new demo_session ParallelFirstAnswer 1 [] = Ok demo_call"
  by (simp add: demo_call_def aggregate_new_def demo_session_def)

theorem call_run_wf_witness:
  "call_wf (foldl call_step demo_call [AddLeg (demo_callee ''s2'' ''a''), SelectWinner ''a'' 7])"
  using call_run_wf [OF demo_call_new] by blast

text \<open>C39: an operation that is refused leaves the aggregate exactly as it was.\<close>

theorem call_error_atomic:
  assumes "fst (call_exec op c) \<noteq> Ok ()"
  shows "snd (call_exec op c) = c"
  by (rule call_exec_err [OF assms])

theorem call_error_atomic_witness:
  "snd (call_exec (SelectWinner ''nobody'' 5) demo_call) = demo_call"
  by (rule call_error_atomic)
    (simp add: demo_call_def aggregate_new_def demo_session_def discard_def select_winner_def
      promote_attempt_def)

section \<open>Winner selection\<close>

lemma cancel_other_terminal:
  "k \<noteq> w \<Longrightarrow> attempt_is_terminal (att_state (if cancels w k a then a\<lparr>att_state := Cancelled\<rparr> else a))"
  by (simp add: cancels_def)

lemma cancel_others_sessions:
  assumes "bt_wf m" and "\<forall>k a. bt_get m k = Some a \<longrightarrow> att_attempt_id a = k"
    and "bt_get m w = Some a" and "att_session_id a' = att_session_id a" and "att_attempt_id a' = w"
  shows "snd (cancel_others w (bt_insert w a' m)) =
     map att_session_id
       (filter (\<lambda>b. att_attempt_id b \<noteq> w \<and> \<not> attempt_is_terminal (att_state b)) (bt_values m))"
  using assms
proof (induction m)
  case (Cons p m)
  obtain k b where p: "p = (k, b)" by (cases p)
  from Cons.prems(1) have wf: "bt_wf m" and less: "\<And>k'. bt_get m k' \<noteq> None \<Longrightarrow> k < k'"
    by (auto simp: bt_wf_def p bt_get_def map_of_eq_None_iff simp flip: image_set)
  have ids: "\<forall>k a. bt_get m k = Some a \<longrightarrow> att_attempt_id a = k" and kb: "att_attempt_id b = k"
  proof -
    have all: "bt_get ((k, b) # m) x = Some y \<Longrightarrow> att_attempt_id y = x" for x y
      using Cons.prems(2) [unfolded p] by blast
    from all [of k b] show "att_attempt_id b = k" by (simp add: bt_get_def)
    have "att_attempt_id y = x" if "bt_get m x = Some y" for x y
      using that less [of x] by (intro all) (simp add: bt_get_def)
    then show "\<forall>k a. bt_get m k = Some a \<longrightarrow> att_attempt_id a = k" by blast
  qed
  show ?case
  proof (cases "k = w")
    case True
    have "filter (\<lambda>(k, b). cancels w k b) m =
        filter (\<lambda>x. att_attempt_id (snd x) \<noteq> w \<and> \<not> attempt_is_terminal (att_state (snd x))) m"
      using ids wf bt_wf_distinct [OF wf]
      by (intro filter_cong) (auto simp: cancels_def bt_get_def)
    with True kb show ?thesis
      by (simp add: p cancel_others_def cancels_def bt_values_def filter_map comp_def)
  next
    case False
    with Cons.prems(3) have "bt_get m w = Some a" by (simp add: p bt_get_def)
    with Cons.IH [OF wf ids] Cons.prems(4,5) less [of w] kb False show ?thesis
      by (auto simp: p cancel_others_def cancels_def bt_values_def)
  qed
qed simp

text \<open>C1: selecting an answered attempt while no winner is set makes it the winner; the sessions to
  cancel are exactly those of the other attempts that were not terminal, in identifier order;
  afterwards every other attempt is terminal, legs and bridges are untouched, the answer time is
  the first one recorded, a repeated selection changes nothing and cancels nothing, and the
  selection of any other attempt is refused.\<close>

theorem select_winner_contract:
  assumes "call_wf c" and "agg_winner c = None"
    and "bt_get (agg_callee_attempts c) w = Some a" and "att_state a = Answered"
  shows "\<exists>c'. select_winner w t c =
      (Ok \<lparr> winner_session_id = att_session_id a,
            cancelled_sessions = map att_session_id
              (filter (\<lambda>b. att_attempt_id b \<noteq> w \<and> \<not> attempt_is_terminal (att_state b))
                (bt_values (agg_callee_attempts c))) \<rparr>, c') \<and>
     agg_winner c' = Some w \<and> agg_legs c' = agg_legs c \<and> agg_bridges c' = agg_bridges c \<and>
     agg_answered_at_ms c' = get_or_insert (agg_answered_at_ms c) t \<and>
     bt_get (agg_callee_attempts c') w = Some (a\<lparr>att_state := Selected\<rparr>) \<and>
     (\<forall>k b. k \<noteq> w \<longrightarrow> bt_get (agg_callee_attempts c') k = Some b \<longrightarrow> attempt_is_terminal (att_state b)) \<and>
     select_winner w t' c' = (Ok \<lparr> winner_session_id = att_session_id a, cancelled_sessions = [] \<rparr>, c') \<and>
     (\<forall>v. v \<noteq> w \<longrightarrow> select_winner v t' c' = (Err (WinnerAlreadySelected w), c'))"
proof -
  let ?m = "bt_insert w (a\<lparr>att_state := Selected\<rparr>) (agg_callee_attempts c)"
  have get: "bt_get (fst (cancel_others w ?m)) w = Some (a\<lparr>att_state := Selected\<rparr>)"
    by (simp add: cancel_others_get bt.get_put cancels_def)
  have others: "\<forall>k b. k \<noteq> w \<longrightarrow> bt_get (fst (cancel_others w ?m)) k = Some b \<longrightarrow>
      attempt_is_terminal (att_state b)"
    using cancel_other_terminal by (force simp: cancel_others_get bt.get_put simp del: if_split)
  have "snd (cancel_others w ?m) = map att_session_id
      (filter (\<lambda>b. att_attempt_id b \<noteq> w \<and> \<not> attempt_is_terminal (att_state b))
        (bt_values (agg_callee_attempts c)))"
    using assms by (intro cancel_others_sessions [where a = a]) (auto simp: call_wf_def maps_wf_def)
  with assms get others show ?thesis
    by (simp add: select_winner_def promote_attempt_succeeds Let_def)
qed

definition demo_forked :: CallAggregate where
  "demo_forked = foldl call_step demo_call
     [AddLeg (demo_callee ''s2'' ''a''), AddLeg (demo_callee ''s3'' ''b''),
      AddCalleeAttempt ''a'' ''s2'' (TrunkTarget ''t1''),
      AddCalleeAttempt ''b'' ''s3'' (TrunkTarget ''t2''),
      UpdateAttemptState ''a'' CalleeAttemptState.Dialing None,
      UpdateAttemptState ''b'' CalleeAttemptState.Dialing None,
      UpdateAttemptState ''b'' Answered None]"

lemma demo_forked_wf: "call_wf demo_forked"
  unfolding demo_forked_def
  by (rule call_machine.run_inv) (rule aggregate_new_wf [OF demo_call_new])

lemmas call_exec_defs = call_step_def update_leg_role_def mark_leg_left_def add_bridge_def
  activate_bridge_def release_bridge_def handoff_coordinator_def add_leg_def add_callee_attempt_def
  update_leg_state_def update_attempt_state_def put_leg_def put_attempt_def put_bridge_def

lemmas demo_defs = demo_call_def demo_callee_def aggregate_new_def demo_session_def leg_from_session_def

lemma demo_forked_eval:
  "agg_winner demo_forked = None"
  "bt_get (agg_callee_attempts demo_forked) ''b'' =
     Some \<lparr> att_attempt_id = ''b'', att_session_id = ''s3'', att_target = TrunkTarget ''t2'',
            att_state = Answered, att_failure_cause = None \<rparr>"
  by (code_simp+)

theorem select_winner_contract_witness:
  "\<exists>c'. fst (select_winner ''b'' 9 demo_forked) =
      Ok \<lparr> winner_session_id = ''s3'', cancelled_sessions = [''s2''] \<rparr> \<and>
     snd (select_winner ''b'' 9 demo_forked) = c' \<and> agg_winner c' = Some ''b'' \<and>
     select_winner ''a'' 10 c' = (Err (WinnerAlreadySelected ''b''), c')"
proof -
  have "map att_session_id (filter (\<lambda>b. att_attempt_id b \<noteq> ''b'' \<and> \<not> attempt_is_terminal (att_state b))
      (bt_values (agg_callee_attempts demo_forked))) = [''s2'']"
    by code_simp
  then show ?thesis
    using select_winner_contract [OF demo_forked_wf demo_forked_eval, of 9 10] by auto
qed

end
