(* ===== verification/Call_Lifecycles.thy ===== *)
theory Call_Lifecycles
  imports Call_Properties
begin

text \<open>
  Properties of the call aggregate over runs: the winner and the answer time are stable, the
  coordinator generation is a fencing token, bridges and attempts only move forward.
\<close>

lemma call_step_winner:
  assumes "agg_winner c = Some w" and "\<forall>a t. op \<noteq> ReplaceWinner a t"
  shows "agg_winner (call_step c op) = Some w"
  using assms
  by (cases op) (auto simp: call_exec_defs release_all_bridges_def discard_simps select_winner_def
      split: option.splits BridgeState.splits)

lemma promote_attempt_answered:
  "agg_answered_at_ms c = Some t \<Longrightarrow> agg_answered_at_ms (snd (promote_attempt w t' c)) = Some t"
  by (cases "\<exists>a. bt_get (agg_callee_attempts c) w = Some a \<and> att_state a = Answered")
    (auto simp: promote_attempt_succeeds promote_attempt_fails Let_def)

lemma call_step_answered:
  assumes "agg_answered_at_ms c = Some t"
  shows "agg_answered_at_ms (call_step c op) = Some t"
  using assms
  by (cases op) (auto simp: call_exec_defs release_all_bridges_def discard_simps select_winner_def
      replace_winner_def promote_attempt_answered split: option.splits BridgeState.splits)

text \<open>The time of answer, once recorded, never changes, and unless a winner is explicitly replaced
  the selected winner stays the winner for the rest of the call.\<close>

theorem winner_stable:
  assumes "agg_winner c = Some w" and "agg_answered_at_ms c = Some t"
  shows "agg_answered_at_ms (foldl call_step c ops) = Some t \<and>
    ((\<forall>op \<in> set ops. \<forall>a t. op \<noteq> ReplaceWinner a t) \<longrightarrow> agg_winner (foldl call_step c ops) = Some w)"
proof (induction ops rule: rev_induct)
  case (snoc op ops)
  then show ?case using call_step_winner call_step_answered by simp
qed (simp add: assms)

theorem winner_stable_witness:
  "agg_winner (foldl call_step (demo_call\<lparr>agg_winner := Some ''b'', agg_answered_at_ms := Some 9\<rparr>)
     [SelectWinner ''a'' 12, MarkLegLeft ''session-1'' 13]) = Some ''b''"
  using winner_stable [of "demo_call\<lparr>agg_winner := Some ''b'', agg_answered_at_ms := Some 9\<rparr>" "''b''" 9
      "[SelectWinner ''a'' 12, MarkLegLeft ''session-1'' 13]"]
  by simp

section \<open>The coordinator generation\<close>

definition coordinator_order :: "CallAggregate \<Rightarrow> CallAggregate \<Rightarrow> bool" where
  "coordinator_order c d \<longleftrightarrow>
     unat (agg_coordinator_generation c) \<le> unat (agg_coordinator_generation d) \<and>
     (agg_coordinator_generation c = agg_coordinator_generation d \<longrightarrow> agg_coordinator c = agg_coordinator d)"

lemma coordinator_order_refl [simp]: "coordinator_order c c"
  by (simp add: coordinator_order_def)

lemma coordinator_order_trans:
  "coordinator_order c d \<Longrightarrow> coordinator_order d e \<Longrightarrow> coordinator_order c e"
  unfolding coordinator_order_def by (metis le_antisym le_trans word_unat_eq_iff)

lemma promote_attempt_coordinator [simp]:
  "agg_coordinator (snd (promote_attempt w t c)) = agg_coordinator c"
  "agg_coordinator_generation (snd (promote_attempt w t c)) = agg_coordinator_generation c"
  by (cases "\<exists>a. bt_get (agg_callee_attempts c) w = Some a \<and> att_state a = Answered";
      auto simp: promote_attempt_succeeds promote_attempt_fails Let_def)+

lemma handoff_coordinator_order: "coordinator_order c (snd (handoff_coordinator p g n c))"
  by (auto simp: handoff_coordinator_def coordinator_order_def dest: checked_add_Some
      split: option.splits)

lemma call_step_coordinator_order: "coordinator_order c (call_step c op)"
proof (cases op)
  case (HandoffCoordinator p g n)
  then show ?thesis by (simp add: call_step_def discard_simps handoff_coordinator_order)
qed (auto simp: call_exec_defs release_all_bridges_def discard_simps select_winner_def
      replace_winner_def coordinator_order_def split: option.splits BridgeState.splits)

lemma run_coordinator_order: "coordinator_order c (foldl call_step c ops)"
  by (induction ops rule: rev_induct)
    (auto intro: coordinator_order_trans call_step_coordinator_order)

definition coordinator_eligible :: "CallAggregate \<Rightarrow> SessionId \<Rightarrow> bool" where
  "coordinator_eligible c s \<longleftrightarrow>
     (case bt_get (agg_legs c) s of
        None \<Rightarrow> False
      | Some l \<Rightarrow> \<not> leg_is_terminal (leg_state l) \<and> leg_left_at_ms l = None)"

lemma handoff_coordinator_Ok_iff:
  "(\<exists>g' c'. handoff_coordinator owner g target c = (Ok g', c')) \<longleftrightarrow>
     agg_coordinator c = owner \<and> agg_coordinator_generation c = g \<and> coordinator_eligible c target \<and>
     (target = owner \<or> g \<noteq> - 1)"
  using checked_add_one_None [of g]
  by (auto simp: handoff_coordinator_def coordinator_eligible_def split: option.splits)

text \<open>C2: a hand-off succeeds exactly when the caller names the current owner and generation, the target
  is a leg still in the call, and (unless it already coordinates) the generation is not exhausted;
  once a token has moved the role to another leg, no later hand-off presenting the same token
  succeeds, whatever happens to the call in between.\<close>

theorem coordinator_token_fences:
  "((\<exists>g' c'. handoff_coordinator owner g target c = (Ok g', c')) \<longleftrightarrow>
      agg_coordinator c = owner \<and> agg_coordinator_generation c = g \<and> coordinator_eligible c target \<and>
      (target = owner \<or> g \<noteq> - 1)) \<and>
   (handoff_coordinator owner g target c = (Ok g', c') \<and> target \<noteq> owner \<longrightarrow>
      agg_coordinator c' = target \<and> unat g' = Suc (unat g) \<and>
      \<not> (\<exists>h d. handoff_coordinator owner g other (foldl call_step c' ops) = (Ok h, d)))"
proof -
  have "agg_coordinator c' = target \<and> unat g' = Suc (unat g) \<and> agg_coordinator_generation c' = g'"
    if "handoff_coordinator owner g target c = (Ok g', c') \<and> target \<noteq> owner"
    using that by (auto simp: handoff_coordinator_def dest: checked_add_Some split: option.splits if_splits)
  then show ?thesis
    using run_coordinator_order [of c' ops]
    by (auto simp: handoff_coordinator_Ok_iff coordinator_order_def)
qed

lemma demo_forked_coordinator:
  "agg_coordinator demo_forked = ''session-1''" "agg_coordinator_generation demo_forked = 1"
  "coordinator_eligible demo_forked ''s2''" "coordinator_eligible demo_forked ''s3''"
  by (code_simp+)

theorem coordinator_token_fences_witness:
  "\<exists>g c. handoff_coordinator ''session-1'' 1 ''s2'' demo_forked = (Ok g, c) \<and> agg_coordinator c = ''s2'' \<and>
     \<not> (\<exists>h d. handoff_coordinator ''session-1'' 1 ''session-1''
          (foldl call_step c [UpdateLegState ''s2'' Bridged]) = (Ok h, d))"
proof -
  have "\<exists>g c. handoff_coordinator ''session-1'' 1 ''s2'' demo_forked = (Ok g, c)"
    using coordinator_token_fences [of "''session-1''" 1 "''s2''" demo_forked] demo_forked_coordinator
    by simp
  then obtain g c where "handoff_coordinator ''session-1'' 1 ''s2'' demo_forked = (Ok g, c)" by blast
  then show ?thesis
    using coordinator_token_fences [of "''session-1''" 1 "''s2''" demo_forked g c "''session-1''"
        "[UpdateLegState ''s2'' Bridged]"]
    by auto
qed

section \<open>Hand-off candidates\<close>

lemma handoff_candidates_set:
  assumes "call_wf c"
  shows "set (handoff_candidates k c) = {s. s \<noteq> agg_coordinator c \<and> coordinator_eligible c s}"
proof -
  have "bt_wf (agg_legs c)" and "\<And>s l. bt_get (agg_legs c) s = Some l \<Longrightarrow> leg_session_id l = s"
    using assms by (auto simp: call_wf_def maps_wf_def)
  then show ?thesis
    by (force simp: handoff_candidates_def leg_available_def coordinator_eligible_def bt_in_values_iff
        split: option.splits)
qed

lemma handoff_candidates_distinct:
  assumes "call_wf c"
  shows "distinct (handoff_candidates k c)"
proof -
  have wf: "bt_wf (agg_legs c)" and ids: "\<And>s l. bt_get (agg_legs c) s = Some l \<Longrightarrow> leg_session_id l = s"
    using assms by (auto simp: call_wf_def maps_wf_def)
  have "map leg_session_id (bt_values (agg_legs c)) = bt_keys (agg_legs c)"
    using ids bt_wf_distinct [OF wf] by (auto simp: bt_values_def bt_keys_def bt_get_def intro!: map_cong)
  then have "distinct (map leg_session_id (bt_values (agg_legs c)))"
    by (simp add: bt.distinct_keys wf)
  then show ?thesis
    by (simp add: handoff_candidates_def distinct_map inj_on_def)
qed

lemma handoff_candidates_preferred:
  assumes "call_wf c" and "s \<in> set (handoff_candidates (Some s) c)"
  shows "hd (handoff_candidates (Some s) c) = s"
proof -
  let ?ls = "sort_key (handoff_rank (Some s) c) (filter (leg_available c) (bt_values (agg_legs c)))"
  obtain l where l: "l \<in> set ?ls" "leg_session_id l = s"
    using assms by (auto simp: handoff_candidates_def)
  then obtain h ls where h: "?ls = h # ls" by (cases ?ls) auto
  have "sorted (map (handoff_rank (Some s) c) ?ls)" by simp
  then have "handoff_rank (Some s) c h \<le> handoff_rank (Some s) c l"
    using l by (auto simp: h)
  then have "leg_session_id h = s"
    using l by (auto simp: handoff_rank_def less_eq_prod_def split: if_splits)
  then show ?thesis by (simp add: handoff_candidates_def h)
qed

text \<open>the hand-off candidates are exactly the other legs still in the call, each listed once and
  in increasing rank (continuation first, then bridged legs, then by time of joining and
  identifier); while a generation is left, handing the role to any of them succeeds, and a
  continuation that is a candidate at all is tried first.\<close>

theorem handoff_candidates_spec:
  assumes "call_wf c"
  shows "set (handoff_candidates k c) = {s. s \<noteq> agg_coordinator c \<and> coordinator_eligible c s} \<and>
    distinct (handoff_candidates k c) \<and>
    (agg_coordinator_generation c \<noteq> - 1 \<longrightarrow>
      (\<forall>s \<in> set (handoff_candidates k c). \<exists>g c'.
        handoff_coordinator (agg_coordinator c) (agg_coordinator_generation c) s c = (Ok g, c'))) \<and>
    (\<forall>s. k = Some s \<and> s \<in> set (handoff_candidates k c) \<longrightarrow> hd (handoff_candidates k c) = s)"
  using assms handoff_candidates_set [OF assms] handoff_candidates_distinct handoff_candidates_preferred
  by (auto simp: handoff_coordinator_Ok_iff)

theorem handoff_candidates_spec_witness:
  "hd (handoff_candidates (Some ''s3'') demo_forked) = ''s3'' \<and>
   set (handoff_candidates (Some ''s3'') demo_forked) =
     {s. s \<noteq> agg_coordinator demo_forked \<and> coordinator_eligible demo_forked s}"
proof -
  have "''s3'' \<in> set (handoff_candidates (Some ''s3'') demo_forked)"
    by (simp add: handoff_candidates_set [OF demo_forked_wf] demo_forked_coordinator)
  then show ?thesis using handoff_candidates_spec [OF demo_forked_wf, of "Some ''s3''"] by blast
qed

section \<open>Bridges and attempts only move forward\<close>

fun bridge_rank :: "BridgeState \<Rightarrow> nat" where
  "bridge_rank BridgeState.Planned = 0"
| "bridge_rank Active = 1"
| "bridge_rank Released = 2"

definition bridge_advances :: "BridgeEdge \<Rightarrow> BridgeEdge \<Rightarrow> bool" where
  "bridge_advances b d \<longleftrightarrow>
     br_bridge_id d = br_bridge_id b \<and> br_leg_a d = br_leg_a b \<and> br_leg_b d = br_leg_b b \<and>
     br_media_generation d = br_media_generation b \<and> br_created_at_ms d = br_created_at_ms b \<and>
     bridge_rank (br_state b) \<le> bridge_rank (br_state d) \<and>
     (br_active_at_ms b \<noteq> None \<longrightarrow> br_active_at_ms d = br_active_at_ms b) \<and>
     (br_released_at_ms b \<noteq> None \<longrightarrow> br_released_at_ms d = br_released_at_ms b)"

fun attempt_rank :: "CalleeAttemptState \<Rightarrow> nat" where
  "attempt_rank CalleeAttemptState.Planned = 0"
| "attempt_rank CalleeAttemptState.Dialing = 1"
| "attempt_rank Ringing = 2"
| "attempt_rank Answered = 3"
| "attempt_rank Selected = 4"
| "attempt_rank Cancelled = 5"
| "attempt_rank Failed = 5"
| "attempt_rank CalleeAttemptState.Destroyed = 6"

definition attempt_advances :: "CalleeAttempt \<Rightarrow> CalleeAttempt \<Rightarrow> bool" where
  "attempt_advances a b \<longleftrightarrow>
     att_attempt_id b = att_attempt_id a \<and> att_session_id b = att_session_id a \<and>
     att_target b = att_target a \<and> attempt_rank (att_state a) \<le> attempt_rank (att_state b) \<and>
     (attempt_is_terminal (att_state a) \<longrightarrow>
        att_state b = att_state a \<or> att_state b = CalleeAttemptState.Destroyed)"

text \<open>The life cycle of a callee attempt is an instance of the shared contract.\<close>

interpretation attempt_lc: lifecycle valid_attempt_transition attempt_rank
  "\<lambda>s. s = CalleeAttemptState.Destroyed" 6
proof
  fix s t
  show "valid_attempt_transition s t \<Longrightarrow> attempt_rank s < attempt_rank t"
    by (cases s; cases t) simp_all
  show "attempt_rank s \<le> 6" by (cases s) simp_all
  show "s \<noteq> CalleeAttemptState.Destroyed \<Longrightarrow> \<exists>t. valid_attempt_transition s t"
    by (cases s) auto
qed simp

definition map_advances :: "('v \<Rightarrow> 'v \<Rightarrow> bool) \<Rightarrow> ('k::linorder, 'v) BTreeMap \<Rightarrow> ('k, 'v) BTreeMap \<Rightarrow> bool" where
  "map_advances R m n \<longleftrightarrow> (\<forall>k v. bt_get m k = Some v \<longrightarrow> (\<exists>w. bt_get n k = Some w \<and> R v w))"

lemma map_advances_refl: "(\<And>v. R v v) \<Longrightarrow> map_advances R m m"
  by (simp add: map_advances_def)

lemma map_advances_trans:
  "(\<And>u v w. R u v \<Longrightarrow> R v w \<Longrightarrow> R u w) \<Longrightarrow> map_advances R l m \<Longrightarrow> map_advances R m n \<Longrightarrow> map_advances R l n"
  unfolding map_advances_def by meson

lemma map_advances_insert:
  assumes "\<And>v. R v v" and "\<And>v. bt_get m k = Some v \<Longrightarrow> R v w"
  shows "map_advances R m (bt_insert k w m)"
  using assms by (simp add: map_advances_def bt.get_put)

lemma map_advances_map: "(\<And>k v. bt_get m k = Some v \<Longrightarrow> R v (f k v)) \<Longrightarrow> map_advances R m (bt_map f m)"
  by (simp add: map_advances_def bt_get_map)

lemma bridge_advances_refl [simp]: "bridge_advances b b"
  by (simp add: bridge_advances_def)

lemma bridge_advances_trans: "bridge_advances a b \<Longrightarrow> bridge_advances b d \<Longrightarrow> bridge_advances a d"
  unfolding bridge_advances_def by (metis order.trans)

lemma released_advances: "bridge_advances b (released t b)"
  by (cases "br_state b"; cases "br_released_at_ms b")
    (simp_all add: bridge_advances_def released_def)

lemma attempt_advances_refl [simp]: "attempt_advances a a"
  by (simp add: attempt_advances_def)

lemma attempt_advances_trans: "attempt_advances a b \<Longrightarrow> attempt_advances b d \<Longrightarrow> attempt_advances a d"
  unfolding attempt_advances_def
  by (metis attempt_is_terminal.simps(3) order.trans)

lemma attempt_advances_valid:
  "valid_attempt_transition (att_state a) s \<Longrightarrow>
     attempt_advances a (a\<lparr>att_state := s, att_failure_cause := h\<rparr>) \<and>
     attempt_advances a (a\<lparr>att_state := s\<rparr>)"
  by (cases "att_state a"; cases s) (simp_all add: attempt_advances_def)

lemma attempt_advances_cancel: "\<not> attempt_is_terminal (att_state a) \<Longrightarrow> attempt_advances a (a\<lparr>att_state := Cancelled\<rparr>)"
  by (cases "att_state a") (simp_all add: attempt_advances_def)

lemma promote_attempt_advances:
  "map_advances attempt_advances (agg_callee_attempts c) (agg_callee_attempts (snd (promote_attempt w t c)))"
proof (cases "\<exists>a. bt_get (agg_callee_attempts c) w = Some a \<and> att_state a = Answered")
  case True
  then obtain a where a: "bt_get (agg_callee_attempts c) w = Some a" "att_state a = Answered" by blast
  have "attempt_advances a (a\<lparr>att_state := Selected\<rparr>)"
    using a by (simp add: attempt_advances_def)
  with a show ?thesis
    by (auto simp: promote_attempt_succeeds Let_def map_advances_def cancel_others_get bt.get_put
        cancels_def attempt_advances_cancel)
next
  case False
  then show ?thesis by (simp add: promote_attempt_fails map_advances_refl)
qed

lemma promote_attempt_bridges [simp]: "agg_bridges (snd (promote_attempt w t c)) = agg_bridges c"
  by (cases "\<exists>a. bt_get (agg_callee_attempts c) w = Some a \<and> att_state a = Answered")
    (auto simp: promote_attempt_succeeds promote_attempt_fails Let_def)

lemma activate_bridge_advances:
  "map_advances bridge_advances (agg_bridges c) (agg_bridges (snd (activate_bridge b g t c)))"
  by (auto simp: activate_bridge_def put_bridge_def map_advances_refl bridge_advances_def
      intro!: map_advances_insert split: option.splits BridgeState.splits)

lemma call_step_bridges: "map_advances bridge_advances (agg_bridges c) (agg_bridges (call_step c op))"
proof (cases op)
  case (ActivateBridge b g t)
  then show ?thesis by (simp add: call_step_def activate_bridge_advances)
qed (auto simp: call_exec_defs release_all_bridges_def discard_simps select_winner_def replace_winner_def
      bt_contains_key_def map_advances_refl released_advances
      intro!: map_advances_insert map_advances_map split: option.splits)

lemma call_step_attempts:
  "map_advances attempt_advances (agg_callee_attempts c) (agg_callee_attempts (call_step c op))"
  by (cases op) (auto simp: call_exec_defs release_all_bridges_def discard_simps select_winner_def
      replace_winner_def bt_contains_key_def map_advances_refl promote_attempt_advances
      attempt_advances_valid intro!: map_advances_insert split: option.splits BridgeState.splits)

text \<open>C34: no run loses a bridge or an attempt or changes its identity; bridges go from planned through
  active to released with their media generation and first activation and release times fixed,
  attempts climb their life cycle, and a cancelled or failed attempt can only be destroyed.\<close>

theorem call_run_advances:
  "map_advances bridge_advances (agg_bridges c) (agg_bridges (foldl call_step c ops)) \<and>
   map_advances attempt_advances (agg_callee_attempts c) (agg_callee_attempts (foldl call_step c ops))"
proof (induction ops rule: rev_induct)
  case (snoc op ops)
  then show ?case
    using call_step_bridges [of "foldl call_step c ops" op] call_step_attempts [of "foldl call_step c ops" op]
      map_advances_trans [of bridge_advances] map_advances_trans [of attempt_advances]
      bridge_advances_trans attempt_advances_trans
    by (simp, blast)
qed (simp add: map_advances_refl)

end
