(* ===== verification/Decimal.thy ===== *)
theory Decimal
  imports Prelude
begin

text \<open>Decimal printing of unsigned integers (\<open>format!\<close> of a \<open>u64\<close>) and its inverse.\<close>

fun decimal :: "nat \<Rightarrow> string" where
  "decimal n = (if n < 10 then [char_of (48 + n)] else decimal (n div 10) @ [char_of (48 + n mod 10)])"

declare decimal.simps [simp del]

definition undecimal :: "string \<Rightarrow> nat" where
  "undecimal s = foldl (\<lambda>v c. 10 * v + (of_char c - 48)) 0 s"

lemma undecimal_decimal [simp]: "undecimal (decimal n) = n"
proof (induction n rule: decimal.induct)
  case (1 n)
  show ?case
  proof (cases "n < 10")
    case False
    then show ?thesis using 1 by (subst decimal.simps) (simp add: undecimal_def)
  qed (subst decimal.simps, simp add: undecimal_def)
qed

lemma decimal_inject [simp]: "decimal m = decimal n \<longleftrightarrow> m = n"
  by (metis undecimal_decimal)

definition is_digit :: "char \<Rightarrow> bool" where
  "is_digit c \<longleftrightarrow> of_char c \<in> {48..57 :: nat}"

lemma decimal_digits: "list_all is_digit (decimal n)"
proof (induction n rule: decimal.induct)
  case (1 n)
  have "is_digit (char_of (48 + k :: nat))" if "k < 10" for k
    using that by (simp add: is_digit_def)
  then show ?case using 1 by (subst decimal.simps) simp
qed

text \<open>Two texts that end in a number after a separator differ when the numbers do.\<close>

lemma separated_decimal_inject:
  assumes "\<not> is_digit sep" and "p @ sep # decimal m = q @ sep # decimal n"
  shows "m = n"
proof -
  have rev: "takeWhile is_digit (rev (p @ sep # decimal m)) = rev (decimal m)" for p m
  proof -
    have "\<And>x. x \<in> set (rev (decimal m)) \<Longrightarrow> is_digit x" using decimal_digits [of m] by (simp add: list_all_iff)
    then have "takeWhile is_digit (rev (decimal m) @ sep # rev p) = rev (decimal m) @ takeWhile is_digit (sep # rev p)"
      by (rule takeWhile_append2)
    then show ?thesis using assms(1) by simp
  qed
  have "rev (decimal m) = rev (decimal n)" using assms(2) rev by metis
  then show ?thesis by simp
qed

end
