(* ===== verification/Call_Config.thy ===== *)
theory Call_Config
  imports Call_Lifecycles Decimal
begin

text \<open>
  What a call is configured with when it starts: the routing targets and the configuration
  snapshot (\<open>crates/voipswitchd/src/runtime/call/config_snapshot.rs\<close>, the end of \<open>model.rs\<close>) and the
  timeouts with their environment overrides (\<open>timer.rs\<close>).

  A \<open>Duration\<close> is a number of milliseconds, a \<open>SocketAddr\<close> and a \<open>PathBuf\<close> their text, the process
  environment an argument.
\<close>

section \<open>Timeouts\<close>

definition DEFAULT_ROUTE_TIMEOUT_MS :: u64 where
  "DEFAULT_ROUTE_TIMEOUT_MS = 3000"

definition DEFAULT_DIAL_TIMEOUT_MS :: u64 where
  "DEFAULT_DIAL_TIMEOUT_MS = 5000"

definition DEFAULT_RING_TIMEOUT_MS :: u64 where
  "DEFAULT_RING_TIMEOUT_MS = 60000"

definition DEFAULT_CLEANUP_TIMEOUT_MS :: u64 where
  "DEFAULT_CLEANUP_TIMEOUT_MS = 5000"

definition DEFAULT_CALL_ROUTE_BUDGET_MS :: u64 where
  "DEFAULT_CALL_ROUTE_BUDGET_MS = 180000"

definition DEFAULT_MIN_ATTEMPT_WINDOW_MS :: u64 where
  "DEFAULT_MIN_ATTEMPT_WINDOW_MS = 1000"

record CallTimeouts =
  to_route :: nat
  to_dial :: nat
  to_ring :: nat
  to_cleanup :: nat
  to_route_budget :: nat
  to_min_attempt_window :: nat

text \<open>
  \<open>str::parse::<u64>\<close>: an optional plus sign, then decimal digits, at least one, whose value fits.
\<close>

definition parse_u64 :: "string \<Rightarrow> u64 option" where
  "parse_u64 s =
     (let digits = (case s of c # rest \<Rightarrow> if c = CHR ''+'' then rest else s | [] \<Rightarrow> []) in
      if digits \<noteq> [] \<and> list_all is_digit digits \<and> undecimal digits < 2 ^ 64
      then Some (of_nat (undecimal digits)) else None)"

definition timeout_from_env :: "(string \<Rightarrow> string option) \<Rightarrow> string \<Rightarrow> u64 \<Rightarrow> nat" where
  "timeout_from_env env name default_ms =
     (case env name of
        None \<Rightarrow> unat default_ms
      | Some value \<Rightarrow>
          (case parse_u64 value of
             Some milliseconds \<Rightarrow> if milliseconds > 0 then unat milliseconds else unat default_ms
           | None \<Rightarrow> unat default_ms))"

definition default_timeouts :: "(string \<Rightarrow> string option) \<Rightarrow> CallTimeouts" where
  "default_timeouts env =
     \<lparr> to_route = timeout_from_env env ''VOIPSWITCH_ROUTE_TIMEOUT_MS'' DEFAULT_ROUTE_TIMEOUT_MS,
       to_dial = timeout_from_env env ''VOIPSWITCH_DIAL_TIMEOUT_MS'' DEFAULT_DIAL_TIMEOUT_MS,
       to_ring = timeout_from_env env ''VOIPSWITCH_RING_TIMEOUT_MS'' DEFAULT_RING_TIMEOUT_MS,
       to_cleanup = timeout_from_env env ''VOIPSWITCH_CLEANUP_TIMEOUT_MS'' DEFAULT_CLEANUP_TIMEOUT_MS,
       to_route_budget = timeout_from_env env ''VOIPSWITCH_CALL_ROUTE_BUDGET_MS'' DEFAULT_CALL_ROUTE_BUDGET_MS,
       to_min_attempt_window =
         timeout_from_env env ''VOIPSWITCH_MIN_ATTEMPT_WINDOW_MS'' DEFAULT_MIN_ATTEMPT_WINDOW_MS \<rparr>"

section \<open>Targets and snapshots\<close>

record AiPolicyDecisionSnapshot =
  aps_policy_id :: u64
  aps_profile_id :: string

datatype OutboundTarget =
    EndpointTarget string string
  | OutboundTrunk string
  | OutboundAiAgent string

record OutboundCandidate =
  oc_outbound_target :: OutboundTarget
  oc_callee_route_target :: "string option"
  oc_outbound_trunk_ref :: "string option"
  oc_outbound_trunk_name :: "string option"
  oc_recording_requested :: bool
  oc_recording_policy_ids :: "u64 list"
  oc_ai_policy :: "AiPolicyDecisionSnapshot option"
  oc_ai_agent_revision :: "u64 option"
  oc_ai_fallback_target :: "string option"

record ResolvedRoute =
  rr_signaling_caller_number :: string
  rr_signaling_callee_number :: string
  rr_candidates :: "OutboundCandidate list"
  rr_outbound_route_id :: "string option"
  rr_outbound_route_name :: "string option"

record CallNumberSnapshot =
  ns_original_caller :: string
  ns_original_callee :: string
  ns_signaling_caller :: string
  ns_signaling_callee :: string

record RouteSnapshot =
  rs_route_id :: "string option"
  rs_route_name :: "string option"
  rs_trunk_ref :: "string option"
  rs_trunk_name :: "string option"

record RecordingDecisionSnapshot =
  rds_initial_requested :: bool
  rds_initial_policy_ids :: "u64 list"
  rds_recording_dir :: string

record MediaPolicySnapshot =
  mps_audio_only :: bool
  mps_max_audio_m_lines :: u8

record CallConfigSnapshot =
  ccs_runtime_config_version :: u64
  ccs_domain_config_version :: u64
  ccs_domain_id :: DomainId
  ccs_numbers :: CallNumberSnapshot
  ccs_inbound :: RouteSnapshot
  ccs_outbound :: RouteSnapshot
  ccs_candidates :: "OutboundCandidate list"
  ccs_timeouts :: CallTimeouts
  ccs_bridge_policy :: BridgePolicy
  ccs_recording :: RecordingDecisionSnapshot
  ccs_initial_ai_policy :: "AiPolicyDecisionSnapshot option"
  ccs_media_policy :: MediaPolicySnapshot

text \<open>The texts of the error values are the constructors of one type.\<close>

datatype runtime_error =
    SnapshotRequiresCandidate
  | UnsupportedMediaPolicy
  | CurrentBridgeMissing
  | CallErr CallError
  | NumberErr NumberError

definition config_snapshot_new ::
    "u64 \<Rightarrow> u64 \<Rightarrow> DomainId \<Rightarrow> CallNumberSnapshot \<Rightarrow> RouteSnapshot \<Rightarrow> RouteSnapshot \<Rightarrow> OutboundCandidate list \<Rightarrow>
     CallTimeouts \<Rightarrow> string \<Rightarrow> (CallConfigSnapshot, runtime_error) outcome" where
  "config_snapshot_new runtime_config_version domain_config_version domain_id numbers inbound outbound candidates
     timeouts recording_dir =
     (case candidates of
        [] \<Rightarrow> Err SnapshotRequiresCandidate
      | first # _ \<Rightarrow>
          Ok \<lparr> ccs_runtime_config_version = runtime_config_version,
               ccs_domain_config_version = domain_config_version, ccs_domain_id = domain_id,
               ccs_numbers = numbers, ccs_inbound = inbound, ccs_outbound = outbound,
               ccs_candidates = candidates, ccs_timeouts = timeouts,
               ccs_bridge_policy = BridgePolicy.SequentialHunt,
               ccs_recording = \<lparr> rds_initial_requested = oc_recording_requested first,
                                 rds_initial_policy_ids = oc_recording_policy_ids first,
                                 rds_recording_dir = recording_dir \<rparr>,
               ccs_initial_ai_policy = oc_ai_policy first,
               ccs_media_policy = \<lparr> mps_audio_only = True, mps_max_audio_m_lines = 1 \<rparr> \<rparr>)"

fun stable_ref :: "OutboundTarget \<Rightarrow> string" where
  "stable_ref (EndpointTarget endpoint_id _) = ''endpoint:'' @ endpoint_id"
| "stable_ref (OutboundTrunk trunk_ref) = trunk_ref"
| "stable_ref (OutboundAiAgent agent_id) = ''ai_agent:'' @ agent_id"

fun callee_target :: "OutboundTarget \<Rightarrow> (CalleeTarget, runtime_error) outcome" where
  "callee_target (EndpointTarget endpoint_id endpoint_number) =
     and_then (map_err NumberErr (parse_extension_number endpoint_number))
       (\<lambda>number. Ok (ExtensionTarget endpoint_id number))"
| "callee_target (OutboundTrunk trunk_ref) = Ok (TrunkTarget trunk_ref)"
| "callee_target (OutboundAiAgent agent_id) = Ok (AiAgentTarget agent_id)"

fun session_endpoint :: "OutboundTarget \<Rightarrow> (SessionEndpoint, runtime_error) outcome" where
  "session_endpoint (EndpointTarget endpoint_id endpoint_number) =
     and_then (map_err NumberErr (parse_extension_number endpoint_number))
       (\<lambda>number. Ok (Endpoint \<lparr> ep_endpoint_id = endpoint_id, ep_number = number \<rparr>))"
| "session_endpoint (OutboundTrunk trunk_ref) = Ok (TrunkEndpoint trunk_ref)"
| "session_endpoint (OutboundAiAgent agent_id) = Ok (AiAgentEndpoint agent_id)"

section \<open>Properties\<close>

lemma parse_u64_decimal [simp]: "parse_u64 (decimal (unat n)) = Some n"
proof -
  obtain c cs where d: "decimal (unat n) = c # cs"
    by (cases "decimal (unat n)") (metis append_is_Nil_conv decimal.simps list.simps(3))
  have digits: "list_all is_digit (decimal (unat n))" by (rule decimal_digits)
  then have "c \<noteq> CHR ''+''" by (auto simp: d is_digit_def)
  moreover have "unat n < 2 ^ 64" using unsigned_less [of n] by simp
  moreover have "undecimal (c # cs) = unat n" by (simp flip: d)
  ultimately show ?thesis using digits unfolding d parse_u64_def Let_def by simp
qed


lemma target_checks_agree: "is_ok (callee_target target) = is_ok (session_endpoint target)"
  by (cases target) (auto simp: is_ok_def split: outcome.splits)

end
