(* ===== verification/Call_Runtime.thy ===== *)
theory Call_Runtime
  imports Call_Config
begin

text \<open>
  The runtime state of one call, \<open>CallRuntime\<close> of \<open>crates/voipswitchd/src/runtime/call/model.rs\<close>: the call
  aggregate together with the caller's session, the attempt in progress and its bridge.  Each method
  is a stateful operation that keeps what it did before an early return, as \<open>?\<close> does.

  The handle on the media bridge (\<open>media\<close>), which these methods only initialise, is left out.
\<close>

section \<open>State\<close>

record CallRuntime =
  rt_config_snapshot :: CallConfigSnapshot
  rt_aggregate :: CallAggregate
  rt_caller :: Session
  rt_current_attempt_id :: CalleeAttemptId
  rt_current_callee_session_id :: SessionId
  rt_current_bridge_id :: "BridgeId option"
  rt_caller_adapter_leg_id :: AdapterCallLegId
  rt_caller_number :: string
  rt_callee_number :: string
  rt_callee_target :: string
  rt_ai_agent_call :: bool
  rt_ai_agent_revision :: "u64 option"
  rt_ai_fallback_target :: "string option"
  rt_inbound_route_id :: "string option"
  rt_inbound_route_name :: "string option"
  rt_inbound_trunk_ref :: "string option"
  rt_inbound_trunk_name :: "string option"
  rt_outbound_route_id :: "string option"
  rt_outbound_route_name :: "string option"
  rt_outbound_trunk_ref :: "string option"
  rt_outbound_trunk_name :: "string option"
  rt_recording_requested :: bool
  rt_ai_policy :: "AiPolicyDecisionSnapshot option"
  rt_recording_start_error :: "string option"
  rt_state :: CallState
  rt_last_status :: "u16 option"
  rt_hangup_cause :: "HangupCause option"
  rt_dial_timer_generation :: u64
  rt_ring_timer_generation :: u64
  rt_cleanup_timer_generation :: u64
  rt_late_answer_cleanup_sent :: bool
  rt_caller_terminated :: bool
  rt_callee_terminated :: bool

type_synonym runtime_op = "(CallRuntime, unit, runtime_error) stateful"

definition aggregate_op :: "'a call_op_result \<Rightarrow> (CallAggregate, unit, runtime_error) stateful" where
  "aggregate_op m c =
     (case m c of (Ok _, c') \<Rightarrow> (Ok (), c') | (Err e, c') \<Rightarrow> (Err (CallErr e), c') | (Panic, c') \<Rightarrow> (Panic, c'))"

definition on_aggregate :: "(CallAggregate, unit, runtime_error) stateful \<Rightarrow> runtime_op" where
  "on_aggregate = zoom_st rt_aggregate (\<lambda>c r. r\<lparr>rt_aggregate := c\<rparr>) id"

section \<open>Creation\<close>

definition callee_session ::
    "Session \<Rightarrow> SessionId \<Rightarrow> CalleeAttemptId \<Rightarrow> OutboundTarget \<Rightarrow> u64 \<Rightarrow> (Session, runtime_error) outcome" where
  "callee_session caller session_id attempt_id target created_at_ms =
     and_then (session_endpoint target) (\<lambda>endpoint.
       Ok \<lparr> ses_id = session_id, ses_domain_id = ses_domain_id caller, ses_call_id = ses_call_id caller,
            ses_role = Callee attempt_id, ses_direction = LegDirection.Outbound, ses_endpoint = endpoint,
            ses_state = LegState.Dialing, ses_sip = None, ses_peer = Some (ses_id caller), ses_media = None,
            ses_variables = [], ses_created_at_ms = created_at_ms, ses_answered_at_ms = None,
            ses_hangup_cause = None \<rparr>)"

definition attempt_id_of :: "u16 \<Rightarrow> CalleeAttemptId" where
  "attempt_id_of attempt_seq = ''attempt-'' @ decimal (unat attempt_seq)"

definition make_callee_session ::
    "SessionId \<Rightarrow> u16 \<Rightarrow> OutboundTarget \<Rightarrow> u64 \<Rightarrow> CallRuntime \<Rightarrow> (Session, runtime_error) outcome" where
  "make_callee_session session_id attempt_seq target created_at_ms r =
     callee_session (rt_caller r) session_id (attempt_id_of attempt_seq) target created_at_ms"

text \<open>The three calls on the aggregate that \<open>new\<close> and \<open>register_attempt\<close> make for an attempt.\<close>

definition enter_attempt ::
    "CalleeAttemptId \<Rightarrow> SessionId \<Rightarrow> OutboundTarget \<Rightarrow> Session \<Rightarrow> (CallAggregate, unit, runtime_error) stateful" where
  "enter_attempt attempt_id session_id target callee =
     seq_st (aggregate_op (add_leg callee))
       (bind_st (\<lambda>c. (callee_target target, c)) (\<lambda>callee_target.
         seq_st (aggregate_op (add_callee_attempt attempt_id session_id callee_target))
           (aggregate_op (update_attempt_state attempt_id CalleeAttemptState.Dialing None))))"

definition initial_caller :: "CallId \<Rightarrow> SessionId \<Rightarrow> SessionId \<Rightarrow> AdapterCallLegId \<Rightarrow> CallConfigSnapshot \<Rightarrow> u64 \<Rightarrow> Session" where
  "initial_caller call_id caller_session_id callee_session_id caller_adapter_leg_id config started_at_ms =
     \<lparr> ses_id = caller_session_id, ses_domain_id = ccs_domain_id config, ses_call_id = call_id,
       ses_role = Caller, ses_direction = LegDirection.Inbound,
       ses_endpoint = External (ns_original_caller (ccs_numbers config)), ses_state = LegState.Dialing,
       ses_sip = Some \<lparr> sip_adapter_call_leg_id = caller_adapter_leg_id, sip_generation = 1 \<rparr>,
       ses_peer = Some callee_session_id, ses_media = None, ses_variables = [],
       ses_created_at_ms = started_at_ms, ses_answered_at_ms = None, ses_hangup_cause = None \<rparr>"

fun is_ai_agent :: "OutboundTarget \<Rightarrow> bool" where
  "is_ai_agent (OutboundAiAgent _) = True"
| "is_ai_agent _ = False"

definition initial_runtime ::
    "CallConfigSnapshot \<Rightarrow> CallAggregate \<Rightarrow> Session \<Rightarrow> SessionId \<Rightarrow> AdapterCallLegId \<Rightarrow> OutboundCandidate \<Rightarrow> CallRuntime" where
  "initial_runtime config aggregate caller callee_session_id caller_adapter_leg_id candidate =
     \<lparr> rt_config_snapshot = config, rt_aggregate = aggregate, rt_caller = caller,
       rt_current_attempt_id = ''attempt-1'', rt_current_callee_session_id = callee_session_id,
       rt_current_bridge_id = None, rt_caller_adapter_leg_id = caller_adapter_leg_id,
       rt_caller_number = ns_original_caller (ccs_numbers config),
       rt_callee_number = ns_original_callee (ccs_numbers config),
       rt_callee_target = stable_ref (oc_outbound_target candidate),
       rt_ai_agent_call = is_ai_agent (oc_outbound_target candidate),
       rt_ai_agent_revision = oc_ai_agent_revision candidate,
       rt_ai_fallback_target = oc_ai_fallback_target candidate,
       rt_inbound_route_id = rs_route_id (ccs_inbound config),
       rt_inbound_route_name = rs_route_name (ccs_inbound config),
       rt_inbound_trunk_ref = rs_trunk_ref (ccs_inbound config),
       rt_inbound_trunk_name = rs_trunk_name (ccs_inbound config),
       rt_outbound_route_id = rs_route_id (ccs_outbound config),
       rt_outbound_route_name = rs_route_name (ccs_outbound config),
       rt_outbound_trunk_ref = oc_outbound_trunk_ref candidate,
       rt_outbound_trunk_name = oc_outbound_trunk_name candidate,
       rt_recording_requested = rds_initial_requested (ccs_recording config),
       rt_ai_policy = ccs_initial_ai_policy config, rt_recording_start_error = None,
       rt_state = Establishing, rt_last_status = None, rt_hangup_cause = None,
       rt_dial_timer_generation = 0, rt_ring_timer_generation = 0, rt_cleanup_timer_generation = 0,
       rt_late_answer_cleanup_sent = False, rt_caller_terminated = False, rt_callee_terminated = False \<rparr>"

definition call_runtime_new ::
    "CallId \<Rightarrow> SessionId \<Rightarrow> SessionId \<Rightarrow> AdapterCallLegId \<Rightarrow> OutboundCandidate \<Rightarrow> CallConfigSnapshot \<Rightarrow> u64 \<Rightarrow>
     (CallRuntime, runtime_error) outcome" where
  "call_runtime_new call_id caller_session_id callee_session_id caller_adapter_leg_id candidate config started_at_ms =
     (if \<not> mps_audio_only (ccs_media_policy config) \<or> mps_max_audio_m_lines (ccs_media_policy config) \<noteq> 1
      then Err UnsupportedMediaPolicy
      else
        let caller = initial_caller call_id caller_session_id callee_session_id caller_adapter_leg_id config started_at_ms in
        and_then (callee_session caller callee_session_id ''attempt-1'' (oc_outbound_target candidate) started_at_ms)
          (\<lambda>callee. and_then (map_err CallErr (aggregate_new caller (ccs_bridge_policy config) started_at_ms []))
          (\<lambda>aggregate.
             (case enter_attempt ''attempt-1'' callee_session_id (oc_outbound_target candidate) callee aggregate of
                (Ok _, aggregate') \<Rightarrow>
                  Ok (initial_runtime config aggregate' caller callee_session_id caller_adapter_leg_id candidate)
              | (Err e, _) \<Rightarrow> Err e
              | (Panic, _) \<Rightarrow> Panic))))"

definition original_ai_agent_id :: "CallRuntime \<Rightarrow> string option" where
  "original_ai_agent_id r =
     (case ccs_candidates (rt_config_snapshot r) of
        [] \<Rightarrow> None
      | candidate # _ \<Rightarrow> (case oc_outbound_target candidate of OutboundAiAgent agent_id \<Rightarrow> Some agent_id | _ \<Rightarrow> None))"

section \<open>Operations\<close>

definition is_terminating :: "CallRuntime \<Rightarrow> bool" where
  "is_terminating r = is_terminating_or_completed (rt_state r)"

definition is_answered :: "CallRuntime \<Rightarrow> bool" where
  "is_answered r \<longleftrightarrow> ses_answered_at_ms (rt_caller r) \<noteq> None"

definition hangup_cause_str :: "CallRuntime \<Rightarrow> string option" where
  "hangup_cause_str r = map_option as_cdr_string (rt_hangup_cause r)"

definition begin_terminating :: "HangupCause \<Rightarrow> CallRuntime \<Rightarrow> CallRuntime" where
  "begin_terminating cause r =
     r\<lparr>rt_state := (if is_terminating_or_completed (rt_state r) then rt_state r else Terminating),
       rt_hangup_cause := get_or_insert (rt_hangup_cause r) cause\<rparr>"

definition update_current_attempt :: "CalleeAttemptState \<Rightarrow> HangupCause option \<Rightarrow> runtime_op" where
  "update_current_attempt state cause r =
     on_aggregate (aggregate_op (update_attempt_state (rt_current_attempt_id r) state cause)) r"

definition select_current_attempt :: "u64 \<Rightarrow> runtime_op" where
  "select_current_attempt answered_at_ms r =
     on_aggregate (aggregate_op (select_winner (rt_current_attempt_id r) answered_at_ms)) r"

text \<open>
  The tail that \<open>mark_answered\<close> and \<open>mark_transfer_answered\<close> share: both legs of the current attempt
  become bridged and a bridge named after the attempt is planned between them.
\<close>

definition bridge_id_of :: "CalleeAttemptId \<Rightarrow> BridgeId" where
  "bridge_id_of attempt_id = ''bridge-'' @ attempt_id"

definition plan_current_bridge :: "u64 \<Rightarrow> u64 \<Rightarrow> runtime_op" where
  "plan_current_bridge answered_at_ms media_generation r =
     (let bridge_id = bridge_id_of (rt_current_attempt_id r) in
      seq_st (on_aggregate (aggregate_op (add_bridge bridge_id (ses_id (rt_caller r))
                (rt_current_callee_session_id r) media_generation answered_at_ms)))
        (modify_st (\<lambda>r. r\<lparr>rt_current_bridge_id := Some bridge_id\<rparr>)) r)"

definition bridge_current :: "u64 \<Rightarrow> u64 \<Rightarrow> runtime_op" where
  "bridge_current answered_at_ms media_generation =
     seq_st (modify_st (\<lambda>r. r\<lparr>rt_caller := (rt_caller r)\<lparr>ses_state := Bridged\<rparr>\<rparr>))
       (seq_st (\<lambda>r. on_aggregate (aggregate_op (update_leg_state (ses_id (rt_caller r)) Bridged)) r)
         (seq_st (\<lambda>r. on_aggregate (aggregate_op (update_leg_state (rt_current_callee_session_id r) Bridged)) r)
           (plan_current_bridge answered_at_ms media_generation)))"

definition mark_answered :: "u64 \<Rightarrow> u64 \<Rightarrow> runtime_op" where
  "mark_answered answered_at_ms media_generation =
     seq_st (update_current_attempt Answered None)
       (seq_st (select_current_attempt answered_at_ms)
         (seq_st (modify_st (\<lambda>r. r\<lparr>rt_caller := session_mark_answered answered_at_ms (rt_caller r)\<rparr>))
           (bridge_current answered_at_ms media_generation)))"

definition activate_current_bridge :: "u64 \<Rightarrow> u64 \<Rightarrow> runtime_op" where
  "activate_current_bridge media_generation active_at_ms r =
     (case rt_current_bridge_id r of
        None \<Rightarrow> (Err CurrentBridgeMissing, r)
      | Some bridge_id \<Rightarrow>
          on_aggregate (aggregate_op (activate_bridge bridge_id media_generation active_at_ms)) r)"

definition leave :: "u64 \<Rightarrow> SessionId \<Rightarrow> CallAggregate \<Rightarrow> CallAggregate" where
  "leave left_at_ms session_id c = snd (mark_leg_left session_id left_at_ms c)"

definition release_topology :: "u64 \<Rightarrow> CallRuntime \<Rightarrow> CallRuntime" where
  "release_topology released_at_ms r =
     (let c1 = release_all_bridges released_at_ms (rt_aggregate r);
          c2 = leave released_at_ms (ses_id (rt_caller r)) c1
      in r\<lparr>rt_aggregate := fold (leave released_at_ms)
             (map att_session_id (snap_callee_attempts (snapshot c2))) c2\<rparr>)"

definition register_attempt :: "u16 \<Rightarrow> SessionId \<Rightarrow> OutboundTarget \<Rightarrow> u64 \<Rightarrow> runtime_op" where
  "register_attempt attempt_seq session_id target created_at_ms r =
     bind_st (\<lambda>r. (callee_session (rt_caller r) session_id (attempt_id_of attempt_seq) target created_at_ms, r))
       (\<lambda>callee. seq_st (on_aggregate (enter_attempt (attempt_id_of attempt_seq) session_id target callee))
         (modify_st (\<lambda>r. r\<lparr>rt_current_attempt_id := attempt_id_of attempt_seq,
                           rt_current_callee_session_id := session_id,
                           rt_caller := (rt_caller r)\<lparr>ses_peer := Some session_id\<rparr>\<rparr>))) r"

text \<open>The session of the attempt that has won so far.\<close>

definition winner_session :: "CallSnapshot \<Rightarrow> SessionId option" where
  "winner_session previous =
     (case snap_winner previous of
        None \<Rightarrow> None
      | Some winner \<Rightarrow>
          map_option att_session_id (find (\<lambda>a. att_attempt_id a = winner) (snap_callee_attempts previous)))"

definition mark_transfer_answered :: "u64 \<Rightarrow> u64 \<Rightarrow> runtime_op" where
  "mark_transfer_answered answered_at_ms media_generation =
     seq_st (\<lambda>r. case winner_session (snapshot (rt_aggregate r)) of
                   Some session_id \<Rightarrow> on_aggregate (aggregate_op (mark_leg_left session_id answered_at_ms)) r
                 | None \<Rightarrow> (Ok (), r))
       (seq_st (update_current_attempt Answered None)
         (seq_st (\<lambda>r. on_aggregate (aggregate_op (replace_winner (rt_current_attempt_id r) answered_at_ms)) r)
           (seq_st (modify_st (\<lambda>r. r\<lparr>rt_aggregate := release_all_bridges answered_at_ms (rt_aggregate r)\<rparr>))
             (bridge_current answered_at_ms media_generation))))"

end
