(* ===== verification/Runtime_Properties.thy ===== *)
theory Runtime_Properties
  imports Call_Runtime
begin

text \<open>
  The runtime of a call keeps its attempt, its bridge and its caller in step with the aggregate, over
  every sequence of its operations; what answering, transferring and releasing a call achieve.
\<close>

section \<open>Frames of the aggregate's operations\<close>

definition agg_frame :: "CallAggregate \<Rightarrow> CallAggregate \<Rightarrow> bool" where
  "agg_frame c d \<longleftrightarrow>
     (call_wf c \<longrightarrow> call_wf d) \<and> agg_caller_leg d = agg_caller_leg c \<and> agg_id d = agg_id c \<and>
     agg_domain_id d = agg_domain_id c \<and>
     map_advances attempt_advances (agg_callee_attempts c) (agg_callee_attempts d) \<and>
     map_advances bridge_advances (agg_bridges c) (agg_bridges d)"

lemma agg_frame_refl [simp]: "agg_frame c c"
  by (simp add: agg_frame_def map_advances_refl)

lemma agg_frame_trans: "agg_frame c d \<Longrightarrow> agg_frame d e \<Longrightarrow> agg_frame c e"
  unfolding agg_frame_def
  using map_advances_trans [of attempt_advances] map_advances_trans [of bridge_advances]
    attempt_advances_trans bridge_advances_trans by (metis (no_types, lifting))

lemma promote_attempt_identity [simp]:
  "agg_caller_leg (snd (promote_attempt w t c)) = agg_caller_leg c"
  "agg_id (snd (promote_attempt w t c)) = agg_id c"
  "agg_domain_id (snd (promote_attempt w t c)) = agg_domain_id c"
  by (cases "\<exists>a. bt_get (agg_callee_attempts c) w = Some a \<and> att_state a = Answered";
      auto simp: promote_attempt_succeeds promote_attempt_fails Let_def)+

lemma call_step_identity:
  "agg_caller_leg (call_step c op) = agg_caller_leg c \<and> agg_id (call_step c op) = agg_id c \<and>
   agg_domain_id (call_step c op) = agg_domain_id c"
  by (cases op) (auto simp: call_exec_defs release_all_bridges_def discard_simps select_winner_def
      replace_winner_def split: option.splits BridgeState.splits)

lemma call_step_frame: "agg_frame c (call_step c op)"
  using call_step_wf call_step_identity call_step_bridges call_step_attempts by (simp add: agg_frame_def)

lemma op_frames [simp]:
  "agg_frame c (snd (add_leg s c))"
  "agg_frame c (snd (add_callee_attempt i k x c))"
  "agg_frame c (snd (update_attempt_state i st h c))"
  "agg_frame c (snd (select_winner i t c))"
  "agg_frame c (snd (replace_winner i t c))"
  "agg_frame c (snd (update_leg_state k ls c))"
  "agg_frame c (snd (add_bridge b k k' g t c))"
  "agg_frame c (snd (activate_bridge b g t c))"
  "agg_frame c (snd (mark_leg_left k t c))"
  "agg_frame c (release_all_bridges t c)"
  using call_step_frame [of c "AddLeg s"] call_step_frame [of c "AddCalleeAttempt i k x"]
    call_step_frame [of c "UpdateAttemptState i st h"] call_step_frame [of c "SelectWinner i t"]
    call_step_frame [of c "ReplaceWinner i t"] call_step_frame [of c "UpdateLegState k ls"]
    call_step_frame [of c "AddBridge b k k' g t"] call_step_frame [of c "ActivateBridge b g t"]
    call_step_frame [of c "MarkLegLeft k t"] call_step_frame [of c "ReleaseAllBridges t"]
  by (simp_all add: call_step_def discard_simps)

lemma op_no_panic [simp]:
  "fst (add_leg s c) \<noteq> Panic"
  "fst (add_callee_attempt i k x c) \<noteq> Panic"
  "fst (update_attempt_state i st h c) \<noteq> Panic"
  "fst (update_leg_state k ls c) \<noteq> Panic"
  "fst (add_bridge b k k' g t c) \<noteq> Panic"
  "fst (activate_bridge b g t c) \<noteq> Panic"
  "fst (mark_leg_left k t c) \<noteq> Panic"
  by (auto simp: add_leg_def add_callee_attempt_def update_attempt_state_def update_leg_state_def add_bridge_def
      activate_bridge_def mark_leg_left_def split: option.splits BridgeState.splits)

lemma winner_no_panic:
  "call_wf c \<Longrightarrow> fst (select_winner i t c) \<noteq> Panic"
  "call_wf c \<Longrightarrow> fst (replace_winner i t c) \<noteq> Panic"
  using call_exec_no_panic [of c "SelectWinner i t"] call_exec_no_panic [of c "ReplaceWinner i t"]
  by (simp_all add: discard_simps)

lemma aggregate_op_simps [simp]:
  "snd (aggregate_op m c) = snd (m c)"
  "fst (aggregate_op m c) = Panic \<longleftrightarrow> fst (m c) = Panic"
  "fst (aggregate_op m c) = Ok u \<longleftrightarrow> is_ok (fst (m c))"
  by (auto simp: aggregate_op_def split: prod.splits outcome.splits)

section \<open>The invariant\<close>

definition runtime_wf :: "CallRuntime \<Rightarrow> bool" where
  "runtime_wf r \<longleftrightarrow>
     call_wf (rt_aggregate r) \<and> agg_caller_leg (rt_aggregate r) = ses_id (rt_caller r) \<and>
     agg_id (rt_aggregate r) = ses_call_id (rt_caller r) \<and>
     agg_domain_id (rt_aggregate r) = ses_domain_id (rt_caller r) \<and>
     (\<exists>a. bt_get (agg_callee_attempts (rt_aggregate r)) (rt_current_attempt_id r) = Some a \<and>
          att_session_id a = rt_current_callee_session_id r) \<and>
     rt_current_callee_session_id r \<noteq> ses_id (rt_caller r) \<and>
     (\<forall>b. rt_current_bridge_id r = Some b \<longrightarrow> bt_contains_key (agg_bridges (rt_aggregate r)) b)"

lemma map_advances_contains:
  "map_advances R m n \<Longrightarrow> bt_contains_key m k \<Longrightarrow> bt_contains_key n k"
  by (fastforce simp: map_advances_def bt_contains_key_def)

lemma runtime_wf_frame:
  assumes "runtime_wf r" and "agg_frame (rt_aggregate r) c"
  shows "runtime_wf (r\<lparr>rt_aggregate := c\<rparr>)"
proof -
  obtain a where a: "bt_get (agg_callee_attempts (rt_aggregate r)) (rt_current_attempt_id r) = Some a"
    "att_session_id a = rt_current_callee_session_id r"
    using assms(1) by (auto simp: runtime_wf_def)
  moreover have "map_advances attempt_advances (agg_callee_attempts (rt_aggregate r)) (agg_callee_attempts c)"
    using assms(2) by (simp add: agg_frame_def)
  ultimately obtain a' where "bt_get (agg_callee_attempts c) (rt_current_attempt_id r) = Some a'" "attempt_advances a a'"
    unfolding map_advances_def by blast
  then show ?thesis
    using assms a map_advances_contains by (auto simp: runtime_wf_def agg_frame_def attempt_advances_def)
qed

text \<open>An operation that ends in a well-formed runtime, with a result that is no panic.\<close>

definition runtime_safe :: "(unit, runtime_error) outcome \<times> CallRuntime \<Rightarrow> bool" where
  "runtime_safe p \<longleftrightarrow> fst p \<noteq> Panic \<and> runtime_wf (snd p)"

lemma seq_safe:
  assumes "runtime_safe (m r)" and "\<And>r'. m r = (Ok (), r') \<Longrightarrow> runtime_wf r' \<Longrightarrow> runtime_safe (n r')"
  shows "runtime_safe (seq_st m n r)"
  using assms by (cases "m r") (auto simp: runtime_safe_def seq_st_def bind_st_def split: outcome.splits)

lemma on_aggregate_simps [simp]:
  "snd (on_aggregate m r) = r\<lparr>rt_aggregate := snd (m (rt_aggregate r))\<rparr>"
  "fst (on_aggregate m r) = fst (m (rt_aggregate r))"
proof -
  have "map_err id x = x" for x :: "('a, 'b) outcome" by (cases x) auto
  then show "snd (on_aggregate m r) = r\<lparr>rt_aggregate := snd (m (rt_aggregate r))\<rparr>"
    "fst (on_aggregate m r) = fst (m (rt_aggregate r))"
    by (auto simp: on_aggregate_def zoom_st_def split: prod.splits)
qed

lemma on_aggregate_safe:
  assumes "runtime_wf r" and "agg_frame (rt_aggregate r) (snd (m (rt_aggregate r)))" and "fst (m (rt_aggregate r)) \<noteq> Panic"
  shows "runtime_safe (on_aggregate m r)"
  using assms by (simp add: runtime_safe_def runtime_wf_frame)

lemma runtime_wf_aggregate: "runtime_wf r \<Longrightarrow> call_wf (rt_aggregate r)"
  by (simp add: runtime_wf_def)

lemma modify_safe: "runtime_wf (f r) \<Longrightarrow> runtime_safe (modify_st f r)"
  by (simp add: runtime_safe_def)

lemma caller_update_wf:
  assumes "runtime_wf r" and "ses_id s = ses_id (rt_caller r)" "ses_call_id s = ses_call_id (rt_caller r)"
    "ses_domain_id s = ses_domain_id (rt_caller r)"
  shows "runtime_wf (r\<lparr>rt_caller := s\<rparr>)"
  using assms by (simp add: runtime_wf_def)

lemma add_bridge_contains:
  "add_bridge b x y g t c = (Ok (), c') \<Longrightarrow> bt_contains_key (agg_bridges c') b"
  by (auto simp: add_bridge_def put_bridge_def bt_contains_key_insert split: if_splits)

lemma plan_current_bridge_safe:
  assumes "runtime_wf r"
  shows "runtime_safe (plan_current_bridge t g r)"
proof -
  define b where "b = bridge_id_of (rt_current_attempt_id r)"
  let ?op = "add_bridge b (ses_id (rt_caller r)) (rt_current_callee_session_id r) g t"
  obtain res c where op: "?op (rt_aggregate r) = (res, c)" by (cases "?op (rt_aggregate r)")
  have c: "agg_frame (rt_aggregate r) c" "res \<noteq> Panic"
    using op_frames(7) [of "rt_aggregate r" b "ses_id (rt_caller r)" "rt_current_callee_session_id r" g t]
      op_no_panic(5) [of b "ses_id (rt_caller r)" "rt_current_callee_session_id r" g t "rt_aggregate r"]
    by (simp_all add: op)
  have "runtime_wf (r\<lparr>rt_aggregate := c, rt_current_bridge_id := Some b\<rparr>)" if "res = Ok ()"
    using runtime_wf_frame [OF assms c(1)] add_bridge_contains [OF op [unfolded that]] by (simp add: runtime_wf_def)
  then show ?thesis
    using runtime_wf_frame [OF assms c(1)] c(2)
    by (auto simp: plan_current_bridge_def Let_def b_def [symmetric] runtime_safe_def seq_st_def bind_st_def on_aggregate_def
        zoom_st_def aggregate_op_def op split: outcome.splits)
qed

lemma bridge_current_safe: "runtime_wf r \<Longrightarrow> runtime_safe (bridge_current t g r)"
  unfolding bridge_current_def
  by (intro seq_safe modify_safe on_aggregate_safe caller_update_wf plan_current_bridge_safe) simp_all

lemma update_current_attempt_safe: "runtime_wf r \<Longrightarrow> runtime_safe (update_current_attempt st h r)"
  by (simp add: update_current_attempt_def on_aggregate_safe)

lemma select_current_attempt_safe: "runtime_wf r \<Longrightarrow> runtime_safe (select_current_attempt t r)"
  by (simp add: select_current_attempt_def on_aggregate_safe winner_no_panic runtime_wf_aggregate)

lemma mark_answered_safe: "runtime_wf r \<Longrightarrow> runtime_safe (mark_answered t g r)"
  unfolding mark_answered_def
  by (intro seq_safe update_current_attempt_safe select_current_attempt_safe modify_safe caller_update_wf
      bridge_current_safe) (simp_all add: session_mark_answered_def)

lemma activate_current_bridge_safe: "runtime_wf r \<Longrightarrow> runtime_safe (activate_current_bridge g t r)"
  by (auto simp: activate_current_bridge_def runtime_safe_def on_aggregate_safe runtime_wf_frame split: option.splits)

lemma mark_transfer_answered_safe: "runtime_wf r \<Longrightarrow> runtime_safe (mark_transfer_answered t g r)"
  unfolding mark_transfer_answered_def
proof (intro seq_safe update_current_attempt_safe modify_safe bridge_current_safe; (assumption | simp add: runtime_wf_frame)?)
  show "runtime_safe (case winner_session (snapshot (rt_aggregate r)) of
      Some session_id \<Rightarrow> on_aggregate (aggregate_op (mark_leg_left session_id t)) r | None \<Rightarrow> (Ok (), r))"
    if "runtime_wf r"
    using that on_aggregate_safe by (auto simp: runtime_safe_def runtime_wf_frame split: option.splits)
next
  fix r' assume "runtime_wf r'"
  then show "runtime_safe (on_aggregate (aggregate_op (replace_winner (rt_current_attempt_id r') t)) r')"
    by (simp add: on_aggregate_safe winner_no_panic runtime_wf_aggregate)
qed

lemma leave_fold_frame: "agg_frame c (fold (leave t) ss c)"
proof (induction ss arbitrary: c)
  case (Cons s ss)
  have "agg_frame c (leave t s c)" by (simp add: leave_def)
  with Cons [of "leave t s c"] show ?case by (auto intro: agg_frame_trans)
qed simp

lemma release_topology_wf: "runtime_wf r \<Longrightarrow> runtime_wf (release_topology t r)"
  unfolding release_topology_def Let_def
  using agg_frame_trans [OF op_frames(10) leave_fold_frame [of _ t "s # ss" for s ss]]
  by (intro runtime_wf_frame) simp_all

lemma begin_terminating_wf: "runtime_wf (begin_terminating cause r) = runtime_wf r"
  by (simp add: begin_terminating_def runtime_wf_def)

text \<open>Entering an attempt.\<close>

lemma callee_session_Ok:
  assumes "callee_session caller k i target t = Ok callee"
  shows "ses_id callee = k" "ses_role callee = Callee i" "ses_domain_id callee = ses_domain_id caller"
    "ses_call_id callee = ses_call_id caller" "is_ok (callee_target target)" "ses_state callee = LegState.Dialing"
    "ses_created_at_ms callee = t"
  using assms target_checks_agree [of target] by (auto simp: callee_session_def)

definition framed_op :: "(CallAggregate, 'a, 'e) stateful \<Rightarrow> bool" where
  "framed_op m \<longleftrightarrow> (\<forall>c. agg_frame c (snd (m c)))"

lemma framed_bind:
  assumes "framed_op m" and "\<And>x. framed_op (f x)"
  shows "framed_op (bind_st m f)"
  unfolding framed_op_def
proof
  fix c
  obtain res d where m: "m c = (res, d)" by (cases "m c")
  have d: "agg_frame c d" using assms(1) m by (metis framed_op_def snd_conv)
  show "agg_frame c (snd (bind_st m f c))"
  proof (cases res)
    case (Ok x)
    have "agg_frame d (snd (f x d))" using assms(2) by (simp add: framed_op_def)
    with d show ?thesis by (simp add: bind_st_def m Ok agg_frame_trans)
  qed (simp_all add: bind_st_def m d)
qed

lemma framed_seq: "framed_op m \<Longrightarrow> framed_op n \<Longrightarrow> framed_op (seq_st m n)"
  by (simp add: seq_st_def framed_bind)

lemma enter_attempt_frame: "agg_frame c (snd (enter_attempt i k target callee c))"
proof -
  have "framed_op (enter_attempt i k target callee)"
    unfolding enter_attempt_def by (intro framed_seq framed_bind) (simp_all add: framed_op_def)
  then show ?thesis by (simp add: framed_op_def)
qed

text \<open>What entering an attempt does, branch by branch.\<close>

definition dialing_attempt :: "CalleeAttemptId \<Rightarrow> SessionId \<Rightarrow> CalleeTarget \<Rightarrow> CalleeAttempt" where
  "dialing_attempt i k x =
     \<lparr> att_attempt_id = i, att_session_id = k, att_target = x, att_state = CalleeAttemptState.Dialing,
       att_failure_cause = None \<rparr>"

lemma enter_attempt_eq:
  assumes "callee_session caller k i target t = Ok callee" and "ses_domain_id caller = agg_domain_id c"
    and "ses_call_id caller = agg_id c" and "call_wf c" and "callee_target target = Ok x"
  shows "enter_attempt i k target callee c =
    (let c1 = put_leg k (leg_from_session callee) c in
     if bt_contains_key (agg_legs c) k then (Err (CallErr (DuplicateSession k)), c)
     else if bt_contains_key (agg_callee_attempts c) i then (Err (CallErr (DuplicateAttempt i)), c1)
     else if agg_bridge_policy c = SingleCallee \<and> agg_callee_attempts c \<noteq> [] then
       (Err (CallErr SingleCalleeLimitExceeded), c1)
     else (Ok (), put_attempt i (dialing_attempt i k x) c1))"
proof -
  note callee = callee_session_Ok [OF assms(1)]
  have "bt_wf (agg_callee_attempts c)" using assms(4) by (simp add: call_wf_def maps_wf_def)
  then show ?thesis
    using assms(2-5) callee
    by (simp add: enter_attempt_def seq_st_def bind_st_def aggregate_op_def add_leg_def add_callee_attempt_def
        update_attempt_state_def put_leg_def put_attempt_def bt.get_put leg_from_session_def dialing_attempt_def
        bt.put_put_same Let_def)
qed

lemma register_attempt_safe:
  assumes wf: "runtime_wf r"
  shows "runtime_safe (register_attempt seq k target t r)"
proof (cases "callee_session (rt_caller r) k (attempt_id_of seq) target t")
  case (Ok callee)
  let ?i = "attempt_id_of seq"
  let ?c = "rt_aggregate r"
  obtain x where x: "callee_target target = Ok x" using callee_session_Ok(5) [OF Ok] by (auto elim: is_okE)
  have call: "call_wf ?c" "ses_domain_id (rt_caller r) = agg_domain_id ?c" "ses_call_id (rt_caller r) = agg_id ?c"
    using wf by (simp_all add: runtime_wf_def)
  note eq = enter_attempt_eq [OF Ok call(2,3,1) x]
  obtain res c' where m: "enter_attempt ?i k target callee ?c = (res, c')"
    by (cases "enter_attempt ?i k target callee ?c")
  have frame: "agg_frame ?c c'" using enter_attempt_frame [of ?c ?i k target callee] m by simp
  note wf' = runtime_wf_frame [OF wf frame]
  show ?thesis
  proof (cases res)
    case [simp]: (Ok u)
    have c': "bt_get (agg_callee_attempts c') ?i = Some (dialing_attempt ?i k x)" "\<not> bt_contains_key (agg_legs ?c) k"
      using eq m by (auto simp: Let_def put_attempt_def bt.get_put split: if_splits)
    have "bt_contains_key (agg_legs ?c) (ses_id (rt_caller r))" using wf call(1) by (simp add: runtime_wf_def) (metis call_wf_def)
    then have "k \<noteq> ses_id (rt_caller r)" using c'(2) by auto
    then show ?thesis
      using wf' c'(1) m \<open>callee_session _ _ _ _ _ = _\<close>
      by (simp add: register_attempt_def seq_st_def bind_st_def on_aggregate_def zoom_st_def runtime_safe_def
          runtime_wf_def dialing_attempt_def)
  next
    case Panic
    then show ?thesis using eq m by (auto simp: Let_def split: if_splits)
  qed (use wf' m \<open>callee_session _ _ _ _ _ = _\<close> in \<open>simp_all add: register_attempt_def seq_st_def bind_st_def
        on_aggregate_def zoom_st_def runtime_safe_def\<close>)
next
  case Panic
  have "session_endpoint target \<noteq> Panic"
    by (cases target) (auto simp: parse_extension_number_def split: if_splits option.splits)
  then show ?thesis using Panic by (auto simp: callee_session_def)
qed (simp add: register_attempt_def bind_st_def runtime_safe_def wf)

section \<open>Runs\<close>

datatype runtime_input =
    BeginTerminating HangupCause
  | UpdateCurrentAttempt CalleeAttemptState "HangupCause option"
  | SelectCurrentAttempt u64
  | MarkAnswered u64 u64
  | ActivateCurrentBridge u64 u64
  | ReleaseTopology u64
  | RegisterAttempt u16 SessionId OutboundTarget u64
  | MarkTransferAnswered u64 u64

fun runtime_exec :: "runtime_input \<Rightarrow> runtime_op" where
  "runtime_exec (BeginTerminating cause) = modify_st (begin_terminating cause)"
| "runtime_exec (UpdateCurrentAttempt st h) = update_current_attempt st h"
| "runtime_exec (SelectCurrentAttempt t) = select_current_attempt t"
| "runtime_exec (MarkAnswered t g) = mark_answered t g"
| "runtime_exec (ActivateCurrentBridge g t) = activate_current_bridge g t"
| "runtime_exec (ReleaseTopology t) = modify_st (release_topology t)"
| "runtime_exec (RegisterAttempt n k target t) = register_attempt n k target t"
| "runtime_exec (MarkTransferAnswered t g) = mark_transfer_answered t g"

definition runtime_step :: "CallRuntime \<Rightarrow> runtime_input \<Rightarrow> CallRuntime" where
  "runtime_step r e = snd (runtime_exec e r)"

lemma runtime_exec_safe: "runtime_wf r \<Longrightarrow> runtime_safe (runtime_exec e r)"
  by (cases e) (simp_all add: mark_answered_safe update_current_attempt_safe select_current_attempt_safe
      activate_current_bridge_safe register_attempt_safe mark_transfer_answered_safe modify_safe
      release_topology_wf begin_terminating_wf del: modify_st_eq)

interpretation runtime_machine: invariant_machine runtime_step runtime_wf
  using runtime_exec_safe by unfold_locales (simp add: runtime_step_def runtime_safe_def)

section \<open>Creation\<close>

lemma call_runtime_new_cases:
  assumes "call_runtime_new call_id caller_id callee_id leg_id candidate config t = Ok r"
  shows "caller_id \<noteq> callee_id" "runtime_wf r"
proof -
  let ?caller = "initial_caller call_id caller_id callee_id leg_id config t"
  let ?target = "oc_outbound_target candidate"
  obtain callee c0 where callee: "callee_session ?caller callee_id ''attempt-1'' ?target t = Ok callee"
    and c0: "aggregate_new ?caller (ccs_bridge_policy config) t [] = Ok c0"
    and run: "(case enter_attempt ''attempt-1'' callee_id ?target callee c0 of
        (Ok _, c1) \<Rightarrow> Ok (initial_runtime config c1 ?caller callee_id leg_id candidate)
      | (Err e, _) \<Rightarrow> Err e | (Panic, _) \<Rightarrow> Panic) = Ok r"
    using assms by (auto simp: call_runtime_new_def Let_def split: if_splits)
  obtain c1 where c1: "enter_attempt ''attempt-1'' callee_id ?target callee c0 = (Ok (), c1)"
    and r: "r = initial_runtime config c1 ?caller callee_id leg_id candidate"
    using run by (cases "enter_attempt ''attempt-1'' callee_id ?target callee c0") (auto split: outcome.splits)
  have ids: "ses_domain_id ?caller = agg_domain_id c0" "ses_call_id ?caller = agg_id c0" "call_wf c0"
    "agg_legs c0 = bt_insert caller_id (leg_from_session ?caller) []" "agg_caller_leg c0 = caller_id"
    using c0 aggregate_new_wf [OF c0] by (auto simp: aggregate_new_def initial_caller_def split: if_splits)
  obtain x where x: "callee_target ?target = Ok x" using callee_session_Ok(5) [OF callee] by (auto elim: is_okE)
  have e: "\<not> bt_contains_key (agg_legs c0) callee_id"
    "bt_get (agg_callee_attempts c1) ''attempt-1'' = Some (dialing_attempt ''attempt-1'' callee_id x)"
    using c1 enter_attempt_eq [OF callee ids(1,2,3) x]
    by (auto simp: Let_def put_attempt_def bt.get_put split: if_splits)
  show ne: "caller_id \<noteq> callee_id" using e(1) by (auto simp: ids(4) bt_contains_key_def bt_get_def)
  have "agg_frame c0 c1" using enter_attempt_frame [of c0 "''attempt-1''" callee_id ?target callee] c1 by simp
  then show "runtime_wf r"
    using ids ne e(2) by (simp add: runtime_wf_def r initial_runtime_def agg_frame_def initial_caller_def dialing_attempt_def)
qed

text \<open>A call can be created exactly when the media policy is one audio line, the two sessions have
  different identifiers and the target is addressable (a trunk, an agent, or an endpoint with a valid
  number); then the call is well formed, establishing, with attempt 1 dialing for the given session.\<close>

theorem call_runtime_new_spec:
  "(is_ok (call_runtime_new call_id caller_id callee_id leg_id candidate config t) \<longleftrightarrow>
      mps_audio_only (ccs_media_policy config) \<and> mps_max_audio_m_lines (ccs_media_policy config) = 1 \<and>
      caller_id \<noteq> callee_id \<and> is_ok (session_endpoint (oc_outbound_target candidate))) \<and>
   (\<forall>r. call_runtime_new call_id caller_id callee_id leg_id candidate config t = Ok r \<longrightarrow>
      runtime_wf r \<and> rt_state r = Establishing \<and> \<not> is_answered r \<and> agg_winner (rt_aggregate r) = None \<and>
      rt_current_bridge_id r = None \<and>
      (\<exists>x. callee_target (oc_outbound_target candidate) = Ok x \<and>
         agg_callee_attempts (rt_aggregate r) = [(''attempt-1'', dialing_attempt ''attempt-1'' callee_id x)]))"
proof -
  let ?caller = "initial_caller call_id caller_id callee_id leg_id config t"
  let ?target = "oc_outbound_target candidate"
  let ?new = "call_runtime_new call_id caller_id callee_id leg_id candidate config t"
  obtain c0 where c0: "aggregate_new ?caller (ccs_bridge_policy config) t [] = Ok c0"
    by (simp add: aggregate_new_def initial_caller_def)
  have ids: "ses_domain_id ?caller = agg_domain_id c0" "ses_call_id ?caller = agg_id c0" "call_wf c0"
    "agg_legs c0 = bt_insert caller_id (leg_from_session ?caller) []" "agg_callee_attempts c0 = []" "agg_winner c0 = None"
    using c0 aggregate_new_wf [OF c0] by (auto simp: aggregate_new_def initial_caller_def split: if_splits)
  have eq: "?new = Ok (initial_runtime config (put_attempt ''attempt-1'' (dialing_attempt ''attempt-1'' callee_id x)
      (put_leg callee_id (leg_from_session callee) c0)) ?caller callee_id leg_id candidate)"
    if "mps_audio_only (ccs_media_policy config)" "mps_max_audio_m_lines (ccs_media_policy config) = 1"
      "caller_id \<noteq> callee_id" "callee_session ?caller callee_id ''attempt-1'' ?target t = Ok callee"
      "callee_target ?target = Ok x" for callee x
    using that enter_attempt_eq [OF that(4) ids(1,2,3) that(5)]
    by (simp add: call_runtime_new_def Let_def c0 ids bt_contains_key_insert) (simp add: bt_contains_key_def bt_get_def)
  have ends: "is_ok (session_endpoint ?target)" "mps_audio_only (ccs_media_policy config)"
      "mps_max_audio_m_lines (ccs_media_policy config) = 1" if "is_ok ?new"
    using that target_checks_agree [of ?target]
    by (auto simp: call_runtime_new_def Let_def dest: callee_session_Ok(5) elim!: is_okE split: if_splits)
  have callee: "\<exists>callee x. callee_session ?caller callee_id ''attempt-1'' ?target t = Ok callee \<and> callee_target ?target = Ok x"
    if "is_ok (session_endpoint ?target)"
    using that target_checks_agree [of ?target] by (auto simp: callee_session_def elim!: is_okE)
  have iff: "is_ok ?new \<longleftrightarrow> mps_audio_only (ccs_media_policy config) \<and> mps_max_audio_m_lines (ccs_media_policy config) = 1 \<and>
      caller_id \<noteq> callee_id \<and> is_ok (session_endpoint ?target)"
    using eq callee ends call_runtime_new_cases(1) by (metis is_okE is_ok_simps(1))
  have "\<exists>x. callee_target ?target = Ok x \<and> agg_callee_attempts (rt_aggregate r) =
      [(''attempt-1'', dialing_attempt ''attempt-1'' callee_id x)] \<and> rt_state r = Establishing \<and> \<not> is_answered r \<and>
      agg_winner (rt_aggregate r) = None \<and> rt_current_bridge_id r = None" if new: "?new = Ok r" for r
  proof -
    have "is_ok ?new" using new by simp
    then obtain callee x where
      "callee_session ?caller callee_id ''attempt-1'' ?target t = Ok callee" "callee_target ?target = Ok x"
      using callee ends(1) by blast
    with new eq iff show ?thesis
      by (auto simp: initial_runtime_def put_attempt_def put_leg_def ids is_answered_def initial_caller_def)
  qed
  then show ?thesis using iff call_runtime_new_cases(2) by blast
qed

definition demo_candidate :: OutboundCandidate where
  "demo_candidate =
     \<lparr> oc_outbound_target = EndpointTarget ''e1'' ''1002'', oc_callee_route_target = None, oc_outbound_trunk_ref = None,
       oc_outbound_trunk_name = None, oc_recording_requested = False, oc_recording_policy_ids = [],
       oc_ai_policy = None, oc_ai_agent_revision = None, oc_ai_fallback_target = None \<rparr>"

definition demo_route :: RouteSnapshot where
  "demo_route = \<lparr> rs_route_id = None, rs_route_name = None, rs_trunk_ref = None, rs_trunk_name = None \<rparr>"

definition demo_config :: CallConfigSnapshot where
  "demo_config =
     (case config_snapshot_new 1 1 ''d''
        \<lparr> ns_original_caller = ''1001'', ns_original_callee = ''1002'', ns_signaling_caller = ''1001'',
          ns_signaling_callee = ''1002'' \<rparr> demo_route demo_route [demo_candidate]
        \<lparr> to_route = 1, to_dial = 1, to_ring = 1, to_cleanup = 1, to_route_budget = 1, to_min_attempt_window = 1 \<rparr> ''/rec'' of
        Ok config \<Rightarrow> config | _ \<Rightarrow> undefined)"

theorem call_runtime_new_spec_witness:
  "\<exists>r. call_runtime_new ''c'' ''s1'' ''s2'' ''leg'' demo_candidate demo_config 5 = Ok r \<and> rt_state r = Establishing"
proof -
  have "is_ok (session_endpoint (oc_outbound_target demo_candidate))" by code_simp
  moreover have "mps_audio_only (ccs_media_policy demo_config)" "mps_max_audio_m_lines (ccs_media_policy demo_config) = 1"
    by (simp_all add: demo_config_def config_snapshot_new_def)
  ultimately have "is_ok (call_runtime_new ''c'' ''s1'' ''s2'' ''leg'' demo_candidate demo_config 5)"
    using call_runtime_new_spec [of "''c''" "''s1''" "''s2''" "''leg''" demo_candidate demo_config 5] by simp
  then obtain r where "call_runtime_new ''c'' ''s1'' ''s2'' ''leg'' demo_candidate demo_config 5 = Ok r"
    by (auto elim: is_okE)
  then show ?thesis
    using call_runtime_new_spec [of "''c''" "''s1''" "''s2''" "''leg''" demo_candidate demo_config 5] by blast
qed

text \<open>C27: whatever operations run on a created call, failed ones included, its attempt, its callee session
  and its bridge stay known to a well-formed aggregate with the same caller, and none panics.\<close>

theorem runtime_run_wf:
  assumes "call_runtime_new call_id caller_id callee_id leg_id candidate config t = Ok r"
  shows "runtime_wf (foldl runtime_step r es) \<and> fst (runtime_exec e (foldl runtime_step r es)) \<noteq> Panic"
  using runtime_machine.run_inv [OF call_runtime_new_cases(2) [OF assms], of es] runtime_exec_safe
  by (auto simp: runtime_safe_def)

definition demo_runtime :: CallRuntime where
  "demo_runtime =
     (case call_runtime_new ''c'' ''s1'' ''s2'' ''leg'' demo_candidate demo_config 5 of Ok r \<Rightarrow> r | _ \<Rightarrow> undefined)"

lemma demo_runtime_new: "call_runtime_new ''c'' ''s1'' ''s2'' ''leg'' demo_candidate demo_config 5 = Ok demo_runtime"
proof -
  have "is_ok (call_runtime_new ''c'' ''s1'' ''s2'' ''leg'' demo_candidate demo_config 5)" by code_simp
  then show ?thesis by (auto simp: demo_runtime_def elim: is_okE)
qed

theorem runtime_run_wf_witness:
  "runtime_wf (foldl runtime_step demo_runtime [MarkAnswered 6 1, ActivateCurrentBridge 1 7, MarkAnswered 8 1])"
  using runtime_run_wf [OF demo_runtime_new] by blast

end
