(* ===== verification/Runtime_Topology.thy ===== *)
theory Runtime_Topology
  imports Runtime_Properties
begin

text \<open>
  What answering, transferring and releasing do to the topology of a call: its legs, its bridges and
  the winning attempt.
\<close>

section \<open>Answering\<close>

lemma runtime_wf_attempt:
  assumes "runtime_wf r"
  obtains a where "bt_get (agg_callee_attempts (rt_aggregate r)) (rt_current_attempt_id r) = Some a"
    "att_session_id a = rt_current_callee_session_id r"
  using assms by (auto simp: runtime_wf_def)

lemma runtime_wf_legs:
  assumes "runtime_wf r"
  obtains l l' where "bt_get (agg_legs (rt_aggregate r)) (ses_id (rt_caller r)) = Some l"
    "bt_get (agg_legs (rt_aggregate r)) (rt_current_callee_session_id r) = Some l'"
    "ses_id (rt_caller r) \<noteq> rt_current_callee_session_id r"
proof -
  obtain a where "bt_get (agg_callee_attempts (rt_aggregate r)) (rt_current_attempt_id r) = Some a"
    "att_session_id a = rt_current_callee_session_id r" using runtime_wf_attempt [OF assms] .
  then have "bt_contains_key (agg_legs (rt_aggregate r)) (rt_current_callee_session_id r)"
    using runtime_wf_aggregate [OF assms] by (metis call_wf_def)
  moreover have "bt_contains_key (agg_legs (rt_aggregate r)) (ses_id (rt_caller r))"
    using assms runtime_wf_aggregate [OF assms] by (metis call_wf_def runtime_wf_def)
  ultimately show ?thesis using that assms by (auto simp: bt_contains_key_def runtime_wf_def)
qed

definition planned_bridge :: "CallRuntime \<Rightarrow> u64 \<Rightarrow> u64 \<Rightarrow> BridgeEdge" where
  "planned_bridge r t g =
     \<lparr> br_bridge_id = bridge_id_of (rt_current_attempt_id r), br_leg_a = ses_id (rt_caller r),
       br_leg_b = rt_current_callee_session_id r, br_media_generation = g, br_state = BridgeState.Planned,
       br_created_at_ms = t, br_active_at_ms = None, br_released_at_ms = None \<rparr>"

definition legs_bridged :: "CallRuntime \<Rightarrow> bool" where
  "legs_bridged r \<longleftrightarrow>
     (\<forall>k \<in> {ses_id (rt_caller r), rt_current_callee_session_id r}.
        \<exists>l. bt_get (agg_legs (rt_aggregate r)) k = Some l \<and> leg_state l = Bridged)"

text \<open>The shared tail fails only on a bridge identifier already used.\<close>

lemma bridge_current_eq:
  assumes "runtime_wf r"
  shows "\<exists>r'. bridge_current t g r =
      (if bt_contains_key (agg_bridges (rt_aggregate r)) (bridge_id_of (rt_current_attempt_id r))
       then Err (CallErr (DuplicateBridge (bridge_id_of (rt_current_attempt_id r)))) else Ok (), r') \<and>
    (\<not> bt_contains_key (agg_bridges (rt_aggregate r)) (bridge_id_of (rt_current_attempt_id r)) \<longrightarrow>
       rt_current_bridge_id r' = Some (bridge_id_of (rt_current_attempt_id r)) \<and>
       agg_bridges (rt_aggregate r') =
         bt_insert (bridge_id_of (rt_current_attempt_id r)) (planned_bridge r t g) (agg_bridges (rt_aggregate r)) \<and>
       legs_bridged r' \<and> rt_caller r' = (rt_caller r)\<lparr>ses_state := Bridged\<rparr> \<and>
       rt_current_attempt_id r' = rt_current_attempt_id r \<and>
       rt_current_callee_session_id r' = rt_current_callee_session_id r \<and>
       agg_callee_attempts (rt_aggregate r') = agg_callee_attempts (rt_aggregate r) \<and>
       agg_winner (rt_aggregate r') = agg_winner (rt_aggregate r) \<and>
       agg_answered_at_ms (rt_aggregate r') = agg_answered_at_ms (rt_aggregate r))"
proof -
  obtain l l' where l: "bt_get (agg_legs (rt_aggregate r)) (ses_id (rt_caller r)) = Some l"
    "bt_get (agg_legs (rt_aggregate r)) (rt_current_callee_session_id r) = Some l'"
    "ses_id (rt_caller r) \<noteq> rt_current_callee_session_id r" using runtime_wf_legs [OF assms] .
  show ?thesis
    using l by (simp add: bridge_current_def plan_current_bridge_def seq_st_def bind_st_def on_aggregate_def
        zoom_st_def aggregate_op_def update_leg_state_def add_bridge_def put_leg_def put_bridge_def bt.get_put
        bt_contains_key_def Let_def legs_bridged_def planned_bridge_def) auto
qed

definition answerable :: "CalleeAttempt \<Rightarrow> bool" where
  "answerable a \<longleftrightarrow> att_state a \<in> {CalleeAttemptState.Dialing, Ringing, Answered}"

lemma update_current_answered:
  assumes "runtime_wf r" and "bt_get (agg_callee_attempts (rt_aggregate r)) (rt_current_attempt_id r) = Some a"
  shows "update_current_attempt Answered None r =
    (if answerable a then
       (Ok (), r\<lparr>rt_aggregate := put_attempt (rt_current_attempt_id r) (a\<lparr>att_state := Answered\<rparr>) (rt_aggregate r)\<rparr>)
     else (Err (CallErr (InvalidAttemptTransition (rt_current_attempt_id r) (att_state a) Answered)), r))"
proof -
  have "bt_wf (agg_callee_attempts (rt_aggregate r))"
    using runtime_wf_aggregate [OF assms(1)] by (simp add: call_wf_def maps_wf_def)
  then have same: "put_attempt (rt_current_attempt_id r) a (rt_aggregate r) = rt_aggregate r"
    using assms(2) by (simp add: put_attempt_def bt.put_get_id)
  show ?thesis
  proof (cases "att_state a = Answered")
    case True
    then have "a\<lparr>att_state := Answered\<rparr> = a" by (cases a) simp
    then have "put_attempt (rt_current_attempt_id r) (a\<lparr>att_state := Answered\<rparr>) (rt_aggregate r) = rt_aggregate r"
      by (simp only: same)
    then show ?thesis
      using assms(2) True by (simp add: update_current_attempt_def on_aggregate_def zoom_st_def
          aggregate_op_def update_attempt_state_def answerable_def)
  next
    case False
    then show ?thesis
      using assms(2) by (cases "att_state a") (simp_all add: update_current_attempt_def on_aggregate_def zoom_st_def
          aggregate_op_def update_attempt_state_def answerable_def)
  qed
qed

text \<open>After a promotion every other attempt is over.\<close>

definition sole_winner :: "CalleeAttemptId \<Rightarrow> CallAggregate \<Rightarrow> bool" where
  "sole_winner w c \<longleftrightarrow>
     agg_winner c = Some w \<and>
     (\<exists>a. bt_get (agg_callee_attempts c) w = Some a \<and> att_state a = Selected) \<and>
     (\<forall>k b. k \<noteq> w \<longrightarrow> bt_get (agg_callee_attempts c) k = Some b \<longrightarrow> attempt_is_terminal (att_state b))"

lemma promote_sole_winner:
  assumes "bt_get (agg_callee_attempts c) w = Some a" and "att_state a = Answered"
  shows "sole_winner w (snd (promote_attempt w t c))"
proof -
  let ?m = "bt_insert w (a\<lparr>att_state := Selected\<rparr>) (agg_callee_attempts c)"
  have "\<forall>k b. k \<noteq> w \<longrightarrow> bt_get (fst (cancel_others w ?m)) k = Some b \<longrightarrow> attempt_is_terminal (att_state b)"
    using cancel_other_terminal by (force simp: cancel_others_get bt.get_put simp del: if_split)
  moreover have "bt_get (fst (cancel_others w ?m)) w = Some (a\<lparr>att_state := Selected\<rparr>)"
    by (simp add: cancel_others_get bt.get_put cancels_def)
  ultimately show ?thesis
    unfolding sole_winner_def promote_attempt_succeeds [OF assms] Let_def by simp
qed

text \<open>C26: answering a call succeeds exactly when nobody has won yet, the current attempt is dialing, ringing or
  answered, and its bridge is new; then the attempt is the sole winner (all others over), caller and
  callee are bridged, and a planned bridge of the given media generation connects them.\<close>

theorem mark_answered_spec:
  assumes "runtime_wf r"
    and "bt_get (agg_callee_attempts (rt_aggregate r)) (rt_current_attempt_id r) = Some a"
  shows "(is_ok (fst (mark_answered t g r)) \<longleftrightarrow>
      agg_winner (rt_aggregate r) = None \<and> answerable a \<and>
      \<not> bt_contains_key (agg_bridges (rt_aggregate r)) (bridge_id_of (rt_current_attempt_id r))) \<and>
    (\<forall>r'. mark_answered t g r = (Ok (), r') \<longrightarrow>
      sole_winner (rt_current_attempt_id r) (rt_aggregate r') \<and> legs_bridged r' \<and>
      agg_bridges (rt_aggregate r') =
        bt_insert (bridge_id_of (rt_current_attempt_id r)) (planned_bridge r t g) (agg_bridges (rt_aggregate r)) \<and>
      rt_current_bridge_id r' = Some (bridge_id_of (rt_current_attempt_id r)) \<and>
      ses_answered_at_ms (rt_caller r') = get_or_insert (ses_answered_at_ms (rt_caller r)) t \<and> is_answered r')"
proof -
  let ?w = "rt_current_attempt_id r"
  let ?c1 = "put_attempt ?w (a\<lparr>att_state := Answered\<rparr>) (rt_aggregate r)"
  let ?r1 = "r\<lparr>rt_aggregate := ?c1\<rparr>"
  note upd = update_current_answered [OF assms]
  have noner: "\<not> answerable a" if "agg_winner (rt_aggregate r) = Some ?w"
    using that runtime_wf_aggregate [OF assms(1)] assms(2) by (auto simp: call_wf_def winner_wf_def answerable_def)
  show ?thesis
  proof (cases "answerable a \<and> agg_winner (rt_aggregate r) = None")
    case False
    have "\<exists>e r'. mark_answered t g r = (Err e, r')"
    proof (cases "answerable a")
      case True
      then obtain v where "agg_winner (rt_aggregate r) = Some v" "v \<noteq> ?w"
        using False noner by (cases "agg_winner (rt_aggregate r)") auto
      then show ?thesis
        using True by (simp add: mark_answered_def seq_st_def bind_st_def upd select_current_attempt_def on_aggregate_def
            zoom_st_def aggregate_op_def select_winner_def put_attempt_def)
    qed (simp add: mark_answered_def seq_st_def bind_st_def upd)
    with False show ?thesis by auto
  next
    case True
    have get: "bt_get (agg_callee_attempts ?c1) ?w = Some (a\<lparr>att_state := Answered\<rparr>)"
      by (simp add: put_attempt_def bt.get_put)
    define c2 where "c2 = snd (promote_attempt ?w t ?c1)"
    define r2 where "r2 = r\<lparr>rt_aggregate := c2, rt_caller := session_mark_answered t (rt_caller r)\<rparr>"
    have sole: "sole_winner ?w c2" unfolding c2_def by (rule promote_sole_winner [OF get]) simp
    have "is_ok (fst (select_winner ?w t ?c1))" "snd (select_winner ?w t ?c1) = c2"
      using True get by (simp_all add: select_winner_def c2_def put_attempt_def promote_attempt_def Let_def split: prod.splits)
    then have sel: "select_current_attempt t ?r1 = (Ok (), r\<lparr>rt_aggregate := c2\<rparr>)"
      by (cases "select_winner ?w t ?c1")
        (auto simp: select_current_attempt_def on_aggregate_def zoom_st_def aggregate_op_def elim: is_okE)
    have run: "mark_answered t g r = bridge_current t g r2"
      using True sel by (simp add: mark_answered_def seq_st_def bind_st_def upd r2_def session_mark_answered_def)
    have r1: "runtime_wf ?r1"
      using update_current_attempt_safe [OF assms(1), of Answered None] True by (simp add: runtime_safe_def upd)
    have "runtime_wf (r\<lparr>rt_aggregate := c2\<rparr>)"
      using select_current_attempt_safe [OF r1, of t] by (simp add: runtime_safe_def sel)
    then have r2: "runtime_wf r2" by (simp add: r2_def runtime_wf_def session_mark_answered_def)
    have br: "agg_bridges c2 = agg_bridges (rt_aggregate r)" by (simp add: c2_def put_attempt_def)
    have same: "planned_bridge r2 t g = planned_bridge r t g" "rt_current_attempt_id r2 = ?w"
      "rt_aggregate r2 = c2" "rt_caller r2 = session_mark_answered t (rt_caller r)"
      by (simp_all add: planned_bridge_def r2_def session_mark_answered_def)
    obtain r' where r': "bridge_current t g r2 =
        (if bt_contains_key (agg_bridges c2) (bridge_id_of ?w)
         then Err (CallErr (DuplicateBridge (bridge_id_of ?w))) else Ok (), r')"
      and post: "\<not> bt_contains_key (agg_bridges c2) (bridge_id_of ?w) \<longrightarrow>
         rt_current_bridge_id r' = Some (bridge_id_of ?w) \<and>
         agg_bridges (rt_aggregate r') = bt_insert (bridge_id_of ?w) (planned_bridge r t g) (agg_bridges c2) \<and>
         legs_bridged r' \<and> rt_caller r' = (session_mark_answered t (rt_caller r))\<lparr>ses_state := Bridged\<rparr> \<and>
         agg_callee_attempts (rt_aggregate r') = agg_callee_attempts c2 \<and>
         agg_winner (rt_aggregate r') = agg_winner c2"
      using bridge_current_eq [OF r2, of t g] unfolding same by blast
    show ?thesis
      using True sole post by (auto simp: run r' br sole_winner_def is_answered_def session_mark_answered_def
          split: if_splits)
  qed
qed

lemma demo_runtime_wf: "runtime_wf demo_runtime"
  by (rule call_runtime_new_cases(2) [OF demo_runtime_new])

lemma demo_runtime_eval:
  "bt_get (agg_callee_attempts (rt_aggregate demo_runtime)) (rt_current_attempt_id demo_runtime) =
     Some (dialing_attempt ''attempt-1'' ''s2'' (ExtensionTarget ''e1'' ''1002''))"
  "agg_winner (rt_aggregate demo_runtime) = None" "agg_bridges (rt_aggregate demo_runtime) = []"
  by (code_simp+)

theorem mark_answered_spec_witness:
  "is_ok (fst (mark_answered 6 1 demo_runtime))"
  using mark_answered_spec [OF demo_runtime_wf demo_runtime_eval(1), of 6 1]
  by (simp add: demo_runtime_eval(2,3) answerable_def dialing_attempt_def bt_contains_key_def)

section \<open>Transferring\<close>

lemma winner_session_wf:
  assumes "call_wf c"
  shows "winner_session (snapshot c) =
    (case agg_winner c of None \<Rightarrow> None | Some w \<Rightarrow> map_option att_session_id (bt_get (agg_callee_attempts c) w))"
proof (cases "agg_winner c")
  case (Some w)
  then obtain a where a: "bt_get (agg_callee_attempts c) w = Some a" using assms by (auto simp: call_wf_def winner_wf_def)
  have wf: "bt_wf (agg_callee_attempts c)" using assms by (simp add: call_wf_def maps_wf_def)
  have ids: "\<forall>b \<in> set (bt_values (agg_callee_attempts c)). att_attempt_id b = w \<longrightarrow> b = a"
    using call_wf_ids(2) [OF assms] a by (fastforce simp: bt_in_values_iff [OF wf])
  have "a \<in> set (bt_values (agg_callee_attempts c))" "att_attempt_id a = w"
    using bt_get_in_values [OF a] call_wf_ids(2) [OF assms a] by simp_all
  then obtain b where b: "find (\<lambda>a. att_attempt_id a = w) (bt_values (agg_callee_attempts c)) = Some b"
    by (cases "find (\<lambda>a. att_attempt_id a = w) (bt_values (agg_callee_attempts c))") (auto simp: find_None_iff)
  then have "b = a" using ids by (auto simp: find_Some_iff)
  with b show ?thesis by (simp add: winner_session_def snapshot_def Some a)
qed (simp add: winner_session_def snapshot_def)

definition left_leg :: "u64 \<Rightarrow> CallLeg \<Rightarrow> CallLeg" where
  "left_leg t l = l\<lparr>leg_left_at_ms := get_or_insert (leg_left_at_ms l) t, leg_state := LegState.Destroyed\<rparr>"

lemma leave_legs:
  "bt_get (agg_legs (leave t s c)) k = (if k = s then map_option (left_leg t) (bt_get (agg_legs c) k) else bt_get (agg_legs c) k)"
  by (auto simp: leave_def mark_leg_left_def put_leg_def bt.get_put left_leg_def split: option.splits)

lemma leave_rest [simp]:
  "agg_callee_attempts (leave t s c) = agg_callee_attempts c" "agg_bridges (leave t s c) = agg_bridges c"
  "agg_winner (leave t s c) = agg_winner c"
  by (auto simp: leave_def mark_leg_left_def put_leg_def split: option.splits)

lemma promote_attempt_legs [simp]: "agg_legs (snd (promote_attempt w t c)) = agg_legs c"
  by (cases "\<exists>a. bt_get (agg_callee_attempts c) w = Some a \<and> att_state a = Answered")
    (auto simp: promote_attempt_succeeds promote_attempt_fails Let_def)

text \<open>The step that lets the previous winner leave.\<close>

definition leave_winner :: "u64 \<Rightarrow> CallRuntime \<Rightarrow> CallRuntime" where
  "leave_winner t r =
     (case winner_session (snapshot (rt_aggregate r)) of
        Some s \<Rightarrow> r\<lparr>rt_aggregate := leave t s (rt_aggregate r)\<rparr> | None \<Rightarrow> r)"

lemma leave_winner_step:
  assumes "runtime_wf r"
  shows "(case winner_session (snapshot (rt_aggregate r)) of
      Some session_id \<Rightarrow> on_aggregate (aggregate_op (mark_leg_left session_id t)) r | None \<Rightarrow> (Ok (), r)) =
      (Ok (), leave_winner t r)" "runtime_wf (leave_winner t r)"
proof -
  have wf: "call_wf (rt_aggregate r)" by (rule runtime_wf_aggregate [OF assms])
  have leg: "bt_contains_key (agg_legs (rt_aggregate r)) s" if "winner_session (snapshot (rt_aggregate r)) = Some s" for s
    using that wf by (auto simp: winner_session_wf [OF wf] split: option.splits) (metis call_wf_def)
  then show "(case winner_session (snapshot (rt_aggregate r)) of
      Some session_id \<Rightarrow> on_aggregate (aggregate_op (mark_leg_left session_id t)) r | None \<Rightarrow> (Ok (), r)) =
      (Ok (), leave_winner t r)"
    by (fastforce simp: leave_winner_def on_aggregate_def zoom_st_def aggregate_op_def leave_def mark_leg_left_def
        bt_contains_key_def split: option.splits)
  show "runtime_wf (leave_winner t r)"
    using assms by (auto simp: leave_winner_def leave_def runtime_wf_frame split: option.splits)
qed

lemma leave_winner_rest [simp]:
  "rt_current_attempt_id (leave_winner t r) = rt_current_attempt_id r"
  "rt_current_callee_session_id (leave_winner t r) = rt_current_callee_session_id r"
  "rt_caller (leave_winner t r) = rt_caller r"
  "agg_callee_attempts (rt_aggregate (leave_winner t r)) = agg_callee_attempts (rt_aggregate r)"
  "agg_bridges (rt_aggregate (leave_winner t r)) = agg_bridges (rt_aggregate r)"
  "agg_winner (rt_aggregate (leave_winner t r)) = agg_winner (rt_aggregate r)"
  by (auto simp: leave_winner_def split: option.splits)

lemma replace_current:
  assumes "runtime_wf r" and "bt_get (agg_callee_attempts (rt_aggregate r)) (rt_current_attempt_id r) = Some a"
    and "att_state a = Answered"
  shows "on_aggregate (aggregate_op (replace_winner (rt_current_attempt_id r) t)) r =
    (Ok (), r\<lparr>rt_aggregate := snd (promote_attempt (rt_current_attempt_id r) t (rt_aggregate r))\<rparr>)"
proof -
  have "agg_winner (rt_aggregate r) \<noteq> Some (rt_current_attempt_id r)"
    using assms runtime_wf_aggregate [OF assms(1)] by (auto simp: call_wf_def winner_wf_def)
  moreover have "is_ok (fst (promote_attempt (rt_current_attempt_id r) t (rt_aggregate r)))"
    using promote_attempt_succeeds [OF assms(2,3), of t] by (simp add: Let_def)
  ultimately show ?thesis
    by (cases "promote_attempt (rt_current_attempt_id r) t (rt_aggregate r)")
      (auto simp: on_aggregate_def zoom_st_def aggregate_op_def replace_winner_def elim: is_okE)
qed

lemma bridge_current_legs_left:
  assumes "bridge_current t g r = (Ok (), r')" and "bt_get (agg_legs (rt_aggregate r)) k = Some l"
  shows "\<exists>l'. bt_get (agg_legs (rt_aggregate r')) k = Some l' \<and> leg_left_at_ms l' = leg_left_at_ms l"
  using assms
  by (auto simp: bridge_current_def plan_current_bridge_def seq_st_eq_Ok on_aggregate_def zoom_st_eq_Ok aggregate_op_def
      update_leg_state_def add_bridge_def put_leg_def put_bridge_def bt.get_put Let_def split: option.splits if_splits)

text \<open>a transfer that is answered succeeds exactly when the current attempt can be answered and its bridge
  is new; then this attempt is the sole winner, the leg that had won before has left, every earlier
  bridge is released and only the new planned bridge connects caller and callee.\<close>

theorem mark_transfer_answered_spec:
  assumes "runtime_wf r"
    and "bt_get (agg_callee_attempts (rt_aggregate r)) (rt_current_attempt_id r) = Some a"
  shows "(is_ok (fst (mark_transfer_answered t g r)) \<longleftrightarrow>
      answerable a \<and> \<not> bt_contains_key (agg_bridges (rt_aggregate r)) (bridge_id_of (rt_current_attempt_id r))) \<and>
    (\<forall>r'. mark_transfer_answered t g r = (Ok (), r') \<longrightarrow>
      sole_winner (rt_current_attempt_id r) (rt_aggregate r') \<and> legs_bridged r' \<and>
      (\<forall>k b. bt_get (agg_bridges (rt_aggregate r')) k = Some b \<longrightarrow>
         k = bridge_id_of (rt_current_attempt_id r) \<and> b = planned_bridge r t g \<or> br_state b = Released) \<and>
      rt_current_bridge_id r' = Some (bridge_id_of (rt_current_attempt_id r)) \<and>
      (\<forall>w v. agg_winner (rt_aggregate r) = Some w \<longrightarrow> bt_get (agg_callee_attempts (rt_aggregate r)) w = Some v \<longrightarrow>
         (\<exists>l. bt_get (agg_legs (rt_aggregate r')) (att_session_id v) = Some l \<and> leg_left_at_ms l \<noteq> None)))"
proof -
  let ?w = "rt_current_attempt_id r"
  let ?r0 = "leave_winner t r"
  let ?r1 = "?r0\<lparr>rt_aggregate := put_attempt ?w (a\<lparr>att_state := Answered\<rparr>) (rt_aggregate ?r0)\<rparr>"
  note start = leave_winner_step [OF assms(1), of t]
  have upd: "update_current_attempt Answered None ?r0 =
      (if answerable a then (Ok (), ?r1) else (Err (CallErr (InvalidAttemptTransition ?w (att_state a) Answered)), ?r0))"
    using update_current_answered [OF start(2), of a] assms(2) by simp
  show ?thesis
  proof (cases "answerable a")
    case False
    then show ?thesis by (simp add: mark_transfer_answered_def seq_st_def bind_st_def start(1) upd)
  next
    case True
    define c2 where "c2 = snd (promote_attempt ?w t (rt_aggregate ?r1))"
    define r3 where "r3 = ?r0\<lparr>rt_aggregate := release_all_bridges t c2\<rparr>"
    have get: "bt_get (agg_callee_attempts (rt_aggregate ?r1)) ?w = Some (a\<lparr>att_state := Answered\<rparr>)"
      by (simp add: put_attempt_def bt.get_put)
    have r1: "runtime_wf ?r1"
      using update_current_attempt_safe [OF start(2), of Answered None] True by (simp add: runtime_safe_def upd)
    have rep: "on_aggregate (aggregate_op (replace_winner ?w t)) ?r1 = (Ok (), ?r0\<lparr>rt_aggregate := c2\<rparr>)"
      using replace_current [OF r1, of "a\<lparr>att_state := Answered\<rparr>" t] get by (simp add: c2_def)
    have "runtime_wf (?r0\<lparr>rt_aggregate := c2\<rparr>)"
      using on_aggregate_safe [OF r1, of "aggregate_op (replace_winner ?w t)"] winner_no_panic(2) [OF runtime_wf_aggregate [OF r1]]
      by (simp add: rep runtime_safe_def)
    then have r3: "runtime_wf r3"
      using runtime_wf_frame [of "?r0\<lparr>rt_aggregate := c2\<rparr>" "release_all_bridges t c2"] by (simp add: r3_def)
    have run: "mark_transfer_answered t g r = bridge_current t g r3"
      using True rep by (simp add: mark_transfer_answered_def seq_st_def bind_st_def start(1) upd r3_def)
    have sole: "sole_winner ?w c2" unfolding c2_def by (rule promote_sole_winner [OF get]) simp
    have same: "planned_bridge r3 t g = planned_bridge r t g" "rt_current_attempt_id r3 = ?w"
      by (simp_all add: planned_bridge_def r3_def)
    have agg: "agg_callee_attempts (rt_aggregate r3) = agg_callee_attempts c2" "agg_winner (rt_aggregate r3) = agg_winner c2"
      "agg_bridges (rt_aggregate r3) = bt_map (\<lambda>_. released t) (agg_bridges (rt_aggregate r))"
      "agg_legs (rt_aggregate r3) = agg_legs (rt_aggregate ?r0)"
      by (simp_all add: r3_def release_all_bridges_def c2_def put_attempt_def)
    have left: "\<exists>l. bt_get (agg_legs (rt_aggregate r3)) (att_session_id v) = Some l \<and> leg_left_at_ms l \<noteq> None"
      if "agg_winner (rt_aggregate r) = Some w" "bt_get (agg_callee_attempts (rt_aggregate r)) w = Some v" for w v
    proof -
      have "bt_contains_key (agg_legs (rt_aggregate r)) (att_session_id v)"
        using that runtime_wf_aggregate [OF assms(1)] by (metis call_wf_def)
      then show ?thesis
        using that by (auto simp: agg leave_winner_def winner_session_wf [OF runtime_wf_aggregate [OF assms(1)]]
            leave_legs left_leg_def bt_contains_key_def)
    qed
    obtain r' where r': "bridge_current t g r3 =
        (if bt_contains_key (agg_bridges (rt_aggregate r)) (bridge_id_of ?w)
         then Err (CallErr (DuplicateBridge (bridge_id_of ?w))) else Ok (), r')"
      and post: "\<not> bt_contains_key (agg_bridges (rt_aggregate r)) (bridge_id_of ?w) \<longrightarrow>
         rt_current_bridge_id r' = Some (bridge_id_of ?w) \<and>
         agg_bridges (rt_aggregate r') = bt_insert (bridge_id_of ?w) (planned_bridge r t g)
           (bt_map (\<lambda>_. released t) (agg_bridges (rt_aggregate r))) \<and> legs_bridged r' \<and>
         agg_callee_attempts (rt_aggregate r') = agg_callee_attempts c2 \<and> agg_winner (rt_aggregate r') = agg_winner c2"
      using bridge_current_eq [OF r3, of t g] unfolding same agg by simp blast
    have gone: "\<exists>l. bt_get (agg_legs (rt_aggregate r')) (att_session_id v) = Some l \<and> leg_left_at_ms l \<noteq> None"
      if "bridge_current t g r3 = (Ok (), r')" "agg_winner (rt_aggregate r) = Some w"
        "bt_get (agg_callee_attempts (rt_aggregate r)) w = Some v" for w v
      using left [OF that(2,3)] bridge_current_legs_left [OF that(1)] by fastforce
    show ?thesis
    proof (cases "bt_contains_key (agg_bridges (rt_aggregate r)) (bridge_id_of ?w)")
      case new: False
      then have ok: "bridge_current t g r3 = (Ok (), r')" by (simp add: r')
      have "\<forall>k b. bt_get (agg_bridges (rt_aggregate r')) k = Some b \<longrightarrow>
          k = bridge_id_of ?w \<and> b = planned_bridge r t g \<or> br_state b = Released"
        using post new by (auto simp: bt.get_put bt_get_map released_def)
      then show ?thesis using True new sole post gone [OF ok] ok by (simp add: run sole_winner_def)
    qed (simp add: run r')
  qed
qed

definition demo_transfer :: CallRuntime where
  "demo_transfer = foldl runtime_step demo_runtime
     [MarkAnswered 6 1, ActivateCurrentBridge 1 7, RegisterAttempt 2 ''s3'' (OutboundTrunk ''t'') 8]"

lemma demo_transfer_wf: "runtime_wf demo_transfer"
  unfolding demo_transfer_def by (rule runtime_machine.run_inv) (rule demo_runtime_wf)

lemma demo_transfer_eval:
  "bt_get (agg_callee_attempts (rt_aggregate demo_transfer)) (rt_current_attempt_id demo_transfer) =
     Some (dialing_attempt ''attempt-2'' ''s3'' (TrunkTarget ''t''))"
  "bt_contains_key (agg_bridges (rt_aggregate demo_transfer)) (bridge_id_of (rt_current_attempt_id demo_transfer)) = False"
  by (code_simp+)

theorem mark_transfer_answered_spec_witness:
  "is_ok (fst (mark_transfer_answered 9 2 demo_transfer))"
  using mark_transfer_answered_spec [OF demo_transfer_wf demo_transfer_eval(1), of 9 2]
  by (simp add: demo_transfer_eval(2) answerable_def dialing_attempt_def)

section \<open>Releasing\<close>

lemma get_or_insert_twice [simp]: "get_or_insert (get_or_insert x v) w = get_or_insert x v"
  by (cases x) simp_all

lemma left_leg_idem: "left_leg t (left_leg t l) = left_leg t l"
  by (simp add: left_leg_def)

lemma leave_fold_legs:
  "bt_get (agg_legs (fold (leave t) ss c)) k =
     (if k \<in> set ss then map_option (left_leg t) (bt_get (agg_legs c) k) else bt_get (agg_legs c) k)"
  by (induction ss arbitrary: c) (auto simp: leave_legs left_leg_idem option.map_comp comp_def)

lemma leave_fold_rest [simp]:
  "agg_callee_attempts (fold (leave t) ss c) = agg_callee_attempts c"
  "agg_bridges (fold (leave t) ss c) = agg_bridges c"
  by (induction ss arbitrary: c) simp_all

definition topology_sessions :: "CallRuntime \<Rightarrow> SessionId list" where
  "topology_sessions r = ses_id (rt_caller r) # map att_session_id (bt_values (agg_callee_attempts (rt_aggregate r)))"

lemma release_topology_eq:
  "release_topology t r =
     r\<lparr>rt_aggregate := fold (leave t) (topology_sessions r) (release_all_bridges t (rt_aggregate r))\<rparr>"
  by (simp add: release_topology_def Let_def snapshot_def release_all_bridges_def topology_sessions_def)

text \<open>releasing the topology of a call leaves no bridge unreleased, and the legs of the caller and of every
  attempt have left the call for good, each at the time it left first;
  the attempts keep their records, and releasing again changes nothing.\<close>

theorem release_topology_spec:
  assumes "runtime_wf r"
  shows "let r' = release_topology t r in
    (\<forall>b \<in> set (bt_values (agg_bridges (rt_aggregate r'))). br_state b = Released) \<and>
    agg_callee_attempts (rt_aggregate r') = agg_callee_attempts (rt_aggregate r) \<and>
    (\<forall>k \<in> insert (ses_id (rt_caller r)) (att_session_id ` set (bt_values (agg_callee_attempts (rt_aggregate r)))).
       \<exists>l. bt_get (agg_legs (rt_aggregate r)) k = Some l \<and> bt_get (agg_legs (rt_aggregate r')) k = Some (left_leg t l)) \<and>
    release_topology t r' = r'"
proof -
  define r' where "r' = release_topology t r"
  let ?ss = "topology_sessions r"
  have wf: "call_wf (rt_aggregate r)" by (rule runtime_wf_aggregate [OF assms])
  have agg: "rt_aggregate r' = fold (leave t) ?ss (release_all_bridges t (rt_aggregate r))"
    by (simp add: r'_def release_topology_eq)
  have bridges: "agg_bridges (rt_aggregate r') = bt_map (\<lambda>_. released t) (agg_bridges (rt_aggregate r))"
    and attempts: "agg_callee_attempts (rt_aggregate r') = agg_callee_attempts (rt_aggregate r)"
    unfolding agg leave_fold_rest by (simp_all add: release_all_bridges_def)
  have legs: "\<exists>l. bt_get (agg_legs (rt_aggregate r)) k = Some l \<and> bt_get (agg_legs (rt_aggregate r')) k = Some (left_leg t l)"
    if k: "k \<in> set ?ss" for k
  proof -
    have "bt_wf (agg_callee_attempts (rt_aggregate r))" using wf by (simp add: call_wf_def maps_wf_def)
    then have "bt_contains_key (agg_legs (rt_aggregate r)) k"
      using k assms wf by (auto simp: topology_sessions_def bt_in_values_iff runtime_wf_def) (metis call_wf_def)+
    then show ?thesis
      using k unfolding agg leave_fold_legs by (auto simp: release_all_bridges_def bt_contains_key_def)
  qed
  have "released t (released t b) = released t b" for b by (simp add: released_def)
  then have rel: "release_all_bridges t (rt_aggregate r') = rt_aggregate r'"
    by (simp add: release_all_bridges_def bridges bt_map_def comp_def case_prod_beta)
  have "bt_wf (agg_legs (rt_aggregate r'))"
    using runtime_wf_aggregate [OF release_topology_wf [OF assms]] by (simp add: call_wf_def maps_wf_def r'_def)
  then have stay: "leave t k (rt_aggregate r') = rt_aggregate r'" if "k \<in> set ?ss" for k
    using legs [OF that] left_leg_idem
    by (auto simp: leave_def mark_leg_left_def put_leg_def bt.put_get_id simp flip: left_leg_def)
  have "fold (leave t) ks (rt_aggregate r') = rt_aggregate r'" if "set ks \<subseteq> set ?ss" for ks
    using that stay by (induction ks) auto
  moreover have "topology_sessions r' = ?ss" by (simp add: topology_sessions_def attempts) (simp add: r'_def release_topology_eq)
  ultimately have "release_topology t r' = r'" by (simp add: release_topology_eq [of t r'] rel)
  moreover have "\<forall>b \<in> set (bt_values (agg_bridges (rt_aggregate r'))). br_state b = Released"
    by (auto simp: bridges bt_values_def bt_map_def released_def)
  ultimately show ?thesis
    unfolding Let_def r'_def [symmetric] using attempts legs by (auto simp: topology_sessions_def)
qed

theorem release_topology_spec_witness:
  "list_all (\<lambda>b. br_state b = Released) (bt_values (agg_bridges (rt_aggregate (release_topology 9 demo_transfer))))"
  using release_topology_spec [OF demo_transfer_wf, of 9] by (simp add: Let_def list_all_iff)

end
