(* ===== verification/Byte_Codec.thy ===== *)
theory Byte_Codec
  imports Prelude
begin

text \<open>
  Bytes on the wire: big-endian integers (\<open>to_be_bytes\<close>, \<open>from_be_bytes\<close>), slices that panic out
  of range, and \<open>read_exact\<close> on a finite byte stream.
\<close>

unbundle bit_operations_syntax

type_synonym bytes = "u8 list"

section \<open>Big-endian integers\<close>

definition to_be16 :: "u16 \<Rightarrow> bytes" where
  "to_be16 w = [ucast (drop_bit 8 w), ucast w]"

definition from_be16 :: "u8 \<Rightarrow> u8 \<Rightarrow> u16" where
  "from_be16 a b = push_bit 8 (ucast a) OR ucast b"

definition to_be32 :: "u32 \<Rightarrow> bytes" where
  "to_be32 w = [ucast (drop_bit 24 w), ucast (drop_bit 16 w), ucast (drop_bit 8 w), ucast w]"

definition from_be32 :: "u8 \<Rightarrow> u8 \<Rightarrow> u8 \<Rightarrow> u8 \<Rightarrow> u32" where
  "from_be32 a b c d =
     push_bit 24 (ucast a) OR push_bit 16 (ucast b) OR push_bit 8 (ucast c) OR ucast d"

lemma from_to_be16: "from_be16 (ucast (drop_bit 8 w)) (ucast w) = w"
  unfolding from_be16_def
  by (rule bit_word_eqI) (auto simp: bit_simps)

lemma from_to_be32:
  "from_be32 (ucast (drop_bit 24 w)) (ucast (drop_bit 16 w)) (ucast (drop_bit 8 w)) (ucast w) = w"
proof (rule bit_word_eqI)
  fix n assume "n < LENGTH(32)"
  moreover have "16 + (n - 16) = n" if "16 \<le> n" using that by simp
  moreover have "24 + (n - 24) = n" if "24 \<le> n" using that by simp
  ultimately show "bit (from_be32 (ucast (drop_bit 24 w)) (ucast (drop_bit 16 w)) (ucast (drop_bit 8 w))
      (ucast w)) n = bit w n"
    unfolding from_be32_def
    by (cases "n < 8"; cases "n < 16"; cases "n < 24") (auto simp: bit_simps)
qed

lemma length_to_be32 [simp]: "length (to_be32 w) = 4"
  by (simp add: to_be32_def)

lemma length_to_be16 [simp]: "length (to_be16 w) = 2"
  by (simp add: to_be16_def)

section \<open>Slices\<close>

text \<open>\<open>&v[from..to]\<close> panics when the bounds are out of order or past the end.\<close>

definition slice :: "nat \<Rightarrow> nat \<Rightarrow> 'a list \<Rightarrow> ('a list, 'e) outcome" where
  "slice from to v = (if from \<le> to \<and> to \<le> length v then Ok (take (to - from) (drop from v)) else Panic)"

lemma slice_ok [simp]: "from \<le> to \<Longrightarrow> to \<le> length v \<Longrightarrow> slice from to v = Ok (take (to - from) (drop from v))"
  by (simp add: slice_def)

section \<open>Reading a byte stream\<close>

text \<open>
  \<open>read_exact\<close> on a reader that holds the remaining bytes: it fills the buffer or fails at the end of
  the stream, the bytes it did get being consumed.
\<close>

definition read_exact :: "'e \<Rightarrow> nat \<Rightarrow> (bytes, bytes, 'e) stateful" where
  "read_exact eof n input = (if n \<le> length input then (Ok (take n input), drop n input) else (Err eof, []))"

lemma read_exact_append [simp]:
  "length xs = n \<Longrightarrow> read_exact eof n (xs @ ys) = (Ok xs, ys)"
  by (auto simp: read_exact_def)

lemma read_exact_short [simp]: "length xs < n \<Longrightarrow> read_exact eof n xs = (Err eof, [])"
  by (simp add: read_exact_def)

end
