(* ===== verification/Wire_Frames.thy ===== *)
theory Wire_Frames
  imports Byte_Codec "HOL-Library.Sublist"
begin

text \<open>
  Length-prefixed frames: \<open>crates/voipswitch-core/src/ipc/frame.rs\<close> (IPC, JSON body),
  \<open>crates/ai-protocol/src/frame.rs\<close> (AI control channel) and \<open>crates/ai-protocol/src/media.rs\<close>
  (binary media frames with JSON metadata), and the identifiers of \<open>id.rs\<close>.

  A reader is the list of bytes still to come and a writer the list of bytes written so far.
  \<open>serde_json\<close> is a parameter: \<open>to_vec\<close> and \<open>from_slice\<close> are arguments of the operations, and what
  the frames rely on is that a value that encodes decodes to itself.  The contract between a
  writer and a reader is the locale \<open>message_codec\<close>.
\<close>

section \<open>The contract\<close>

text \<open>
  A successful \<open>put\<close> appends one frame, a failed one appends nothing; \<open>get\<close> on a stream that starts
  with that frame returns the message and leaves the rest; a truncated frame is never accepted.
\<close>

locale message_codec =
  fixes put :: "'m \<Rightarrow> (bytes, unit, 'e) stateful"
    and get :: "(bytes, 'm, 'e) stateful"
    and frame_of :: "'m \<Rightarrow> bytes option"
  assumes put_frame: "frame_of m = Some f \<Longrightarrow> put m out = (Ok (), out @ f)"
    and put_refused: "frame_of m = None \<Longrightarrow> \<exists>e. put m out = (Err e, out)"
    and get_frame: "frame_of m = Some f \<Longrightarrow> get (f @ rest) = (Ok m, rest)"
    and get_truncated: "frame_of m = Some f \<Longrightarrow> strict_prefix p f \<Longrightarrow> \<exists>e. fst (get p) = Err e"
begin

lemma put_Ok_iff: "put m out = (Ok (), out') \<longleftrightarrow> (\<exists>f. frame_of m = Some f \<and> out' = out @ f)"
proof (cases "frame_of m")
  case None
  then show ?thesis using put_refused [OF None, of out] by auto
next
  case (Some f)
  then show ?thesis using put_frame [OF Some, of out] by auto
qed

text \<open>Encoding values into bodies on top of a codec for bodies gives a codec for the values.\<close>

lemma lift_codec:
  assumes roundtrip: "\<And>v b. enc v = Some b \<Longrightarrow> dec b = Some v"
  shows "message_codec (\<lambda>v out. case enc v of None \<Rightarrow> (Err e\<^sub>1, out) | Some b \<Rightarrow> put b out)
    (bind_st get (\<lambda>b r. (ok_or e\<^sub>2 (dec b), r))) (\<lambda>v. Option.bind (enc v) frame_of)"
proof
  fix v f out
  assume "Option.bind (enc v) frame_of = Some f"
  then obtain b where b: "enc v = Some b" "frame_of b = Some f" by (auto simp: bind_eq_Some_conv)
  show "(case enc v of None \<Rightarrow> (Err e\<^sub>1, out) | Some b \<Rightarrow> put b out) = (Ok (), out @ f)"
    using b by (simp add: put_frame)
  show "bind_st get (\<lambda>b r. (ok_or e\<^sub>2 (dec b), r)) (f @ rest) = (Ok v, rest)" for rest
    using b by (simp add: bind_st_def get_frame roundtrip ok_or_def)
  show "\<exists>e. fst (bind_st get (\<lambda>b r. (ok_or e\<^sub>2 (dec b), r)) p) = Err e" if "strict_prefix p f" for p
    using get_truncated [OF b(2) that] by (auto simp: bind_st_def split: prod.splits)
next
  fix v out
  assume "Option.bind (enc v) frame_of = None"
  then show "\<exists>e. (case enc v of None \<Rightarrow> (Err e\<^sub>1, out) | Some b \<Rightarrow> put b out) = (Err e, out)"
    by (cases "enc v") (auto dest: put_refused)
qed

text \<open>Messages written one after the other are read back one after the other.\<close>

lemma stream_roundtrip:
  assumes "list_all (\<lambda>m. frame_of m \<noteq> None) ms"
  shows "\<exists>s. foldl (\<lambda>out m. snd (put m out)) out ms = out @ s \<and>
     (\<forall>rest. foldl (\<lambda>(got, inp) _. case get inp of (Ok m, inp') \<Rightarrow> (got @ [m], inp') | (_, inp') \<Rightarrow> (got, inp'))
        ([], s @ rest) ms = (ms, rest))"
  using assms
proof (induction ms rule: rev_induct)
  case (snoc m ms)
  then obtain s f where s: "foldl (\<lambda>out m. snd (put m out)) out ms = out @ s"
    and r: "\<And>rest. foldl (\<lambda>(got, inp) _. case get inp of (Ok m, inp') \<Rightarrow> (got @ [m], inp') | (_, inp') \<Rightarrow> (got, inp'))
        ([], s @ rest) ms = (ms, rest)"
    and f: "frame_of m = Some f"
    by auto
  have "foldl (\<lambda>(got, inp) _. case get inp of (Ok m, inp') \<Rightarrow> (got @ [m], inp') | (_, inp') \<Rightarrow> (got, inp'))
      ([], (s @ f) @ rest) (ms @ [m]) = (ms @ [m], rest)" for rest
    using r [of "f @ rest"] get_frame [OF f, of rest] by simp
  moreover have "foldl (\<lambda>out m. snd (put m out)) out (ms @ [m]) = out @ (s @ f)"
    using s put_frame [OF f] by simp
  ultimately show ?case by blast
qed simp

end

section \<open>Errors\<close>

datatype frame_error =
    FrameLengthEof | FrameBodyEof
  | FrameTooLarge nat
  | InvalidFrameLength nat nat
  | FrameLengthExceedsU32
  | EncodeFailed | DecodeFailed
  | MediaFrameTooShort
  | InvalidMediaMetadataLength nat
  | MediaMetadataTooLarge
  | MediaGenerationZero | MediaChannels | MediaRateOrDuration | MediaPayloadRequired

text \<open>What the frames rely on of \<open>serde_json\<close>: a value that was encoded decodes to itself, and no
  encoding is empty.\<close>

definition serde_roundtrip :: "('m \<Rightarrow> bytes option) \<Rightarrow> (bytes \<Rightarrow> 'm option) \<Rightarrow> bool" where
  "serde_roundtrip to_vec from_slice \<longleftrightarrow> (\<forall>v b. to_vec v = Some b \<longrightarrow> from_slice b = Some v)"

definition serde_nonempty :: "('m \<Rightarrow> bytes option) \<Rightarrow> bool" where
  "serde_nonempty to_vec \<longleftrightarrow> (\<forall>v. to_vec v \<noteq> Some [])"

lemma serde_roundtripD: "serde_roundtrip to_vec from_slice \<Longrightarrow> to_vec v = Some b \<Longrightarrow> from_slice b = Some v"
  by (simp add: serde_roundtrip_def)

definition be_length :: "bytes \<Rightarrow> nat" where
  "be_length b = unat (from_be32 (b ! 0) (b ! 1) (b ! 2) (b ! 3))"

lemma be_length_to_be32:
  assumes "n < 2 ^ 32"
  shows "be_length (to_be32 (word_of_nat n)) = n"
  using assms by (simp add: be_length_def to_be32_def from_to_be32 unat_of_nat take_bit_nat_eq_self)

section \<open>IPC frames (ipc/frame.rs)\<close>

definition MAX_FRAME_LEN :: nat where
  "MAX_FRAME_LEN = 4 * 1024 * 1024"

definition ipc_read_json_frame :: "(bytes \<Rightarrow> 'm option) \<Rightarrow> (bytes, 'm, frame_error) stateful" where
  "ipc_read_json_frame from_slice =
     bind_st (read_exact FrameLengthEof 4) (\<lambda>len_buf.
       let len = be_length len_buf in
       if len > MAX_FRAME_LEN then (\<lambda>r. (Err (FrameTooLarge len), r))
       else bind_st (read_exact FrameBodyEof len) (\<lambda>body r. (ok_or DecodeFailed (from_slice body), r)))"

definition ipc_write_json_frame :: "('m \<Rightarrow> bytes option) \<Rightarrow> 'm \<Rightarrow> (bytes, unit, frame_error) stateful" where
  "ipc_write_json_frame to_vec value writer =
     (case to_vec value of
        None \<Rightarrow> (Err EncodeFailed, writer)
      | Some body \<Rightarrow>
          if length body > MAX_FRAME_LEN then (Err (FrameTooLarge (length body)), writer)
          else (Ok (), (writer @ to_be32 (word_of_nat (length body))) @ body))"

section \<open>AI channel frames (ai-protocol frame.rs)\<close>

definition MAX_CONTROL_FRAME_LEN :: nat where
  "MAX_CONTROL_FRAME_LEN = 1024 * 1024"

definition read_frame_len :: "nat \<Rightarrow> (bytes, nat, frame_error) stateful" where
  "read_frame_len max_len =
     bind_st (read_exact FrameLengthEof 4) (\<lambda>len_buf r.
       let len = be_length len_buf in
       if len = 0 \<or> len > max_len then (Err (InvalidFrameLength len max_len), r) else (Ok len, r))"

definition write_frame :: "nat \<Rightarrow> bytes \<Rightarrow> (bytes, unit, frame_error) stateful" where
  "write_frame max_len body writer =
     (if body = [] \<or> length body > max_len then (Err (InvalidFrameLength (length body) max_len), writer)
      else if length body \<ge> 2 ^ 32 then (Err FrameLengthExceedsU32, writer)
      else (Ok (), (writer @ to_be32 (word_of_nat (length body))) @ body))"

definition read_frame_body :: "nat \<Rightarrow> (bytes, bytes, frame_error) stateful" where
  "read_frame_body max_len = bind_st (read_frame_len max_len) (read_exact FrameBodyEof)"

definition read_json_frame :: "(bytes \<Rightarrow> 'm option) \<Rightarrow> (bytes, 'm, frame_error) stateful" where
  "read_json_frame from_slice =
     bind_st (read_frame_body MAX_CONTROL_FRAME_LEN) (\<lambda>body r. (ok_or DecodeFailed (from_slice body), r))"

definition write_json_frame :: "('m \<Rightarrow> bytes option) \<Rightarrow> 'm \<Rightarrow> (bytes, unit, frame_error) stateful" where
  "write_json_frame to_vec value writer =
     (case to_vec value of
        None \<Rightarrow> (Err EncodeFailed, writer)
      | Some body \<Rightarrow> write_frame MAX_CONTROL_FRAME_LEN body writer)"

section \<open>Media frames (ai-protocol media.rs)\<close>

definition MAX_MEDIA_FRAME_LEN :: nat where
  "MAX_MEDIA_FRAME_LEN = 256 * 1024"

definition MAX_MEDIA_METADATA_LEN :: nat where
  "MAX_MEDIA_METADATA_LEN = 16 * 1024"

datatype MediaDirection = FromParticipant | ToParticipant

datatype AudioCodec = Pcma | Pcmu | Pcm16Le

record MediaFrameMetadata =
  mm_job_id :: string
  mm_tenant_id :: string
  mm_conversation_id :: string
  mm_participant_id :: string
  mm_stream_id :: string
  mm_sequence :: u64
  mm_generation :: u64
  mm_direction :: MediaDirection
  mm_codec :: AudioCodec
  mm_sample_rate :: u32
  mm_channels :: u8
  mm_media_timestamp :: u64
  mm_duration_ms :: u16
  mm_end_of_stream :: bool

record MediaFrame =
  mf_metadata :: MediaFrameMetadata
  mf_payload :: bytes

definition validate_media_frame :: "MediaFrame \<Rightarrow> (unit, frame_error) outcome" where
  "validate_media_frame f =
     (if mm_generation (mf_metadata f) = 0 then Err MediaGenerationZero
      else if mm_channels (mf_metadata f) = 0 \<or> mm_channels (mf_metadata f) > 2 then Err MediaChannels
      else if mm_sample_rate (mf_metadata f) = 0 \<or> mm_duration_ms (mf_metadata f) = 0 then Err MediaRateOrDuration
      else if mf_payload f = [] \<and> \<not> mm_end_of_stream (mf_metadata f) then Err MediaPayloadRequired
      else Ok ())"

definition decode_media_body ::
    "(bytes \<Rightarrow> MediaFrameMetadata option) \<Rightarrow> bytes \<Rightarrow> (MediaFrame, frame_error) outcome" where
  "decode_media_body from_slice body =
     (let metadata_len = be_length body in
      if metadata_len = 0 \<or> metadata_len > MAX_MEDIA_METADATA_LEN \<or> metadata_len > length body - 4
      then Err (InvalidMediaMetadataLength metadata_len)
      else and_then (slice 4 (4 + metadata_len) body) (\<lambda>m.
           and_then (ok_or DecodeFailed (from_slice m)) (\<lambda>metadata.
             let frame = \<lparr> mf_metadata = metadata, mf_payload = drop (4 + metadata_len) body \<rparr> in
             and_then (validate_media_frame frame) (\<lambda>_. Ok frame))))"

definition read_media_frame ::
    "(bytes \<Rightarrow> MediaFrameMetadata option) \<Rightarrow> (bytes, MediaFrame, frame_error) stateful" where
  "read_media_frame from_slice =
     bind_st (read_frame_len MAX_MEDIA_FRAME_LEN) (\<lambda>total_len.
       if total_len < 4 then (\<lambda>r. (Err MediaFrameTooShort, r))
       else bind_st (read_exact FrameBodyEof total_len) (\<lambda>body r. (decode_media_body from_slice body, r)))"

definition write_media_frame ::
    "(MediaFrameMetadata \<Rightarrow> bytes option) \<Rightarrow> MediaFrame \<Rightarrow> (bytes, unit, frame_error) stateful" where
  "write_media_frame to_vec frame writer =
     (case validate_media_frame frame of
        Err e \<Rightarrow> (Err e, writer)
      | Panic \<Rightarrow> (Panic, writer)
      | Ok _ \<Rightarrow>
          (case to_vec (mf_metadata frame) of
             None \<Rightarrow> (Err EncodeFailed, writer)
           | Some metadata \<Rightarrow>
               if length metadata > MAX_MEDIA_METADATA_LEN then (Err MediaMetadataTooLarge, writer)
               else if length metadata \<ge> 2 ^ 32 then (Err FrameLengthExceedsU32, writer)
               else write_frame MAX_MEDIA_FRAME_LEN
                      (to_be32 (word_of_nat (length metadata)) @ metadata @ mf_payload frame) writer))"

section \<open>Identifiers (ai-protocol id.rs)\<close>

datatype id_error = IdLength | IdCharacter

definition is_ascii_alphanumeric :: "char \<Rightarrow> bool" where
  "is_ascii_alphanumeric c \<longleftrightarrow>
     (let n = (of_char c :: nat) in 48 \<le> n \<and> n \<le> 57 \<or> 65 \<le> n \<and> n \<le> 90 \<or> 97 \<le> n \<and> n \<le> 122)"

definition validate_id :: "string \<Rightarrow> (unit, id_error) outcome" where
  "validate_id value =
     (if value = [] \<or> length value > 128 then Err IdLength
      else if \<not> list_all (\<lambda>byte. is_ascii_alphanumeric byte \<or> byte \<in> {CHR ''-'', CHR ''_'', CHR ''.'', CHR '':''}) value
      then Err IdCharacter
      else Ok ())"

section \<open>The contract holds\<close>

definition framed :: "bytes \<Rightarrow> bytes" where
  "framed body = to_be32 (word_of_nat (length body)) @ body"

definition raw_frame :: "nat \<Rightarrow> bytes \<Rightarrow> bytes option" where
  "raw_frame max_len body = (if body = [] \<or> length body > max_len then None else Some (framed body))"

lemma read_frame_len_framed:
  assumes "body \<noteq> []" "length body \<le> max_len" "length body < 2 ^ 32"
  shows "read_frame_len max_len (framed body @ rest) = (Ok (length body), body @ rest)"
  using assms by (simp add: read_frame_len_def framed_def bind_st_def be_length_to_be32)

lemma strict_prefix_framed:
  assumes "strict_prefix p (framed body)"
  obtains "length p < 4"
  | q where "p = to_be32 (word_of_nat (length body)) @ q" and "length q < length body"
proof (cases "length p < 4")
  case False
  from assms obtain r where r: "framed body = p @ r" "r \<noteq> []" by (auto simp: strict_prefix_def prefix_def)
  with False have "take 4 p = to_be32 (word_of_nat (length body))"
    by (metis append_eq_conv_conj framed_def length_to_be32 linorder_not_less take_append take_all_iff
        append_Nil2 diff_is_0_eq take0)
  then have "p = to_be32 (word_of_nat (length body)) @ drop 4 p" by (metis append_take_drop_id)
  moreover have "length (framed body) = length p + length r" using r(1) by simp
  then have "length (drop 4 p) < length body"
    using r(2) False by (cases r) (simp_all add: framed_def)
  ultimately show ?thesis using that by blast
qed (rule that)

lemma raw_codec:
  assumes "max_len < 2 ^ 32"
  shows "message_codec (write_frame max_len) (read_frame_body max_len) (raw_frame max_len)"
proof
  fix body f out
  assume f: "raw_frame max_len body = Some f"
  then have b: "body \<noteq> []" "length body \<le> max_len" "length body < 2 ^ 32" "f = framed body"
    using assms by (auto simp: raw_frame_def split: if_splits)
  show "write_frame max_len body out = (Ok (), out @ f)"
    using b by (simp add: write_frame_def framed_def)
  show "read_frame_body max_len (f @ rest) = (Ok body, rest)" for rest
    using b read_frame_len_framed by (simp add: read_frame_body_def bind_st_def)
  show "\<exists>e. fst (read_frame_body max_len p) = Err e" if "strict_prefix p f" for p
    using that [unfolded b(4)]
  proof (cases rule: strict_prefix_framed)
    case (2 q)
    then show ?thesis
      using b by (simp add: read_frame_body_def read_frame_len_def bind_st_def be_length_to_be32)
  qed (simp add: read_frame_body_def read_frame_len_def bind_st_def)
next
  fix body out
  assume "raw_frame max_len body = None"
  then show "\<exists>e. write_frame max_len body out = (Err e, out)"
    by (auto simp: raw_frame_def write_frame_def split: if_splits)
qed

interpretation control_body: message_codec "write_frame MAX_CONTROL_FRAME_LEN"
  "read_frame_body MAX_CONTROL_FRAME_LEN" "raw_frame MAX_CONTROL_FRAME_LEN"
  by (rule raw_codec) (simp add: MAX_CONTROL_FRAME_LEN_def)

interpretation media_body: message_codec "write_frame MAX_MEDIA_FRAME_LEN"
  "read_frame_body MAX_MEDIA_FRAME_LEN" "raw_frame MAX_MEDIA_FRAME_LEN"
  by (rule raw_codec) (simp add: MAX_MEDIA_FRAME_LEN_def)

definition control_frame :: "('m \<Rightarrow> bytes option) \<Rightarrow> 'm \<Rightarrow> bytes option" where
  "control_frame to_vec v = Option.bind (to_vec v) (raw_frame MAX_CONTROL_FRAME_LEN)"

lemma control_codec:
  assumes "serde_roundtrip to_vec from_slice"
  shows "message_codec (write_json_frame to_vec) (read_json_frame from_slice) (control_frame to_vec)"
  using control_body.lift_codec [of to_vec from_slice EncodeFailed DecodeFailed, OF serde_roundtripD [OF assms]]
  unfolding write_json_frame_def [abs_def] read_json_frame_def control_frame_def [abs_def] by simp

definition ipc_frame :: "('m \<Rightarrow> bytes option) \<Rightarrow> 'm \<Rightarrow> bytes option" where
  "ipc_frame to_vec v =
     Option.bind (to_vec v) (\<lambda>body. if length body > MAX_FRAME_LEN then None else Some (framed body))"

lemma ipc_codec:
  assumes "serde_roundtrip to_vec from_slice"
  shows "message_codec (ipc_write_json_frame to_vec) (ipc_read_json_frame from_slice) (ipc_frame to_vec)"
proof
  fix v f out
  assume "ipc_frame to_vec v = Some f"
  then obtain body where b: "to_vec v = Some body" "length body \<le> MAX_FRAME_LEN" "f = framed body"
    by (auto simp: ipc_frame_def bind_eq_Some_conv split: if_splits)
  then have len: "length body < 2 ^ 32" by (simp add: MAX_FRAME_LEN_def)
  show "ipc_write_json_frame to_vec v out = (Ok (), out @ f)"
    using b by (simp add: ipc_write_json_frame_def framed_def)
  show "ipc_read_json_frame from_slice (f @ rest) = (Ok v, rest)" for rest
    using b len serde_roundtripD [OF assms, of v body]
    by (simp add: ipc_read_json_frame_def framed_def bind_st_def be_length_to_be32 ok_or_def)
  show "\<exists>e. fst (ipc_read_json_frame from_slice p) = Err e" if "strict_prefix p f" for p
    using that [unfolded b(3)]
  proof (cases rule: strict_prefix_framed)
    case (2 q)
    then show ?thesis
      using b len by (simp add: ipc_read_json_frame_def bind_st_def be_length_to_be32)
  qed (simp add: ipc_read_json_frame_def bind_st_def)
next
  fix v out
  assume "ipc_frame to_vec v = None"
  then show "\<exists>e. ipc_write_json_frame to_vec v out = (Err e, out)"
    by (auto simp: ipc_frame_def ipc_write_json_frame_def bind_eq_None_conv split: if_splits option.splits)
qed

section \<open>Media frames\<close>

definition media_frame :: "(MediaFrameMetadata \<Rightarrow> bytes option) \<Rightarrow> MediaFrame \<Rightarrow> bytes option" where
  "media_frame to_vec f =
     (case (validate_media_frame f, to_vec (mf_metadata f)) of
        (Ok _, Some md) \<Rightarrow>
          if length md > MAX_MEDIA_METADATA_LEN then None
          else raw_frame MAX_MEDIA_FRAME_LEN (to_be32 (word_of_nat (length md)) @ md @ mf_payload f)
      | _ \<Rightarrow> None)"

lemma be_length_append: "length a = 4 \<Longrightarrow> be_length (a @ b) = be_length a"
  by (simp add: be_length_def nth_append)

lemma decode_media_body_encoded:
  assumes "from_slice md = Some (mf_metadata f)" "md \<noteq> []" "length md \<le> MAX_MEDIA_METADATA_LEN"
    and "validate_media_frame f = Ok ()"
  shows "decode_media_body from_slice (to_be32 (word_of_nat (length md)) @ md @ mf_payload f) = Ok f"
proof -
  have "length md < 2 ^ 32" using assms by (simp add: MAX_MEDIA_METADATA_LEN_def)
  then have "be_length (to_be32 (word_of_nat (length md)) @ md @ mf_payload f) = length md"
    by (simp add: be_length_append be_length_to_be32)
  moreover have "validate_media_frame \<lparr> mf_metadata = mf_metadata f, mf_payload = mf_payload f \<rparr> = Ok ()"
    using assms(4) by (cases f) simp
  ultimately show ?thesis using assms by (simp add: decode_media_body_def ok_or_def Let_def)
qed

lemma read_media_frame_framed:
  assumes "4 \<le> length body" "length body \<le> MAX_MEDIA_FRAME_LEN"
  shows "read_media_frame from_slice (framed body @ rest) = (decode_media_body from_slice body, rest)"
  using assms read_frame_len_framed [of body MAX_MEDIA_FRAME_LEN rest]
  by (force simp: read_media_frame_def bind_st_def MAX_MEDIA_FRAME_LEN_def)

lemma read_media_frame_truncated:
  assumes "strict_prefix p (framed body)" "4 \<le> length body" "length body \<le> MAX_MEDIA_FRAME_LEN"
  shows "\<exists>e. fst (read_media_frame from_slice p) = Err e"
  using assms(1)
proof (cases rule: strict_prefix_framed)
  case (2 q)
  have "length body < 2 ^ 32" "body \<noteq> []" using assms by (auto simp: MAX_MEDIA_FRAME_LEN_def)
  then show ?thesis
    using 2 assms by (simp add: read_media_frame_def read_frame_len_def bind_st_def be_length_to_be32)
qed (simp add: read_media_frame_def read_frame_len_def bind_st_def)

lemma media_codec:
  assumes roundtrip: "serde_roundtrip to_vec from_slice" and nonempty: "serde_nonempty to_vec"
  shows "message_codec (write_media_frame to_vec) (read_media_frame from_slice) (media_frame to_vec)"
proof
  fix f fr out
  assume "media_frame to_vec f = Some fr"
  then obtain md where md: "validate_media_frame f = Ok ()" "to_vec (mf_metadata f) = Some md"
      "length md \<le> MAX_MEDIA_METADATA_LEN"
      "raw_frame MAX_MEDIA_FRAME_LEN (to_be32 (word_of_nat (length md)) @ md @ mf_payload f) = Some fr"
    by (auto simp: media_frame_def split: outcome.splits option.splits if_splits)
  let ?body = "to_be32 (word_of_nat (length md)) @ md @ mf_payload f"
  have fr: "fr = framed ?body" "length ?body \<le> MAX_MEDIA_FRAME_LEN"
    using md(4) by (auto simp: raw_frame_def split: if_splits)
  then have len: "length ?body < 2 ^ 32" by (simp add: MAX_MEDIA_FRAME_LEN_def)
  have "length md < 2 ^ 32" using len by simp
  then show "write_media_frame to_vec f out = (Ok (), out @ fr)"
    using md media_body.put_frame [OF md(4)] by (simp add: write_media_frame_def)
  have "md \<noteq> []" using md(2) nonempty by (auto simp: serde_nonempty_def)
  then have decode: "decode_media_body from_slice ?body = Ok f"
    using md serde_roundtripD [OF roundtrip] by (intro decode_media_body_encoded) auto
  show "read_media_frame from_slice (fr @ rest) = (Ok f, rest)" for rest
    using read_media_frame_framed [of ?body from_slice rest] fr decode by simp
  show "\<exists>e. fst (read_media_frame from_slice p) = Err e" if "strict_prefix p fr" for p
    using read_media_frame_truncated [of p ?body] that fr by simp
next
  fix f out
  assume "media_frame to_vec f = None"
  then show "\<exists>e. write_media_frame to_vec f out = (Err e, out)"
    using media_body.put_refused
    by (auto simp: media_frame_def write_media_frame_def validate_media_frame_def
        split: outcome.splits option.splits if_splits)
qed

text \<open>C31: messages written one after the other to the IPC channel or to the AI control channel are read
  back one after the other, exactly as sent and whatever follows on the stream (granted that
  \<open>serde_json\<close> decodes what it encoded).\<close>

theorem frame_stream_roundtrip:
  assumes "serde_roundtrip to_vec from_slice"
  shows "(list_all (\<lambda>m. control_frame to_vec m \<noteq> None) ms \<longrightarrow>
      (\<exists>s. foldl (\<lambda>out m. snd (write_json_frame to_vec m out)) out ms = out @ s \<and>
       (\<forall>rest. foldl (\<lambda>(got, inp) _. case read_json_frame from_slice inp of
           (Ok m, inp') \<Rightarrow> (got @ [m], inp') | (_, inp') \<Rightarrow> (got, inp')) ([], s @ rest) ms = (ms, rest)))) \<and>
    (list_all (\<lambda>m. ipc_frame to_vec m \<noteq> None) ms \<longrightarrow>
      (\<exists>s. foldl (\<lambda>out m. snd (ipc_write_json_frame to_vec m out)) out ms = out @ s \<and>
       (\<forall>rest. foldl (\<lambda>(got, inp) _. case ipc_read_json_frame from_slice inp of
           (Ok m, inp') \<Rightarrow> (got @ [m], inp') | (_, inp') \<Rightarrow> (got, inp')) ([], s @ rest) ms = (ms, rest))))"
  using message_codec.stream_roundtrip [OF control_codec [OF assms], where ms = ms and out = out]
    message_codec.stream_roundtrip [OF ipc_codec [OF assms], where ms = ms and out = out]
  by blast

text \<open>A concrete value codec: a byte is its own encoding.\<close>

definition byte_to_vec :: "u8 \<Rightarrow> bytes option" where
  "byte_to_vec b = Some [b]"

definition byte_from_slice :: "bytes \<Rightarrow> u8 option" where
  "byte_from_slice bs = (case bs of [b] \<Rightarrow> Some b | _ \<Rightarrow> None)"

theorem frame_stream_roundtrip_witness:
  "\<exists>s. foldl (\<lambda>out m. snd (write_json_frame byte_to_vec m out)) [] [7, 9] = [] @ s \<and>
     (\<forall>rest. foldl (\<lambda>(got, inp) _. case read_json_frame byte_from_slice inp of
        (Ok m, inp') \<Rightarrow> (got @ [m], inp') | (_, inp') \<Rightarrow> (got, inp')) ([], s @ rest) [7 :: u8, 9] = ([7, 9], rest))"
proof -
  have roundtrip: "serde_roundtrip byte_to_vec byte_from_slice"
    by (auto simp: serde_roundtrip_def byte_to_vec_def byte_from_slice_def)
  have "list_all (\<lambda>m. control_frame byte_to_vec m \<noteq> None) [7, 9]"
    by (simp add: control_frame_def byte_to_vec_def raw_frame_def MAX_CONTROL_FRAME_LEN_def)
  then show ?thesis using frame_stream_roundtrip [OF roundtrip, of "[7, 9]" "[]"] by blast
qed

text \<open>C32: a media frame that is valid and fits is written as one frame and read back unchanged, every
  strict prefix of it is refused, and a frame that is invalid or does not fit is refused by the
  writer with nothing written.\<close>

theorem media_frame_roundtrip:
  assumes "serde_roundtrip to_vec from_slice" and "serde_nonempty to_vec"
  shows "case media_frame to_vec f of
      None \<Rightarrow> (\<exists>e. write_media_frame to_vec f out = (Err e, out))
    | Some frame \<Rightarrow>
        write_media_frame to_vec f out = (Ok (), out @ frame) \<and>
        read_media_frame from_slice (frame @ rest) = (Ok f, rest) \<and>
        (\<forall>p. strict_prefix p frame \<longrightarrow> (\<exists>e. fst (read_media_frame from_slice p) = Err e))"
  using message_codec.put_frame [OF media_codec [OF assms]] message_codec.put_refused [OF media_codec [OF assms]]
    message_codec.get_frame [OF media_codec [OF assms]] message_codec.get_truncated [OF media_codec [OF assms]]
  by (auto split: option.splits)

definition demo_media_frame :: MediaFrame where
  "demo_media_frame = \<lparr> mf_metadata =
     \<lparr> mm_job_id = ''job-1'', mm_tenant_id = ''t'', mm_conversation_id = ''c'', mm_participant_id = ''p'',
       mm_stream_id = ''s'', mm_sequence = 4, mm_generation = 1, mm_direction = FromParticipant,
       mm_codec = Pcmu, mm_sample_rate = 8000, mm_channels = 1, mm_media_timestamp = 640,
       mm_duration_ms = 20, mm_end_of_stream = False \<rparr>, mf_payload = [127, 127] \<rparr>"

definition demo_metadata_to_vec :: "MediaFrameMetadata \<Rightarrow> bytes option" where
  "demo_metadata_to_vec m = (if m = mf_metadata demo_media_frame then Some [123, 125] else None)"

definition demo_metadata_from_slice :: "bytes \<Rightarrow> MediaFrameMetadata option" where
  "demo_metadata_from_slice b = (if b = [123, 125] then Some (mf_metadata demo_media_frame) else None)"

theorem media_frame_roundtrip_witness:
  "\<exists>frame. write_media_frame demo_metadata_to_vec demo_media_frame [] = (Ok (), frame) \<and>
     read_media_frame demo_metadata_from_slice (frame @ [1, 2]) = (Ok demo_media_frame, [1, 2])"
proof -
  have "serde_roundtrip demo_metadata_to_vec demo_metadata_from_slice" and "serde_nonempty demo_metadata_to_vec"
    by (auto simp: serde_roundtrip_def serde_nonempty_def demo_metadata_to_vec_def demo_metadata_from_slice_def split: if_splits)
  note frame = media_frame_roundtrip [OF this, of demo_media_frame "[]" "[1, 2]"]
  have "media_frame demo_metadata_to_vec demo_media_frame \<noteq> None"
    by (simp add: media_frame_def validate_media_frame_def demo_metadata_to_vec_def demo_media_frame_def
        raw_frame_def MAX_MEDIA_METADATA_LEN_def MAX_MEDIA_FRAME_LEN_def)
  then show ?thesis using frame by auto
qed

lemma read_frame_len_cases:
  "(\<exists>e r. read_frame_len m inp = (Err e, r)) \<or>
   (\<exists>n r. read_frame_len m inp = (Ok n, r) \<and> n \<le> m \<and> length inp = length r + 4)"
  by (auto simp: read_frame_len_def bind_st_def read_exact_def Let_def)

lemma decode_media_body_safe:
  "4 \<le> length body \<Longrightarrow> decode_media_body from_slice body \<noteq> Panic"
proof -
  have "validate_media_frame f \<noteq> Panic" for f by (simp add: validate_media_frame_def)
  moreover assume "4 \<le> length body"
  ultimately show ?thesis by (auto simp: decode_media_body_def Let_def)
qed

lemma decode_media_body_valid:
  "decode_media_body from_slice body = Ok f \<Longrightarrow> validate_media_frame f = Ok ()"
  by (auto simp: decode_media_body_def Let_def split: if_splits)

text \<open>On arbitrary input the media reader never panics, and a frame it returns is valid and was
  cut out of at most 4 + 256 KiB of input.\<close>

theorem media_reader_safe:
  "fst (read_media_frame from_slice inp) \<noteq> Panic \<and>
   (\<forall>f. fst (read_media_frame from_slice inp) = Ok f \<longrightarrow>
      validate_media_frame f = Ok () \<and>
      length inp \<le> length (snd (read_media_frame from_slice inp)) + 4 + MAX_MEDIA_FRAME_LEN)"
proof -
  consider e r where "read_frame_len MAX_MEDIA_FRAME_LEN inp = (Err e, r)"
    | n r where "read_frame_len MAX_MEDIA_FRAME_LEN inp = (Ok n, r)" "n \<le> MAX_MEDIA_FRAME_LEN"
        "length inp = length r + 4"
    using read_frame_len_cases [of MAX_MEDIA_FRAME_LEN inp] by blast
  then show ?thesis
  proof cases
    case 1
    then show ?thesis by (auto simp: read_media_frame_def bind_st_def)
  next
    case (2 n r)
    then show ?thesis
      using decode_media_body_safe [of "take n r" from_slice] decode_media_body_valid [of from_slice "take n r"]
      by (auto simp: read_media_frame_def bind_st_def read_exact_def)
  qed
qed

theorem media_reader_safe_witness:
  "fst (read_media_frame demo_metadata_from_slice [0, 0, 0, 2, 5]) \<noteq> Panic"
  using media_reader_safe by blast

text \<open>An identifier is accepted exactly when it has 1 to 128 bytes, each a letter, a digit or one
  of the four punctuation bytes; the length is checked first.\<close>

theorem validate_id_spec:
  "validate_id v =
     (if length v \<notin> {1..128} then Err IdLength
      else if set v \<subseteq> {c. is_ascii_alphanumeric c} \<union> set ''-_.:'' then Ok () else Err IdCharacter)"
proof -
  have "length v \<notin> {1..128} \<longleftrightarrow> v = [] \<or> length v > 128" by (cases v) auto
  then show ?thesis by (simp add: validate_id_def list_all_iff subset_iff) blast
qed

end
