(* ===== verification/Dtmf_Types.thy ===== *)
theory Dtmf_Types
  imports Call_Types
begin

text \<open>
  DTMF vocabulary: \<open>crates/voipswitch-core/src/dtmf/mod.rs\<close> and the telephone-event capability of
  \<open>media/mod.rs\<close>.  An \<open>Instant\<close> is a number of milliseconds since an arbitrary origin.
\<close>

type_synonym Instant = nat

datatype DtmfDigit =
    D0 | D1 | D2 | D3 | D4 | D5 | D6 | D7 | D8 | D9 | Star | Pound | DA | DB | DC | DD | Flash

datatype DtmfTransport = Rfc4733 | SipInfoRelay | SipInfoDtmf | InBand

datatype DtmfSourceGeneration = Media u64 | Dialog u64

datatype DtmfEventId =
    Rfc4733Id (id_media_generation: u64) (id_source_session: SessionId) (id_ssrc: u32)
      (id_timestamp: u32) (id_event_code: u8)
  | SipInfoId (id_dialog_generation: u64) (id_source_session: SessionId) (id_cseq: u32)

record DigitEvent =
  de_event_id :: DtmfEventId
  de_domain_id :: DomainId
  de_call_id :: CallId
  de_source_session_id :: SessionId
  de_source_media_leg_id :: "MediaLegId option"
  de_digit :: DtmfDigit
  de_transport :: DtmfTransport
  de_duration_ms :: u32
  de_observed_at_ms :: u64
  de_source_generation :: DtmfSourceGeneration
  de_incomplete_end :: bool

definition identity_is_consistent :: "DigitEvent \<Rightarrow> bool" where
  "identity_is_consistent e \<longleftrightarrow>
     (case (de_event_id e, de_transport e, de_source_generation e) of
        (Rfc4733Id media_generation source_session_id _ _ _, Rfc4733, Media source_generation) \<Rightarrow>
          media_generation = source_generation \<and> source_session_id = de_source_session_id e
      | (SipInfoId dialog_generation source_session_id _, SipInfoRelay, Dialog source_generation) \<Rightarrow>
          dialog_generation = source_generation \<and> source_session_id = de_source_session_id e
      | (SipInfoId dialog_generation source_session_id _, SipInfoDtmf, Dialog source_generation) \<Rightarrow>
          dialog_generation = source_generation \<and> source_session_id = de_source_session_id e
      | _ \<Rightarrow> False)"

datatype DtmfSourcePolicy = Auto | Rfc4733Only | SipInfoOnly

datatype DtmfSourceLock = Unset | Rfc4733Lock u64 | SipInfoLock u64

record DtmfCapability =
  cap_payload_type :: u8
  cap_clock_rate :: u32
  cap_events :: "u8 set"
  cap_detectable :: bool

end
