(* ===== verification/Hash_Map.thy ===== *)
theory Hash_Map
  imports Prelude "HOL-Library.Multiset"
begin

text \<open>
  \<open>std::collections::HashMap\<close> as an association list with distinct keys.  The iteration order of a
  hash map is unspecified: an operation that iterates takes the order as an argument, a function
  that permutes the entries (\<open>iterates\<close>), and its properties hold for every such order.
\<close>

type_synonym ('k, 'v) HashMap = "('k \<times> 'v) list"

type_synonym ('k, 'v) hash_order = "('k, 'v) HashMap \<Rightarrow> ('k \<times> 'v) list"

definition hm_wf :: "('k, 'v) HashMap \<Rightarrow> bool" where
  "hm_wf m \<longleftrightarrow> distinct (map fst m)"

definition hm_get :: "('k, 'v) HashMap \<Rightarrow> 'k \<Rightarrow> 'v option" where
  "hm_get m k = map_of m k"

fun hm_insert :: "'k \<Rightarrow> 'v \<Rightarrow> ('k, 'v) HashMap \<Rightarrow> ('k, 'v) HashMap" where
  "hm_insert k v [] = [(k, v)]"
| "hm_insert k v ((a, b) # m) = (if k = a then (k, v) # m else (a, b) # hm_insert k v m)"

definition hm_remove :: "'k \<Rightarrow> ('k, 'v) HashMap \<Rightarrow> ('k, 'v) HashMap" where
  "hm_remove k m = filter (\<lambda>(a, b). a \<noteq> k) m"

definition hm_contains_key :: "('k, 'v) HashMap \<Rightarrow> 'k \<Rightarrow> bool" where
  "hm_contains_key m k \<longleftrightarrow> hm_get m k \<noteq> None"

definition iterates :: "('k, 'v) hash_order \<Rightarrow> bool" where
  "iterates order \<longleftrightarrow> (\<forall>m. mset (order m) = mset m)"

lemma iterates_set: "iterates order \<Longrightarrow> set (order m) = set m"
  by (metis iterates_def set_mset_mset)

lemma iterates_distinct: "iterates order \<Longrightarrow> hm_wf m \<Longrightarrow> distinct (map fst (order m))"
  unfolding iterates_def hm_wf_def by (metis mset_eq_imp_distinct_iff mset_map)

lemma iterates_id: "iterates (\<lambda>m. m)" and iterates_rev: "iterates rev"
  by (simp_all add: iterates_def)

lemma hm_get_insert [simp]: "hm_get (hm_insert k v m) = (hm_get m)(k \<mapsto> v)"
  by (induction k v m rule: hm_insert.induct) (auto simp: hm_get_def)

lemma hm_get_remove [simp]: "hm_get (hm_remove k m) = (hm_get m)(k := None)"
  by (induction m) (auto simp: hm_get_def hm_remove_def)

lemma hm_keys_insert: "fst ` set (hm_insert k v m) = insert k (fst ` set m)"
  by (induction k v m rule: hm_insert.induct) auto

lemma hm_keys_remove: "fst ` set (hm_remove k m) = fst ` set m - {k}"
  by (auto simp: hm_remove_def)

lemma hm_wf_Nil [simp]: "hm_wf []"
  by (simp add: hm_wf_def)

lemma hm_wf_insert: "hm_wf m \<Longrightarrow> hm_wf (hm_insert k v m)"
  unfolding hm_wf_def
proof (induction k v m rule: hm_insert.induct)
  case (2 k v a b m)
  then show ?case using hm_keys_insert [of k v m] by auto
qed simp

lemma hm_wf_remove: "hm_wf m \<Longrightarrow> hm_wf (hm_remove k m)"
  unfolding hm_wf_def hm_remove_def by (induction m) auto

lemma hm_get_None_iff: "hm_get m k = None \<longleftrightarrow> k \<notin> fst ` set m"
  by (simp add: hm_get_def map_of_eq_None_iff)

lemma hm_in_set_iff: "hm_wf m \<Longrightarrow> (k, v) \<in> set m \<longleftrightarrow> hm_get m k = Some v"
  by (simp add: hm_wf_def hm_get_def)

lemma length_hm_insert:
  "length (hm_insert k v m) = (if hm_get m k = None then Suc (length m) else length m)"
  by (induction k v m rule: hm_insert.induct) (auto simp: hm_get_def)

lemma length_hm_remove:
  "hm_wf m \<Longrightarrow> length (hm_remove k m) = (if hm_get m k = None then length m else length m - 1)"
proof (induction m)
  case (Cons p m)
  obtain a b where p: "p = (a, b)" by (cases p)
  from Cons.prems have wf: "hm_wf m" and fresh: "a \<notin> fst ` set m" by (auto simp: hm_wf_def p)
  show ?case
  proof (cases "a = k")
    case True
    then have "hm_remove k m = m" using fresh by (force simp: hm_remove_def intro!: filter_True)
    with True show ?thesis by (simp add: p hm_remove_def hm_get_def)
  next
    case False
    with Cons.IH [OF wf] show ?thesis
      by (cases m) (auto simp: p hm_remove_def hm_get_def split: if_splits)
  qed
qed (simp add: hm_remove_def hm_get_def)

end
