(* ===== verification/Rfc4733_Parser.thy ===== *)
theory Rfc4733_Parser
  imports Dtmf_Types Hash_Map Byte_Codec
begin

text \<open>
  The RFC 4733 telephone-event parser of the media path: \<open>crates/voipswitchd/src/runtime/dtmf.rs\<close>.
  \<open>usize\<close> sums in the header computation are natural numbers: they stay below \<open>2 ^ 19\<close>, so the
  \<open>checked_add\<close> and \<open>checked_mul\<close> there never fail.
\<close>

definition STATE_CAPACITY :: nat where
  "STATE_CAPACITY = 32"

definition RECENT_TTL :: nat where
  "RECENT_TTL = 2000"

definition IDLE_TIMEOUT :: nat where
  "IDLE_TIMEOUT = 250"

definition MAX_PRESS_DURATION :: nat where
  "MAX_PRESS_DURATION = 10000"

datatype DtmfMediaMode = Transparent | Observe | Collect

record ParserConfig =
  pc_generation :: u64
  pc_capability :: "DtmfCapability option"
  pc_mode :: DtmfMediaMode

definition config_disabled :: "u64 \<Rightarrow> ParserConfig" where
  "config_disabled generation = \<lparr> pc_generation = generation, pc_capability = None, pc_mode = Transparent \<rparr>"

definition with_mode :: "u64 \<Rightarrow> DtmfCapability option \<Rightarrow> DtmfMediaMode \<Rightarrow> ParserConfig" where
  "with_mode generation capability mode =
     \<lparr> pc_generation = generation,
       pc_capability = (case capability of Some v \<Rightarrow> if cap_detectable v then Some v else None | None \<Rightarrow> None),
       pc_mode = mode \<rparr>"

definition active_capability :: "ParserConfig \<Rightarrow> DtmfCapability option" where
  "active_capability c = (if pc_mode c \<noteq> Transparent then pc_capability c else None)"

record EventKey =
  ek_ssrc :: u32
  ek_timestamp :: u32
  ek_event :: u8

record ActivePress =
  ap_digit :: DtmfDigit
  ap_max_duration :: u16
  ap_first_seen :: Instant
  ap_last_seen :: Instant

record Rfc4733DigitCompleted =
  dc_generation :: u64
  dc_ssrc :: u32
  dc_timestamp :: u32
  dc_event_code :: u8
  dc_digit :: DtmfDigit
  dc_duration_ms :: u32
  dc_incomplete_end :: bool

datatype ParserObservation = Completed Rfc4733DigitCompleted | Invalid

record Rfc4733Parser =
  pr_config :: ParserConfig
  pr_active :: "(EventKey, ActivePress) HashMap"
  pr_recent :: "(EventKey \<times> Instant) list"

type_synonym 'a parser_op = "(Rfc4733Parser, 'a, unit) stateful"

section \<open>RTP packets\<close>

record ParsedRtp =
  rtp_payload_type :: u8
  rtp_timestamp :: u32
  rtp_ssrc :: u32
  rtp_payload :: bytes

text \<open>The end of the header: fixed part, contributing sources, optional extension.\<close>

definition rtp_header_len :: "bytes \<Rightarrow> nat option" where
  "rtp_header_len packet =
     (let header_len = 12 + 4 * unat (packet ! 0 AND 0x0f) in
      if header_len > length packet then None
      else if packet ! 0 AND 0x10 \<noteq> 0 then
        (let extension_header_end = header_len + 4 in
         if extension_header_end > length packet then None
         else
           let extension_words = unat (from_be16 (packet ! (header_len + 2)) (packet ! (header_len + 3)));
               end = extension_header_end + 4 * extension_words
           in if end > length packet then None else Some end)
      else Some header_len)"

definition rtp_payload_end :: "bytes \<Rightarrow> nat \<Rightarrow> nat option" where
  "rtp_payload_end packet header_len =
     (if packet ! 0 AND 0x20 \<noteq> 0 then
        (let padding = unat (last packet) in
         if padding = 0 \<or> padding > length packet - header_len then None else Some (length packet - padding))
      else Some (length packet))"

definition parse_rtp :: "bytes \<Rightarrow> (ParsedRtp, unit) outcome" where
  "parse_rtp packet =
     (if length packet < 12 \<or> drop_bit 6 (packet ! 0) \<noteq> 2 then Err ()
      else
        and_then (ok_or () (rtp_header_len packet)) (\<lambda>header_len.
        and_then (ok_or () (rtp_payload_end packet header_len)) (\<lambda>payload_end.
        and_then (slice header_len payload_end packet) (\<lambda>payload.
          Ok \<lparr> rtp_payload_type = packet ! 1 AND 0x7f,
               rtp_timestamp = from_be32 (packet ! 4) (packet ! 5) (packet ! 6) (packet ! 7),
               rtp_ssrc = from_be32 (packet ! 8) (packet ! 9) (packet ! 10) (packet ! 11),
               rtp_payload = payload \<rparr>))))"

definition map_event :: "u8 \<Rightarrow> DtmfCapability \<Rightarrow> DtmfDigit option" where
  "map_event event capability =
     (if event \<notin> cap_events capability then None
      else if event = 0 then Some D0 else if event = 1 then Some D1 else if event = 2 then Some D2
      else if event = 3 then Some D3 else if event = 4 then Some D4 else if event = 5 then Some D5
      else if event = 6 then Some D6 else if event = 7 then Some D7 else if event = 8 then Some D8
      else if event = 9 then Some D9 else if event = 10 then Some Star else if event = 11 then Some Pound
      else if event = 12 then Some DA else if event = 13 then Some DB else if event = 14 then Some DC
      else if event = 15 then Some DD else if event = 16 then Some Flash else None)"

section \<open>The parser\<close>

definition parser_new :: "ParserConfig \<Rightarrow> Rfc4733Parser" where
  "parser_new config = \<lparr> pr_config = config, pr_active = [], pr_recent = [] \<rparr>"

definition update_config :: "ParserConfig \<Rightarrow> Rfc4733Parser \<Rightarrow> Rfc4733Parser" where
  "update_config config p =
     (if pr_config p \<noteq> config then \<lparr> pr_config = config, pr_active = [], pr_recent = [] \<rparr> else p)"

definition press_duration_ms :: "u32 option \<Rightarrow> u16 \<Rightarrow> u32" where
  "press_duration_ms clock_rate max_duration =
     min (case checked_div (saturating_mul (ucast max_duration) 1000) (case clock_rate of Some r \<Rightarrow> r | None \<Rightarrow> 8000) of
            Some d \<Rightarrow> d | None \<Rightarrow> 0)
       (word_of_nat MAX_PRESS_DURATION)"

definition complete :: "EventKey \<Rightarrow> bool \<Rightarrow> Instant \<Rightarrow> Rfc4733DigitCompleted parser_op" where
  "complete key incomplete_end now p =
     (case hm_get (pr_active p) key of
        None \<Rightarrow> (Panic, p)
      | Some active \<Rightarrow>
          (Ok \<lparr> dc_generation = pc_generation (pr_config p), dc_ssrc = ek_ssrc key,
               dc_timestamp = ek_timestamp key, dc_event_code = ek_event key, dc_digit = ap_digit active,
               dc_duration_ms =
                 press_duration_ms (map_option cap_clock_rate (active_capability (pr_config p)))
                   (ap_max_duration active),
               dc_incomplete_end = incomplete_end \<rparr>,
           p\<lparr>pr_active := hm_remove key (pr_active p), pr_recent := pr_recent p @ [(key, now)]\<rparr>))"

definition prune_recent :: "Instant \<Rightarrow> Rfc4733Parser \<Rightarrow> Rfc4733Parser" where
  "prune_recent now p = p\<lparr>pr_recent := dropWhile (\<lambda>(_, completed). now - completed \<ge> RECENT_TTL) (pr_recent p)\<rparr>"

definition press_deadline :: "ActivePress \<Rightarrow> Instant" where
  "press_deadline a = min (ap_last_seen a + IDLE_TIMEOUT) (ap_first_seen a + MAX_PRESS_DURATION)"

definition overdue :: "Instant \<Rightarrow> ActivePress \<Rightarrow> bool" where
  "overdue now a \<longleftrightarrow> now \<ge> ap_last_seen a + IDLE_TIMEOUT \<or> now \<ge> ap_first_seen a + MAX_PRESS_DURATION"

fun complete_all :: "EventKey list \<Rightarrow> Instant \<Rightarrow> ParserObservation list parser_op" where
  "complete_all [] now = return_st []"
| "complete_all (key # keys) now =
     bind_st (complete key True now) (\<lambda>d.
       bind_st (complete_all keys now) (\<lambda>ds. return_st (Completed d # ds)))"

definition expire :: "(EventKey, ActivePress) hash_order \<Rightarrow> Instant \<Rightarrow> ParserObservation list parser_op" where
  "expire order now p =
     (let p1 = prune_recent now p;
          expired = map fst (filter (\<lambda>(_, a). overdue now a) (order (pr_active p1)))
      in complete_all expired now p1)"

definition next_deadline :: "Rfc4733Parser \<Rightarrow> Instant option" where
  "next_deadline p =
     (case map (press_deadline \<circ> snd) (pr_active p) of [] \<Rightarrow> None | d # ds \<Rightarrow> Some (foldr min ds d))"

fun evict :: "nat \<Rightarrow> (EventKey \<times> Instant) list \<Rightarrow> (EventKey \<times> Instant) list" where
  "evict active_len [] = []"
| "evict active_len (r # recent) =
     (if active_len + length (r # recent) \<ge> STATE_CAPACITY then evict active_len recent else r # recent)"

text \<open>The part of \<open>observe_packet\<close> after a telephone event has been recognised.\<close>

definition observe_event ::
    "EventKey \<Rightarrow> DtmfDigit \<Rightarrow> u16 \<Rightarrow> bool \<Rightarrow> Instant \<Rightarrow> ParserObservation list parser_op" where
  "observe_event key digit duration ended now p =
     (if key \<in> fst ` set (pr_recent p) then (Ok [], p)
      else if (case hm_get (pr_active p) key of Some a \<Rightarrow> duration < ap_max_duration a | None \<Rightarrow> False)
      then (Ok [Invalid], p)
      else
        let p1 = (if hm_contains_key (pr_active p) key then p
                  else p\<lparr>pr_recent := evict (length (pr_active p)) (pr_recent p)\<rparr>)
        in if \<not> hm_contains_key (pr_active p) key \<and>
              length (pr_active p1) + length (pr_recent p1) \<ge> STATE_CAPACITY
           then (Ok [Invalid], p1)
           else
             let a = (case hm_get (pr_active p1) key of
                        Some a \<Rightarrow> a
                      | None \<Rightarrow> \<lparr> ap_digit = digit, ap_max_duration = duration, ap_first_seen = now,
                                  ap_last_seen = now \<rparr>);
                 p2 = p1\<lparr>pr_active := hm_insert key
                        (a\<lparr>ap_max_duration := max (ap_max_duration a) duration, ap_last_seen := now\<rparr>) (pr_active p1)\<rparr>
             in if ended then bind_st (complete key False now) (\<lambda>d. return_st [Completed d]) p2
                else (Ok [], p2))"

definition event_of_packet ::
    "DtmfCapability \<Rightarrow> ParsedRtp \<Rightarrow> (EventKey \<times> DtmfDigit \<times> u16 \<times> bool) option" where
  "event_of_packet capability rtp =
     map_option (\<lambda>digit.
         (\<lparr> ek_ssrc = rtp_ssrc rtp, ek_timestamp = rtp_timestamp rtp, ek_event = rtp_payload rtp ! 0 \<rparr>, digit,
          from_be16 (rtp_payload rtp ! 2) (rtp_payload rtp ! 3), rtp_payload rtp ! 1 AND 0x80 \<noteq> 0))
       (map_event (rtp_payload rtp ! 0) capability)"

definition observe_packet ::
    "(EventKey, ActivePress) hash_order \<Rightarrow> bytes \<Rightarrow> Instant \<Rightarrow> ParserObservation list parser_op" where
  "observe_packet order packet now =
     bind_st (expire order now) (\<lambda>observations p.
       case active_capability (pr_config p) of
         None \<Rightarrow> (Ok observations, p)
       | Some capability \<Rightarrow>
           (case parse_rtp packet of
              Panic \<Rightarrow> (Panic, p)
            | Err _ \<Rightarrow> (Ok (observations @ [Invalid]), p)
            | Ok rtp \<Rightarrow>
                if rtp_payload_type rtp \<noteq> cap_payload_type capability then (Ok observations, p)
                else if length (rtp_payload rtp) < 4 then (Ok (observations @ [Invalid]), p)
                else
                  (case event_of_packet capability rtp of
                     None \<Rightarrow> (Ok observations, p)
                   | Some (key, digit, duration, ended) \<Rightarrow>
                       bind_st (observe_event key digit duration ended now)
                         (\<lambda>more. return_st (observations @ more)) p)))"

definition suppresses_packet :: "Rfc4733Parser \<Rightarrow> bytes \<Rightarrow> bool" where
  "suppresses_packet p packet \<longleftrightarrow>
     pc_mode (pr_config p) = Collect \<and>
     (case pc_capability (pr_config p) of
        None \<Rightarrow> False
      | Some capability \<Rightarrow>
          length packet \<ge> 2 \<and> drop_bit 6 (packet ! 0) = 2 \<and> packet ! 1 AND 0x7f = cap_payload_type capability)"

end
