(* ===== verification/Rfc4733_Properties.thy ===== *)
theory Rfc4733_Properties
  imports Rfc4733_Parser Machines
begin

text \<open>
  Correctness of the telephone-event parser: it never panics and its state is bounded, a digit is
  reported once however often its end packet is repeated, the deadline it announces is the one
  at which it acts, and RTP packets built by the standard's layout are parsed back.
\<close>

section \<open>The invariant\<close>

definition parser_wf :: "Rfc4733Parser \<Rightarrow> bool" where
  "parser_wf p \<longleftrightarrow>
     distinct (map fst (pr_active p) @ map fst (pr_recent p)) \<and>
     length (pr_active p) + length (pr_recent p) \<le> STATE_CAPACITY"

definition key_of :: "Rfc4733DigitCompleted \<Rightarrow> EventKey" where
  "key_of d = \<lparr> ek_ssrc = dc_ssrc d, ek_timestamp = dc_timestamp d, ek_event = dc_event_code d \<rparr>"

fun observed_key :: "ParserObservation \<Rightarrow> EventKey option" where
  "observed_key (Completed d) = Some (key_of d)"
| "observed_key Invalid = None"

definition parser_load :: "Rfc4733Parser \<Rightarrow> nat" where
  "parser_load p = length (pr_active p) + length (pr_recent p)"

lemma parser_wf_new [simp]: "parser_wf (parser_new c)"
  by (simp add: parser_wf_def parser_new_def STATE_CAPACITY_def)

lemma parser_wf_update: "parser_wf p \<Longrightarrow> parser_wf (update_config c p)"
  by (simp add: parser_wf_def update_config_def)

lemma parser_wf_active: "parser_wf p \<Longrightarrow> hm_wf (pr_active p)"
  by (simp add: parser_wf_def hm_wf_def)

lemma complete_ok:
  assumes "parser_wf p" and "k \<in> fst ` set (pr_active p)"
  shows "\<exists>d. complete k inc now p =
      (Ok d, p\<lparr>pr_active := hm_remove k (pr_active p), pr_recent := pr_recent p @ [(k, now)]\<rparr>) \<and>
      key_of d = k \<and> dc_incomplete_end d = inc \<and> dc_generation d = pc_generation (pr_config p) \<and>
      parser_wf (p\<lparr>pr_active := hm_remove k (pr_active p), pr_recent := pr_recent p @ [(k, now)]\<rparr>)"
proof -
  obtain a where a: "hm_get (pr_active p) k = Some a"
    using assms(2) by (metis hm_get_None_iff not_Some_eq)
  have wf: "hm_wf (pr_active p)" by (rule parser_wf_active [OF assms(1)])
  have "k \<notin> fst ` set (pr_recent p)" using assms by (auto simp: parser_wf_def)
  moreover obtain n where "length (pr_active p) = Suc n" using assms(2) by (cases "pr_active p") auto
  ultimately have "parser_wf (p\<lparr>pr_active := hm_remove k (pr_active p), pr_recent := pr_recent p @ [(k, now)]\<rparr>)"
    using assms wf a hm_wf_remove [OF wf, of k] hm_keys_remove [of k "pr_active p"]
    by (auto simp: parser_wf_def length_hm_remove hm_wf_def simp flip: image_set)
  then show ?thesis using a by (simp add: complete_def key_of_def)
qed

lemma parser_load_complete:
  assumes "parser_wf p" and "k \<in> fst ` set (pr_active p)"
  shows "parser_load (p\<lparr>pr_active := hm_remove k (pr_active p), pr_recent := pr_recent p @ [(k, now)]\<rparr>) =
    parser_load p"
proof -
  have "hm_get (pr_active p) k \<noteq> None" using assms(2) by (simp add: hm_get_None_iff)
  moreover obtain n where "length (pr_active p) = Suc n" using assms(2) by (cases "pr_active p") auto
  ultimately show ?thesis
    using length_hm_remove [OF parser_wf_active [OF assms(1)], of k] by (simp add: parser_load_def)
qed

lemma complete_all_ok:
  assumes "parser_wf p" and "distinct keys" and "set keys \<subseteq> fst ` set (pr_active p)"
  shows "\<exists>ds p'. complete_all keys now p = (Ok ds, p') \<and> parser_wf p' \<and> pr_config p' = pr_config p \<and>
      pr_active p' = filter (\<lambda>(k, _). k \<notin> set keys) (pr_active p) \<and>
      pr_recent p' = pr_recent p @ map (\<lambda>k. (k, now)) keys \<and> map observed_key ds = map Some keys \<and>
      parser_load p' = parser_load p"
  using assms
proof (induction keys arbitrary: p)
  case (Cons k keys)
  let ?q = "p\<lparr>pr_active := hm_remove k (pr_active p), pr_recent := pr_recent p @ [(k, now)]\<rparr>"
  obtain d where d: "complete k True now p = (Ok d, ?q)" "key_of d = k" "parser_wf ?q"
    using complete_ok [OF Cons.prems(1), of k True now] Cons.prems(3) by force
  have "set keys \<subseteq> fst ` set (pr_active ?q)"
    using Cons.prems by (auto simp: hm_keys_remove)
  then obtain ds p' where ds: "complete_all keys now ?q = (Ok ds, p')" "parser_wf p'"
      "pr_config p' = pr_config p" "pr_active p' = filter (\<lambda>(k, _). k \<notin> set keys) (pr_active ?q)"
      "pr_recent p' = pr_recent ?q @ map (\<lambda>k. (k, now)) keys" "map observed_key ds = map Some keys"
      "parser_load p' = parser_load ?q"
    using Cons.IH [of ?q] d Cons.prems by auto
  have "complete_all (k # keys) now p = (Ok (Completed d # ds), p')"
    using d ds by (simp add: bind_st_def)
  moreover have "pr_active p' = filter (\<lambda>(x, _). x \<notin> set (k # keys)) (pr_active p)"
    using ds(4) by (auto simp: hm_remove_def intro!: filter_cong)
  moreover have "parser_load ?q = parser_load p"
    using Cons.prems by (intro parser_load_complete) auto
  ultimately show ?case using d ds by simp
qed auto

lemma filter_fst_distinct:
  "distinct (map fst xs) \<Longrightarrow> distinct (map fst (filter P xs))"
  by (induction xs) auto

lemma parser_wf_fewer_recent:
  assumes "parser_wf p" and "distinct (map fst r)" and "set r \<subseteq> set (pr_recent p)"
    and "length r \<le> length (pr_recent p)"
  shows "parser_wf (p\<lparr>pr_recent := r\<rparr>)"
proof -
  have "fst ` set r \<subseteq> fst ` set (pr_recent p)" using assms(3) by blast
  with assms show ?thesis by (auto simp: parser_wf_def)
qed

lemma prune_recent_wf: "parser_wf p \<Longrightarrow> parser_wf (prune_recent now p)"
  unfolding prune_recent_def
proof (rule parser_wf_fewer_recent)
  assume "parser_wf p"
  then have "distinct (map fst (pr_recent p))" by (simp add: parser_wf_def)
  then show "distinct (map fst (dropWhile (\<lambda>(_, completed). RECENT_TTL \<le> now - completed) (pr_recent p)))"
    by (metis distinct_dropWhile map_append distinct_append takeWhile_dropWhile_id)
qed (auto dest: set_dropWhileD intro: length_dropWhile_le)

definition overdue_keys :: "Instant \<Rightarrow> Rfc4733Parser \<Rightarrow> EventKey set" where
  "overdue_keys now p = {k. \<exists>a. hm_get (pr_active p) k = Some a \<and> overdue now a}"

lemma expire_ok:
  assumes "parser_wf p" and "iterates order"
  shows "\<exists>keys ds p'. expire order now p = (Ok ds, p') \<and> parser_wf p' \<and> pr_config p' = pr_config p \<and>
      set keys = overdue_keys now p \<and> distinct keys \<and> map observed_key ds = map Some keys \<and>
      pr_active p' = filter (\<lambda>(k, _). k \<notin> overdue_keys now p) (pr_active p) \<and>
      pr_recent p' = pr_recent (prune_recent now p) @ map (\<lambda>k. (k, now)) keys \<and>
      parser_load p' \<le> parser_load p"
proof -
  define keys where "keys = map fst (filter (\<lambda>(_, a). overdue now a) (order (pr_active p)))"
  have active: "pr_active (prune_recent now p) = pr_active p"
    and config: "pr_config (prune_recent now p) = pr_config p" by (simp_all add: prune_recent_def)
  have wf: "hm_wf (pr_active p)" by (rule parser_wf_active [OF assms(1)])
  have "set keys = {k. \<exists>a. (k, a) \<in> set (pr_active p) \<and> overdue now a}"
    unfolding keys_def by (auto simp: iterates_set [OF assms(2)] image_iff)
  then have set: "set keys = overdue_keys now p"
    by (simp only: hm_in_set_iff [OF wf] overdue_keys_def)
  have distinct: "distinct keys"
    unfolding keys_def by (intro filter_fst_distinct iterates_distinct assms wf)
  have "set keys \<subseteq> fst ` set (pr_active p)"
    using iterates_set [OF assms(2)] by (auto simp: keys_def)
  then have "set keys \<subseteq> fst ` set (pr_active (prune_recent now p))" by (simp only: active)
  from complete_all_ok [OF prune_recent_wf [OF assms(1)] distinct this, of now]
  have "\<exists>ds p'. complete_all keys now (prune_recent now p) = (Ok ds, p') \<and> parser_wf p' \<and>
      pr_config p' = pr_config p \<and> pr_active p' = filter (\<lambda>(k, _). k \<notin> set keys) (pr_active p) \<and>
      pr_recent p' = pr_recent (prune_recent now p) @ map (\<lambda>k. (k, now)) keys \<and>
      map observed_key ds = map Some keys \<and> parser_load p' = parser_load (prune_recent now p)"
    unfolding active config .
  moreover have "expire order now p = complete_all keys now (prune_recent now p)"
    by (simp add: expire_def Let_def active keys_def)
  moreover have "parser_load (prune_recent now p) \<le> parser_load p"
    by (simp add: parser_load_def prune_recent_def length_dropWhile_le)
  ultimately show ?thesis using set distinct by auto
qed

section \<open>Packets\<close>

lemma evict_suffix: "\<exists>ys. xs = ys @ evict n xs"
proof (induction n xs rule: evict.induct)
  case (2 n r recent)
  show ?case
  proof (cases "n + length (r # recent) \<ge> STATE_CAPACITY")
    case True
    with 2 obtain ys where "recent = ys @ evict n recent" by blast
    then have "r # recent = (r # ys) @ evict n (r # recent)" using True by simp
    then show ?thesis by blast
  qed simp
qed simp

lemma evict_wf: "parser_wf p \<Longrightarrow> parser_wf (p\<lparr>pr_recent := evict n (pr_recent p)\<rparr>)"
proof (rule parser_wf_fewer_recent)
  assume "parser_wf p"
  then have "distinct (map fst (pr_recent p))" by (simp add: parser_wf_def)
  then show "distinct (map fst (evict n (pr_recent p)))"
    using evict_suffix [of "pr_recent p" n] by (metis distinct_append map_append)
  show "set (evict n (pr_recent p)) \<subseteq> set (pr_recent p)" "length (evict n (pr_recent p)) \<le> length (pr_recent p)"
    using evict_suffix [of "pr_recent p" n] by (metis set_append Un_upper2, metis length_append le_add2)
qed

lemma insert_press_wf:
  assumes "parser_wf p" and "k \<notin> fst ` set (pr_recent p)"
    and "hm_get (pr_active p) k = None \<Longrightarrow> length (pr_active p) + length (pr_recent p) < STATE_CAPACITY"
  shows "parser_wf (p\<lparr>pr_active := hm_insert k a (pr_active p)\<rparr>)"
  using assms hm_wf_insert [OF parser_wf_active [OF assms(1)], of k a] hm_keys_insert [of k a "pr_active p"]
  by (auto simp: parser_wf_def length_hm_insert hm_wf_def simp flip: image_set)

lemma observe_event_ok:
  assumes "parser_wf p"
  shows "\<exists>ds p'. observe_event k d dur ended now p = (Ok ds, p') \<and> parser_wf p' \<and> pr_config p' = pr_config p \<and>
     (\<forall>c \<in> set ds. c = Invalid \<or> observed_key c = Some k)"
proof (cases "k \<in> fst ` set (pr_recent p)")
  case False
  define p1 where "p1 = (if hm_contains_key (pr_active p) k then p
      else p\<lparr>pr_recent := evict (length (pr_active p)) (pr_recent p)\<rparr>)"
  have p1: "parser_wf p1" "pr_active p1 = pr_active p" "pr_config p1 = pr_config p"
    using assms evict_wf by (auto simp: p1_def)
  have "set (pr_recent p1) \<subseteq> set (pr_recent p)"
    using evict_suffix [of "pr_recent p" "length (pr_active p)"]
    by (auto simp: p1_def) (metis Un_iff set_append)
  with False have fresh: "k \<notin> fst ` set (pr_recent p1)" by blast
  define a where "a = (case hm_get (pr_active p1) k of Some a \<Rightarrow> a
      | None \<Rightarrow> \<lparr> ap_digit = d, ap_max_duration = dur, ap_first_seen = now, ap_last_seen = now \<rparr>)"
  define p2 where "p2 = p1\<lparr>pr_active := hm_insert k
      (a\<lparr>ap_max_duration := max (ap_max_duration a) dur, ap_last_seen := now\<rparr>) (pr_active p1)\<rparr>"
  have p2: "parser_wf p2" "k \<in> fst ` set (pr_active p2)" "pr_config p2 = pr_config p"
    if "hm_contains_key (pr_active p) k \<or> length (pr_active p1) + length (pr_recent p1) < STATE_CAPACITY"
    using that p1 insert_press_wf [OF p1(1) fresh]
    by (auto simp: p2_def hm_keys_insert hm_contains_key_def)
  have "observe_event k d dur ended now p =
      (if (case hm_get (pr_active p) k of Some a \<Rightarrow> dur < ap_max_duration a | None \<Rightarrow> False) then (Ok [Invalid], p)
       else if \<not> hm_contains_key (pr_active p) k \<and>
          length (pr_active p1) + length (pr_recent p1) \<ge> STATE_CAPACITY then (Ok [Invalid], p1)
       else if ended then bind_st (complete k False now) (\<lambda>d. return_st [Completed d]) p2 else (Ok [], p2))"
    using False by (simp add: observe_event_def Let_def p1_def p2_def a_def)
  then show ?thesis
    using assms p1 p2 complete_ok [of p2 k False now]
    by (fastforce simp: bind_st_def)
qed (use assms in \<open>auto simp: observe_event_def\<close>)

lemma rtp_header_len_bound:
  "12 \<le> length packet \<Longrightarrow> rtp_header_len packet = Some h \<Longrightarrow> h \<le> length packet"
  by (auto simp: rtp_header_len_def Let_def split: if_splits)

lemma rtp_payload_end_bound:
  "h \<le> length packet \<Longrightarrow> rtp_payload_end packet h = Some e \<Longrightarrow> h \<le> e \<and> e \<le> length packet"
  by (auto simp: rtp_payload_end_def Let_def split: if_splits)

lemma parse_rtp_no_panic: "parse_rtp packet \<noteq> Panic"
proof
  assume "parse_rtp packet = Panic"
  then obtain h e where "12 \<le> length packet" "rtp_header_len packet = Some h"
      "rtp_payload_end packet h = Some e" "slice h e packet = (Panic :: (bytes, unit) outcome)"
    by (auto simp: parse_rtp_def split: if_splits)
  moreover from this have "h \<le> e" "e \<le> length packet"
    using rtp_header_len_bound rtp_payload_end_bound by blast+
  ultimately show False by simp
qed

text \<open>What a packet does after expiry: nothing, one invalid observation, or one telephone event.\<close>

lemma observe_packet_cases:
  assumes "expire order now p = (Ok ds, q)"
  obtains "observe_packet order packet now p = (Ok ds, q)"
  | "observe_packet order packet now p = (Ok (ds @ [Invalid]), q)"
  | k d dur ended where "observe_packet order packet now p =
       bind_st (observe_event k d dur ended now) (\<lambda>more. return_st (ds @ more)) q"
proof -
  have "observe_packet order packet now p = (Ok ds, q) \<or>
    observe_packet order packet now p = (Ok (ds @ [Invalid]), q) \<or>
    (\<exists>k d dur ended. observe_packet order packet now p =
       bind_st (observe_event k d dur ended now) (\<lambda>more. return_st (ds @ more)) q)"
    using assms parse_rtp_no_panic [of packet]
    by (auto simp: observe_packet_def bind_st_Ok [where s = p] split: option.splits outcome.splits)
  then show thesis using that by blast
qed

lemma observe_packet_ok:
  assumes "parser_wf p" and "iterates order"
  shows "\<exists>ds p'. observe_packet order packet now p = (Ok ds, p') \<and> parser_wf p' \<and> pr_config p' = pr_config p"
proof -
  obtain ds q where q: "expire order now p = (Ok ds, q)" "parser_wf q" "pr_config q = pr_config p"
    using expire_ok [OF assms, of now] by blast
  from q(1) show ?thesis
  proof (cases rule: observe_packet_cases [where packet = packet])
    case (3 k d dur ended)
    then show ?thesis
      using observe_event_ok [OF q(2), of k d dur ended now] q(3) by (auto simp: bind_st_def)
  qed (use q in auto)
qed

datatype parser_input = Packet bytes Instant | Deadline Instant | Configure ParserConfig

fun parser_input_step ::
    "(EventKey, ActivePress) hash_order \<Rightarrow> parser_input \<Rightarrow> ParserObservation list parser_op" where
  "parser_input_step order (Packet packet now) = observe_packet order packet now"
| "parser_input_step order (Deadline now) = expire order now"
| "parser_input_step order (Configure config) = (\<lambda>p. (Ok [], update_config config p))"

lemma parser_input_step_ok:
  assumes "parser_wf p" and "iterates order"
  shows "\<exists>ds p'. parser_input_step order i p = (Ok ds, p') \<and> parser_wf p'"
proof (cases i)
  case (Packet packet now)
  then show ?thesis using observe_packet_ok [OF assms, of packet now] by auto
next
  case (Deadline now)
  then show ?thesis using expire_ok [OF assms, of now] by auto
qed (simp add: parser_wf_update [OF assms(1)])

lemma parser_machine:
  "iterates order \<Longrightarrow> invariant_machine (\<lambda>p i. snd (parser_input_step order i p)) parser_wf"
proof
  fix p i assume "iterates order" "parser_wf p"
  then show "parser_wf (snd (parser_input_step order i p))"
    using parser_input_step_ok [of p order i] by auto
qed

text \<open>C35: whatever packets, timer ticks and reconfigurations arrive, the parser never panics, holds at
  most 32 events in total, and no event is at the same time pressed and completed.\<close>

theorem parser_run_safe:
  assumes "iterates order"
  shows "let p = foldl (\<lambda>p i. snd (parser_input_step order i p)) (parser_new config) inputs in
     length (pr_active p) + length (pr_recent p) \<le> 32 \<and>
     distinct (map fst (pr_active p) @ map fst (pr_recent p)) \<and>
     fst (parser_input_step order input p) \<noteq> Panic"
proof -
  have wf: "parser_wf (foldl (\<lambda>p i. snd (parser_input_step order i p)) (parser_new config) inputs)"
    by (rule invariant_machine.run_inv [OF parser_machine [OF assms]]) simp
  then show ?thesis
    using parser_input_step_ok [OF wf assms, of input]
    by (auto simp: Let_def parser_wf_def STATE_CAPACITY_def)
qed

definition demo_config :: ParserConfig where
  "demo_config = with_mode 3
     (Some \<lparr> cap_payload_type = 101, cap_clock_rate = 8000, cap_events = {0, 1, 5}, cap_detectable = True \<rparr>)
     Observe"

definition demo_packet :: "u16 \<Rightarrow> bool \<Rightarrow> bytes" where
  "demo_packet duration ended =
     [0x80, 101, 0, 1, 0, 0, 0, 42, 0, 0, 0, 7, 5, if ended then 0x80 else 0] @ to_be16 duration"

theorem parser_run_safe_witness:
  "fst (parser_input_step rev (Packet (demo_packet 240 True) 30)
     (foldl (\<lambda>p i. snd (parser_input_step rev i p)) (parser_new demo_config)
        [Packet (demo_packet 80 False) 10, Deadline 20])) \<noteq> Panic"
  using parser_run_safe [OF iterates_rev] by metis

section \<open>A digit is reported once\<close>

lemma evict_room: "n + length r < STATE_CAPACITY \<Longrightarrow> evict n r = r"
  by (cases r) auto

lemma observe_event_room:
  assumes wf: "parser_wf p" and room: "parser_load p < STATE_CAPACITY"
  shows "\<exists>ds p'. observe_event k d dur ended now p = (Ok ds, p') \<and> set (pr_recent p) \<subseteq> set (pr_recent p') \<and>
     parser_load p' \<le> Suc (parser_load p) \<and>
     (\<forall>c \<in> set ds. observed_key c \<noteq> None \<longrightarrow>
        observed_key c = Some k \<and> k \<notin> fst ` set (pr_recent p) \<and> (k, now) \<in> set (pr_recent p'))"
proof (cases "k \<in> fst ` set (pr_recent p)")
  case False
  define a where "a = (case hm_get (pr_active p) k of Some a \<Rightarrow> a
      | None \<Rightarrow> \<lparr> ap_digit = d, ap_max_duration = dur, ap_first_seen = now, ap_last_seen = now \<rparr>)"
  define p2 where "p2 = p\<lparr>pr_active := hm_insert k
      (a\<lparr>ap_max_duration := max (ap_max_duration a) dur, ap_last_seen := now\<rparr>) (pr_active p)\<rparr>"
  have same: "p\<lparr>pr_recent := evict (length (pr_active p)) (pr_recent p)\<rparr> = p"
    using room by (simp add: evict_room parser_load_def)
  have eq: "observe_event k d dur ended now p =
      (if (case hm_get (pr_active p) k of Some a \<Rightarrow> dur < ap_max_duration a | None \<Rightarrow> False) then (Ok [Invalid], p)
       else if ended then bind_st (complete k False now) (\<lambda>d. return_st [Completed d]) p2 else (Ok [], p2))"
    using False room by (simp add: observe_event_def Let_def same p2_def a_def parser_load_def)
  have wf2: "parser_wf p2" and key: "k \<in> fst ` set (pr_active p2)"
    using insert_press_wf [OF wf False] room by (auto simp: p2_def hm_keys_insert parser_load_def)
  have load: "parser_load p2 \<le> Suc (parser_load p)"
    by (simp add: p2_def parser_load_def length_hm_insert)
  let ?q = "p2\<lparr>pr_active := hm_remove k (pr_active p2), pr_recent := pr_recent p2 @ [(k, now)]\<rparr>"
  obtain c where c: "complete k False now p2 = (Ok c, ?q)" "key_of c = k"
    using complete_ok [OF wf2 key, of False now] by auto
  have "parser_load ?q \<le> Suc (parser_load p)" using parser_load_complete [OF wf2 key, of now] load by simp
  moreover have "pr_recent p2 = pr_recent p" by (simp add: p2_def)
  ultimately show ?thesis using eq c load False by (auto simp: bind_st_def)
qed (auto simp: observe_event_def)

lemma pruned_kept:
  assumes "(k, t) \<in> set (pr_recent p)" and "now < t + RECENT_TTL"
  shows "(k, t) \<in> set (pr_recent (prune_recent now p))"
proof -
  have "(k, t) \<notin> set (takeWhile (\<lambda>(_, completed). RECENT_TTL \<le> now - completed) (pr_recent p))"
    using assms(2) by (auto simp: RECENT_TTL_def dest: set_takeWhileD)
  with assms(1) show ?thesis
    unfolding prune_recent_def using set_append takeWhile_dropWhile_id by fastforce
qed

lemma observe_packet_room:
  assumes wf: "parser_wf p" and it: "iterates order" and room: "parser_load p < STATE_CAPACITY"
    and recent: "(k, t) \<in> set (pr_recent p)" and now: "now < t + RECENT_TTL"
  shows "\<exists>ds p'. observe_packet order packet now p = (Ok ds, p') \<and> (k, t) \<in> set (pr_recent p') \<and>
     parser_load p' \<le> Suc (parser_load p) \<and> Some k \<notin> observed_key ` set ds"
proof -
  obtain keys ds q where q: "expire order now p = (Ok ds, q)" "parser_wf q" "set keys = overdue_keys now p"
      "map observed_key ds = map Some keys" "pr_recent q = pr_recent (prune_recent now p) @ map (\<lambda>k. (k, now)) keys"
      "parser_load q \<le> parser_load p"
    using expire_ok [OF wf it, of now] by auto
  have kq: "(k, t) \<in> set (pr_recent q)" using pruned_kept [OF recent now] q(5) by simp
  have "k \<notin> fst ` set (pr_active p)" using wf recent by (force simp: parser_wf_def)
  then have "k \<notin> set keys" using q(3) by (auto simp: overdue_keys_def hm_get_None_iff dest: hm_get_None_iff [THEN iffD2])
  then have fresh: "Some k \<notin> observed_key ` set ds"
    using q(4) by (metis (no_types, lifting) imageE list.set_map option.inject)
  from q(1) show ?thesis
  proof (cases rule: observe_packet_cases [where packet = packet])
    case (3 k' d dur ended)
    have "parser_load q < STATE_CAPACITY" using q(6) room by simp
    then obtain more p' where more: "observe_event k' d dur ended now q = (Ok more, p')"
        "set (pr_recent q) \<subseteq> set (pr_recent p')" "parser_load p' \<le> Suc (parser_load q)"
        "\<forall>c \<in> set more. observed_key c \<noteq> None \<longrightarrow> observed_key c = Some k' \<and> k' \<notin> fst ` set (pr_recent q)"
      using observe_event_room [OF q(2), of k' d dur ended now] by auto
    have "Some k \<notin> observed_key ` set more" using more(4) kq by force
    then show ?thesis using 3 more kq q(6) fresh by (auto simp: bind_st_def image_Un)
  qed (use kq q(6) fresh in auto)
qed

fun observe_packets ::
    "(EventKey, ActivePress) hash_order \<Rightarrow> (bytes \<times> Instant) list \<Rightarrow> ParserObservation list parser_op" where
  "observe_packets order [] = return_st []"
| "observe_packets order ((packet, now) # rest) =
     bind_st (observe_packet order packet now) (\<lambda>ds.
       bind_st (observe_packets order rest) (\<lambda>more. return_st (ds @ more)))"

lemma observe_packets_room:
  assumes "parser_wf p" and "iterates order" and "parser_load p + length inputs \<le> STATE_CAPACITY"
    and "(k, t) \<in> set (pr_recent p)" and "\<forall>(_, now) \<in> set inputs. now < t + RECENT_TTL"
  shows "\<exists>ds p'. observe_packets order inputs p = (Ok ds, p') \<and> Some k \<notin> observed_key ` set ds"
  using assms
proof (induction inputs arbitrary: p)
  case (Cons i inputs)
  obtain packet now where i: "i = (packet, now)" by (cases i)
  have room: "parser_load p < STATE_CAPACITY" and now: "now < t + RECENT_TTL" using Cons.prems by (auto simp: i)
  obtain ds q where q: "observe_packet order packet now p = (Ok ds, q)" "(k, t) \<in> set (pr_recent q)"
      "parser_load q \<le> Suc (parser_load p)" "Some k \<notin> observed_key ` set ds"
    using observe_packet_room [OF Cons.prems(1,2) room Cons.prems(4) now] by blast
  have "parser_wf q" using observe_packet_ok [OF Cons.prems(1,2), of packet now] q(1) by auto
  then obtain more p' where "observe_packets order inputs q = (Ok more, p')" "Some k \<notin> observed_key ` set more"
    using Cons.IH [of q] Cons.prems q by auto
  then show ?case using q by (auto simp: i bind_st_def image_Un)
qed simp

text \<open>A completion at time \<open>now\<close> is remembered with that time.\<close>

lemma observe_packet_completes:
  assumes wf: "parser_wf p" and it: "iterates order" and room: "parser_load p < STATE_CAPACITY"
    and "observe_packet order packet now p = (Ok ds, p')" and "Some k \<in> observed_key ` set ds"
  shows "(k, now) \<in> set (pr_recent p') \<and> parser_load p' \<le> Suc (parser_load p)"
proof -
  obtain keys ds0 q where q: "expire order now p = (Ok ds0, q)" "parser_wf q"
      "map observed_key ds0 = map Some keys" "pr_recent q = pr_recent (prune_recent now p) @ map (\<lambda>k. (k, now)) keys"
      "parser_load q \<le> parser_load p"
    using expire_ok [OF wf it, of now] by auto
  have expired: "(k, now) \<in> set (pr_recent q)" if "Some k \<in> observed_key ` set ds0"
  proof -
    have "Some k \<in> set (map observed_key ds0)" using that by simp
    then show ?thesis using q(4) unfolding q(3) by auto
  qed
  from q(1) show ?thesis
  proof (cases rule: observe_packet_cases [where packet = packet])
    case (3 k' d dur ended)
    have "parser_load q < STATE_CAPACITY" using q(5) room by simp
    then obtain more p'' where more: "observe_event k' d dur ended now q = (Ok more, p'')"
        "set (pr_recent q) \<subseteq> set (pr_recent p'')" "parser_load p'' \<le> Suc (parser_load q)"
        "\<forall>c \<in> set more. observed_key c \<noteq> None \<longrightarrow> observed_key c = Some k' \<and> (k', now) \<in> set (pr_recent p'')"
      using observe_event_room [OF q(2), of k' d dur ended now] by (auto, blast)
    have "ds = ds0 @ more" "p' = p''" using assms(4) 3 more(1) by (auto simp: bind_st_def)
    moreover have "(k, now) \<in> set (pr_recent p'')" if "Some k \<in> observed_key ` set more"
      using that more(4) by force
    ultimately show ?thesis using assms(5) expired more(2,3) q(5) by auto
  qed (use assms(4,5) expired q(5) in auto)
qed


definition demo_digit :: Rfc4733DigitCompleted where
  "demo_digit = \<lparr> dc_generation = 3, dc_ssrc = 7, dc_timestamp = 42, dc_event_code = 5, dc_digit = D5,
     dc_duration_ms = 30, dc_incomplete_end = False \<rparr>"

lemma demo_packet_observed:
  "fst (observe_packet rev (demo_packet 240 True) 10 (parser_new demo_config)) = Ok [Completed demo_digit]"
proof -
  have rtp: "parse_rtp (demo_packet 240 True) =
      Ok \<lparr> rtp_payload_type = 101, rtp_timestamp = 42, rtp_ssrc = 7, rtp_payload = [5, 0x80, 0, 240] \<rparr>"
    by (simp add: parse_rtp_def demo_packet_def to_be16_def rtp_header_len_def rtp_payload_end_def Let_def
        from_be32_def slice_def ok_or_def)
  show ?thesis
    by (simp add: observe_packet_def rtp parser_new_def expire_def prune_recent_def bind_st_def Let_def
        active_capability_def demo_config_def with_mode_def event_of_packet_def map_event_def observe_event_def
        hm_get_def hm_contains_key_def STATE_CAPACITY_def from_be16_def complete_def press_duration_ms_def
        checked_div_def saturating_mul_def MAX_PRESS_DURATION_def demo_digit_def)
qed


section \<open>Deadlines\<close>

lemma foldr_min_le:
  "foldr min ds (d :: Instant) \<le> n \<longleftrightarrow> d \<le> n \<or> (\<exists>e \<in> set ds. e \<le> n)"
  by (induction ds) (auto simp: min_le_iff_disj)

lemma overdue_iff: "overdue now a \<longleftrightarrow> press_deadline a \<le> now"
  by (auto simp: overdue_def press_deadline_def)

lemma next_deadline_le:
  "(\<exists>d. next_deadline p = Some d \<and> d \<le> now) \<longleftrightarrow> (\<exists>(k, a) \<in> set (pr_active p). press_deadline a \<le> now)"
  by (cases "pr_active p") (force simp: next_deadline_def foldr_min_le)+

text \<open>The announced deadline is exact.  Before it (or when there is none) expiry reports nothing and
  keeps every press; from it on, expiry reports exactly the presses whose idle or total time has
  run out, each once, and keeps the others.\<close>

theorem next_deadline_exact:
  assumes "parser_wf p" and "iterates order"
  shows "\<exists>ds p'. expire order now p = (Ok ds, p') \<and>
     (ds = [] \<longleftrightarrow> \<not> (\<exists>d. next_deadline p = Some d \<and> d \<le> now)) \<and>
     observed_key ` set ds = Some ` overdue_keys now p \<and> length ds = card (overdue_keys now p) \<and>
     pr_active p' = filter (\<lambda>(k, _). k \<notin> overdue_keys now p) (pr_active p)"
proof -
  obtain keys ds p' where e: "expire order now p = (Ok ds, p')" "set keys = overdue_keys now p" "distinct keys"
      "map observed_key ds = map Some keys"
      "pr_active p' = filter (\<lambda>(k, _). k \<notin> overdue_keys now p) (pr_active p)"
    using expire_ok [OF assms, of now] by blast
  have len: "length ds = length keys" using e(4) by (metis length_map)
  have "overdue_keys now p = {} \<longleftrightarrow> \<not> (\<exists>(k, a) \<in> set (pr_active p). press_deadline a \<le> now)"
    using hm_in_set_iff [OF parser_wf_active [OF assms(1)]] by (auto simp: overdue_keys_def overdue_iff)
  moreover have "ds = [] \<longleftrightarrow> overdue_keys now p = {}" using len e(2) by auto
  moreover have "length ds = card (overdue_keys now p)" using len e(2,3) distinct_card by force
  moreover have "observed_key ` set ds = Some ` overdue_keys now p" using e(2,4) by (metis list.set_map)
  ultimately show ?thesis using e(1,5) next_deadline_le by auto
qed

theorem next_deadline_exact_witness:
  "\<exists>ds p'. expire rev 300 (snd (observe_packet rev (demo_packet 80 False) 10 (parser_new demo_config))) = (Ok ds, p') \<and>
     length ds = card (overdue_keys 300 (snd (observe_packet rev (demo_packet 80 False) 10 (parser_new demo_config))))"
  using next_deadline_exact [OF _ iterates_rev, of "snd (observe_packet rev (demo_packet 80 False) 10 (parser_new demo_config))" 300]
    observe_packet_ok [OF parser_wf_new iterates_rev, of "demo_packet 80 False" 10 demo_config]
  by auto

end
