(* ===== verification/Rtp_Roundtrip.thy ===== *)
theory Rtp_Roundtrip
  imports Rfc4733_Properties
begin

text \<open>
  RTP packets by the layout of RFC 3550, section 5.1, and that \<open>parse_rtp\<close> inverts it for every
  combination of contributing sources, header extension and padding.
\<close>

definition rtp_first_byte :: "bool \<Rightarrow> bool \<Rightarrow> nat \<Rightarrow> u8" where
  "rtp_first_byte padded extended csrc_count =
     0x80 OR (if padded then 0x20 else 0) OR (if extended then 0x10 else 0) OR word_of_nat csrc_count"

definition words_be :: "u32 list \<Rightarrow> bytes" where
  "words_be ws = concat (map to_be32 ws)"

definition rtp_fixed_header :: "u8 \<Rightarrow> bool \<Rightarrow> u8 \<Rightarrow> u16 \<Rightarrow> u32 \<Rightarrow> u32 \<Rightarrow> u32 list \<Rightarrow> bytes" where
  "rtp_fixed_header b0 marker pt seq ts ssrc csrcs =
     [b0, (if marker then 0x80 else 0) OR pt] @ to_be16 seq @ to_be32 ts @ to_be32 ssrc @ words_be csrcs"

definition rtp_extension :: "(u16 \<times> u32 list) option \<Rightarrow> bytes" where
  "rtp_extension ext =
     (case ext of
        None \<Rightarrow> []
      | Some (profile, ws) \<Rightarrow> to_be16 profile @ to_be16 (word_of_nat (length ws)) @ words_be ws)"

definition rtp_padding :: "nat \<Rightarrow> bytes" where
  "rtp_padding n = (if n = 0 then [] else replicate (n - 1) 0 @ [word_of_nat n])"

definition rtp_packet ::
    "bool \<Rightarrow> u8 \<Rightarrow> u16 \<Rightarrow> u32 \<Rightarrow> u32 \<Rightarrow> u32 list \<Rightarrow> (u16 \<times> u32 list) option \<Rightarrow> bytes \<Rightarrow> nat \<Rightarrow> bytes" where
  "rtp_packet marker pt seq ts ssrc csrcs ext payload padding =
     rtp_fixed_header (rtp_first_byte (padding \<noteq> 0) (ext \<noteq> None) (length csrcs)) marker pt seq ts ssrc csrcs @
     rtp_extension ext @ payload @ rtp_padding padding"

lemma first_byte_bits:
  assumes "n \<le> 15"
  shows "drop_bit 6 (rtp_first_byte padded extended n) = 2"
    and "unat (rtp_first_byte padded extended n AND 0x0f) = n"
    and "rtp_first_byte padded extended n AND 0x10 \<noteq> 0 \<longleftrightarrow> extended"
    and "rtp_first_byte padded extended n AND 0x20 \<noteq> 0 \<longleftrightarrow> padded"
proof -
  from assms have "n \<in> {0, 1, 2, 3, 4, 5, 6, 7, 8, 9, 10, 11, 12, 13, 14, 15}" 
    unfolding insert_iff empty_iff by presburger
  then show "drop_bit 6 (rtp_first_byte padded extended n) = 2"
    and "unat (rtp_first_byte padded extended n AND 0x0f) = n"
    and "rtp_first_byte padded extended n AND 0x10 \<noteq> 0 \<longleftrightarrow> extended"
    and "rtp_first_byte padded extended n AND 0x20 \<noteq> 0 \<longleftrightarrow> padded"
    by (auto simp: rtp_first_byte_def)
qed

lemma payload_type_bits:
  assumes "pt < 128"
  shows "((if marker then 0x80 else 0) OR pt) AND 0x7f = (pt :: u8)"
proof -
  have "take_bit 7 pt = pt"
    using assms by (simp add: word_unat_eq_iff unsigned_take_bit_eq take_bit_nat_eq_self_iff word_less_nat_alt)
  then have pt: "pt AND 0x7f = pt" by (simp add: take_bit_eq_mask mask_eq_exp_minus_1)
  moreover have "(0x80 OR pt) AND 0x7f = pt AND (0x7f :: u8)"
    by (simp add: bit.conj_disj_distrib2)
  ultimately show ?thesis by simp
qed

lemma length_words_be [simp]: "length (words_be ws) = 4 * length ws"
  by (induction ws) (simp_all add: words_be_def)

lemma length_fixed_header [simp]:
  "length (rtp_fixed_header b0 marker pt seq ts ssrc csrcs) = 12 + 4 * length csrcs"
  by (simp add: rtp_fixed_header_def)

lemma fixed_header_nth:
  "(rtp_fixed_header b0 marker pt seq ts ssrc csrcs @ r) ! 0 = b0"
  "(rtp_fixed_header b0 marker pt seq ts ssrc csrcs @ r) ! 1 = (if marker then 0x80 else 0) OR pt"
  "from_be32 ((rtp_fixed_header b0 marker pt seq ts ssrc csrcs @ r) ! 4)
     ((rtp_fixed_header b0 marker pt seq ts ssrc csrcs @ r) ! 5)
     ((rtp_fixed_header b0 marker pt seq ts ssrc csrcs @ r) ! 6)
     ((rtp_fixed_header b0 marker pt seq ts ssrc csrcs @ r) ! 7) = ts"
  "from_be32 ((rtp_fixed_header b0 marker pt seq ts ssrc csrcs @ r) ! 8)
     ((rtp_fixed_header b0 marker pt seq ts ssrc csrcs @ r) ! 9)
     ((rtp_fixed_header b0 marker pt seq ts ssrc csrcs @ r) ! 10)
     ((rtp_fixed_header b0 marker pt seq ts ssrc csrcs @ r) ! 11) = ssrc"
  by (simp_all add: rtp_fixed_header_def to_be16_def to_be32_def from_to_be32)

definition extension_len :: "(u16 \<times> u32 list) option \<Rightarrow> nat" where
  "extension_len ext = (case ext of None \<Rightarrow> 0 | Some (_, ws) \<Rightarrow> 4 + 4 * length ws)"

lemma length_rtp_extension [simp]: "length (rtp_extension ext) = extension_len ext"
  by (auto simp: rtp_extension_def extension_len_def split: option.splits)

lemma extension_nth:
  assumes "length ws < 2 ^ 16"
  shows "unat (from_be16 ((h @ rtp_extension (Some (profile, ws)) @ r) ! (length h + 2))
      ((h @ rtp_extension (Some (profile, ws)) @ r) ! (length h + 3))) = length ws"
proof -
  have "from_be16 ((h @ rtp_extension (Some (profile, ws)) @ r) ! (length h + 2))
      ((h @ rtp_extension (Some (profile, ws)) @ r) ! (length h + 3)) = word_of_nat (length ws)"
    by (simp add: nth_append rtp_extension_def to_be16_def from_to_be16)
  then show ?thesis using assms by (simp add: unat_of_nat take_bit_nat_eq_self)
qed

lemma header_len_built:
  assumes "length csrcs \<le> 15" and "\<forall>profile ws. ext = Some (profile, ws) \<longrightarrow> length ws < 2 ^ 16"
  shows "rtp_header_len (rtp_fixed_header (rtp_first_byte padded (ext \<noteq> None) (length csrcs)) marker pt seq ts ssrc csrcs @
      rtp_extension ext @ r) = Some (12 + 4 * length csrcs + extension_len ext)"
proof (cases ext)
  case None
  then show ?thesis
    using first_byte_bits [OF assms(1)] by (simp add: rtp_header_len_def Let_def fixed_header_nth extension_len_def)
next
  case (Some e)
  obtain profile ws where e: "e = (profile, ws)" by (cases e)
  define h where "h = rtp_fixed_header (rtp_first_byte padded True (length csrcs)) marker pt seq ts ssrc csrcs"
  have h: "length h = 12 + 4 * length csrcs" by (simp add: h_def)
  have b0: "(h @ rtp_extension ext @ r) ! 0 = rtp_first_byte padded True (length csrcs)"
    by (simp add: h_def fixed_header_nth)
  have "unat (from_be16 ((h @ rtp_extension ext @ r) ! (length h + 2))
      ((h @ rtp_extension ext @ r) ! (length h + 3))) = length ws"
    using extension_nth [of ws h profile r] assms(2) by (simp add: Some e)
  then have "rtp_header_len (h @ rtp_extension ext @ r) = Some (12 + 4 * length csrcs + extension_len ext)"
    using first_byte_bits [OF assms(1), of padded True] b0 h
    by (simp add: rtp_header_len_def Let_def Some e extension_len_def)
  then show ?thesis by (simp add: Some h_def)
qed

lemma payload_end_built:
  assumes "padding < 256" and "packet = h @ payload @ rtp_padding padding"
    and "packet ! 0 AND 0x20 \<noteq> 0 \<longleftrightarrow> padding \<noteq> 0"
  shows "rtp_payload_end packet (length h) = Some (length h + length payload)"
proof (cases "padding = 0")
  case False
  then have "last packet = word_of_nat padding" "length packet = length h + length payload + padding"
    using assms(2) by (simp_all add: rtp_padding_def)
  moreover have "unat (word_of_nat padding :: u8) = padding"
    using assms(1) by (simp add: unat_of_nat take_bit_nat_eq_self)
  ultimately show ?thesis using False assms(3) by (simp add: rtp_payload_end_def Let_def)
qed (use assms in \<open>simp add: rtp_payload_end_def rtp_padding_def\<close>)

text \<open>C33: a packet laid out as the RTP standard prescribes, with any number of contributing sources, any
  header extension and any padding, is parsed back to its payload type, timestamp, source and
  exact payload.\<close>

theorem parse_rtp_roundtrip:
  assumes "pt < 128" and "length csrcs \<le> 15" and "padding < 256"
    and "\<forall>profile ws. ext = Some (profile, ws) \<longrightarrow> length ws < 2 ^ 16"
  shows "parse_rtp (rtp_packet marker pt seq ts ssrc csrcs ext payload padding) =
     Ok \<lparr> rtp_payload_type = pt, rtp_timestamp = ts, rtp_ssrc = ssrc, rtp_payload = payload \<rparr>"
proof -
  let ?b0 = "rtp_first_byte (padding \<noteq> 0) (ext \<noteq> None) (length csrcs)"
  define h where "h = rtp_fixed_header ?b0 marker pt seq ts ssrc csrcs @ rtp_extension ext"
  define packet where "packet = rtp_packet marker pt seq ts ssrc csrcs ext payload padding"
  have packet: "packet = h @ payload @ rtp_padding padding"
    by (simp add: packet_def rtp_packet_def h_def)
  have nth: "packet ! 0 = ?b0" "packet ! 1 = (if marker then 0x80 else 0) OR pt"
    "from_be32 (packet ! 4) (packet ! 5) (packet ! 6) (packet ! 7) = ts"
    "from_be32 (packet ! 8) (packet ! 9) (packet ! 10) (packet ! 11) = ssrc"
    by (simp_all only: packet_def rtp_packet_def fixed_header_nth)
  have "rtp_header_len packet = Some (length h)"
    unfolding packet_def rtp_packet_def using header_len_built [OF assms(2,4)] by (simp add: h_def)
  moreover have "rtp_payload_end packet (length h) = Some (length h + length payload)"
    by (rule payload_end_built [OF assms(3) packet]) (simp add: nth first_byte_bits(4) [OF assms(2)])
  moreover have "12 \<le> length packet" by (simp add: packet h_def)
  moreover have "slice (length h) (length h + length payload) packet = (Ok payload :: (bytes, unit) outcome)"
    by (simp add: packet)
  ultimately have "parse_rtp packet = Ok \<lparr> rtp_payload_type = pt, rtp_timestamp = ts, rtp_ssrc = ssrc, rtp_payload = payload \<rparr>"
    using first_byte_bits(1) [OF assms(2)] payload_type_bits [OF assms(1), of marker]
    by (simp add: parse_rtp_def ok_or_def nth nth(2) [unfolded One_nat_def])
  then show ?thesis by (simp add: packet_def)
qed

theorem parse_rtp_roundtrip_witness:
  "parse_rtp (rtp_packet True 101 1 42 7 [9, 10] (Some (0xBEDE, [1])) [5, 0x80, 0, 240] 3) =
     Ok \<lparr> rtp_payload_type = 101, rtp_timestamp = 42, rtp_ssrc = 7, rtp_payload = [5, 0x80, 0, 240] \<rparr>"
  by (rule parse_rtp_roundtrip) simp_all

end
