(* ===== verification/Dtmf_Source.thy ===== *)
theory Dtmf_Source
  imports Dtmf_Types
begin

text \<open>
  Source arbitration and routing of digit events: \<open>DtmfSourceState\<close> and \<open>DtmfRouter\<close> of
  \<open>crates/voipswitchd/src/runtime/call/dtmf.rs\<close>.  Each leg locks to the transport and generation
  its digits come from; repeated events are recognised by their identity.
\<close>

definition SOURCE_EVENT_DEDUP_CAPACITY :: nat where
  "SOURCE_EVENT_DEDUP_CAPACITY = 128"

datatype DtmfSourceDecision = Accepted | Duplicate | Conflict | StaleGeneration

record DtmfSourceStats =
  dss_accepted :: u64
  dss_duplicate :: u64
  dss_conflict :: u64
  dss_stale_generation :: u64

record DtmfSourceState =
  ds_policy :: DtmfSourcePolicy
  ds_source_lock :: DtmfSourceLock
  ds_recent :: "DtmfEventId set"
  ds_order :: "DtmfEventId list"
  ds_stats :: DtmfSourceStats

definition source_with_policy :: "DtmfSourcePolicy \<Rightarrow> DtmfSourceState" where
  "source_with_policy policy =
     \<lparr> ds_policy = policy, ds_source_lock = Unset, ds_recent = {}, ds_order = [],
       ds_stats = \<lparr> dss_accepted = 0, dss_duplicate = 0, dss_conflict = 0, dss_stale_generation = 0 \<rparr> \<rparr>"

definition source_default :: DtmfSourceState where
  "source_default = source_with_policy Auto"

datatype GenerationOrder = Initial | Current | Newer | Older | OtherTransport

definition compare_generation :: "u64 \<Rightarrow> u64 \<Rightarrow> GenerationOrder" where
  "compare_generation current candidate =
     (if candidate < current then Older else if candidate = current then Current else Newer)"

fun generation_order :: "DtmfSourceLock \<Rightarrow> DtmfSourceLock \<Rightarrow> GenerationOrder" where
  "generation_order Unset candidate = Initial"
| "generation_order (Rfc4733Lock current) (Rfc4733Lock candidate) = compare_generation current candidate"
| "generation_order (SipInfoLock current) (SipInfoLock candidate) = compare_generation current candidate"
| "generation_order _ _ = OtherTransport"

definition event_source_lock :: "DigitEvent \<Rightarrow> DtmfSourceLock option" where
  "event_source_lock event =
     (case (de_transport event, de_source_generation event) of
        (Rfc4733, Media media_generation) \<Rightarrow> Some (Rfc4733Lock media_generation)
      | (SipInfoRelay, Dialog dialog_generation) \<Rightarrow> Some (SipInfoLock dialog_generation)
      | (SipInfoDtmf, Dialog dialog_generation) \<Rightarrow> Some (SipInfoLock dialog_generation)
      | _ \<Rightarrow> None)"

fun policy_allows :: "DtmfSourcePolicy \<Rightarrow> DtmfTransport \<Rightarrow> bool" where
  "policy_allows Auto transport = True"
| "policy_allows Rfc4733Only transport = (transport = Rfc4733)"
| "policy_allows SipInfoOnly transport = (transport = SipInfoRelay \<or> transport = SipInfoDtmf)"

fun count_decision :: "DtmfSourceDecision \<Rightarrow> DtmfSourceStats \<Rightarrow> DtmfSourceStats" where
  "count_decision Accepted st = st\<lparr>dss_accepted := saturating_add (dss_accepted st) 1\<rparr>"
| "count_decision Duplicate st = st\<lparr>dss_duplicate := saturating_add (dss_duplicate st) 1\<rparr>"
| "count_decision Conflict st = st\<lparr>dss_conflict := saturating_add (dss_conflict st) 1\<rparr>"
| "count_decision StaleGeneration st = st\<lparr>dss_stale_generation := saturating_add (dss_stale_generation st) 1\<rparr>"

definition record_decision :: "DtmfSourceDecision \<Rightarrow> DtmfSourceState \<Rightarrow> DtmfSourceDecision \<times> DtmfSourceState" where
  "record_decision decision s = (decision, s\<lparr>ds_stats := count_decision decision (ds_stats s)\<rparr>)"

fun trim_order :: "DtmfEventId list \<Rightarrow> DtmfEventId set \<Rightarrow> DtmfEventId list \<times> DtmfEventId set" where
  "trim_order [] recent = ([], recent)"
| "trim_order (expired # order) recent =
     (if length (expired # order) > SOURCE_EVENT_DEDUP_CAPACITY then trim_order order (recent - {expired})
      else (expired # order, recent))"

text \<open>The part of \<open>accept\<close> after the lock has been taken: deduplication within the generation.\<close>

definition remember_event :: "DtmfEventId \<Rightarrow> DtmfSourceState \<Rightarrow> DtmfSourceDecision \<times> DtmfSourceState" where
  "remember_event event_id s =
     (if event_id \<in> ds_recent s then record_decision Duplicate s
      else
        let (order, recent) = trim_order (ds_order s @ [event_id]) (insert event_id (ds_recent s))
        in record_decision Accepted (s\<lparr>ds_order := order, ds_recent := recent\<rparr>))"

definition accept :: "DigitEvent \<Rightarrow> DtmfSourceState \<Rightarrow> DtmfSourceDecision \<times> DtmfSourceState" where
  "accept event s =
     (if \<not> identity_is_consistent event then record_decision Conflict s
      else
        (case event_source_lock event of
           None \<Rightarrow> record_decision Conflict s
         | Some candidate_lock \<Rightarrow>
             if \<not> policy_allows (ds_policy s) (de_transport event) then record_decision Conflict s
             else
               (case generation_order (ds_source_lock s) candidate_lock of
                  Initial \<Rightarrow>
                    remember_event (de_event_id event)
                      (s\<lparr>ds_source_lock := candidate_lock, ds_recent := {}, ds_order := []\<rparr>)
                | Newer \<Rightarrow>
                    remember_event (de_event_id event)
                      (s\<lparr>ds_source_lock := candidate_lock, ds_recent := {}, ds_order := []\<rparr>)
                | Current \<Rightarrow> remember_event (de_event_id event) s
                | OtherTransport \<Rightarrow> record_decision Conflict s
                | Older \<Rightarrow> record_decision StaleGeneration s)))"

section \<open>The router\<close>

datatype DtmfIgnoreReason = StaleSourceSession | MissingPeer | CallTerminating

datatype DtmfDisposition = Forward SessionId | Ignore DtmfIgnoreReason

record DtmfRouterStats =
  drs_forwarded :: u64
  drs_consumed :: u64
  drs_ignored :: u64
  drs_info_send_succeeded :: u64
  drs_info_send_failed :: u64

definition route_disposition ::
    "DigitEvent \<Rightarrow> SessionId \<Rightarrow> SessionId option \<Rightarrow> bool \<Rightarrow> DtmfDisposition" where
  "route_disposition event caller_session_id callee_session_id routable =
     (if \<not> routable then Ignore CallTerminating
      else if de_source_session_id event = caller_session_id then
        (case callee_session_id of Some peer \<Rightarrow> Forward peer | None \<Rightarrow> Ignore MissingPeer)
      else if callee_session_id = Some (de_source_session_id event) then Forward caller_session_id
      else Ignore StaleSourceSession)"

definition route ::
    "DigitEvent \<Rightarrow> SessionId \<Rightarrow> SessionId option \<Rightarrow> bool \<Rightarrow> DtmfRouterStats \<Rightarrow> DtmfDisposition \<times> DtmfRouterStats" where
  "route event caller_session_id callee_session_id routable st =
     (let disposition = route_disposition event caller_session_id callee_session_id routable
      in (disposition,
          case disposition of
            Forward _ \<Rightarrow> st\<lparr>drs_forwarded := saturating_add (drs_forwarded st) 1\<rparr>
          | Ignore _ \<Rightarrow> st\<lparr>drs_ignored := saturating_add (drs_ignored st) 1\<rparr>))"

definition record_info_send_result :: "bool \<Rightarrow> DtmfRouterStats \<Rightarrow> DtmfRouterStats" where
  "record_info_send_result succeeded st =
     (if succeeded then st\<lparr>drs_info_send_succeeded := saturating_add (drs_info_send_succeeded st) 1\<rparr>
      else st\<lparr>drs_info_send_failed := saturating_add (drs_info_send_failed st) 1\<rparr>)"

definition record_consumed :: "DtmfRouterStats \<Rightarrow> DtmfRouterStats" where
  "record_consumed st = st\<lparr>drs_consumed := saturating_add (drs_consumed st) 1\<rparr>"

section \<open>The invariant of the source state\<close>

fun id_lock :: "DtmfEventId \<Rightarrow> DtmfSourceLock" where
  "id_lock (Rfc4733Id g _ _ _ _) = Rfc4733Lock g"
| "id_lock (SipInfoId g _ _) = SipInfoLock g"

definition source_wf :: "DtmfSourceState \<Rightarrow> bool" where
  "source_wf s \<longleftrightarrow>
     ds_recent s = set (ds_order s) \<and> distinct (ds_order s) \<and>
     length (ds_order s) \<le> SOURCE_EVENT_DEDUP_CAPACITY \<and>
     (\<forall>i \<in> set (ds_order s). id_lock i = ds_source_lock s)"

lemma event_source_lock_id:
  "identity_is_consistent e \<Longrightarrow> event_source_lock e = Some (id_lock (de_event_id e))"
  by (auto simp: identity_is_consistent_def event_source_lock_def
      split: DtmfEventId.splits DtmfTransport.splits DtmfSourceGeneration.splits)

lemma trim_order_push:
  assumes "length order \<le> SOURCE_EVENT_DEDUP_CAPACITY" and "distinct (order @ [e])"
  shows "trim_order (order @ [e]) (insert e (set order)) =
    (if length order < SOURCE_EVENT_DEDUP_CAPACITY then (order @ [e], set (order @ [e]))
     else (tl order @ [e], set (tl order @ [e])))"
proof (cases "length order < SOURCE_EVENT_DEDUP_CAPACITY")
  case True
  then show ?thesis by (cases order) (auto simp: SOURCE_EVENT_DEDUP_CAPACITY_def)
next
  case False
  then obtain x xs where order: "order = x # xs" and len: "length (x # xs) = SOURCE_EVENT_DEDUP_CAPACITY"
    using assms by (cases order) (auto simp: SOURCE_EVENT_DEDUP_CAPACITY_def)
  have "trim_order (xs @ [e]) r = (xs @ [e], r)" for r
    using len by (cases xs) (simp_all add: SOURCE_EVENT_DEDUP_CAPACITY_def)
  moreover have "insert e (insert x (set xs)) - {x} = insert e (set xs)" using assms(2) order by auto
  ultimately show ?thesis using False len order by simp
qed

lemma remember_event_eq:
  assumes "source_wf s" and "ds_order s' = ds_order s" and "ds_recent s' = ds_recent s"
  shows "remember_event e s' =
    (if e \<in> set (ds_order s) then record_decision Duplicate s'
     else record_decision Accepted
       (let order = (if length (ds_order s) < SOURCE_EVENT_DEDUP_CAPACITY then ds_order s else tl (ds_order s)) @ [e]
        in s'\<lparr>ds_order := order, ds_recent := set order\<rparr>))"
  using assms trim_order_push [of "ds_order s" e] by (auto simp: remember_event_def source_wf_def Let_def)

fun lock_less :: "DtmfSourceLock \<Rightarrow> DtmfSourceLock \<Rightarrow> bool" where
  "lock_less Unset l = (l \<noteq> Unset)"
| "lock_less (Rfc4733Lock g) l = (\<exists>h. l = Rfc4733Lock h \<and> g < h)"
| "lock_less (SipInfoLock g) l = (\<exists>h. l = SipInfoLock h \<and> g < h)"

lemma lock_less_irrefl: "\<not> lock_less a a"
  by (cases a) auto

lemma lock_less_trans: "lock_less a b \<Longrightarrow> lock_less b c \<Longrightarrow> lock_less a c"
  by (cases a; cases b; cases c) auto

lemma generation_order_iff:
  assumes "candidate \<noteq> Unset"
  shows "generation_order l candidate \<in> {Initial, Newer} \<longleftrightarrow> lock_less l candidate"
    and "generation_order l candidate = Current \<longleftrightarrow> candidate = l"
    and "lock_less candidate l \<Longrightarrow> generation_order l candidate = Older"
  using assms by (cases l; cases candidate; auto simp: compare_generation_def)+

text \<open>One step of the source state: what a consistent and permitted event does.\<close>

lemma accept_eq:
  assumes "source_wf s"
  shows "accept e s =
    (if \<not> identity_is_consistent e \<or> \<not> policy_allows (ds_policy s) (de_transport e) then record_decision Conflict s
     else if lock_less (ds_source_lock s) (id_lock (de_event_id e)) then
       record_decision Accepted (s\<lparr>ds_source_lock := id_lock (de_event_id e), ds_order := [de_event_id e],
         ds_recent := {de_event_id e}\<rparr>)
     else if id_lock (de_event_id e) = ds_source_lock s then remember_event (de_event_id e) s
     else if lock_less (id_lock (de_event_id e)) (ds_source_lock s) then record_decision StaleGeneration s
     else record_decision Conflict s)"
proof -
  have unset: "id_lock i \<noteq> Unset" for i by (cases i) simp_all
  let ?c = "id_lock (de_event_id e)"
  have fresh: "remember_event i (s\<lparr>ds_source_lock := l, ds_recent := {}, ds_order := []\<rparr>) =
      record_decision Accepted (s\<lparr>ds_source_lock := l, ds_order := [i], ds_recent := {i}\<rparr>)" for i l
    by (simp add: remember_event_def SOURCE_EVENT_DEDUP_CAPACITY_def)
  have other: "generation_order (ds_source_lock s) ?c = OtherTransport"
    if "\<not> lock_less (ds_source_lock s) ?c" "?c \<noteq> ds_source_lock s" "\<not> lock_less ?c (ds_source_lock s)"
    using that by (cases "ds_source_lock s"; cases ?c) (auto simp: compare_generation_def not_less)
  show ?thesis
    using generation_order_iff [OF unset [of "de_event_id e"], of "ds_source_lock s"] other event_source_lock_id [of e]
    by (auto simp: accept_def fresh split: GenerationOrder.splits)
qed

lemma accept_wf:
  assumes "source_wf s"
  shows "source_wf (snd (accept e s))"
proof -
  have "length (tl xs) < length xs" if "\<not> length xs < SOURCE_EVENT_DEDUP_CAPACITY" for xs :: "DtmfEventId list"
    using that by (cases xs) (simp_all add: SOURCE_EVENT_DEDUP_CAPACITY_def)
  then show ?thesis
    using assms
    by (auto simp: accept_eq remember_event_eq [of s s] record_decision_def source_wf_def Let_def
        SOURCE_EVENT_DEDUP_CAPACITY_def distinct_tl dest: list.set_sel(2) [rotated])
qed

lemma accept_lock: "source_wf s \<Longrightarrow>
    ds_source_lock (snd (accept e s)) = ds_source_lock s \<or> lock_less (ds_source_lock s) (ds_source_lock (snd (accept e s)))"
  by (auto simp: accept_eq remember_event_eq [of s s] record_decision_def Let_def)

text \<open>An event is \<open>remembered n\<close> when its generation has been left behind or at most \<open>n\<close> younger events
  follow it in the queue.\<close>

definition remembered :: "nat \<Rightarrow> DtmfEventId \<Rightarrow> DtmfSourceState \<Rightarrow> bool" where
  "remembered n i s \<longleftrightarrow>
     lock_less (id_lock i) (ds_source_lock s) \<or>
     id_lock i = ds_source_lock s \<and> (\<exists>xs ys. ds_order s = xs @ i # ys \<and> length ys \<le> n)"

lemma accept_remembers:
  assumes "source_wf s" and "fst (accept e s) = Accepted"
  shows "remembered 0 (de_event_id e) (snd (accept e s))"
  using assms
  by (auto simp: accept_eq remember_event_eq [of s s] record_decision_def remembered_def Let_def
      split: if_splits)

lemma accept_keeps:
  assumes "source_wf s" and "remembered n i s" and "Suc n < SOURCE_EVENT_DEDUP_CAPACITY"
  shows "remembered (Suc n) i (snd (accept e s))"
proof (cases "ds_source_lock (snd (accept e s)) = ds_source_lock s \<and> \<not> lock_less (id_lock i) (ds_source_lock s)")
  case False
  then have "lock_less (id_lock i) (ds_source_lock (snd (accept e s)))"
    using accept_lock [OF assms(1), of e] assms(2) unfolding remembered_def by (metis lock_less_trans)
  then show ?thesis by (simp add: remembered_def)
next
  case True
  then obtain xs ys where o: "ds_order s = xs @ i # ys" "length ys \<le> n" and l: "id_lock i = ds_source_lock s"
    using assms(2) by (auto simp: remembered_def)
  have "ds_order (snd (accept e s)) = ds_order s \<or>
      (\<exists>j. ds_order (snd (accept e s)) = ds_order s @ [j]) \<or>
      (\<exists>j. ds_order (snd (accept e s)) = tl (ds_order s) @ [j] \<and>
         length (ds_order s) \<ge> SOURCE_EVENT_DEDUP_CAPACITY)"
    using True assms(1) lock_less_irrefl [of "ds_source_lock s"]
    by (auto simp: accept_eq remember_event_eq [of s s] record_decision_def Let_def split: if_splits)
  then consider "ds_order (snd (accept e s)) = xs @ i # ys"
    | j where "ds_order (snd (accept e s)) = xs @ i # (ys @ [j])"
    | j where "ds_order (snd (accept e s)) = tl xs @ i # (ys @ [j])"
    using o assms(3) by (cases xs) auto
  then show ?thesis
  proof cases
    case 1
    then show ?thesis using o(2) l True by (auto simp: remembered_def intro: le_SucI)
  next
    case (2 j)
    then show ?thesis
      using o(2) l True unfolding remembered_def by (metis Suc_le_mono length_append_singleton)
  next
    case (3 j)
    then show ?thesis
      using o(2) l True unfolding remembered_def by (metis Suc_le_mono length_append_singleton)
  qed
qed

lemma remembered_not_accepted:
  assumes "source_wf s" and "remembered n (de_event_id e) s"
  shows "fst (accept e s) \<noteq> Accepted"
  using assms lock_less_trans lock_less_irrefl
  by (auto simp: accept_eq remember_event_eq [of s s] record_decision_def remembered_def Let_def
      split: if_splits)

lemma run_remembers:
  assumes "source_wf s" and "remembered n i s" and "n + length es < SOURCE_EVENT_DEDUP_CAPACITY"
  shows "source_wf (foldl (\<lambda>s e. snd (accept e s)) s es) \<and>
    remembered (n + length es) i (foldl (\<lambda>s e. snd (accept e s)) s es)"
  using assms
proof (induction es rule: rev_induct)
  case (snoc e es)
  then show ?case
    using accept_wf accept_keeps [of "foldl (\<lambda>s e. snd (accept e s)) s es" "n + length es" i e] by simp
qed simp

text \<open>C30: a digit event that was accepted is not accepted again, whatever at most 127 events arrive in
  between: it is a duplicate, or stale once the source has moved to a newer generation.\<close>

theorem digit_accepted_once:
  assumes "source_wf s" and "fst (accept e s) = Accepted" and "length es < 128"
    and "de_event_id e' = de_event_id e"
  shows "fst (accept e' (foldl (\<lambda>s e. snd (accept e s)) (snd (accept e s)) es)) \<noteq> Accepted"
proof -
  have "source_wf (snd (accept e s))" by (rule accept_wf [OF assms(1)])
  moreover have "remembered 0 (de_event_id e) (snd (accept e s))"
    by (rule accept_remembers [OF assms(1,2)])
  ultimately show ?thesis
    using run_remembers [of "snd (accept e s)" 0 "de_event_id e" es] assms(3,4) remembered_not_accepted
    by (metis SOURCE_EVENT_DEDUP_CAPACITY_def add_0)
qed

definition demo_event :: "u64 \<Rightarrow> u32 \<Rightarrow> DigitEvent" where
  "demo_event g ts =
     \<lparr> de_event_id = Rfc4733Id g ''s1'' 7 ts 5, de_domain_id = ''d'', de_call_id = ''c'',
       de_source_session_id = ''s1'', de_source_media_leg_id = None, de_digit = D5, de_transport = Rfc4733,
       de_duration_ms = 30, de_observed_at_ms = 1, de_source_generation = Media g, de_incomplete_end = False \<rparr>"

lemma source_default_wf: "source_wf source_default"
  by (simp add: source_default_def source_with_policy_def source_wf_def)

theorem digit_accepted_once_witness:
  "fst (accept (demo_event 1 42) source_default) = Accepted \<and>
   fst (accept (demo_event 1 42) (foldl (\<lambda>s e. snd (accept e s)) (snd (accept (demo_event 1 42) source_default))
      [demo_event 1 43, demo_event 2 1])) \<noteq> Accepted"
proof -
  have "fst (accept (demo_event 1 42) source_default) = Accepted"
    by (subst accept_eq [OF source_default_wf])
      (simp add: source_default_def source_with_policy_def demo_event_def identity_is_consistent_def
        record_decision_def)
  then show ?thesis
    using digit_accepted_once [OF source_default_wf, of "demo_event 1 42" "[demo_event 1 43, demo_event 2 1]"
        "demo_event 1 42"]
    by simp
qed

text \<open>The source lock only moves forward: over any sequence of events a leg that took its digits from
  one transport keeps that transport, and the generation it listens to never decreases.\<close>

theorem source_lock_monotone:
  assumes "source_wf s"
  shows "let l = ds_source_lock (foldl (\<lambda>s e. snd (accept e s)) s es) in
     l = ds_source_lock s \<or> lock_less (ds_source_lock s) l"
proof -
  have "source_wf (foldl (\<lambda>s e. snd (accept e s)) s es) \<and>
    (ds_source_lock (foldl (\<lambda>s e. snd (accept e s)) s es) = ds_source_lock s \<or>
     lock_less (ds_source_lock s) (ds_source_lock (foldl (\<lambda>s e. snd (accept e s)) s es)))"
  proof (induction es rule: rev_induct)
    case (snoc e es)
    then show ?case
      using accept_wf accept_lock [of "foldl (\<lambda>s e. snd (accept e s)) s es" e] lock_less_trans by auto
  qed (simp add: assms)
  then show ?thesis by (simp add: Let_def)
qed

theorem source_lock_monotone_witness:
  "let l = ds_source_lock (foldl (\<lambda>s e. snd (accept e s)) (source_default\<lparr>ds_source_lock := SipInfoLock 4\<rparr>)
      [demo_event 9 1]) in l = SipInfoLock 4 \<or> lock_less (SipInfoLock 4) l"
  using source_lock_monotone [of "source_default\<lparr>ds_source_lock := SipInfoLock 4\<rparr>" "[demo_event 9 1]"]
  by (simp add: source_wf_def source_default_def source_with_policy_def)

text \<open>A digit is only ever forwarded while the call is routable, from one of the two legs of the call
  to the other; it is forwarded exactly when there is such another leg, and every digit is counted
  as forwarded or as ignored.\<close>

theorem route_spec:
  assumes "callee \<noteq> Some caller"
  shows "(\<exists>peer st'. route e caller callee routable st = (Forward peer, st') \<and> peer \<noteq> de_source_session_id e \<and>
        insert caller (set_option callee) = {peer, de_source_session_id e} \<and> routable \<and>
        st' = st\<lparr>drs_forwarded := saturating_add (drs_forwarded st) 1\<rparr>) \<or>
     (\<exists>r. route e caller callee routable st = (Ignore r, st\<lparr>drs_ignored := saturating_add (drs_ignored st) 1\<rparr>) \<and>
        (r = CallTerminating \<longleftrightarrow> \<not> routable) \<and>
        (routable \<longrightarrow> callee = None \<or> de_source_session_id e \<notin> insert caller (set_option callee)))"
  using assms by (auto simp: route_def route_disposition_def Let_def split: option.splits)

theorem route_spec_witness:
  "\<exists>peer st'. route (demo_event 1 42) ''s1'' (Some ''s2'') True
     \<lparr> drs_forwarded = 0, drs_consumed = 0, drs_ignored = 0, drs_info_send_succeeded = 0, drs_info_send_failed = 0 \<rparr> =
     (Forward peer, st') \<and> peer \<noteq> ''s1''"
proof -
  have src: "de_source_session_id (demo_event 1 42) = ''s1''" by (simp add: demo_event_def)
  show ?thesis
    using route_spec [of "Some ''s2''" "''s1''" "demo_event 1 42" True
      "\<lparr> drs_forwarded = 0, drs_consumed = 0, drs_ignored = 0, drs_info_send_succeeded = 0, drs_info_send_failed = 0 \<rparr>"]
    unfolding src by blast
qed

end
