(* ===== verification/Channels.thy ===== *)
theory Channels
  imports Prelude
begin

text \<open>
  Bounded \<open>tokio::sync::mpsc\<close> channels as far as the sources use them (\<open>try_send\<close>, \<open>recv\<close>, dropping
  the receiver), and the binding of a service to the runtime that serves it, by generation.
\<close>

record 'm Channel =
  ch_queue :: "'m list"
  ch_capacity :: nat
  ch_closed :: bool

datatype TrySendError = Full | Closed

definition channel :: "nat \<Rightarrow> 'm Channel" where
  "channel capacity = \<lparr> ch_queue = [], ch_capacity = capacity, ch_closed = False \<rparr>"

definition try_send :: "'m \<Rightarrow> ('m Channel, unit, TrySendError) stateful" where
  "try_send m c =
     (if ch_closed c then (Err Closed, c)
      else if length (ch_queue c) \<ge> ch_capacity c then (Err Full, c)
      else (Ok (), c\<lparr>ch_queue := ch_queue c @ [m]\<rparr>))"

definition chan_recv :: "'m Channel \<Rightarrow> 'm option \<times> 'm Channel" where
  "chan_recv c = (case ch_queue c of [] \<Rightarrow> (None, c) | m # ms \<Rightarrow> (Some m, c\<lparr>ch_queue := ms\<rparr>))"

definition drop_receiver :: "'m Channel \<Rightarrow> 'm Channel" where
  "drop_receiver c = c\<lparr>ch_closed := True\<rparr>"

lemma try_send_bounded:
  "length (ch_queue c) \<le> ch_capacity c \<Longrightarrow>
     length (ch_queue (snd (try_send m c))) \<le> ch_capacity (snd (try_send m c))"
  by (auto simp: try_send_def)

text \<open>
  A service binds the runtime that last attached to it.  The generation handed out at the attach
  names that runtime; detaching with another generation leaves the binding alone.
\<close>

locale runtime_binding =
  fixes attach :: "'s \<Rightarrow> u64 \<times> 's"
    and detach :: "u64 \<Rightarrow> 's \<Rightarrow> 's"
    and bound :: "'s \<Rightarrow> u64 option"
    and generation :: "'s \<Rightarrow> u64"
  assumes attach_bound: "attach s = (g, t) \<Longrightarrow> bound t = Some g \<and> generation t = g"
    and attach_generation: "attach s = (g, t) \<Longrightarrow> g = saturating_add (generation s) 1"
    and detach_bound: "bound (detach g s) = (if bound s = Some g then None else bound s)"
    and detach_generation: "generation (detach g s) = generation s"
begin

lemma attach_fresh:
  assumes "attach s = (g, t)" and "generation s \<noteq> - 1"
  shows "generation s < g"
  using assms attach_generation saturating_add_less by metis

text \<open>A runtime that has been replaced cannot unbind its successor.\<close>

lemma stale_detach:
  assumes "attach s = (g, t)" and "generation s \<noteq> - 1" and "h \<le> generation s"
  shows "bound (detach h t) = Some g"
  using assms attach_bound [OF assms(1)] attach_fresh [OF assms(1,2)] by (auto simp: detach_bound)

end

end
