(* ===== verification/Call_Services.thy ===== *)
theory Call_Services
  imports Call_Types Channels Hash_Map
begin

text \<open>
  Two small services of the call runtime: the deduplication of adapter leg events by sequence
  number (\<open>LegEventDeduper\<close> of \<open>crates/voipswitchd/src/runtime/call/registry.rs\<close>) and the bounded
  entry point for coordinator hand-offs (\<open>handoff.rs\<close>).
\<close>

section \<open>Leg events (registry.rs)\<close>

record LegEventDeduper =
  led_highest_sequences :: "(string, u64) HashMap"
  led_order :: "string list"
  led_capacity :: nat

definition deduper_default :: LegEventDeduper where
  "deduper_default = \<lparr> led_highest_sequences = [], led_order = [], led_capacity = 16384 \<rparr>"

text \<open>
  The eviction loop.  When the map is over capacity and the queue is empty the loop of the source
  spins for ever; this is the value \<open>None\<close>.
\<close>

fun evict_legs ::
    "nat \<Rightarrow> string list \<Rightarrow> (string, u64) HashMap \<Rightarrow> (string list \<times> (string, u64) HashMap) option" where
  "evict_legs capacity [] highest = (if length highest > capacity then None else Some ([], highest))"
| "evict_legs capacity (expired # order) highest =
     (if length highest > capacity then evict_legs capacity order (hm_remove expired highest)
      else Some (expired # order, highest))"

definition accept_leg_event :: "string \<Rightarrow> u64 \<Rightarrow> LegEventDeduper \<Rightarrow> (bool \<times> LegEventDeduper) option" where
  "accept_leg_event leg sequence s =
     (case hm_get (led_highest_sequences s) leg of
        Some highest \<Rightarrow>
          if sequence \<le> highest then Some (False, s)
          else map_option (\<lambda>(order, m). (True, s\<lparr>led_order := order, led_highest_sequences := m\<rparr>))
                 (evict_legs (led_capacity s) (led_order s) (hm_insert leg sequence (led_highest_sequences s)))
      | None \<Rightarrow>
          map_option (\<lambda>(order, m). (True, s\<lparr>led_order := order, led_highest_sequences := m\<rparr>))
            (evict_legs (led_capacity s) (led_order s @ [leg]) (hm_insert leg sequence (led_highest_sequences s))))"

definition deduper_wf :: "LegEventDeduper \<Rightarrow> bool" where
  "deduper_wf s \<longleftrightarrow>
     hm_wf (led_highest_sequences s) \<and> distinct (led_order s) \<and>
     set (led_order s) = fst ` set (led_highest_sequences s) \<and>
     length (led_highest_sequences s) \<le> led_capacity s"

lemma hm_length_order:
  assumes "hm_wf m" and "distinct order" and "set order = fst ` set m"
  shows "length m = length order"
  using assms unfolding hm_wf_def by (metis distinct_card length_map list.set_map)

lemma evict_legs_none: "length m \<le> c \<Longrightarrow> evict_legs c order m = Some (order, m)"
  by (cases order) auto

lemma evict_legs_one:
  assumes "hm_wf m" and "distinct (x # order)" and "set (x # order) = fst ` set m" and "length m = Suc c"
  shows "evict_legs c (x # order) m = Some (order, hm_remove x m)"
proof -
  have "hm_get m x \<noteq> None" using assms(3) by (auto simp: hm_get_None_iff)
  then have "length (hm_remove x m) = c" using assms by (simp add: length_hm_remove)
  then show ?thesis using assms(4) by (simp add: evict_legs_none)
qed

text \<open>A new leg: it enters the queue, and the oldest leaves when the capacity is exceeded.\<close>

lemma accept_new_leg:
  assumes wf: "deduper_wf s" and new: "hm_get (led_highest_sequences s) leg = None" and cap: "0 < led_capacity s"
  shows "\<exists>s'. accept_leg_event leg q s = Some (True, s') \<and> deduper_wf s' \<and> led_capacity s' = led_capacity s \<and>
     hm_get (led_highest_sequences s') leg = Some q \<and>
     (length (led_order s) < led_capacity s \<longrightarrow>
        led_highest_sequences s' = hm_insert leg q (led_highest_sequences s) \<and> led_order s' = led_order s @ [leg])"
proof -
  let ?m = "hm_insert leg q (led_highest_sequences s)" and ?o = "led_order s @ [leg]"
  have m: "hm_wf ?m" "distinct ?o" "set ?o = fst ` set ?m" "length ?m = Suc (length (led_highest_sequences s))"
    using wf new by (auto simp: deduper_wf_def hm_wf_insert hm_keys_insert hm_get_None_iff length_hm_insert)
  have len: "length (led_highest_sequences s) = length (led_order s)"
    using wf hm_length_order by (auto simp: deduper_wf_def)
  show ?thesis
  proof (cases "length (led_order s) < led_capacity s")
    case True
    then have "evict_legs (led_capacity s) ?o ?m = Some (?o, ?m)"
      using m len by (intro evict_legs_none) simp
    then show ?thesis using new m True len by (auto simp: accept_leg_event_def deduper_wf_def)
  next
    case False
    then have full: "length (led_order s) = led_capacity s" using wf len by (simp add: deduper_wf_def)
    then obtain x xs where x: "led_order s = x # xs" using cap by (cases "led_order s") auto
    have ev: "evict_legs (led_capacity s) ?o ?m = Some (xs @ [leg], hm_remove x ?m)"
      using m evict_legs_one [of ?m x "xs @ [leg]" "led_capacity s"] full len x by simp
    have "x \<in> fst ` set (led_highest_sequences s)" using wf x by (auto simp: deduper_wf_def)
    then have "x \<noteq> leg" "hm_get ?m x \<noteq> None" "distinct (xs @ [leg])" "set (xs @ [leg]) = fst ` set (hm_remove x ?m)"
      using m x by (auto simp: hm_keys_remove hm_get_None_iff)
    moreover from this have "length (hm_remove x ?m) = led_capacity s"
      using m full len by (simp add: length_hm_remove)
    ultimately show ?thesis
      using new ev False m by (auto simp: accept_leg_event_def deduper_wf_def hm_wf_remove)
  qed
qed

lemma accept_known_leg:
  assumes wf: "deduper_wf s" and known: "hm_get (led_highest_sequences s) leg = Some h"
  shows "accept_leg_event leg q s =
    Some (if q \<le> h then (False, s)
          else (True, s\<lparr>led_highest_sequences := hm_insert leg q (led_highest_sequences s)\<rparr>))"
proof -
  have "length (hm_insert leg q (led_highest_sequences s)) \<le> led_capacity s"
    using wf known by (simp add: length_hm_insert deduper_wf_def)
  then show ?thesis using known by (simp add: accept_leg_event_def evict_legs_none)
qed

lemma accept_known_leg_wf:
  assumes "deduper_wf s" and "hm_get (led_highest_sequences s) leg = Some h"
  shows "deduper_wf (s\<lparr>led_highest_sequences := hm_insert leg q (led_highest_sequences s)\<rparr>)"
proof -
  have "leg \<in> fst ` set (led_highest_sequences s)"
    using assms(2) by (metis hm_get_None_iff option.distinct(1))
  with assms show ?thesis
    by (auto simp: deduper_wf_def hm_wf_insert hm_keys_insert length_hm_insert)
qed

text \<open>The deduper always returns, never holds more legs than its capacity, and its answer is the
  intended one: an event is refused exactly when a sequence number at least as high is on
  record for its leg, and an accepted sequence number is on record afterwards.\<close>

lemma accept_leg_event_total:
  assumes "deduper_wf s" and "0 < led_capacity s"
  shows "\<exists>b s'. accept_leg_event leg q s = Some (b, s') \<and> deduper_wf s' \<and> led_capacity s' = led_capacity s \<and>
     length (led_highest_sequences s') \<le> led_capacity s \<and>
     (b \<longleftrightarrow> (\<forall>h. hm_get (led_highest_sequences s) leg = Some h \<longrightarrow> h < q)) \<and>
     (b \<longrightarrow> hm_get (led_highest_sequences s') leg = Some q) \<and> (\<not> b \<longrightarrow> s' = s)"
proof (cases "hm_get (led_highest_sequences s) leg")
  case None
  then show ?thesis using accept_new_leg [OF assms(1) None assms(2), of q] by (auto simp: deduper_wf_def)
next
  case (Some h)
  have "deduper_wf (s\<lparr>led_highest_sequences := hm_insert leg q (led_highest_sequences s)\<rparr>)"
    by (rule accept_known_leg_wf [OF assms(1) Some])
  then show ?thesis
    using accept_known_leg [OF assms(1) Some, of q] assms(1) Some
    by (auto simp: deduper_wf_def not_le)
qed

lemma deduper_default_wf: "deduper_wf deduper_default" "0 < led_capacity deduper_default"
  by (simp_all add: deduper_wf_def deduper_default_def)

text \<open>The reference: an unbounded record of the highest sequence number of each leg.\<close>

fun reference_accepts :: "(string \<Rightarrow> u64 option) \<Rightarrow> (string \<times> u64) list \<Rightarrow> bool list" where
  "reference_accepts highest [] = []"
| "reference_accepts highest ((leg, q) # events) =
     (if (case highest leg of Some h \<Rightarrow> q \<le> h | None \<Rightarrow> False) then False # reference_accepts highest events
      else True # reference_accepts (highest(leg \<mapsto> q)) events)"

fun deduper_accepts :: "LegEventDeduper \<Rightarrow> (string \<times> u64) list \<Rightarrow> bool list option" where
  "deduper_accepts s [] = Some []"
| "deduper_accepts s ((leg, q) # events) =
     (case accept_leg_event leg q s of
        None \<Rightarrow> None
      | Some (b, s') \<Rightarrow> map_option (Cons b) (deduper_accepts s' events))"

lemma deduper_refines:
  assumes "deduper_wf s" and "0 < led_capacity s"
    and "card (set (led_order s) \<union> fst ` set events) \<le> led_capacity s"
  shows "deduper_accepts s events = Some (reference_accepts (hm_get (led_highest_sequences s)) events)"
  using assms
proof (induction events arbitrary: s)
  case (Cons e events)
  obtain leg q where e: "e = (leg, q)" by (cases e)
  show ?case
  proof (cases "hm_get (led_highest_sequences s) leg")
    case None
    have "leg \<notin> set (led_order s)" using None Cons.prems(1) by (simp add: deduper_wf_def hm_get_None_iff)
    moreover have "card (insert leg (set (led_order s))) \<le> card (set (led_order s) \<union> fst ` set (e # events))"
      by (rule card_mono) (auto simp: e)
    then have "card (insert leg (set (led_order s))) \<le> led_capacity s"
      using Cons.prems(3) by simp
    ultimately have "length (led_order s) < led_capacity s"
      using distinct_card [of "led_order s"] Cons.prems(1) by (simp add: deduper_wf_def card_insert_if)
    then obtain s' where s': "accept_leg_event leg q s = Some (True, s')" "deduper_wf s'"
        "led_capacity s' = led_capacity s" "led_highest_sequences s' = hm_insert leg q (led_highest_sequences s)"
        "led_order s' = led_order s @ [leg]"
      using accept_new_leg [OF Cons.prems(1) None Cons.prems(2), of q] by auto
    have "set (led_order s') \<union> fst ` set events = set (led_order s) \<union> fst ` set (e # events)"
      by (auto simp: s' e)
    then show ?thesis using Cons.IH [of s'] s' Cons.prems None by (simp add: e fun_upd_def)
  next
    case (Some h)
    let ?s = "s\<lparr>led_highest_sequences := hm_insert leg q (led_highest_sequences s)\<rparr>"
    have "card (set (led_order s) \<union> fst ` set events) \<le> card (set (led_order s) \<union> fst ` set (e # events))"
      by (rule card_mono) auto
    then have "card (set (led_order s) \<union> fst ` set events) \<le> led_capacity s"
      using Cons.prems(3) by simp
    then show ?thesis
      using Cons.IH [of s] Cons.IH [of ?s] accept_known_leg [OF Cons.prems(1) Some, of q]
        accept_known_leg_wf [OF Cons.prems(1) Some, of q] Cons.prems(1,2) Some
      by (simp add: e fun_upd_def)
  qed
qed simp

text \<open>C38: as long as no more than 16384 legs send events, the bounded deduper gives the same answers as an
  unbounded record of the highest sequence number of every leg.\<close>

theorem leg_deduper_refines_reference:
  assumes "card (fst ` set events) \<le> 16384"
  shows "deduper_accepts deduper_default events = Some (reference_accepts (\<lambda>_. None) events)"
proof -
  have "hm_get (led_highest_sequences deduper_default) = (\<lambda>_. None)"
    by (simp add: deduper_default_def hm_get_def fun_eq_iff)
  then show ?thesis
    using deduper_refines [OF deduper_default_wf, of events] assms by (simp add: deduper_default_def)
qed

theorem leg_deduper_refines_reference_witness:
  "deduper_accepts deduper_default [(''a'', 1), (''b'', 7), (''a'', 1), (''a'', 3)] = Some [True, True, False, True]"
proof -
  have "card (fst ` set [(''a'', 1 :: u64), (''b'', 7), (''a'', 1), (''a'', 3)]) \<le> 16384"
    by (rule order.trans [OF card_image_le]) (simp_all add: card_insert_if)
  from leg_deduper_refines_reference [OF this] show ?thesis by (simp add: word_le_def)
qed

section \<open>Hand-off requests (handoff.rs)\<close>

definition HANDOFF_REQUEST_CAPACITY :: nat where
  "HANDOFF_REQUEST_CAPACITY = 32"

record CoordinatorHandoffRequest =
  chr_call_id :: string
  chr_target_session_id :: string

record HandoffBinding =
  hb_generation :: u64
  hb_tx :: "CoordinatorHandoffRequest Channel"

record CoordinatorHandoffServiceState =
  hs_runtime_generation :: u64
  hs_runtime :: "HandoffBinding option"

datatype handoff_request_error = HandoffAdapterUnavailable | HandoffQueueFull | HandoffQueueClosed

definition handoff_attach_runtime :: "CoordinatorHandoffServiceState \<Rightarrow> u64 \<times> CoordinatorHandoffServiceState" where
  "handoff_attach_runtime s =
     (let generation = saturating_add (hs_runtime_generation s) 1
      in (generation,
          s\<lparr>hs_runtime_generation := generation,
            hs_runtime := Some \<lparr> hb_generation = generation, hb_tx = channel HANDOFF_REQUEST_CAPACITY \<rparr>\<rparr>))"

definition handoff_detach_runtime :: "u64 \<Rightarrow> CoordinatorHandoffServiceState \<Rightarrow> CoordinatorHandoffServiceState" where
  "handoff_detach_runtime generation s =
     s\<lparr>hs_runtime := (if map_option hb_generation (hs_runtime s) = Some generation then None else hs_runtime s)\<rparr>"

definition request_owner_exit_handoff ::
    "string \<Rightarrow> string \<Rightarrow> (CoordinatorHandoffServiceState, unit, handoff_request_error) stateful" where
  "request_owner_exit_handoff call_id target_session_id s =
     (case hs_runtime s of
        None \<Rightarrow> (Err HandoffAdapterUnavailable, s)
      | Some runtime \<Rightarrow>
          (case try_send \<lparr> chr_call_id = call_id, chr_target_session_id = target_session_id \<rparr> (hb_tx runtime) of
             (Ok _, tx) \<Rightarrow> (Ok (), s\<lparr>hs_runtime := Some (runtime\<lparr>hb_tx := tx\<rparr>)\<rparr>)
           | (Err Full, _) \<Rightarrow> (Err HandoffQueueFull, s)
           | (Err Closed, _) \<Rightarrow> (Err HandoffQueueClosed, s)
           | (Panic, _) \<Rightarrow> (Panic, s)))"

interpretation handoff_binding: runtime_binding handoff_attach_runtime handoff_detach_runtime
  "\<lambda>s. map_option hb_generation (hs_runtime s)" hs_runtime_generation
  by unfold_locales (auto simp: handoff_attach_runtime_def handoff_detach_runtime_def Let_def)

text \<open>A hand-off request is accepted exactly when a runtime is bound, listens and has room in its
  queue of 32; it then stands last in that queue, and a refused request changes nothing.  A runtime
  that has been replaced does not unbind its successor.\<close>

theorem handoff_request_spec:
  assumes "handoff_attach_runtime s0 = (g, t)" and "hs_runtime_generation s0 \<noteq> - 1"
    and "h \<le> hs_runtime_generation s0"
  shows "(let r = \<lparr> chr_call_id = c, chr_target_session_id = x \<rparr> in
     (\<exists>b. hs_runtime s = Some b \<and> \<not> ch_closed (hb_tx b) \<and> length (ch_queue (hb_tx b)) < ch_capacity (hb_tx b) \<and>
        request_owner_exit_handoff c x s =
          (Ok (), s\<lparr>hs_runtime := Some (b\<lparr>hb_tx := (hb_tx b)\<lparr>ch_queue := ch_queue (hb_tx b) @ [r]\<rparr>\<rparr>)\<rparr>)) \<or>
     (\<exists>e. request_owner_exit_handoff c x s = (Err e, s))) \<and>
     map_option hb_generation (hs_runtime (handoff_detach_runtime h t)) = Some g"
  using handoff_binding.stale_detach [OF assms]
  by (auto simp: request_owner_exit_handoff_def try_send_def Let_def split: option.splits)

theorem handoff_request_spec_witness:
  "map_option hb_generation (hs_runtime (handoff_detach_runtime 0
      (snd (handoff_attach_runtime \<lparr> hs_runtime_generation = 0, hs_runtime = None \<rparr>)))) = Some 1"
proof -
  let ?s = "\<lparr> hs_runtime_generation = 0, hs_runtime = None \<rparr>"
  have a: "handoff_attach_runtime ?s = (1, snd (handoff_attach_runtime ?s))"
    by (simp add: handoff_attach_runtime_def Let_def saturating_add_def)
  have "hs_runtime_generation ?s \<noteq> - 1" "(0 :: u64) \<le> hs_runtime_generation ?s" by simp_all
  from handoff_request_spec [OF a this] show ?thesis by blast
qed

end
