(* ===== verification/Dtmf_Operations.thy ===== *)
theory Dtmf_Operations
  imports Dtmf_Types Channels Decimal
begin

text \<open>
  The DTMF operation service, \<open>crates/voipswitchd/src/runtime/call/dtmf_operation.rs\<close>: operations
  started by an operator are queued to the attached runtime and followed through their states in
  a bounded history.  Each call of \<open>unix_timestamp_ms\<close> is an argument.
\<close>

definition DTMF_OPERATION_QUEUE_CAPACITY :: nat where
  "DTMF_OPERATION_QUEUE_CAPACITY = 32"

definition DTMF_OPERATION_HISTORY_CAPACITY :: nat where
  "DTMF_OPERATION_HISTORY_CAPACITY = 128"

datatype DtmfOperationSource = CallerSource | CalleeSource

datatype DtmfOperationMode = ObserveMode | CollectMode

datatype DigitCollectionResultCode =
    Completed | FirstDigitTimeout | InterDigitTimeout | OverallTimeout | Cancelled | Failed

record DigitCollectionOutcome =
  dco_collector_id :: CollectorId
  dco_code :: DigitCollectionResultCode
  dco_digits :: "DtmfDigit list"
  dco_reason :: "string option"

record DtmfOperationSpec =
  dos_call_id :: string
  dos_source :: DtmfOperationSource
  dos_mode :: DtmfOperationMode
  dos_allowed :: "DtmfDigit set"
  dos_min_digits :: nat
  dos_max_digits :: nat
  dos_terminators :: "DtmfDigit set"
  dos_first_digit_timeout :: nat
  dos_inter_digit_timeout :: nat
  dos_overall_timeout :: nat

datatype DtmfRuntimeOperation =
    Start string DtmfOperationSpec
  | Cancel string string

datatype DtmfOperationStatus =
    Pending | Acquiring | Ready | OpCompleted | Cancelling | OpCancelled | OpFailed

definition status_is_terminal :: "DtmfOperationStatus \<Rightarrow> bool" where
  "status_is_terminal st \<longleftrightarrow> st = OpCompleted \<or> st = OpCancelled \<or> st = OpFailed"

record DtmfOperationView =
  ov_operation_id :: string
  ov_call_id :: string
  ov_source :: DtmfOperationSource
  ov_mode :: DtmfOperationMode
  ov_status :: DtmfOperationStatus
  ov_media_generation :: "u64 option"
  ov_result_code :: "string option"
  ov_digits :: "string option"
  ov_digit_count :: nat
  ov_reason :: "string option"
  ov_created_at_ms :: u64
  ov_updated_at_ms :: u64

record RuntimeBinding =
  rb_generation :: u64
  rb_tx :: "DtmfRuntimeOperation Channel"

record DtmfOperationState =
  os_runtime_generation :: u64
  os_runtime :: "RuntimeBinding option"
  os_operation_sequence :: u64
  os_operations :: "(string, DtmfOperationView) BTreeMap"
  os_order :: "string list"

datatype operation_error =
    AdapterUnavailable | QueueClosed | ResourceExhausted | OperationNotFound | AlreadyComplete

definition operations_default :: DtmfOperationState where
  "operations_default =
     \<lparr> os_runtime_generation = 0, os_runtime = None, os_operation_sequence = 0, os_operations = [],
       os_order = [] \<rparr>"

definition attach_runtime :: "DtmfOperationState \<Rightarrow> u64 \<times> DtmfOperationState" where
  "attach_runtime s =
     (let generation = saturating_add (os_runtime_generation s) 1
      in (generation,
          s\<lparr>os_runtime_generation := generation,
            os_runtime := Some \<lparr> rb_generation = generation, rb_tx = channel DTMF_OPERATION_QUEUE_CAPACITY \<rparr>\<rparr>))"

definition disconnect :: "u64 \<Rightarrow> DtmfOperationView \<Rightarrow> DtmfOperationView" where
  "disconnect now operation =
     (if status_is_terminal (ov_status operation) then operation
      else operation\<lparr>ov_status := OpFailed, ov_reason := Some ''adapter_runtime_disconnected'',
                     ov_updated_at_ms := now\<rparr>)"

definition detach_runtime :: "u64 \<Rightarrow> u64 \<Rightarrow> DtmfOperationState \<Rightarrow> DtmfOperationState" where
  "detach_runtime now generation s =
     s\<lparr>os_runtime := (if map_option rb_generation (os_runtime s) = Some generation then None else os_runtime s),
       os_operations := bt_map (\<lambda>_. disconnect now) (os_operations s)\<rparr>"

text \<open>\<open>trim_history\<close> as a loop on the queue.\<close>

fun trim_history ::
    "string list \<Rightarrow> (string, DtmfOperationView) BTreeMap \<Rightarrow> string list \<times> (string, DtmfOperationView) BTreeMap" where
  "trim_history [] ops = ([], ops)"
| "trim_history (operation_id # order) ops =
     (if length (operation_id # order) > DTMF_OPERATION_HISTORY_CAPACITY
      then trim_history order (bt_remove operation_id ops) else (operation_id # order, ops))"

definition operation_id_of :: "u64 \<Rightarrow> u64 \<Rightarrow> string" where
  "operation_id_of timestamp sequence =
     ''dtmf-op-'' @ decimal (unat timestamp) @ ''-'' @ decimal (unat sequence)"

definition send_operation ::
    "RuntimeBinding \<Rightarrow> DtmfRuntimeOperation \<Rightarrow> (DtmfOperationState, unit, operation_error) stateful" where
  "send_operation runtime m s =
     (case try_send m (rb_tx runtime) of
        (Ok _, tx) \<Rightarrow> (Ok (), s\<lparr>os_runtime := Some (runtime\<lparr>rb_tx := tx\<rparr>)\<rparr>)
      | (Err Full, _) \<Rightarrow> (Err ResourceExhausted, s)
      | (Err Closed, _) \<Rightarrow> (Err QueueClosed, s\<lparr>os_runtime := None\<rparr>)
      | (Panic, _) \<Rightarrow> (Panic, s))"

definition pending_view :: "string \<Rightarrow> u64 \<Rightarrow> DtmfOperationSpec \<Rightarrow> DtmfOperationView" where
  "pending_view operation_id now spec =
     \<lparr> ov_operation_id = operation_id, ov_call_id = dos_call_id spec, ov_source = dos_source spec,
       ov_mode = dos_mode spec, ov_status = Pending, ov_media_generation = None, ov_result_code = None,
       ov_digits = None, ov_digit_count = 0, ov_reason = None, ov_created_at_ms = now, ov_updated_at_ms = now \<rparr>"

definition start ::
    "u64 \<Rightarrow> u64 \<Rightarrow> DtmfOperationSpec \<Rightarrow> (DtmfOperationState, DtmfOperationView, operation_error) stateful" where
  "start id_now now spec s =
     (case os_runtime s of
        None \<Rightarrow> (Err AdapterUnavailable, s)
      | Some runtime \<Rightarrow>
          let sequence = saturating_add (os_operation_sequence s) 1;
              s1 = s\<lparr>os_operation_sequence := sequence\<rparr>;
              operation_id = operation_id_of id_now sequence;
              view = pending_view operation_id now spec
          in bind_st (send_operation runtime (Start operation_id spec)) (\<lambda>_ s2.
               let (order, ops) = trim_history (os_order s2 @ [operation_id])
                     (bt_insert operation_id view (os_operations s2))
               in (Ok view, s2\<lparr>os_operations := ops, os_order := order\<rparr>)) s1)"

definition cancel :: "u64 \<Rightarrow> string \<Rightarrow> (DtmfOperationState, DtmfOperationView, operation_error) stateful" where
  "cancel now operation_id s =
     (case os_runtime s of
        None \<Rightarrow> (Err AdapterUnavailable, s)
      | Some runtime \<Rightarrow>
          (case bt_get (os_operations s) operation_id of
             None \<Rightarrow> (Err OperationNotFound, s)
           | Some operation \<Rightarrow>
               if status_is_terminal (ov_status operation) then (Err AlreadyComplete, s)
               else
                 bind_st (send_operation runtime (Cancel operation_id (ov_call_id operation))) (\<lambda>_ s2.
                   let operation' = operation\<lparr>ov_status := Cancelling, ov_updated_at_ms := now\<rparr>
                   in (Ok operation', s2\<lparr>os_operations := bt_insert operation_id operation' (os_operations s2)\<rparr>)) s))"

definition operation_get :: "string \<Rightarrow> DtmfOperationState \<Rightarrow> DtmfOperationView option" where
  "operation_get operation_id s = bt_get (os_operations s) operation_id"

definition update_operation ::
    "u64 \<Rightarrow> string \<Rightarrow> (DtmfOperationView \<Rightarrow> DtmfOperationView) \<Rightarrow> DtmfOperationState \<Rightarrow> DtmfOperationState" where
  "update_operation now operation_id f s =
     (case bt_get (os_operations s) operation_id of
        None \<Rightarrow> s
      | Some operation \<Rightarrow>
          if status_is_terminal (ov_status operation) then s
          else s\<lparr>os_operations := bt_insert operation_id ((f operation)\<lparr>ov_updated_at_ms := now\<rparr>) (os_operations s)\<rparr>)"

definition mark_acquiring :: "u64 \<Rightarrow> string \<Rightarrow> DtmfOperationState \<Rightarrow> DtmfOperationState" where
  "mark_acquiring now operation_id = update_operation now operation_id (\<lambda>operation. operation\<lparr>ov_status := Acquiring\<rparr>)"

definition mark_ready :: "u64 \<Rightarrow> string \<Rightarrow> u64 \<Rightarrow> DtmfOperationState \<Rightarrow> DtmfOperationState" where
  "mark_ready now operation_id media_generation =
     update_operation now operation_id
       (\<lambda>operation. operation\<lparr>ov_status := Ready, ov_media_generation := Some media_generation, ov_reason := None\<rparr>)"

fun result_code :: "DigitCollectionResultCode \<Rightarrow> string" where
  "result_code Completed = ''completed''"
| "result_code FirstDigitTimeout = ''first_digit_timeout''"
| "result_code InterDigitTimeout = ''inter_digit_timeout''"
| "result_code OverallTimeout = ''overall_timeout''"
| "result_code Cancelled = ''cancelled''"
| "result_code Failed = ''failed''"

fun digit_char :: "DtmfDigit \<Rightarrow> char" where
  "digit_char D0 = CHR ''0''"
| "digit_char D1 = CHR ''1''"
| "digit_char D2 = CHR ''2''"
| "digit_char D3 = CHR ''3''"
| "digit_char D4 = CHR ''4''"
| "digit_char D5 = CHR ''5''"
| "digit_char D6 = CHR ''6''"
| "digit_char D7 = CHR ''7''"
| "digit_char D8 = CHR ''8''"
| "digit_char D9 = CHR ''9''"
| "digit_char Star = CHR ''*''"
| "digit_char Pound = CHR ''#''"
| "digit_char DA = CHR ''A''"
| "digit_char DB = CHR ''B''"
| "digit_char DC = CHR ''C''"
| "digit_char DD = CHR ''D''"
| "digit_char Flash = CHR ''F''"

definition format_digits :: "DtmfDigit list \<Rightarrow> string" where
  "format_digits digits = map digit_char digits"

definition complete_operation :: "u64 \<Rightarrow> string \<Rightarrow> DigitCollectionOutcome \<Rightarrow> DtmfOperationState \<Rightarrow> DtmfOperationState" where
  "complete_operation now operation_id outcome =
     update_operation now operation_id (\<lambda>operation. operation\<lparr>
       ov_status := (case dco_code outcome of Cancelled \<Rightarrow> OpCancelled | Failed \<Rightarrow> OpFailed | _ \<Rightarrow> OpCompleted),
       ov_result_code := Some (result_code (dco_code outcome)),
       ov_digit_count := length (dco_digits outcome),
       ov_digits := Some (format_digits (dco_digits outcome)),
       ov_reason := dco_reason outcome\<rparr>)"

definition fail_operation :: "u64 \<Rightarrow> string \<Rightarrow> string \<Rightarrow> DtmfOperationState \<Rightarrow> DtmfOperationState" where
  "fail_operation now operation_id reason =
     update_operation now operation_id (\<lambda>operation. operation\<lparr>ov_status := OpFailed, ov_reason := Some reason\<rparr>)"

definition all_digits :: "DtmfDigit set" where
  "all_digits = {D0, D1, D2, D3, D4, D5, D6, D7, D8, D9, Star, Pound, DA, DB, DC, DD, Flash}"

definition parse_digit :: "char \<Rightarrow> DtmfDigit option" where
  "parse_digit c =
     (if c = CHR ''0'' then Some D0 else if c = CHR ''1'' then Some D1 else if c = CHR ''2'' then Some D2
      else if c = CHR ''3'' then Some D3 else if c = CHR ''4'' then Some D4 else if c = CHR ''5'' then Some D5
      else if c = CHR ''6'' then Some D6 else if c = CHR ''7'' then Some D7 else if c = CHR ''8'' then Some D8
      else if c = CHR ''9'' then Some D9 else if c = CHR ''*'' then Some Star else if c = CHR ''#'' then Some Pound
      else if c = CHR ''A'' \<or> c = CHR ''a'' then Some DA else if c = CHR ''B'' \<or> c = CHR ''b'' then Some DB
      else if c = CHR ''C'' \<or> c = CHR ''c'' then Some DC else if c = CHR ''D'' \<or> c = CHR ''d'' then Some DD
      else if c = CHR ''F'' \<or> c = CHR ''f'' then Some Flash else None)"

fun parse_digit_set :: "string \<Rightarrow> (DtmfDigit set, unit) outcome" where
  "parse_digit_set [] = Ok {}"
| "parse_digit_set (c # cs) =
     (case parse_digit c of
        None \<Rightarrow> Err ()
      | Some d \<Rightarrow> and_then (parse_digit_set cs) (\<lambda>ds. Ok (insert d ds)))"

section \<open>Binding to the runtime\<close>

interpretation dtmf_binding: runtime_binding attach_runtime "detach_runtime now"
  "\<lambda>s. map_option rb_generation (os_runtime s)" os_runtime_generation
  by unfold_locales (auto simp: attach_runtime_def detach_runtime_def Let_def)

section \<open>The history\<close>

datatype operation_input =
    Attach
  | Detach u64 u64
  | StartOp u64 u64 DtmfOperationSpec
  | CancelOp u64 string
  | MarkAcquiring u64 string
  | MarkReady u64 string u64
  | CompleteOp u64 string DigitCollectionOutcome
  | FailOp u64 string string
  | RuntimeReceives
  | RuntimeStops

fun operation_step :: "DtmfOperationState \<Rightarrow> operation_input \<Rightarrow> DtmfOperationState" where
  "operation_step s Attach = snd (attach_runtime s)"
| "operation_step s (Detach now g) = detach_runtime now g s"
| "operation_step s (StartOp t now spec) = snd (start t now spec s)"
| "operation_step s (CancelOp now i) = snd (cancel now i s)"
| "operation_step s (MarkAcquiring now i) = mark_acquiring now i s"
| "operation_step s (MarkReady now i g) = mark_ready now i g s"
| "operation_step s (CompleteOp now i r) = complete_operation now i r s"
| "operation_step s (FailOp now i r) = fail_operation now i r s"
| "operation_step s RuntimeReceives =
     s\<lparr>os_runtime := map_option (\<lambda>r. r\<lparr>rb_tx := snd (chan_recv (rb_tx r))\<rparr>) (os_runtime s)\<rparr>"
| "operation_step s RuntimeStops =
     s\<lparr>os_runtime := map_option (\<lambda>r. r\<lparr>rb_tx := drop_receiver (rb_tx r)\<rparr>) (os_runtime s)\<rparr>"

text \<open>An identifier is used when the service may have handed it out already.\<close>

definition id_used :: "u64 \<Rightarrow> string \<Rightarrow> bool" where
  "id_used sequence i \<longleftrightarrow> (\<exists>t q. i = operation_id_of t q \<and> unat q \<le> unat sequence)"

definition history_wf :: "DtmfOperationState \<Rightarrow> bool" where
  "history_wf s \<longleftrightarrow>
     bt_wf (os_operations s) \<and> distinct (os_order s) \<and> set (os_order s) = dom (bt_get (os_operations s)) \<and>
     length (os_order s) \<le> DTMF_OPERATION_HISTORY_CAPACITY \<and>
     (\<forall>i \<in> set (os_order s). id_used (os_operation_sequence s) i)"

lemma id_used_mono: "id_used q i \<Longrightarrow> unat q \<le> unat q' \<Longrightarrow> id_used q' i"
  unfolding id_used_def by (blast intro: order.trans)

lemma id_fresh:
  assumes "unat q < unat q'"
  shows "\<not> id_used q (operation_id_of t q')"
proof
  assume "id_used q (operation_id_of t q')"
  then obtain u r where eq: "operation_id_of t q' = operation_id_of u r" and le: "unat r \<le> unat q"
    by (auto simp: id_used_def)
  have "unat q' = unat r"
    using eq separated_decimal_inject [of "CHR ''-''" "''dtmf-op-'' @ decimal (unat t)" "unat q'"
        "''dtmf-op-'' @ decimal (unat u)" "unat r"]
    by (simp add: operation_id_of_def is_digit_def)
  with le assms show False by simp
qed

text \<open>What a step may do to the recorded operations.\<close>

definition history_step :: "DtmfOperationState \<Rightarrow> DtmfOperationState \<Rightarrow> bool" where
  "history_step s t \<longleftrightarrow>
     unat (os_operation_sequence s) \<le> unat (os_operation_sequence t) \<and>
     (\<forall>i. id_used (os_operation_sequence s) i \<longrightarrow>
        (bt_get (os_operations s) i = None \<longrightarrow> bt_get (os_operations t) i = None) \<and>
        (\<forall>v. bt_get (os_operations s) i = Some v \<and> status_is_terminal (ov_status v) \<longrightarrow>
           bt_get (os_operations t) i \<in> {None, Some v}))"

lemma history_step_refl [simp]: "history_step s s"
  by (simp add: history_step_def)

lemma history_step_trans: "history_step s t \<Longrightarrow> history_step t u \<Longrightarrow> history_step s u"
  unfolding history_step_def using id_used_mono by (smt (verit) insertE insert_iff order.trans singletonD)

lemma send_operation_frame:
  "os_operations (snd (send_operation r m s)) = os_operations s"
  "os_order (snd (send_operation r m s)) = os_order s"
  "os_operation_sequence (snd (send_operation r m s)) = os_operation_sequence s"
  by (auto simp: send_operation_def split: prod.splits outcome.splits TrySendError.splits)

lemma trim_history_push:
  assumes "length order \<le> DTMF_OPERATION_HISTORY_CAPACITY"
  shows "trim_history (order @ [i]) ops =
    (if length order < DTMF_OPERATION_HISTORY_CAPACITY then (order @ [i], ops)
     else (tl order @ [i], bt_remove (hd order) ops))"
proof (cases "length order < DTMF_OPERATION_HISTORY_CAPACITY")
  case True
  then show ?thesis by (cases order) (simp_all add: DTMF_OPERATION_HISTORY_CAPACITY_def)
next
  case False
  then obtain x xs where order: "order = x # xs" and len: "length (x # xs) = DTMF_OPERATION_HISTORY_CAPACITY"
    using assms by (cases order) (auto simp: DTMF_OPERATION_HISTORY_CAPACITY_def)
  have "trim_history (xs @ [i]) o' = (xs @ [i], o')" for o'
    using len by (cases xs) (simp_all add: DTMF_OPERATION_HISTORY_CAPACITY_def)
  then show ?thesis using False len order by simp
qed

text \<open>Adding a fresh operation, with the oldest one dropped when the history is full.\<close>

lemma push_history:
  assumes wf: "history_wf s" and fresh: "\<not> id_used (os_operation_sequence s) i"
    and used: "id_used q i" and q: "unat (os_operation_sequence s) \<le> unat q"
    and t: "os_operation_sequence t = q" "(os_order t, os_operations t) =
      trim_history (os_order s @ [i]) (bt_insert i v (os_operations s))"
  shows "history_wf t \<and> history_step s t"
proof -
  let ?n = DTMF_OPERATION_HISTORY_CAPACITY
  have len: "length (os_order s) \<le> ?n" and dist: "distinct (os_order s)"
    and dom: "set (os_order s) = dom (bt_get (os_operations s))" and bt: "bt_wf (os_operations s)"
    using wf by (auto simp: history_wf_def)
  have ids: "\<forall>i \<in> set (os_order s). id_used q i"
    using wf q unfolding history_wf_def by (blast intro: id_used_mono)
  have new: "i \<notin> set (os_order s)" using wf fresh by (auto simp: history_wf_def)
  show ?thesis
  proof (cases "length (os_order s) < ?n")
    case True
    then have "os_order t = os_order s @ [i]" "os_operations t = bt_insert i v (os_operations s)"
      using t(2) trim_history_push [OF len, of i] by auto
    with True show ?thesis
      using len dist dom ids bt new used q t(1) fresh
      by (auto simp: history_wf_def history_step_def bt.wf_put bt.get_put)
  next
    case False
    then obtain x xs where order: "os_order s = x # xs" "length (x # xs) = ?n"
      using len by (cases "os_order s") (auto simp: DTMF_OPERATION_HISTORY_CAPACITY_def)
    have ot: "os_order t = xs @ [i]" "os_operations t = bt_remove x (bt_insert i v (os_operations s))"
      using t(2) trim_history_push [OF len, of i "bt_insert i v (os_operations s)"] False order by auto
    have "bt_get (os_operations t) = ((bt_get (os_operations s))(i \<mapsto> v))(x := None)"
      by (simp add: ot bt.get_put bt.get_remove)
    moreover have "set xs = dom (bt_get (os_operations s)) - {x}" using dom dist order by auto
    ultimately have "history_wf t"
      using dist ids bt new used t(1) order
      by (auto simp: history_wf_def ot bt.wf_put bt.wf_remove)
    then show ?thesis
      using q t(1) fresh by (auto simp: history_step_def ot bt.get_put bt.get_remove)
  qed
qed

lemma insert_known:
  assumes "history_wf s" and "bt_get (os_operations s) i = Some v" and "\<not> status_is_terminal (ov_status v)"
    and "os_operations t = bt_insert i w (os_operations s)" and "os_order t = os_order s"
    and "os_operation_sequence t = os_operation_sequence s"
  shows "history_wf t \<and> history_step s t"
  using assms by (auto simp: history_wf_def history_step_def bt.wf_put bt.get_put)

lemma same_history:
  assumes "history_wf s" and "os_operations t = os_operations s" and "os_order t = os_order s"
    and "unat (os_operation_sequence s) \<le> unat (os_operation_sequence t)"
  shows "history_wf t \<and> history_step s t"
proof -
  have "\<forall>i \<in> set (os_order s). id_used (os_operation_sequence t) i"
    using assms(1,4) unfolding history_wf_def by (blast intro: id_used_mono)
  then show ?thesis using assms by (simp add: history_wf_def history_step_def)
qed

lemma update_operation_history:
  "history_wf s \<Longrightarrow> history_wf (update_operation now i f s) \<and> history_step s (update_operation now i f s)"
  using insert_known [of s i] by (auto simp: update_operation_def split: option.splits)

lemma cancel_history:
  assumes "history_wf s"
  shows "history_wf (snd (cancel now i s)) \<and> history_step s (snd (cancel now i s))"
proof (cases "\<exists>r v. os_runtime s = Some r \<and> bt_get (os_operations s) i = Some v \<and> \<not> status_is_terminal (ov_status v)")
  case True
  then obtain r v where rv: "os_runtime s = Some r" "bt_get (os_operations s) i = Some v"
      "\<not> status_is_terminal (ov_status v)" by blast
  obtain res t where t: "send_operation r (Cancel i (ov_call_id v)) s = (res, t)"
    by (cases "send_operation r (Cancel i (ov_call_id v)) s")
  have frame: "os_operations t = os_operations s" "os_order t = os_order s"
      "os_operation_sequence t = os_operation_sequence s"
    using send_operation_frame [of r "Cancel i (ov_call_id v)" s] t by auto
  show ?thesis
  proof (cases res)
    case (Ok _)
    let ?t = "t\<lparr>os_operations := bt_insert i (v\<lparr>ov_status := Cancelling, ov_updated_at_ms := now\<rparr>) (os_operations t)\<rparr>"
    have "snd (cancel now i s) = ?t" using rv t Ok by (simp add: cancel_def bind_st_def Let_def)
    moreover have "history_wf ?t \<and> history_step s ?t"
      by (rule insert_known [OF assms rv(2,3)]) (simp_all add: frame)
    ultimately show ?thesis by simp
  qed (use rv t same_history [OF assms, of t] frame in \<open>simp_all add: cancel_def bind_st_def\<close>)
qed (use assms in \<open>auto simp: cancel_def split: option.splits\<close>)

lemma start_history:
  assumes "history_wf s" and "os_operation_sequence s \<noteq> - 1"
  shows "history_wf (snd (start id_now now spec s)) \<and> history_step s (snd (start id_now now spec s)) \<and>
    unat (os_operation_sequence (snd (start id_now now spec s))) \<le> Suc (unat (os_operation_sequence s))"
proof (cases "os_runtime s")
  case (Some r)
  let ?q = "saturating_add (os_operation_sequence s) 1"
  let ?i = "operation_id_of id_now ?q"
  let ?s = "s\<lparr>os_operation_sequence := ?q\<rparr>"
  have q: "unat (os_operation_sequence s) < unat ?q" "unat ?q \<le> Suc (unat (os_operation_sequence s))"
    using saturating_add_less [OF assms(2)] by (simp_all add: word_less_nat_alt unat_saturating_add)
  obtain res t where t: "send_operation r (Start ?i spec) ?s = (res, t)"
    by (cases "send_operation r (Start ?i spec) ?s")
  have frame: "os_operations t = os_operations s" "os_order t = os_order s" "os_operation_sequence t = ?q"
    using send_operation_frame [of r "Start ?i spec" ?s] t by auto
  show ?thesis
  proof (cases res)
    case (Ok _)
    obtain order ops where v: "trim_history (os_order s @ [?i])
          (bt_insert ?i (pending_view ?i now spec) (os_operations s)) = (order, ops)"
        "snd (start id_now now spec s) = t\<lparr>os_operations := ops, os_order := order\<rparr>"
      using Some t Ok frame
      by (cases "trim_history (os_order s @ [?i]) (bt_insert ?i (pending_view ?i now spec) (os_operations s))")
        (auto simp: start_def bind_st_def Let_def)
    have "history_wf (snd (start id_now now spec s)) \<and> history_step s (snd (start id_now now spec s))"
      by (rule push_history [OF assms(1) id_fresh [OF q(1), of id_now], where q = ?q and
            v = "pending_view ?i now spec"])
        (use v frame q in \<open>auto simp: id_used_def\<close>)
    then show ?thesis using v frame q(2) by simp
  qed (use Some t q same_history [OF assms(1), of t] frame in \<open>simp_all add: start_def bind_st_def Let_def\<close>)
qed (use assms in \<open>simp add: start_def\<close>)

lemma disconnect_terminal: "status_is_terminal (ov_status v) \<Longrightarrow> disconnect now v = v"
  by (simp add: disconnect_def)

lemma detach_history:
  "history_wf s \<Longrightarrow> history_wf (detach_runtime now g s) \<and> history_step s (detach_runtime now g s)"
  by (auto simp: history_wf_def history_step_def detach_runtime_def bt_get_map disconnect_terminal dom_def)

lemma operation_step_history:
  assumes "history_wf s" and "os_operation_sequence s \<noteq> - 1"
  shows "history_wf (operation_step s e) \<and> history_step s (operation_step s e) \<and>
    unat (os_operation_sequence (operation_step s e)) \<le> Suc (unat (os_operation_sequence s))"
proof (cases e)
  case Attach
  then show ?thesis
    using same_history [OF assms(1), of "snd (attach_runtime s)"] by (simp add: attach_runtime_def Let_def)
next
  case (CancelOp now i)
  have "os_operation_sequence (snd (cancel now i s)) = os_operation_sequence s"
    using send_operation_frame(3)
    by (auto simp: cancel_def bind_st_def Let_def split: option.splits prod.splits outcome.splits)
      (metis snd_conv)+
  then show ?thesis using cancel_history [OF assms(1), of now i] CancelOp by simp
next
  case RuntimeReceives
  then show ?thesis using same_history [OF assms(1), of "operation_step s e"] by simp
next
  case RuntimeStops
  then show ?thesis using same_history [OF assms(1), of "operation_step s e"] by simp
next
  case (StartOp t now spec)
  then show ?thesis using start_history [OF assms, of t now spec] by simp
qed (use assms update_operation_history [OF assms(1)] detach_history [OF assms(1)] in
    \<open>auto simp: mark_acquiring_def mark_ready_def complete_operation_def fail_operation_def detach_runtime_def
      update_operation_def split: option.splits\<close>)

lemma operations_default_wf: "history_wf operations_default"
  by (auto simp: history_wf_def operations_default_def)

lemma operation_run_history:
  assumes "history_wf s" and "unat (os_operation_sequence s) + length es < 2 ^ 64"
  shows "history_wf (foldl operation_step s es) \<and> history_step s (foldl operation_step s es) \<and>
    unat (os_operation_sequence (foldl operation_step s es)) \<le> unat (os_operation_sequence s) + length es"
  using assms
proof (induction es rule: rev_induct)
  case (snoc e es)
  let ?t = "foldl operation_step s es"
  have ih: "history_wf ?t" "history_step s ?t" "unat (os_operation_sequence ?t) \<le> unat (os_operation_sequence s) + length es"
    using snoc by auto
  have "unat (os_operation_sequence ?t) \<noteq> unat (- 1 :: u64)"
    using ih(3) snoc.prems(2) by (simp add: unat_max_word)
  then have "os_operation_sequence ?t \<noteq> - 1" by auto
  from operation_step_history [OF ih(1) this, of e] ih show ?case
    by (auto intro: history_step_trans)
qed simp

text \<open>C36: in every run of the operation service the history holds at most 128 operations and its queue
  lists exactly the recorded ones; and an operation that has completed, failed or been cancelled
  keeps its record unchanged for as long as it is recorded, whatever late results, cancellations
  or disconnections follow.\<close>

theorem operation_terminal_frozen:
  assumes "length before + length after < 2 ^ 64 - 1"
    and "operation_get i (foldl operation_step operations_default before) = Some v"
    and "status_is_terminal (ov_status v)"
  shows "let s = foldl operation_step operations_default (before @ after) in
     length (os_order s) \<le> 128 \<and> distinct (os_order s) \<and> set (os_order s) = {k. operation_get k s \<noteq> None} \<and>
     operation_get i s \<in> {None, Some v}"
proof -
  let ?b = "foldl operation_step operations_default before" and ?s = "foldl operation_step operations_default (before @ after)"
  have b: "history_wf ?b" "unat (os_operation_sequence ?b) \<le> length before"
    using operation_run_history [OF operations_default_wf, of before] assms(1)
    by (auto simp: operations_default_def)
  have s: "history_wf ?s" "history_step ?b ?s"
    using operation_run_history [OF b(1), of after] b(2) assms(1) by auto
  have "id_used (os_operation_sequence ?b) i"
    using b(1) assms(2) by (auto simp: history_wf_def operation_get_def)
  then have "operation_get i ?s \<in> {None, Some v}"
    using s(2) assms(2,3) by (simp add: history_step_def operation_get_def)
  then show ?thesis
    using s(1) unfolding history_wf_def DTMF_OPERATION_HISTORY_CAPACITY_def operation_get_def Let_def dom_def by blast
qed

definition demo_spec :: DtmfOperationSpec where
  "demo_spec = \<lparr> dos_call_id = ''c1'', dos_source = CallerSource, dos_mode = CollectMode, dos_allowed = {D1, D2},
     dos_min_digits = 1, dos_max_digits = 4, dos_terminators = {Pound}, dos_first_digit_timeout = 5000,
     dos_inter_digit_timeout = 3000, dos_overall_timeout = 20000 \<rparr>"

definition demo_operations :: "operation_input list" where
  "demo_operations = [Attach, StartOp 5 5 demo_spec, FailOp 6 ''dtmf-op-5-1'' ''gone'']"

lemma demo_operation_id: "operation_id_of 5 1 = ''dtmf-op-5-1''"
  by (simp add: operation_id_of_def decimal.simps char_of_eq_iff)

lemma demo_operations_eval:
  "\<exists>v. operation_get ''dtmf-op-5-1'' (foldl operation_step operations_default demo_operations) = Some v \<and>
     status_is_terminal (ov_status v)"
  by (simp add: demo_operations_def operations_default_def attach_runtime_def Let_def start_def send_operation_def
      try_send_def channel_def bind_st_def DTMF_OPERATION_QUEUE_CAPACITY_def demo_operation_id
      saturating_add_def DTMF_OPERATION_HISTORY_CAPACITY_def fail_operation_def update_operation_def bt_get_def
      pending_view_def status_is_terminal_def operation_get_def)

theorem operation_terminal_frozen_witness:
  "\<exists>v. operation_get ''dtmf-op-5-1'' (foldl operation_step operations_default demo_operations) = Some v \<and>
     operation_get ''dtmf-op-5-1'' (foldl operation_step operations_default
       (demo_operations @ [MarkReady 7 ''dtmf-op-5-1'' 3, Detach 8 1])) \<in> {None, Some v}"
proof -
  obtain v where v: "operation_get ''dtmf-op-5-1'' (foldl operation_step operations_default demo_operations) = Some v"
      "status_is_terminal (ov_status v)"
    using demo_operations_eval by blast
  have "length demo_operations + length [MarkReady 7 ''dtmf-op-5-1'' 3, Detach 8 1] < 2 ^ 64 - 1"
    by (simp add: demo_operations_def)
  from operation_terminal_frozen [OF this v] v(1) show ?thesis unfolding Let_def by blast
qed



text \<open>The digit texts the service prints are read back: parsing a printed digit sequence as a digit set
  gives exactly its digits, and each digit alone is recovered from its character.\<close>

theorem digits_roundtrip:
  "parse_digit_set (format_digits ds) = Ok (set ds) \<and> parse_digit (digit_char d) = Some d \<and> set ds \<subseteq> all_digits"
proof -
  have one: "parse_digit (digit_char d) = Some d" for d
    by (cases d) (simp_all add: parse_digit_def)
  have "parse_digit_set (format_digits ds) = Ok (set ds)"
    by (induction ds) (simp_all add: format_digits_def one)
  moreover have "d \<in> all_digits" for d by (cases d) (simp_all add: all_digits_def)
  ultimately show ?thesis using one by blast
qed

end
