(* ===== verification/Media_Actions.thy ===== *)
theory Media_Actions
  imports Prelude
begin

text \<open>
  What the call actor hands to the media worker of its call: session descriptions
  (\<open>crates/voipswitch-core/src/media/mod.rs\<close>), recording orders
  (\<open>crates/voipswitchd/src/runtime/recording.rs\<close>) and the purpose a description is prepared for
  (\<open>crates/voipswitchd/src/runtime/call/media_action.rs\<close>).
\<close>

record SdpBody =
  sdp_content_type :: string
  sdp_text :: string

record RecordingSpec =
  rec_call_id :: string
  rec_domain_id :: string
  rec_caller_number :: string
  rec_callee_number :: string
  rec_started_at_ms :: u64
  rec_recording_dir :: string
  rec_payload_types :: "u8 list"

datatype PrepareSdpPurpose =
    ProvisionalSdp u16 bool
  | AnswerSdp "u8 list"
  | AiAgentAnswer
  | TransferAnswer
  | CalleeAttemptOffer u16

definition sdp_json :: "SdpBody \<Rightarrow> json" where
  "sdp_json sdp = JObj [(''content_type'', JStr (sdp_content_type sdp)), (''text'', JStr (sdp_text sdp))]"

end
