(* ===== verification/Dtmf_Collectors.thy ===== *)
theory Dtmf_Collectors
  imports Dtmf_Operations Rfc4733_Parser Media_Actions
begin

text \<open>
  Digit collection inside the call actor: the collectors of
  \<open>crates/voipswitchd/src/runtime/call/dtmf.rs\<close>, the media actions they enqueue
  (\<open>media_action.rs\<close>) and the replies they owe.

  The state \<open>CollectorHost\<close> is the part of \<open>SessionActor\<close> these handlers touch.  A \<open>oneshot\<close> sender that
  is still held is a flag of the collector, what was sent through it stands in \<open>co_replies\<close>;
  \<open>Instant::now()\<close> is an argument; \<open>publish_call_view\<close>, which only notifies observers, is left out.
\<close>

definition DTMF_COLLECTOR_CAPACITY :: nat where
  "DTMF_COLLECTOR_CAPACITY = 16"

definition MEDIA_ACTION_QUEUE_CAPACITY :: nat where
  "MEDIA_ACTION_QUEUE_CAPACITY = 16"

datatype DigitCollectionMode = ObserveDigits | CollectDigits

record DigitCollectionSpec =
  sp_collector_id :: CollectorId
  sp_owner :: BusinessOperationId
  sp_source_session_id :: SessionId
  sp_mode :: DigitCollectionMode
  sp_allowed :: "DtmfDigit set"
  sp_min_digits :: nat
  sp_max_digits :: nat
  sp_terminators :: "DtmfDigit set"
  sp_first_digit_timeout :: nat
  sp_inter_digit_timeout :: nat
  sp_overall_timeout :: nat

definition validate_spec :: "DigitCollectionSpec \<Rightarrow> (unit, string) outcome" where
  "validate_spec spec =
     (if sp_min_digits spec > sp_max_digits spec \<or> sp_max_digits spec = 0 then Err ''invalid_digit_count_range''
      else if sp_allowed spec = {} then Err ''empty_allowed_digit_set''
      else if sp_first_digit_timeout spec = 0 \<or> sp_inter_digit_timeout spec = 0 \<or> sp_overall_timeout spec = 0
      then Err ''invalid_digit_collection_timeout''
      else Ok ())"

record DigitCollectionReady =
  dr_collector_id :: CollectorId
  dr_media_generation :: u64

datatype DigitCollectorDeadline = FirstDigit | InterDigit | Overall

fun deadline_result_code :: "DigitCollectorDeadline \<Rightarrow> DigitCollectionResultCode" where
  "deadline_result_code FirstDigit = FirstDigitTimeout"
| "deadline_result_code InterDigit = InterDigitTimeout"
| "deadline_result_code Overall = OverallTimeout"

record DigitCollectorTimerSlot =
  ts_generation :: u64
  ts_collector_id :: CollectorId
  ts_deadline :: DigitCollectorDeadline
  ts_at :: Instant

datatype DigitCollectorPhase = AcquiringPhase | ActivePhase | ReleasingPhase

record DigitCollectorState =
  col_spec :: DigitCollectionSpec
  col_lease_id :: MediaCapabilityLeaseId
  col_acquire_action_id :: string
  col_release_action_id :: string
  col_phase :: DigitCollectorPhase
  col_ready_reply :: bool
  col_result_reply :: bool
  col_digits :: "DtmfDigit list"
  col_cancel_requested :: bool
  col_first_deadline :: "Instant option"
  col_inter_deadline :: "Instant option"
  col_overall_deadline :: "Instant option"
  col_pending_outcome :: "DigitCollectionOutcome option"

datatype DigitCollectorInput =
    Ignored
  | ContinueInput bool
  | Finish bool DigitCollectionResultCode "string option"

datatype DigitCollectorCancel = AwaitAcquire | FinishCancel | AlreadyReleasing

section \<open>One collector\<close>

definition collector_new ::
    "DigitCollectionSpec \<Rightarrow> MediaCapabilityLeaseId \<Rightarrow> string \<Rightarrow> string \<Rightarrow> DigitCollectorState" where
  "collector_new spec lease_id acquire_action_id release_action_id =
     \<lparr> col_spec = spec, col_lease_id = lease_id, col_acquire_action_id = acquire_action_id,
       col_release_action_id = release_action_id, col_phase = AcquiringPhase, col_ready_reply = True,
       col_result_reply = True, col_digits = [], col_cancel_requested = False, col_first_deadline = None,
       col_inter_deadline = None, col_overall_deadline = None, col_pending_outcome = None \<rparr>"

definition activate :: "Instant \<Rightarrow> DigitCollectorState \<Rightarrow> DigitCollectorState" where
  "activate now c =
     c\<lparr>col_phase := ActivePhase, col_first_deadline := Some (now + sp_first_digit_timeout (col_spec c)),
       col_overall_deadline := Some (now + sp_overall_timeout (col_spec c))\<rparr>"

definition apply_digit ::
    "DigitEvent \<Rightarrow> Instant \<Rightarrow> DigitCollectorState \<Rightarrow> DigitCollectorInput \<times> DigitCollectorState" where
  "apply_digit event now c =
     (if col_phase c \<noteq> ActivePhase \<or> sp_source_session_id (col_spec c) \<noteq> de_source_session_id event then (Ignored, c)
      else
        let consume = (sp_mode (col_spec c) = CollectDigits) in
        if de_digit event \<in> sp_terminators (col_spec c) then
          (let code = (if length (col_digits c) \<ge> sp_min_digits (col_spec c) then DigitCollectionResultCode.Completed else Failed)
           in (Finish consume code (if code = Failed then Some ''digit_collection_too_short'' else None), c))
        else if de_digit event \<notin> sp_allowed (col_spec c) then (ContinueInput consume, c)
        else
          let c1 = c\<lparr>col_digits := col_digits c @ [de_digit event], col_first_deadline := None,
                     col_inter_deadline := Some (now + sp_inter_digit_timeout (col_spec c))\<rparr>
          in if length (col_digits c1) \<ge> sp_max_digits (col_spec c) then (Finish consume DigitCollectionResultCode.Completed None, c1)
             else (ContinueInput consume, c1))"

text \<open>\<open>Iterator::min_by_key\<close>: the first of the smallest elements.\<close>

fun min_by_key :: "('a \<Rightarrow> Instant) \<Rightarrow> 'a list \<Rightarrow> 'a option" where
  "min_by_key f [] = None"
| "min_by_key f (x # xs) =
     (case min_by_key f xs of None \<Rightarrow> Some x | Some y \<Rightarrow> if f x \<le> f y then Some x else Some y)"

definition collector_deadlines :: "DigitCollectorState \<Rightarrow> (Instant \<times> DigitCollectorDeadline) list" where
  "collector_deadlines c =
     concat [case col_first_deadline c of Some t \<Rightarrow> [(t, FirstDigit)] | None \<Rightarrow> [],
             case col_inter_deadline c of Some t \<Rightarrow> [(t, InterDigit)] | None \<Rightarrow> [],
             case col_overall_deadline c of Some t \<Rightarrow> [(t, Overall)] | None \<Rightarrow> []]"

definition collector_next_deadline :: "DigitCollectorState \<Rightarrow> (Instant \<times> DigitCollectorDeadline) option" where
  "collector_next_deadline c = min_by_key fst (collector_deadlines c)"

definition request_cancel :: "DigitCollectorState \<Rightarrow> DigitCollectorCancel \<times> DigitCollectorState" where
  "request_cancel c =
     (case col_phase c of
        AcquiringPhase \<Rightarrow> (AwaitAcquire, c\<lparr>col_cancel_requested := True\<rparr>)
      | ActivePhase \<Rightarrow> (FinishCancel, c)
      | ReleasingPhase \<Rightarrow> (AlreadyReleasing, c))"

section \<open>The collectors of a call\<close>

record DtmfCapabilityLeaseRequest =
  lr_lease_id :: MediaCapabilityLeaseId
  lr_owner :: BusinessOperationId
  lr_source_session_id :: SessionId
  lr_mode :: DtmfMediaMode
  lr_requested_generation :: u64

record DtmfCapabilityReady =
  cr_lease_id :: MediaCapabilityLeaseId
  cr_source_session_id :: SessionId
  cr_mode :: DtmfMediaMode
  cr_media_generation :: u64

datatype MediaAction =
    PrepareSdp string u64 PrepareSdpPurpose SdpBody "string option"
  | StartAnswerMedia string u64 "RecordingSpec option" string bool
  | AcquireDtmfCapability string u64 DtmfCapabilityLeaseRequest
  | ReleaseDtmfCapability string u64 MediaCapabilityLeaseId

datatype collector_reply =
    ReadyReply CollectorId "(DigitCollectionReady, string) outcome"
  | ResultReply DigitCollectionOutcome

record CollectorHost =
  co_collectors :: "(CollectorId, DigitCollectorState) BTreeMap"
  co_timer_generation :: u64
  co_timer :: "DigitCollectorTimerSlot option"
  co_media_generation :: u64
  co_media_tx :: "MediaAction Channel"
  co_replies :: "collector_reply list"
  co_call_id :: CallId
  co_caller_session_id :: SessionId
  co_callee_session_id :: SessionId
  co_answered :: bool
  co_terminating :: bool

definition reply :: "collector_reply \<Rightarrow> CollectorHost \<Rightarrow> CollectorHost" where
  "reply r h = h\<lparr>co_replies := co_replies h @ [r]\<rparr>"

definition put_collector :: "CollectorId \<Rightarrow> DigitCollectorState \<Rightarrow> CollectorHost \<Rightarrow> CollectorHost" where
  "put_collector i c h = h\<lparr>co_collectors := bt_insert i c (co_collectors h)\<rparr>"

definition submit_media_action :: "MediaAction \<Rightarrow> CollectorHost \<Rightarrow> (unit, string) outcome \<times> CollectorHost" where
  "submit_media_action a h =
     (case try_send a (co_media_tx h) of
        (Ok _, tx) \<Rightarrow> (Ok (), h\<lparr>co_media_tx := tx\<rparr>)
      | (Err Full, _) \<Rightarrow> (Err ''media action queue full'', h)
      | (Err Closed, _) \<Rightarrow> (Err ''media action executor stopped'', h)
      | (Panic, _) \<Rightarrow> (Panic, h))"

definition validate_digit_collector_registration ::
    "(CollectorId, DigitCollectorState) BTreeMap \<Rightarrow> DigitCollectionSpec \<Rightarrow> (unit, string) outcome" where
  "validate_digit_collector_registration collectors spec =
     (if bt_contains_key collectors (sp_collector_id spec) then Err ''dtmf_collector_id_conflict''
      else if length collectors \<ge> DTMF_COLLECTOR_CAPACITY then Err ''dtmf_collector_overloaded''
      else if sp_mode spec = CollectDigits \<and>
         list_ex (\<lambda>c. sp_mode (col_spec c) = CollectDigits \<and>
                     sp_source_session_id (col_spec c) = sp_source_session_id spec) (bt_values collectors)
      then Err ''dtmf_collector_conflict''
      else Ok ())"

fun apply_digit_loop ::
    "DigitEvent \<Rightarrow> Instant \<Rightarrow> CollectorId list \<Rightarrow> (CollectorId, DigitCollectorState) BTreeMap \<Rightarrow>
     (bool \<times> (CollectorId \<times> DigitCollectionResultCode \<times> string option) list) \<times>
     (CollectorId, DigitCollectorState) BTreeMap" where
  "apply_digit_loop event now [] collectors = ((False, []), collectors)"
| "apply_digit_loop event now (i # ids) collectors =
     (case bt_get collectors i of
        None \<Rightarrow> apply_digit_loop event now ids collectors
      | Some c \<Rightarrow>
          (case apply_digit event now c of
             (input, c') \<Rightarrow>
               (case apply_digit_loop event now ids (bt_insert i c' collectors) of
                  ((consume, completed), collectors') \<Rightarrow>
                    (case input of
                       Ignored \<Rightarrow> ((consume, completed), collectors')
                     | ContinueInput k \<Rightarrow> ((k \<or> consume, completed), collectors')
                     | Finish k code reason \<Rightarrow> ((k \<or> consume, (i, code, reason) # completed), collectors')))))"

definition apply_digit_to_collectors ::
    "DigitEvent \<Rightarrow> Instant \<Rightarrow> (CollectorId, DigitCollectorState) BTreeMap \<Rightarrow>
     (bool \<times> (CollectorId \<times> DigitCollectionResultCode \<times> string option) list) \<times>
     (CollectorId, DigitCollectorState) BTreeMap" where
  "apply_digit_to_collectors event now collectors = apply_digit_loop event now (bt_keys collectors) collectors"

definition next_digit_collector_deadline ::
    "(CollectorId, DigitCollectorState) BTreeMap \<Rightarrow> (Instant \<times> CollectorId \<times> DigitCollectorDeadline) option" where
  "next_digit_collector_deadline collectors =
     min_by_key fst
       (concat (map (\<lambda>(i, c). case collector_next_deadline c of Some (t, d) \<Rightarrow> [(t, i, d)] | None \<Rightarrow> []) collectors))"

definition schedule_digit_collector_timer :: "CollectorHost \<Rightarrow> CollectorHost" where
  "schedule_digit_collector_timer h =
     (let deadline = next_digit_collector_deadline (co_collectors h);
          generation = saturating_add (co_timer_generation h) 1
      in h\<lparr>co_timer_generation := generation,
           co_timer := map_option (\<lambda>(t, i, d). \<lparr> ts_generation = generation, ts_collector_id = i,
                                               ts_deadline = d, ts_at = t \<rparr>) deadline\<rparr>)"

definition fail_digit_collection_start :: "CollectorId \<Rightarrow> string \<Rightarrow> CollectorHost \<Rightarrow> CollectorHost" where
  "fail_digit_collection_start i error h =
     (case bt_get (co_collectors h) i of
        None \<Rightarrow> h
      | Some c \<Rightarrow>
          let h1 = h\<lparr>co_collectors := bt_remove i (co_collectors h)\<rparr>;
              h2 = (if col_ready_reply c then reply (ReadyReply (sp_collector_id (col_spec c)) (Err error)) h1 else h1);
              h3 = (if col_result_reply c then
                      reply (ResultReply \<lparr> dco_collector_id = sp_collector_id (col_spec c),
                               dco_code = (if col_cancel_requested c then Cancelled else Failed),
                               dco_digits = col_digits c, dco_reason = Some error \<rparr>) h2
                    else h2)
          in schedule_digit_collector_timer h3)"

definition handle_dtmf_capability_released :: "string \<Rightarrow> (u64, string) outcome \<Rightarrow> CollectorHost \<Rightarrow> CollectorHost" where
  "handle_dtmf_capability_released action_id result h =
     (case find (\<lambda>(_, c). col_phase c = ReleasingPhase \<and> col_release_action_id c = action_id) (co_collectors h) of
        None \<Rightarrow> h
      | Some (i, c) \<Rightarrow>
          let h1 = h\<lparr>co_collectors := bt_remove i (co_collectors h)\<rparr>;
              outcome = (case col_pending_outcome c of
                           Some outcome \<Rightarrow> outcome
                         | None \<Rightarrow> \<lparr> dco_collector_id = sp_collector_id (col_spec c), dco_code = Failed,
                                    dco_digits = col_digits c, dco_reason = Some ''missing_collection_outcome'' \<rparr>);
              outcome' = (case result of
                            Err error \<Rightarrow> outcome\<lparr>dco_code := Failed,
                                                 dco_reason := Some (''capability_release_failed:'' @ error)\<rparr>
                          | _ \<Rightarrow> outcome);
              h2 = (if col_result_reply c then reply (ResultReply outcome') h1 else h1)
          in schedule_digit_collector_timer h2)"

definition releasing :: "DigitCollectionResultCode \<Rightarrow> string option \<Rightarrow> DigitCollectorState \<Rightarrow> DigitCollectorState" where
  "releasing code reason c =
     c\<lparr>col_phase := ReleasingPhase, col_first_deadline := None, col_inter_deadline := None,
       col_overall_deadline := None,
       col_pending_outcome := Some \<lparr> dco_collector_id = sp_collector_id (col_spec c), dco_code = code,
                                    dco_digits = col_digits c, dco_reason = reason \<rparr>\<rparr>"

definition finish_digit_collection ::
    "CollectorId \<Rightarrow> DigitCollectionResultCode \<Rightarrow> string option \<Rightarrow> CollectorHost \<Rightarrow> CollectorHost" where
  "finish_digit_collection i code reason h =
     (case bt_get (co_collectors h) i of
        None \<Rightarrow> h
      | Some c \<Rightarrow>
          if col_phase c \<noteq> ActivePhase then h
          else
            (case submit_media_action
                    (ReleaseDtmfCapability (col_release_action_id c) (co_media_generation h) (col_lease_id c))
                    (put_collector i (releasing code reason c) h) of
               (Err error, h2) \<Rightarrow>
                 schedule_digit_collector_timer
                   (handle_dtmf_capability_released (col_release_action_id c) (Err error) h2)
             | (_, h2) \<Rightarrow> schedule_digit_collector_timer h2))"

definition start_digit_collection :: "DigitCollectionSpec \<Rightarrow> CollectorHost \<Rightarrow> CollectorHost" where
  "start_digit_collection spec h =
     (case and_then (validate_spec spec) (\<lambda>_.
             if \<not> co_answered h \<or> co_terminating h then Err ''call_or_leg_terminating''
             else and_then (validate_digit_collector_registration (co_collectors h) spec) (\<lambda>_.
                  if sp_source_session_id spec \<noteq> co_caller_session_id h \<and>
                     sp_source_session_id spec \<noteq> co_callee_session_id h
                  then Err ''stale_source_session'' else Ok ())) of
        Ok _ \<Rightarrow>
          let lease_id = ''dtmf-collector-'' @ co_call_id h @ ''-'' @ sp_collector_id spec;
              acquire_action_id = ''acquire-'' @ lease_id;
              release_action_id = ''release-'' @ lease_id;
              request = \<lparr> lr_lease_id = lease_id, lr_owner = sp_owner spec,
                          lr_source_session_id = sp_source_session_id spec,
                          lr_mode = (if sp_mode spec = ObserveDigits then Observe else Collect),
                          lr_requested_generation = co_media_generation h \<rparr>;
              h1 = put_collector (sp_collector_id spec)
                     (collector_new spec lease_id acquire_action_id release_action_id) h
          in (case submit_media_action (AcquireDtmfCapability acquire_action_id (co_media_generation h) request) h1 of
                (Err error, h2) \<Rightarrow> fail_digit_collection_start (sp_collector_id spec) error h2
              | (_, h2) \<Rightarrow> h2)
      | Err error \<Rightarrow>
          reply (ResultReply \<lparr> dco_collector_id = sp_collector_id spec, dco_code = Failed, dco_digits = [],
                               dco_reason = Some error \<rparr>)
            (reply (ReadyReply (sp_collector_id spec) (Err error)) h)
      | Panic \<Rightarrow> h)"

definition cancel_digit_collection :: "CollectorId \<Rightarrow> (CollectorHost, unit, string) stateful" where
  "cancel_digit_collection i h =
     (case bt_get (co_collectors h) i of
        None \<Rightarrow> (Err ''dtmf_collector_not_found'', h)
      | Some c \<Rightarrow>
          (case request_cancel c of
             (AwaitAcquire, c1) \<Rightarrow>
               (Ok (), if col_ready_reply c1
                       then reply (ReadyReply (sp_collector_id (col_spec c1)) (Err ''dtmf_collection_cancelled''))
                              (put_collector i (c1\<lparr>col_ready_reply := False\<rparr>) h)
                       else put_collector i c1 h)
           | (FinishCancel, c1) \<Rightarrow>
               (Ok (), finish_digit_collection i Cancelled (Some ''dtmf_collection_cancelled'') (put_collector i c1 h))
           | (AlreadyReleasing, c1) \<Rightarrow> (Ok (), put_collector i c1 h)))"

definition handle_dtmf_capability_acquired ::
    "Instant \<Rightarrow> string \<Rightarrow> (DtmfCapabilityReady, string) outcome \<Rightarrow> CollectorHost \<Rightarrow> CollectorHost" where
  "handle_dtmf_capability_acquired now action_id result h =
     (case find (\<lambda>(_, c). col_phase c = AcquiringPhase \<and> col_acquire_action_id c = action_id) (co_collectors h) of
        None \<Rightarrow> h
      | Some (i, c) \<Rightarrow>
          (case result of
             Err error \<Rightarrow> fail_digit_collection_start i error h
           | Panic \<Rightarrow> h
           | Ok ready \<Rightarrow>
               if cr_lease_id ready \<noteq> col_lease_id c \<or>
                  cr_source_session_id ready \<noteq> sp_source_session_id (col_spec c)
               then fail_digit_collection_start i ''dtmf_capability_result_mismatch'' h
               else
                 let response = (if col_cancel_requested c then Err ''dtmf_collection_cancelled''
                                 else Ok \<lparr> dr_collector_id = sp_collector_id (col_spec c),
                                          dr_media_generation = cr_media_generation ready \<rparr>);
                     c1 = c\<lparr>col_ready_reply := False\<rparr>;
                     h1 = (if col_ready_reply c then reply (ReadyReply (sp_collector_id (col_spec c)) response) h else h)
                 in if col_cancel_requested c then
                      finish_digit_collection i Cancelled (Some ''dtmf_collection_cancelled'')
                        (put_collector i (c1\<lparr>col_phase := ActivePhase\<rparr>) h1)
                    else schedule_digit_collector_timer (put_collector i (activate now c1) h1)))"

fun finish_completed ::
    "(CollectorId \<times> DigitCollectionResultCode \<times> string option) list \<Rightarrow> CollectorHost \<Rightarrow> CollectorHost" where
  "finish_completed [] h = h"
| "finish_completed ((i, code, reason) # rest) h = finish_completed rest (finish_digit_collection i code reason h)"

definition collect_digit :: "Instant \<Rightarrow> DigitEvent \<Rightarrow> CollectorHost \<Rightarrow> bool \<times> CollectorHost" where
  "collect_digit now event h =
     (case apply_digit_to_collectors event now (co_collectors h) of
        ((consume, completed), collectors) \<Rightarrow>
          (consume, schedule_digit_collector_timer (finish_completed completed (h\<lparr>co_collectors := collectors\<rparr>))))"

definition handle_digit_collector_timeout ::
    "u64 \<Rightarrow> CollectorId \<Rightarrow> DigitCollectorDeadline \<Rightarrow> CollectorHost \<Rightarrow> CollectorHost" where
  "handle_digit_collector_timeout generation i deadline h =
     (if generation \<noteq> co_timer_generation h then h
      else schedule_digit_collector_timer
             (finish_digit_collection i (deadline_result_code deadline) None (h\<lparr>co_timer := None\<rparr>)))"

definition abort_collector :: "string \<Rightarrow> DigitCollectorState \<Rightarrow> CollectorHost \<Rightarrow> CollectorHost" where
  "abort_collector reason c h =
     (let h1 = (if col_ready_reply c then reply (ReadyReply (sp_collector_id (col_spec c)) (Err reason)) h else h);
          h2 = snd (submit_media_action
                 (ReleaseDtmfCapability (col_release_action_id c) (co_media_generation h1) (col_lease_id c)) h1)
      in if col_result_reply c then
           reply (ResultReply \<lparr> dco_collector_id = sp_collector_id (col_spec c), dco_code = Failed,
                                dco_digits = col_digits c, dco_reason = Some reason \<rparr>) h2
         else h2)"

definition abort_digit_collection :: "string \<Rightarrow> CollectorHost \<Rightarrow> CollectorHost" where
  "abort_digit_collection reason h =
     (let h1 = h\<lparr>co_timer_generation := saturating_add (co_timer_generation h) 1, co_timer := None\<rparr>
      in fold (abort_collector reason) (bt_values (co_collectors h1)) (h1\<lparr>co_collectors := []\<rparr>))"

end
