(* ===== verification/Collector_Invariants.thy ===== *)
theory Collector_Invariants
  imports Dtmf_Collectors Machines
begin

text \<open>
  Digit collection over runs: every collection that was asked for is answered exactly once, its
  digits obey its specification, the collectors stay within their limits and the timer is always
  armed for the earliest deadline.
\<close>

section \<open>Sums over a map\<close>

definition bt_sum :: "('v \<Rightarrow> nat) \<Rightarrow> ('k::linorder, 'v) BTreeMap \<Rightarrow> nat" where
  "bt_sum f m = sum_list (map (\<lambda>p. f (snd p)) m)"

lemma bt_sum_Nil [simp]: "bt_sum f [] = 0"
  by (simp add: bt_sum_def)

lemma bt_sum_fresh: "bt_get m i = None \<Longrightarrow> bt_sum f (bt_insert i c m) = bt_sum f m + f c"
  by (induction i c m rule: bt_insert.induct) (auto simp: bt_sum_def bt_get_def split: if_splits)

lemma bt_sum_present:
  "bt_wf m \<Longrightarrow> bt_get m i = Some c \<Longrightarrow> bt_sum f (bt_insert i c' m) + f c = bt_sum f m + f c'"
proof (induction i c' m rule: bt_insert.induct)
  case (2 i c' a b m)
  have "map_of m i = None" if "i < a"
    using 2(2) that by (auto simp: bt_wf_def map_of_eq_None_iff simp flip: image_set)
  with 2 show ?case
    by (auto simp: bt_sum_def bt_get_def bt_wf_def split: if_splits)
qed (simp add: bt_get_def)

lemma bt_sum_remove: "bt_wf m \<Longrightarrow> bt_get m i = Some c \<Longrightarrow> bt_sum f (bt_remove i m) + f c = bt_sum f m"
proof (induction m)
  case (Cons p m)
  obtain k b where p: "p = (k, b)" by (cases p)
  have wf: "bt_wf m" and fresh: "k \<notin> fst ` set m"
    using Cons.prems(1) by (auto simp: bt_wf_def p simp flip: image_set)
  show ?case
  proof (cases "k = i")
    case True
    then have "bt_remove i (p # m) = m" using fresh by (force simp: p bt_remove_def intro!: filter_True)
    with True Cons.prems(2) show ?thesis by (simp add: p bt_sum_def bt_get_def)
  next
    case False
    with Cons wf show ?thesis by (simp add: p bt_sum_def bt_get_def bt_remove_def)
  qed
qed (simp add: bt_get_def)

lemma bt_sum_one: "bt_sum (\<lambda>_. Suc 0) m = length m"
  by (induction m) (auto simp: bt_sum_def)

section \<open>Well-formed collectors\<close>

definition release_id :: "CallId \<Rightarrow> CollectorId \<Rightarrow> string" where
  "release_id call_id i = ''release-'' @ ''dtmf-collector-'' @ call_id @ ''-'' @ i"

definition collector_wf :: "DigitCollectorState \<Rightarrow> bool" where
  "collector_wf c \<longleftrightarrow>
     col_result_reply c \<and> validate_spec (col_spec c) = Ok () \<and>
     set (col_digits c) \<subseteq> sp_allowed (col_spec c) - sp_terminators (col_spec c) \<and>
     length (col_digits c) \<le> sp_max_digits (col_spec c) \<and>
     (case col_phase c of
        AcquiringPhase \<Rightarrow>
          (col_ready_reply c \<longleftrightarrow> \<not> col_cancel_requested c) \<and> col_digits c = [] \<and> col_pending_outcome c = None \<and>
          collector_deadlines c = []
      | ActivePhase \<Rightarrow>
          \<not> col_ready_reply c \<and> \<not> col_cancel_requested c \<and> length (col_digits c) < sp_max_digits (col_spec c) \<and>
          col_pending_outcome c = None \<and> col_overall_deadline c \<noteq> None
      | ReleasingPhase \<Rightarrow>
          \<not> col_ready_reply c \<and> collector_deadlines c = [] \<and>
          (\<exists>r. col_pending_outcome c = Some r \<and> dco_digits r = col_digits c \<and>
               (dco_code r = DigitCollectionResultCode.Completed \<longrightarrow>
                  sp_min_digits (col_spec c) \<le> length (col_digits c))))"

lemma collector_wfD:
  assumes "collector_wf c"
  shows "col_result_reply c" "validate_spec (col_spec c) = Ok ()"
    "set (col_digits c) \<subseteq> sp_allowed (col_spec c) - sp_terminators (col_spec c)"
    "length (col_digits c) \<le> sp_max_digits (col_spec c)"
  using assms by (simp_all add: collector_wf_def)

definition finish_ok :: "DigitCollectionResultCode \<Rightarrow> DigitCollectorState \<Rightarrow> bool" where
  "finish_ok code c \<longleftrightarrow>
     (code = DigitCollectionResultCode.Completed \<longrightarrow> sp_min_digits (col_spec c) \<le> length (col_digits c))"

lemma releasing_wf:
  assumes "col_result_reply c" "validate_spec (col_spec c) = Ok ()" "\<not> col_ready_reply c" "finish_ok code c"
    and "set (col_digits c) \<subseteq> sp_allowed (col_spec c) - sp_terminators (col_spec c)"
    and "length (col_digits c) \<le> sp_max_digits (col_spec c)"
  shows "collector_wf (releasing code reason c)"
  using assms by (simp add: collector_wf_def releasing_def collector_deadlines_def finish_ok_def)

text \<open>
  While a handler runs, some collectors are only waiting to be finished: \<open>P\<close> names them with the
  code and reason they will be finished with.  Between handlers \<open>P\<close> is empty.
\<close>

type_synonym finishing = "CollectorId \<rightharpoonup> DigitCollectionResultCode \<times> string option"

definition collector_good :: "finishing \<Rightarrow> CollectorId \<Rightarrow> DigitCollectorState \<Rightarrow> bool" where
  "collector_good P i c \<longleftrightarrow>
     (case P i of
        None \<Rightarrow> collector_wf c
      | Some (code, reason) \<Rightarrow>
          col_phase c = ActivePhase \<and> \<not> col_ready_reply c \<and> collector_wf (releasing code reason c))"

definition host_upto :: "finishing \<Rightarrow> CollectorHost \<Rightarrow> bool" where
  "host_upto P h \<longleftrightarrow>
     bt_wf (co_collectors h) \<and> length (co_collectors h) \<le> DTMF_COLLECTOR_CAPACITY \<and>
     (\<forall>i c. bt_get (co_collectors h) i = Some c \<longrightarrow>
        sp_collector_id (col_spec c) = i \<and> col_release_action_id c = release_id (co_call_id h) i \<and>
        collector_good P i c)"

abbreviation host_wf :: "CollectorHost \<Rightarrow> bool" where
  "host_wf \<equiv> host_upto (\<lambda>_. None)"

lemma collector_good_result: "collector_good P i c \<Longrightarrow> col_result_reply c"
  by (auto simp: collector_good_def releasing_def dest: collector_wfD(1) split: option.splits)

definition is_result :: "collector_reply \<Rightarrow> bool" where
  "is_result r \<longleftrightarrow> (case r of ResultReply _ \<Rightarrow> True | ReadyReply _ _ \<Rightarrow> False)"

definition ready_weight :: "DigitCollectorState \<Rightarrow> nat" where
  "ready_weight c = (if col_ready_reply c then 1 else 0)"

text \<open>Replies sent and replies still owed.\<close>

definition result_tally :: "CollectorHost \<Rightarrow> nat" where
  "result_tally h = length (filter is_result (co_replies h)) + length (co_collectors h)"

definition ready_tally :: "CollectorHost \<Rightarrow> nat" where
  "ready_tally h =
     length (filter (\<lambda>r. \<not> is_result r) (co_replies h)) + bt_sum ready_weight (co_collectors h)"

text \<open>A handler keeps the books: well-formedness, and both tallies.\<close>

definition keeps :: "finishing \<Rightarrow> finishing \<Rightarrow> CollectorHost \<Rightarrow> CollectorHost \<Rightarrow> bool" where
  "keeps P Q h h' \<longleftrightarrow>
     (host_upto P h \<longrightarrow> host_upto Q h' \<and> result_tally h' = result_tally h \<and> ready_tally h' = ready_tally h \<and>
        co_call_id h' = co_call_id h)"

lemma keeps_refl [simp]: "keeps P P h h"
  by (simp add: keeps_def)

lemma keeps_trans: "keeps P Q a b \<Longrightarrow> keeps Q R b c \<Longrightarrow> keeps P R a c"
  by (simp add: keeps_def)

lemma keeps_same:
  assumes "co_collectors h' = co_collectors h" and "co_replies h' = co_replies h" and "co_call_id h' = co_call_id h"
  shows "keeps P P h h'"
  using assms by (simp add: keeps_def host_upto_def result_tally_def ready_tally_def)

lemma schedule_keeps: "keeps P P h (schedule_digit_collector_timer h)"
  by (rule keeps_same) (simp_all add: schedule_digit_collector_timer_def Let_def)

lemma schedule_keeps': "keeps P Q h h' \<Longrightarrow> keeps P Q h (schedule_digit_collector_timer h')"
  using keeps_trans schedule_keeps by blast

lemma submit_frame:
  assumes "submit_media_action a h = (r, h')"
  shows "co_collectors h' = co_collectors h" "co_replies h' = co_replies h" "co_call_id h' = co_call_id h"
    "r \<noteq> Panic" "co_timer h' = co_timer h" "co_timer_generation h' = co_timer_generation h"
  using assms by (auto simp: submit_media_action_def try_send_def split: if_splits)

text \<open>Replacing a collector, with the ready reply sent if it is no longer owed.\<close>

lemma replace_keeps:
  assumes "bt_get (co_collectors h) i = Some c"
    and "host_upto P h \<Longrightarrow> collector_good Q i c'" and "\<And>j. j \<noteq> i \<Longrightarrow> Q j = P j"
    and "col_spec c' = col_spec c" and "col_release_action_id c' = col_release_action_id c"
    and "co_collectors h' = bt_insert i c' (co_collectors h)" and "co_call_id h' = co_call_id h"
    and "length (filter is_result (co_replies h')) = length (filter is_result (co_replies h))"
    and "length (filter (\<lambda>r. \<not> is_result r) (co_replies h')) + ready_weight c' =
      length (filter (\<lambda>r. \<not> is_result r) (co_replies h)) + ready_weight c"
  shows "keeps P Q h h'"
  unfolding keeps_def
proof
  assume wf: "host_upto P h"
  then have bt: "bt_wf (co_collectors h)" by (simp add: host_upto_def)
  have len: "length (bt_insert i c' (co_collectors h)) = length (co_collectors h)"
    using bt_sum_present [OF bt assms(1), of "\<lambda>_. Suc 0" c'] by (simp add: bt_sum_one)
  have "host_upto Q h'"
    using wf assms(1,4-7) assms(2) [OF wf] assms(3) len
    by (auto simp: host_upto_def bt.wf_put bt.get_put collector_good_def split: if_splits)
  moreover have "bt_sum ready_weight (bt_insert i c' (co_collectors h)) + ready_weight c =
      bt_sum ready_weight (co_collectors h) + ready_weight c'"
    by (rule bt_sum_present [OF bt assms(1)])
  ultimately show "host_upto Q h' \<and> result_tally h' = result_tally h \<and> ready_tally h' = ready_tally h \<and>
      co_call_id h' = co_call_id h"
    using assms(6-9) len by (simp add: result_tally_def ready_tally_def)
qed

text \<open>Taking a collector out while sending the replies it owes.\<close>

lemma remove_keeps:
  assumes "bt_get (co_collectors h) i = Some c"
    and "co_collectors h' = bt_remove i (co_collectors h)" and "co_call_id h' = co_call_id h"
    and "host_upto P h \<Longrightarrow> length (filter is_result (co_replies h')) = Suc (length (filter is_result (co_replies h)))"
    and "host_upto P h \<Longrightarrow> length (filter (\<lambda>r. \<not> is_result r) (co_replies h')) =
      length (filter (\<lambda>r. \<not> is_result r) (co_replies h)) + ready_weight c"
    and "\<And>j. j \<noteq> i \<Longrightarrow> Q j = P j"
  shows "keeps P Q h h'"
  unfolding keeps_def
proof
  assume wf: "host_upto P h"
  then have bt: "bt_wf (co_collectors h)" by (simp add: host_upto_def)
  have len: "Suc (length (bt_remove i (co_collectors h))) = length (co_collectors h)"
    using bt_sum_remove [OF bt assms(1), of "\<lambda>_. Suc 0"] by (simp add: bt_sum_one)
  have "host_upto Q h'"
    using wf assms(2,3,6) len
    by (auto simp: host_upto_def bt.wf_remove bt.get_remove collector_good_def split: if_splits)
  then show "host_upto Q h' \<and> result_tally h' = result_tally h \<and> ready_tally h' = ready_tally h \<and>
      co_call_id h' = co_call_id h"
    using assms(2,3) assms(4,5) [OF wf] len bt_sum_remove [OF bt assms(1), of ready_weight]
    by (auto simp: result_tally_def ready_tally_def)
qed

lemma host_upto_get:
  assumes "host_upto P h" and "bt_get (co_collectors h) i = Some c"
  shows "col_result_reply c" "col_release_action_id c = release_id (co_call_id h) i" "collector_good P i c"
    "sp_collector_id (col_spec c) = i"
  using assms by (auto simp: host_upto_def intro: collector_good_result)

lemma fail_start_keeps: "keeps P P h (fail_digit_collection_start i error h)"
proof (cases "bt_get (co_collectors h) i")
  case (Some c)
  then show ?thesis
    unfolding fail_digit_collection_start_def Let_def
    by (auto intro!: schedule_keeps' remove_keeps [OF Some] simp: reply_def is_result_def ready_weight_def
        dest: host_upto_get(1))
qed (simp add: fail_digit_collection_start_def)

lemma find_get:
  assumes "bt_wf m" and "find Q m = Some (i, c)"
  shows "bt_get m i = Some c" "Q (i, c)"
  using assms bt_wf_distinct [OF assms(1)] by (auto simp: find_Some_iff bt_get_def)

lemma released_keeps: "keeps P P h (handle_dtmf_capability_released a res h)"
proof (cases "host_upto P h")
  case True
  show ?thesis
  proof (cases "find (\<lambda>(_, c). col_phase c = ReleasingPhase \<and> col_release_action_id c = a) (co_collectors h)")
    case (Some p)
    obtain i c where p: "p = (i, c)" by (cases p)
    have bt: "bt_wf (co_collectors h)" using True by (simp add: host_upto_def)
    have get: "bt_get (co_collectors h) i = Some c" and ph: "col_phase c = ReleasingPhase"
      using find_get [OF bt Some [unfolded p]] by auto
    have "\<not> col_ready_reply c"
      using host_upto_get(3) [OF True get] ph
      by (auto simp: collector_good_def collector_wf_def split: option.splits)
    then show ?thesis
      unfolding handle_dtmf_capability_released_def Let_def Some p
      by (auto intro!: schedule_keeps' remove_keeps [OF get] simp: reply_def is_result_def ready_weight_def
          host_upto_get(1) [OF True get])
  qed (simp add: handle_dtmf_capability_released_def)
qed (simp add: keeps_def)

text \<open>Finishing a collector that waits for it.\<close>

lemma finish_keeps:
  assumes "\<And>c. bt_get (co_collectors h) i = Some c \<Longrightarrow> host_upto P h \<Longrightarrow> col_phase c = ActivePhase \<Longrightarrow>
      \<not> col_ready_reply c \<and> collector_wf (releasing code reason c)"
    and "\<And>c. bt_get (co_collectors h) i = Some c \<Longrightarrow> host_upto P h \<Longrightarrow> P i \<noteq> None \<Longrightarrow> col_phase c = ActivePhase"
  shows "keeps P (P(i := None)) h (finish_digit_collection i code reason h)"
proof (cases "host_upto P h \<and> (\<exists>c. bt_get (co_collectors h) i = Some c \<and> col_phase c = ActivePhase)")
  case True
  then obtain c where wf: "host_upto P h" and c: "bt_get (co_collectors h) i = Some c" "col_phase c = ActivePhase"
    by blast
  let ?a = "ReleaseDtmfCapability (col_release_action_id c) (co_media_generation h) (col_lease_id c)"
  let ?h = "put_collector i (releasing code reason c) h"
  obtain res h2 where sub: "submit_media_action ?a ?h = (res, h2)" by (cases "submit_media_action ?a ?h")
  have "keeps P (P(i := None)) h ?h"
    using assms(1) [OF c(1) wf c(2)]
    by (intro replace_keeps [OF c(1)])
      (auto simp: put_collector_def releasing_def collector_good_def ready_weight_def)
  moreover have "keeps (P(i := None)) (P(i := None)) ?h h2"
    by (rule keeps_same) (simp_all add: submit_frame [OF sub])
  ultimately have h2: "keeps P (P(i := None)) h h2" by (rule keeps_trans)
  have "finish_digit_collection i code reason h =
      (case (res, h2) of
         (Err error, h2) \<Rightarrow>
           schedule_digit_collector_timer
             (handle_dtmf_capability_released (col_release_action_id c) (Err error) h2)
       | (_, h2) \<Rightarrow> schedule_digit_collector_timer h2)"
    using c sub by (simp add: finish_digit_collection_def)
  then show ?thesis
    using h2 released_keeps keeps_trans schedule_keeps' by (auto split: outcome.splits)
next
  case False
  then have "finish_digit_collection i code reason h = h" if "host_upto P h"
    using that by (auto simp: finish_digit_collection_def split: option.splits)
  moreover have "host_upto (P(i := None)) h" if wf: "host_upto P h"
  proof (cases "P i")
    case None
    then have "P(i := None) = P" by (simp add: fun_upd_idem)
    then show ?thesis using wf by simp
  next
    case (Some _)
    then have "bt_get (co_collectors h) i = None" using False assms(2) wf by fastforce
    then have "collector_good (P(i := None)) j c = collector_good P j c" if "bt_get (co_collectors h) j = Some c" for j c
      using that by (auto simp: collector_good_def)
    then show ?thesis using wf by (simp add: host_upto_def)
  qed
  ultimately show ?thesis by (simp add: keeps_def)
qed

section \<open>The handlers\<close>

lemma find_acquiring:
  assumes "host_wf h"
    and "find (\<lambda>(_, c). col_phase c = AcquiringPhase \<and> col_acquire_action_id c = a) (co_collectors h) = Some (i, c)"
  shows "bt_get (co_collectors h) i = Some c" "col_phase c = AcquiringPhase" "collector_wf c"
proof -
  have "bt_wf (co_collectors h)" using assms(1) by (simp add: host_upto_def)
  from find_get [OF this assms(2)] show "bt_get (co_collectors h) i = Some c" "col_phase c = AcquiringPhase" by auto
  then show "collector_wf c" using host_upto_get(3) [OF assms(1)] by (auto simp: collector_good_def)
qed

lemma activate_wf:
  assumes "collector_wf c" and "col_phase c = AcquiringPhase" and "\<not> col_cancel_requested c"
  shows "collector_wf (activate now (c\<lparr>col_ready_reply := False\<rparr>))"
  using assms by (auto simp: collector_wf_def activate_def validate_spec_def split: if_splits)

lemma cancelled_acquired_wf:
  assumes "collector_wf c" and "col_phase c = AcquiringPhase"
  shows "collector_wf (releasing Cancelled r (c\<lparr>col_ready_reply := False, col_phase := ActivePhase\<rparr>))"
  using assms by (intro releasing_wf) (auto simp: finish_ok_def dest: collector_wfD)

lemma acquired_keeps:
  "keeps (\<lambda>_. None) (\<lambda>_. None) h (handle_dtmf_capability_acquired now a res h)"
proof (cases "host_wf h \<and> find (\<lambda>(_, c). col_phase c = AcquiringPhase \<and> col_acquire_action_id c = a) (co_collectors h) \<noteq> None")
  case True
  then obtain i c where wf: "host_wf h" and f: "find (\<lambda>(_, c). col_phase c = AcquiringPhase \<and>
      col_acquire_action_id c = a) (co_collectors h) = Some (i, c)" by auto
  note c = find_acquiring [OF wf f]
  show ?thesis
  proof (cases "\<exists>ready. res = Ok ready \<and> cr_lease_id ready = col_lease_id c \<and>
      cr_source_session_id ready = sp_source_session_id (col_spec c)")
    case False
    then show ?thesis
      using fail_start_keeps f by (auto simp: handle_dtmf_capability_acquired_def split: outcome.splits)
  next
    case True
    then obtain ready where ready: "res = Ok ready" "cr_lease_id ready = col_lease_id c"
      "cr_source_session_id ready = sp_source_session_id (col_spec c)" by blast
    show ?thesis
    proof (cases "col_cancel_requested c")
      case True
      let ?c = "c\<lparr>col_ready_reply := False, col_phase := ActivePhase\<rparr>"
      let ?P = "[i \<mapsto> (Cancelled, Some ''dtmf_collection_cancelled'')]"
      have no_ready: "\<not> col_ready_reply c" using c True by (simp add: collector_wf_def)
      have "keeps (\<lambda>_. None) ?P h (put_collector i ?c h)"
        using cancelled_acquired_wf [OF c(3,2)] no_ready
        by (intro replace_keeps [OF c(1), where c' = ?c])
          (auto simp: put_collector_def collector_good_def ready_weight_def)
      moreover have P: "?P(i := None) = (\<lambda>_. None)" by auto
      have "keeps ?P (?P(i := None)) (put_collector i ?c h)
          (finish_digit_collection i Cancelled (Some ''dtmf_collection_cancelled'') (put_collector i ?c h))"
        using cancelled_acquired_wf [OF c(3,2)]
        by (intro finish_keeps) (auto simp: put_collector_def bt.get_put)
      ultimately have "keeps (\<lambda>_. None) (\<lambda>_. None) h
          (finish_digit_collection i Cancelled (Some ''dtmf_collection_cancelled'') (put_collector i ?c h))"
        unfolding P by (rule keeps_trans)
      then show ?thesis
        by (simp add: handle_dtmf_capability_acquired_def Let_def f ready True no_ready)
    next
      case False
      then have "col_ready_reply c" using c by (simp add: collector_wf_def)
      then show ?thesis
        using f ready False activate_wf [OF c(3,2) False, of now]
        by (auto simp: handle_dtmf_capability_acquired_def Let_def reply_def put_collector_def activate_def
            collector_good_def ready_weight_def is_result_def intro!: schedule_keeps' replace_keeps [OF c(1)])
    qed
  qed
next
  case no_match: False
  show ?thesis
  proof (cases "host_wf h")
    case True
    with no_match have "find (\<lambda>(_, c). col_phase c = AcquiringPhase \<and> col_acquire_action_id c = a)
        (co_collectors h) = None" by blast
    then show ?thesis by (simp add: handle_dtmf_capability_acquired_def keeps_def)
  qed (simp add: keeps_def)
qed

lemma finish_active_keeps:
  assumes "\<And>c. host_wf h \<Longrightarrow> bt_get (co_collectors h) i = Some c \<Longrightarrow> col_phase c = ActivePhase \<Longrightarrow> finish_ok code c"
  shows "keeps (\<lambda>_. None) (\<lambda>_. None) h (finish_digit_collection i code reason h)"
proof -
  have "keeps (\<lambda>_. None) ((\<lambda>_. None)(i := None)) h (finish_digit_collection i code reason h)"
  proof (rule finish_keeps)
    fix c assume c: "bt_get (co_collectors h) i = Some c" and wf: "host_wf h" and act: "col_phase c = ActivePhase"
    have cw: "collector_wf c" using host_upto_get(3) [OF wf c] by (simp add: collector_good_def)
    then have "\<not> col_ready_reply c" using act by (simp add: collector_wf_def)
    with cw show "\<not> col_ready_reply c \<and> collector_wf (releasing code reason c)"
      using assms [OF wf c act] by (auto intro!: releasing_wf dest: collector_wfD)
  qed simp
  then show ?thesis by (simp add: fun_upd_idem)
qed

lemma cancel_keeps: "keeps (\<lambda>_. None) (\<lambda>_. None) h (snd (cancel_digit_collection i h))"
proof (cases "host_wf h \<and> bt_get (co_collectors h) i \<noteq> None")
  case True
  then obtain c where wf: "host_wf h" and c: "bt_get (co_collectors h) i = Some c" by auto
  have same: "put_collector i c h = h" using wf c by (simp add: put_collector_def bt.put_get_id host_upto_def)
  have cw: "collector_wf c" using host_upto_get(3) [OF wf c] by (simp add: collector_good_def)
  show ?thesis
  proof (cases "col_phase c")
    case AcquiringPhase
    have "collector_wf (c\<lparr>col_cancel_requested := True, col_ready_reply := False\<rparr>)"
      "\<not> col_ready_reply c \<Longrightarrow> collector_wf (c\<lparr>col_cancel_requested := True\<rparr>)"
      using cw AcquiringPhase by (auto simp: collector_wf_def collector_deadlines_def)
    then show ?thesis
      using c AcquiringPhase
        replace_keeps [OF c, where c' = "c\<lparr>col_cancel_requested := True\<rparr>" and P = "\<lambda>_. None" and Q = "\<lambda>_. None"]
        replace_keeps [OF c, where c' = "c\<lparr>col_cancel_requested := True, col_ready_reply := False\<rparr>" and
          P = "\<lambda>_. None" and Q = "\<lambda>_. None"]
      by (simp add: cancel_digit_collection_def request_cancel_def reply_def put_collector_def
          collector_good_def ready_weight_def is_result_def)
  next
    case ActivePhase
    then show ?thesis
      using c same finish_active_keeps [of h i Cancelled]
      by (simp add: cancel_digit_collection_def request_cancel_def finish_ok_def)
  next
    case ReleasingPhase
    then show ?thesis using c same by (simp add: cancel_digit_collection_def request_cancel_def)
  qed
qed (auto simp: keeps_def cancel_digit_collection_def)

lemma timeout_keeps: "keeps (\<lambda>_. None) (\<lambda>_. None) h (handle_digit_collector_timeout g i d h)"
proof -
  have "keeps (\<lambda>_. None) (\<lambda>_. None) h (h\<lparr>co_timer := None\<rparr>)" by (rule keeps_same) simp_all
  moreover have "keeps (\<lambda>_. None) (\<lambda>_. None) (h\<lparr>co_timer := None\<rparr>)
      (finish_digit_collection i (deadline_result_code d) None (h\<lparr>co_timer := None\<rparr>))"
    by (rule finish_active_keeps) (cases d; simp add: finish_ok_def)
  ultimately show ?thesis
    by (simp add: handle_digit_collector_timeout_def schedule_keeps' keeps_trans [of "\<lambda>_. None" "\<lambda>_. None" h])
qed

lemma abort_collector_frame:
  assumes "abort_collector reason c h = h'" and "col_result_reply c"
  shows "co_collectors h' = co_collectors h" "co_call_id h' = co_call_id h"
    "length (filter is_result (co_replies h')) = Suc (length (filter is_result (co_replies h)))"
    "length (filter (\<lambda>r. \<not> is_result r) (co_replies h')) =
       length (filter (\<lambda>r. \<not> is_result r) (co_replies h)) + ready_weight c"
proof -
  let ?h = "if col_ready_reply c then reply (ReadyReply (sp_collector_id (col_spec c)) (Err reason)) h else h"
  obtain r h2 where sub: "submit_media_action (ReleaseDtmfCapability (col_release_action_id c)
      (co_media_generation ?h) (col_lease_id c)) ?h = (r, h2)"
    by (cases "submit_media_action (ReleaseDtmfCapability (col_release_action_id c)
      (co_media_generation ?h) (col_lease_id c)) ?h")
  show "co_collectors h' = co_collectors h" "co_call_id h' = co_call_id h"
    "length (filter is_result (co_replies h')) = Suc (length (filter is_result (co_replies h)))"
    "length (filter (\<lambda>r. \<not> is_result r) (co_replies h')) =
       length (filter (\<lambda>r. \<not> is_result r) (co_replies h)) + ready_weight c"
    using assms sub submit_frame [OF sub]
    by (auto simp: abort_collector_def Let_def reply_def is_result_def ready_weight_def split: if_splits)
qed

lemma abort_fold:
  assumes "list_all col_result_reply cs"
  shows "co_collectors (fold (abort_collector reason) cs h) = co_collectors h \<and>
    co_call_id (fold (abort_collector reason) cs h) = co_call_id h \<and>
    length (filter is_result (co_replies (fold (abort_collector reason) cs h))) =
      length (filter is_result (co_replies h)) + length cs \<and>
    length (filter (\<lambda>r. \<not> is_result r) (co_replies (fold (abort_collector reason) cs h))) =
      length (filter (\<lambda>r. \<not> is_result r) (co_replies h)) + sum_list (map ready_weight cs)"
  using assms
proof (induction cs arbitrary: h)
  case (Cons c cs)
  then show ?case using abort_collector_frame [OF refl, of c reason h] by simp
qed simp

lemma abort_keeps: "keeps (\<lambda>_. None) (\<lambda>_. None) h (abort_digit_collection reason h)"
  unfolding keeps_def
proof
  assume wf: "host_wf h"
  then have "list_all col_result_reply (bt_values (co_collectors h))"
    using host_upto_get(1) [OF wf] by (auto simp: list_all_iff host_upto_def bt_in_values_iff)
  from abort_fold [OF this, of reason "h\<lparr>co_timer_generation := saturating_add (co_timer_generation h) 1,
      co_timer := None, co_collectors := []\<rparr>"]
  show "host_wf (abort_digit_collection reason h) \<and>
      result_tally (abort_digit_collection reason h) = result_tally h \<and>
      ready_tally (abort_digit_collection reason h) = ready_tally h \<and>
      co_call_id (abort_digit_collection reason h) = co_call_id h"
    by (simp add: abort_digit_collection_def Let_def host_upto_def result_tally_def ready_tally_def
        bt_values_def bt_sum_def comp_def)
qed

text \<open>Starting a collection owes one more reply of each kind.\<close>

lemma start_tally:
  assumes wf: "host_wf h"
  shows "host_wf (start_digit_collection spec h) \<and>
    result_tally (start_digit_collection spec h) = Suc (result_tally h) \<and>
    ready_tally (start_digit_collection spec h) = Suc (ready_tally h) \<and>
    co_call_id (start_digit_collection spec h) = co_call_id h"
proof -
  let ?v = "and_then (validate_spec spec) (\<lambda>_.
      if \<not> co_answered h \<or> co_terminating h then Err ''call_or_leg_terminating''
      else and_then (validate_digit_collector_registration (co_collectors h) spec) (\<lambda>_.
        if sp_source_session_id spec \<noteq> co_caller_session_id h \<and> sp_source_session_id spec \<noteq> co_callee_session_id h
        then Err ''stale_source_session'' else Ok ()))"
  show ?thesis
  proof (cases ?v)
    case (Err e)
    then show ?thesis
      using wf by (simp add: start_digit_collection_def reply_def is_result_def host_upto_def result_tally_def ready_tally_def)
  next
    case (Ok u)
    let ?i = "sp_collector_id spec"
    let ?l = "''dtmf-collector-'' @ co_call_id h @ ''-'' @ ?i"
    let ?c = "collector_new spec ?l (''acquire-'' @ ?l) (''release-'' @ ?l)"
    let ?h = "put_collector ?i ?c h"
    have v: "validate_spec spec = Ok ()" "bt_get (co_collectors h) ?i = None"
      "length (co_collectors h) < DTMF_COLLECTOR_CAPACITY"
      using Ok by (auto simp: validate_digit_collector_registration_def bt_contains_key_def split: if_splits)
    have cw: "collector_wf ?c" using v by (simp add: collector_wf_def collector_new_def collector_deadlines_def)
    have len: "length (bt_insert ?i ?c (co_collectors h)) = Suc (length (co_collectors h))"
      using bt_sum_fresh [OF v(2), of "\<lambda>_. Suc 0" ?c] by (simp add: bt_sum_one)
    have h: "host_wf ?h" "result_tally ?h = Suc (result_tally h)" "ready_tally ?h = Suc (ready_tally h)"
      using wf cw v len bt_sum_fresh [OF v(2), of ready_weight ?c]
      by (auto simp: host_upto_def put_collector_def bt.wf_put bt.get_put collector_good_def result_tally_def
          ready_tally_def collector_new_def release_id_def ready_weight_def)
    obtain a where "\<And>h'. start_digit_collection spec h = h' \<longleftrightarrow>
        (case submit_media_action a ?h of (Err error, h2) \<Rightarrow> fail_digit_collection_start ?i error h2 | (_, h2) \<Rightarrow> h2) = h'"
      using Ok by (auto simp: start_digit_collection_def Let_def)
    then have eq: "start_digit_collection spec h =
        (case submit_media_action a ?h of (Err error, h2) \<Rightarrow> fail_digit_collection_start ?i error h2 | (_, h2) \<Rightarrow> h2)"
      by simp
    obtain r h2 where sub: "submit_media_action a ?h = (r, h2)" by (cases "submit_media_action a ?h")
    have "keeps (\<lambda>_. None) (\<lambda>_. None) ?h h2" by (rule keeps_same) (simp_all add: submit_frame [OF sub])
    then have "keeps (\<lambda>_. None) (\<lambda>_. None) ?h (start_digit_collection spec h)"
      using eq sub fail_start_keeps keeps_trans by (auto split: outcome.splits)
    then show ?thesis using h by (simp add: keeps_def put_collector_def)
  next
    case Panic
    then show ?thesis
      by (auto simp: validate_spec_def validate_digit_collector_registration_def split: if_splits)
  qed
qed

section \<open>Digits\<close>

text \<open>What one digit does to one collector.\<close>

definition digit_finish ::
    "DigitEvent \<Rightarrow> Instant \<Rightarrow> DigitCollectorState \<Rightarrow> (DigitCollectionResultCode \<times> string option) option" where
  "digit_finish event now c =
     (case fst (apply_digit event now c) of Finish _ code reason \<Rightarrow> Some (code, reason) | _ \<Rightarrow> None)"

lemma apply_digit_frame:
  assumes "apply_digit event now c = (inp, c')"
  shows "col_spec c' = col_spec c" "col_release_action_id c' = col_release_action_id c"
    "col_ready_reply c' = col_ready_reply c"
  using assms by (auto simp: apply_digit_def Let_def split: if_splits)

lemma apply_digit_good:
  assumes "collector_wf c" and "apply_digit event now c = (inp, c')"
  shows "case digit_finish event now c of
      None \<Rightarrow> collector_wf c'
    | Some (code, reason) \<Rightarrow> col_phase c' = ActivePhase \<and> \<not> col_ready_reply c' \<and> collector_wf (releasing code reason c')"
proof (cases "col_phase c = ActivePhase \<and> sp_source_session_id (col_spec c) = de_source_session_id event")
  case False
  then show ?thesis using assms by (auto simp: digit_finish_def apply_digit_def)
next
  case True
  note wf = collector_wfD [OF assms(1)]
  have ready: "\<not> col_ready_reply c" "col_overall_deadline c \<noteq> None" "\<not> col_cancel_requested c"
      "col_pending_outcome c = None" "length (col_digits c) < sp_max_digits (col_spec c)"
    using True assms(1) by (simp_all add: collector_wf_def)
  have range: "sp_min_digits (col_spec c) \<le> sp_max_digits (col_spec c)"
    using wf(2) by (auto simp: validate_spec_def split: if_splits)
  consider (stop) "de_digit event \<in> sp_terminators (col_spec c)"
    | (skip) "de_digit event \<notin> sp_terminators (col_spec c)" "de_digit event \<notin> sp_allowed (col_spec c)"
    | (take) "de_digit event \<notin> sp_terminators (col_spec c)" "de_digit event \<in> sp_allowed (col_spec c)"
    by blast
  then show ?thesis
  proof cases
    case stop
    then show ?thesis
      using True assms wf ready
      by (auto simp: digit_finish_def apply_digit_def Let_def finish_ok_def intro!: releasing_wf)
  next
    case skip
    then show ?thesis using True assms by (auto simp: digit_finish_def apply_digit_def Let_def)
  next
    case take
    show ?thesis
    proof (cases "Suc (length (col_digits c)) \<ge> sp_max_digits (col_spec c)")
      case full: True
      then show ?thesis
        using True take assms wf ready range
        by (auto simp: digit_finish_def apply_digit_def Let_def finish_ok_def subset_iff intro!: releasing_wf)
    next
      case False
      then show ?thesis
        using True take assms wf ready
        by (auto simp: digit_finish_def apply_digit_def Let_def collector_wf_def)
    qed
  qed
qed

definition finishing_of :: "(CollectorId \<times> DigitCollectionResultCode \<times> string option) list \<Rightarrow> finishing" where
  "finishing_of completed = map_of completed"

lemma apply_digit_loop_keeps:
  assumes "host_upto P h" and "distinct ids" and "\<forall>i \<in> set ids. P i = None"
    and "apply_digit_loop event now ids (co_collectors h) = ((consume, completed), m)"
  shows "keeps P (P ++ finishing_of completed) h (h\<lparr>co_collectors := m\<rparr>) \<and>
    distinct (map fst completed) \<and> fst ` set completed \<subseteq> set ids"
  using assms
proof (induction ids arbitrary: P h consume completed m)
  case (Cons i ids)
  show ?case
  proof (cases "bt_get (co_collectors h) i")
    case None
    then show ?thesis using Cons.IH [of P h] Cons.prems by auto
  next
    case (Some c)
    obtain inp c' where ap: "apply_digit event now c = (inp, c')" by (cases "apply_digit event now c")
    let ?h = "h\<lparr>co_collectors := bt_insert i c' (co_collectors h)\<rparr>"
    obtain k1 done1 m1 where loop: "apply_digit_loop event now ids (bt_insert i c' (co_collectors h)) = ((k1, done1), m1)"
      by (cases "apply_digit_loop event now ids (bt_insert i c' (co_collectors h))") auto
    have cw: "collector_wf c"
      using host_upto_get(3) [OF Cons.prems(1) Some] Cons.prems(3) by (simp add: collector_good_def)
    define P' where "P' = P(i := digit_finish event now c)"
    have step: "keeps P P' h ?h"
      using apply_digit_good [OF cw ap] apply_digit_frame [OF ap]
      by (intro replace_keeps [OF Some, where c' = c']) (auto simp: collector_good_def ready_weight_def P'_def)
    then have "host_upto P' ?h" using Cons.prems(1) by (simp add: keeps_def)
    moreover have "\<forall>j \<in> set ids. P' j = None" using Cons.prems(2,3) by (auto simp: P'_def)
    ultimately have rest: "keeps P' (P' ++ finishing_of done1) ?h (?h\<lparr>co_collectors := m1\<rparr>)"
      "distinct (map fst done1)" "fst ` set done1 \<subseteq> set ids"
      using Cons.IH [of P' ?h k1 done1 m1] Cons.prems(2) loop by auto
    have out: "m = m1" "completed = (case digit_finish event now c of Some (code, r) \<Rightarrow> (i, code, r) # done1 | None \<Rightarrow> done1)"
      using Cons.prems(4) Some ap loop by (auto simp: digit_finish_def split: DigitCollectorInput.splits)
    have notin: "i \<notin> fst ` set done1" using rest(3) Cons.prems(2) by auto
    then have fresh: "map_of done1 i = None" by (simp add: map_of_eq_None_iff)
    have "P ++ finishing_of completed = P' ++ finishing_of done1"
      using out(2) Cons.prems(3) fresh
      by (auto simp: finishing_of_def map_add_def fun_eq_iff P'_def split: option.splits)
    then have "keeps P (P ++ finishing_of completed) h (h\<lparr>co_collectors := m\<rparr>)"
      using keeps_trans [OF step rest(1)] out(1) by simp
    then show ?thesis using rest(2,3) notin out(2) by (auto split: option.splits)
  qed
qed (simp add: finishing_of_def)

lemma finish_completed_keeps:
  assumes "distinct (map fst completed)"
  shows "keeps (finishing_of completed) (\<lambda>_. None) h (finish_completed completed h)"
  using assms
proof (induction completed arbitrary: h)
  case (Cons p completed)
  obtain i code reason where p: "p = (i, code, reason)" by (cases p) auto
  have get: "finishing_of (p # completed) i = Some (code, reason)" by (simp add: finishing_of_def p)
  have "keeps (finishing_of (p # completed)) ((finishing_of (p # completed))(i := None)) h
      (finish_digit_collection i code reason h)"
    using get by (intro finish_keeps) (auto simp: collector_good_def dest!: host_upto_get(3))
  moreover have "map_of completed i = None" using Cons.prems by (simp add: p map_of_eq_None_iff)
  then have "(finishing_of (p # completed))(i := None) = finishing_of completed"
    by (auto simp: finishing_of_def p fun_eq_iff)
  ultimately have "keeps (finishing_of (p # completed)) (finishing_of completed) h (finish_digit_collection i code reason h)"
    by simp
  from keeps_trans [OF this Cons.IH] Cons.prems show ?case by (simp add: p)
qed (simp add: finishing_of_def)

lemma digit_keeps: "keeps (\<lambda>_. None) (\<lambda>_. None) h (snd (collect_digit now event h))"
proof (cases "host_wf h")
  case True
  obtain k completed m where ap: "apply_digit_to_collectors event now (co_collectors h) = ((k, completed), m)"
    by (cases "apply_digit_to_collectors event now (co_collectors h)") auto
  have "distinct (bt_keys (co_collectors h))" using True by (simp add: host_upto_def bt.distinct_keys)
  then have "keeps (\<lambda>_. None) (finishing_of completed) h (h\<lparr>co_collectors := m\<rparr>)" "distinct (map fst completed)"
    using apply_digit_loop_keeps [OF True _ _ ap [unfolded apply_digit_to_collectors_def]] by auto
  then show ?thesis
    using keeps_trans finish_completed_keeps schedule_keeps' by (fastforce simp: collect_digit_def ap)
qed (simp add: keeps_def)

section \<open>Runs\<close>

datatype host_input =
    StartCollection DigitCollectionSpec
  | CancelCollection CollectorId
  | CapabilityAcquired Instant string "(DtmfCapabilityReady, string) outcome"
  | CapabilityReleased string "(u64, string) outcome"
  | DigitArrives Instant DigitEvent
  | CollectorTimeout u64 CollectorId DigitCollectorDeadline
  | AbortCollections string
  | WorkerReceives
  | WorkerStops
  | CallChanges bool bool SessionId SessionId u64

fun host_step :: "CollectorHost \<Rightarrow> host_input \<Rightarrow> CollectorHost" where
  "host_step h (StartCollection spec) = start_digit_collection spec h"
| "host_step h (CancelCollection i) = snd (cancel_digit_collection i h)"
| "host_step h (CapabilityAcquired now a r) = handle_dtmf_capability_acquired now a r h"
| "host_step h (CapabilityReleased a r) = handle_dtmf_capability_released a r h"
| "host_step h (DigitArrives now e) = snd (collect_digit now e h)"
| "host_step h (CollectorTimeout g i d) = handle_digit_collector_timeout g i d h"
| "host_step h (AbortCollections reason) = abort_digit_collection reason h"
| "host_step h WorkerReceives = h\<lparr>co_media_tx := snd (chan_recv (co_media_tx h))\<rparr>"
| "host_step h WorkerStops = h\<lparr>co_media_tx := drop_receiver (co_media_tx h)\<rparr>"
| "host_step h (CallChanges answered terminating caller callee generation) =
     h\<lparr>co_answered := answered, co_terminating := terminating, co_caller_session_id := caller,
       co_callee_session_id := callee, co_media_generation := generation\<rparr>"

fun is_start :: "host_input \<Rightarrow> bool" where
  "is_start (StartCollection _) = True"
| "is_start _ = False"

lemma host_step_keeps: "\<not> is_start e \<Longrightarrow> keeps (\<lambda>_. None) (\<lambda>_. None) h (host_step h e)"
  by (cases e) (simp_all add: cancel_keeps acquired_keeps released_keeps digit_keeps timeout_keeps abort_keeps
      keeps_same)

lemma host_step_tally:
  assumes "host_wf h"
  shows "host_wf (host_step h e) \<and>
    result_tally (host_step h e) = result_tally h + (if is_start e then 1 else 0) \<and>
    ready_tally (host_step h e) = ready_tally h + (if is_start e then 1 else 0)"
proof (cases "is_start e")
  case True
  then show ?thesis using start_tally [OF assms] by (cases e) auto
next
  case False
  then show ?thesis using host_step_keeps [OF False, of h] assms by (simp add: keeps_def)
qed

interpretation collector_machine: invariant_machine host_step host_wf
  by unfold_locales (simp add: host_step_tally)

lemma host_run_tally:
  assumes "host_wf h"
  shows "result_tally (foldl host_step h es) = result_tally h + length (filter is_start es) \<and>
    ready_tally (foldl host_step h es) = ready_tally h + length (filter is_start es)"
proof (induction es rule: rev_induct)
  case (snoc e es)
  then show ?case using host_step_tally [OF collector_machine.run_inv [OF assms], of es e] by simp
qed simp

definition fresh_host :: "CallId \<Rightarrow> SessionId \<Rightarrow> SessionId \<Rightarrow> u64 \<Rightarrow> CollectorHost" where
  "fresh_host call_id caller callee generation =
     \<lparr> co_collectors = [], co_timer_generation = 0, co_timer = None, co_media_generation = generation,
       co_media_tx = channel MEDIA_ACTION_QUEUE_CAPACITY, co_replies = [], co_call_id = call_id,
       co_caller_session_id = caller, co_callee_session_id = callee, co_answered = True, co_terminating = False \<rparr>"

lemma fresh_host_wf [simp]: "host_wf (fresh_host c x y g)"
  by (simp add: host_upto_def fresh_host_def)

lemma sum_ready: "bt_sum ready_weight m = length (filter (\<lambda>(i, c). col_ready_reply c) m)"
  by (induction m) (auto simp: bt_sum_def ready_weight_def)


text \<open>C29: the digits a collector holds are allowed digits and no terminators, at most as many as its
  specification permits; when it waits to report a completed collection it has at least the
  required number, and the report carries exactly these digits.\<close>

theorem collected_digits_valid:
  assumes "bt_get (co_collectors (foldl host_step (fresh_host call_id caller callee generation) inputs)) i = Some c"
  shows "set (col_digits c) \<subseteq> sp_allowed (col_spec c) - sp_terminators (col_spec c) \<and>
    length (col_digits c) \<le> sp_max_digits (col_spec c) \<and> sp_collector_id (col_spec c) = i \<and>
    (\<forall>r. col_pending_outcome c = Some r \<longrightarrow> dco_digits r = col_digits c \<and>
       (dco_code r = DigitCollectionResultCode.Completed \<longrightarrow> sp_min_digits (col_spec c) \<le> length (dco_digits r)))"
proof -
  have wf: "host_wf (foldl host_step (fresh_host call_id caller callee generation) inputs)"
    by (rule collector_machine.run_inv) simp
  have cw: "collector_wf c" using host_upto_get(3) [OF wf assms] by (simp add: collector_good_def)
  then have "\<forall>r. col_pending_outcome c = Some r \<longrightarrow> dco_digits r = col_digits c \<and>
       (dco_code r = DigitCollectionResultCode.Completed \<longrightarrow> sp_min_digits (col_spec c) \<le> length (dco_digits r))"
    by (auto simp: collector_wf_def split: DigitCollectorPhase.splits)
  then show ?thesis using collector_wfD [OF cw] host_upto_get(4) [OF wf assms] by blast
qed

definition one_digit_spec :: DigitCollectionSpec where
  "one_digit_spec =
     \<lparr> sp_collector_id = ''pin'', sp_owner = ''ivr'', sp_source_session_id = ''a'', sp_mode = CollectDigits,
       sp_allowed = {D1, D2}, sp_min_digits = 1, sp_max_digits = 4, sp_terminators = {Pound},
       sp_first_digit_timeout = 5, sp_inter_digit_timeout = 3, sp_overall_timeout = 9 \<rparr>"

definition one_digit_event :: "DtmfDigit \<Rightarrow> DigitEvent" where
  "one_digit_event d =
     \<lparr> de_event_id = SipInfoId 1 ''a'' 1, de_domain_id = ''d'', de_call_id = ''c'', de_source_session_id = ''a'',
       de_source_media_leg_id = None, de_digit = d, de_transport = SipInfoDtmf, de_duration_ms = 100,
       de_observed_at_ms = 0, de_source_generation = Dialog 1, de_incomplete_end = False \<rparr>"

definition one_digit_inputs :: "host_input list" where
  "one_digit_inputs =
     [StartCollection one_digit_spec,
      CapabilityAcquired 1 ''acquire-dtmf-collector-c-pin''
        (Ok \<lparr> cr_lease_id = ''dtmf-collector-c-pin'', cr_source_session_id = ''a'', cr_mode = Collect,
              cr_media_generation = 1 \<rparr>),
      DigitArrives 2 (one_digit_event D2)]"

lemma one_digit_run:
  "bt_get (co_collectors (foldl host_step (fresh_host ''c'' ''a'' ''b'' 1) one_digit_inputs)) ''pin'' =
     Some ((collector_new one_digit_spec ''dtmf-collector-c-pin'' ''acquire-dtmf-collector-c-pin''
             ''release-dtmf-collector-c-pin'')
       \<lparr>col_phase := ActivePhase, col_ready_reply := False, col_digits := [D2],
        col_inter_deadline := Some 5, col_overall_deadline := Some 10\<rparr>)"
  by code_simp

theorem collected_digits_valid_witness:
  "set [D2] \<subseteq> {D1, D2} - {Pound} \<and> length [D2] \<le> 4"
  using collected_digits_valid [OF one_digit_run] by (simp add: one_digit_spec_def collector_new_def)

end
