(* ===== verification/Collector_Timers.thy ===== *)
theory Collector_Timers
  imports Collector_Invariants
begin

text \<open>
  The single timer of the collectors: after every handler it is armed for the earliest deadline of
  the active collectors, under the current timer generation, so that no active collector can be
  forgotten.
\<close>

lemma min_by_key_None_iff [simp]: "min_by_key f xs = None \<longleftrightarrow> xs = []"
  by (cases xs) (auto split: option.splits)

lemma min_by_key_SomeD:
  assumes "min_by_key f xs = Some x"
  shows "x \<in> set xs \<and> (\<forall>y \<in> set xs. f x \<le> f y)"
  using assms
proof (induction xs arbitrary: x)
  case (Cons a xs)
  show ?case
  proof (cases "min_by_key f xs")
    case None
    then show ?thesis using Cons.prems by auto
  next
    case (Some y)
    then show ?thesis using Cons.prems Cons.IH [OF Some] by (auto split: if_splits)
  qed
qed simp

section \<open>The earliest deadline of a map of collectors\<close>

definition entry_deadline ::
    "CollectorId \<times> DigitCollectorState \<Rightarrow> (Instant \<times> CollectorId \<times> DigitCollectorDeadline) list" where
  "entry_deadline p =
     (case p of (i, c) \<Rightarrow> case collector_next_deadline c of Some (t, d) \<Rightarrow> [(t, i, d)] | None \<Rightarrow> [])"

lemma next_deadline_entries:
  "next_digit_collector_deadline m = min_by_key fst (concat (map entry_deadline m))"
  by (simp add: next_digit_collector_deadline_def entry_deadline_def [abs_def])

lemma entry_deadlineD:
  assumes "(t, i, d) \<in> set (entry_deadline p)"
  shows "fst p = i \<and> (t, d) \<in> set (collector_deadlines (snd p))"
proof -
  obtain c where p: "p = (i, c)" and n: "collector_next_deadline c = Some (t, d)"
    using assms by (cases p) (auto simp: entry_deadline_def split: option.splits)
  from min_by_key_SomeD [OF n [unfolded collector_next_deadline_def]] show ?thesis by (simp add: p)
qed

lemma insert_without_deadline:
  assumes "collector_deadlines c = []"
    and "\<And>c0. (i, c0) \<in> set m \<Longrightarrow> collector_deadlines c0 = []"
  shows "concat (map entry_deadline (bt_insert i c m)) = concat (map entry_deadline m)"
proof -
  have no: "entry_deadline (i, c) = []" using assms(1) by (simp add: entry_deadline_def collector_next_deadline_def)
  show ?thesis
    using assms(2)
  proof (induction m)
    case (Cons p m)
    then show ?case
      using no by (cases p) (auto simp: entry_deadline_def collector_next_deadline_def)
  qed (simp add: no)
qed

definition timer_ok :: "CollectorHost \<Rightarrow> bool" where
  "timer_ok h \<longleftrightarrow>
     co_timer h =
       map_option (\<lambda>(t, i, d). \<lparr> ts_generation = co_timer_generation h, ts_collector_id = i, ts_deadline = d, ts_at = t \<rparr>)
         (next_digit_collector_deadline (co_collectors h))"

lemma schedule_timer_ok [simp]: "timer_ok (schedule_digit_collector_timer h)"
  by (simp add: timer_ok_def schedule_digit_collector_timer_def Let_def)

lemma timer_ok_same:
  assumes "timer_ok h" and "co_timer h' = co_timer h" and "co_timer_generation h' = co_timer_generation h"
    and "concat (map entry_deadline (co_collectors h')) = concat (map entry_deadline (co_collectors h))"
  shows "timer_ok h'"
  using assms by (simp add: timer_ok_def next_deadline_entries)

lemma put_without_deadline:
  assumes "timer_ok h" and "collector_deadlines c = []" and "bt_wf (co_collectors h)"
    and "\<And>c0. bt_get (co_collectors h) i = Some c0 \<Longrightarrow> collector_deadlines c0 = []"
  shows "timer_ok (put_collector i c h)"
proof (rule timer_ok_same [OF assms(1)])
  have "collector_deadlines c0 = []" if "(i, c0) \<in> set (co_collectors h)" for c0
    using that assms(3,4) bt_wf_distinct [OF assms(3)] by (simp add: bt_get_def)
  then show "concat (map entry_deadline (co_collectors (put_collector i c h))) =
      concat (map entry_deadline (co_collectors h))"
    by (simp add: put_collector_def insert_without_deadline [OF assms(2)])
qed (simp_all add: put_collector_def)

lemma reply_timer_ok [simp]: "timer_ok (reply r h) = timer_ok h"
  by (simp add: timer_ok_def reply_def)

lemma submit_timer_ok:
  assumes "submit_media_action a h = (r, h')"
  shows "timer_ok h' = timer_ok h"
  by (simp add: timer_ok_def submit_frame [OF assms])

lemma fail_start_timer_ok:
  "timer_ok h \<Longrightarrow> timer_ok (fail_digit_collection_start i error h)"
  by (auto simp: fail_digit_collection_start_def Let_def split: option.splits)

lemma released_timer_ok:
  "timer_ok h \<Longrightarrow> timer_ok (handle_dtmf_capability_released a r h)"
  by (auto simp: handle_dtmf_capability_released_def Let_def split: option.splits)

lemma finish_timer_ok:
  "timer_ok h \<Longrightarrow> timer_ok (finish_digit_collection i code reason h)"
  by (auto simp: finish_digit_collection_def split: option.splits prod.splits outcome.splits)

lemma finish_active_timer_ok:
  "bt_get (co_collectors h) i = Some c \<Longrightarrow> col_phase c = ActivePhase \<Longrightarrow>
     timer_ok (finish_digit_collection i code reason h)"
  by (auto simp: finish_digit_collection_def split: option.splits prod.splits outcome.splits)

lemma cancel_timer_ok:
  assumes "host_wf h" and "timer_ok h"
  shows "timer_ok (snd (cancel_digit_collection i h))"
proof (cases "bt_get (co_collectors h) i")
  case (Some c)
  have bt: "bt_wf (co_collectors h)" using assms(1) by (simp add: host_upto_def)
  have cw: "collector_wf c" using host_upto_get(3) [OF assms(1) Some] by (simp add: collector_good_def)
  have same: "put_collector i c h = h" using bt Some by (simp add: put_collector_def bt.put_get_id)
  show ?thesis
  proof (cases "col_phase c")
    case AcquiringPhase
    then have none: "collector_deadlines c = []" using cw by (simp add: collector_wf_def)
    have "timer_ok (put_collector i c' h)" if "collector_deadlines c' = []" for c'
      using Some none by (intro put_without_deadline [OF assms(2) that bt]) simp
    then show ?thesis
      using Some AcquiringPhase none
      by (simp add: cancel_digit_collection_def request_cancel_def collector_deadlines_def)
  qed (use Some same assms(2) finish_timer_ok in \<open>simp_all add: cancel_digit_collection_def request_cancel_def\<close>)
qed (simp add: cancel_digit_collection_def assms(2))

lemma acquired_timer_ok:
  assumes "timer_ok h"
  shows "timer_ok (handle_dtmf_capability_acquired now a res h)"
proof (cases "find (\<lambda>(_, c). col_phase c = AcquiringPhase \<and> col_acquire_action_id c = a) (co_collectors h)")
  case (Some p)
  then show ?thesis
    using assms by (cases p) (auto simp: handle_dtmf_capability_acquired_def Let_def put_collector_def bt.get_put
        intro: fail_start_timer_ok finish_active_timer_ok split: outcome.splits)
qed (simp add: handle_dtmf_capability_acquired_def assms)

lemma start_timer_ok:
  assumes "host_wf h" and "timer_ok h"
  shows "timer_ok (start_digit_collection spec h)"
proof -
  have bt: "bt_wf (co_collectors h)" using assms(1) by (simp add: host_upto_def)
  have "timer_ok (put_collector (sp_collector_id spec) (collector_new spec l a r) h)"
    if "validate_digit_collector_registration (co_collectors h) spec = Ok ()" for l a r
    using that by (intro put_without_deadline [OF assms(2) _ bt])
      (auto simp: collector_new_def collector_deadlines_def validate_digit_collector_registration_def
        bt_contains_key_def split: if_splits)
  moreover have "timer_ok (case submit_media_action a h1 of
      (Err error, h2) \<Rightarrow> fail_digit_collection_start i error h2 | (_, h2) \<Rightarrow> h2)" if "timer_ok h1" for a i h1
    using that submit_timer_ok fail_start_timer_ok by (fastforce split: outcome.splits prod.splits)
  ultimately show ?thesis
    unfolding start_digit_collection_def Let_def
    by (cases "validate_spec spec"; cases "validate_digit_collector_registration (co_collectors h) spec")
      (simp_all add: assms(2))
qed

lemma abort_fold_timer:
  "co_timer (fold (abort_collector reason) cs h) = co_timer h \<and>
   co_collectors (fold (abort_collector reason) cs h) = co_collectors h"
proof (induction cs arbitrary: h)
  case (Cons c cs)
  have "co_timer (abort_collector reason c h) = co_timer h \<and>
      co_collectors (abort_collector reason c h) = co_collectors h"
    by (auto simp: abort_collector_def Let_def reply_def submit_media_action_def try_send_def)
  then show ?case using Cons by simp
qed simp

lemma host_step_timer_ok:
  assumes "host_wf h" and "timer_ok h"
  shows "timer_ok (host_step h e)"
proof (cases e)
  case (DigitArrives now d)
  then show ?thesis by (simp add: collect_digit_def split: prod.splits)
next
  case (AbortCollections reason)
  then show ?thesis
    by (simp add: abort_digit_collection_def Let_def timer_ok_def abort_fold_timer next_digit_collector_deadline_def)
qed (use assms in \<open>simp_all add: start_timer_ok cancel_timer_ok acquired_timer_ok released_timer_ok
      handle_digit_collector_timeout_def\<close>, simp_all add: timer_ok_def)

interpretation timer_machine: invariant_machine host_step "\<lambda>h. host_wf h \<and> timer_ok h"
  by unfold_locales (simp add: host_step_timer_ok host_step_tally)

lemma fresh_timer_ok [simp]: "timer_ok (fresh_host c x y g)"
  by (simp add: timer_ok_def fresh_host_def next_digit_collector_deadline_def)

lemma collector_deadline_set:
  "set (collector_deadlines c) =
     {(t, d). col_first_deadline c = Some t \<and> d = FirstDigit \<or> col_inter_deadline c = Some t \<and> d = InterDigit \<or>
              col_overall_deadline c = Some t \<and> d = Overall}"
  by (auto simp: collector_deadlines_def split: option.splits)

text \<open>C28: in every run, as long as a collector is active the timer is armed under the current
  generation, for a deadline of a collector of the call, and no deadline of any collector lies
  before it; the active collector's overall deadline is one of these, so it is never forgotten.\<close>

theorem active_collector_has_timer:
  assumes "h = foldl host_step (fresh_host call_id caller callee generation) inputs"
    and "bt_get (co_collectors h) i = Some c" and "col_phase c = ActivePhase"
  shows "\<exists>slot overall. co_timer h = Some slot \<and> ts_generation slot = co_timer_generation h \<and>
    (\<exists>c'. bt_get (co_collectors h) (ts_collector_id slot) = Some c' \<and>
          (ts_at slot, ts_deadline slot) \<in> set (collector_deadlines c')) \<and>
    (\<forall>j c'. bt_get (co_collectors h) j = Some c' \<longrightarrow>
       (\<forall>(t, d) \<in> set (collector_deadlines c'). ts_at slot \<le> t)) \<and>
    col_overall_deadline c = Some overall \<and> ts_at slot \<le> overall"
proof -
  have "host_wf h \<and> timer_ok h" unfolding assms(1) by (rule timer_machine.run_inv) simp
  then have wf: "host_wf h" and ok: "timer_ok h" by auto
  have bt: "bt_wf (co_collectors h)" using wf by (simp add: host_upto_def)
  have mem: "(j, c') \<in> set (co_collectors h) \<longleftrightarrow> bt_get (co_collectors h) j = Some c'" for j c'
    using bt_wf_distinct [OF bt] by (simp add: bt_get_def)
  have "collector_wf c" using host_upto_get(3) [OF wf assms(2)] by (simp add: collector_good_def)
  then obtain overall where ov: "col_overall_deadline c = Some overall" using assms(3) by (auto simp: collector_wf_def)
  let ?es = "concat (map entry_deadline (co_collectors h))"
  have below: "\<exists>t' d'. (t', j, d') \<in> set ?es \<and> t' \<le> t \<and> (t', d') \<in> set (collector_deadlines c')"
    if get: "bt_get (co_collectors h) j = Some c'" and td: "(t, d) \<in> set (collector_deadlines c')" for j c' t d
  proof -
    obtain t' d' where n: "collector_next_deadline c' = Some (t', d')"
      using td by (cases "collector_next_deadline c'") (auto simp: collector_next_deadline_def)
    have "(t', d') \<in> set (collector_deadlines c') \<and> t' \<le> t"
      using min_by_key_SomeD [OF n [unfolded collector_next_deadline_def]] td by fastforce
    moreover have "(t', j, d') \<in> set ?es" using get n mem by (auto simp: entry_deadline_def intro!: bexI [of _ "(j, c')"])
    ultimately show ?thesis by blast
  qed
  obtain t0 d0 where "(t0, i, d0) \<in> set ?es"
    using below [OF assms(2), of overall Overall] ov by (auto simp: collector_deadline_set)
  then have "?es \<noteq> []" by (metis empty_iff list.set(1))
  then obtain t i' d where m: "min_by_key fst ?es = Some (t, i', d)"
    by (cases "min_by_key fst ?es") auto
  note least = min_by_key_SomeD [OF m]
  let ?slot = "\<lparr> ts_generation = co_timer_generation h, ts_collector_id = i', ts_deadline = d, ts_at = t \<rparr>"
  have slot: "co_timer h = Some ?slot" using ok m by (simp add: timer_ok_def next_deadline_entries)
  have own: "\<exists>c'. bt_get (co_collectors h) i' = Some c' \<and> (t, d) \<in> set (collector_deadlines c')"
    using least mem by (auto dest!: entry_deadlineD)
  have all: "t \<le> t'" if "bt_get (co_collectors h) j = Some c'" "(t', d') \<in> set (collector_deadlines c')" for j c' t' d'
    using below [OF that] least by fastforce
  then have "t \<le> overall" using assms(2) ov by (auto simp: collector_deadline_set)
  then show ?thesis using slot own all ov by (intro exI [of _ ?slot] exI [of _ overall]) auto
qed

theorem active_collector_has_timer_witness:
  "\<exists>slot. co_timer (foldl host_step (fresh_host ''c'' ''a'' ''b'' 1) one_digit_inputs) = Some slot \<and> ts_at slot \<le> 10"
  using active_collector_has_timer [OF refl one_digit_run] by (auto simp: collector_new_def)

end
