(* ===== verification/Texts.thy ===== *)
theory Texts
  imports Call_Types Decimal
begin

text \<open>
  Functions of Rust's \<open>str\<close> the sources use.  A string is the list of its UTF-8 bytes; \<open>chars\<close> cuts it
  into the encodings of its characters.
\<close>

fun chars :: "string \<Rightarrow> string list" where
  "chars [] = []"
| "chars (c # cs) = (c # take (utf8_width c - 1) cs) # chars (drop (utf8_width c - 1) cs)"

lemma concat_chars [simp]: "concat (chars s) = s"
  by (induction s rule: chars.induct) simp_all

definition is_whitespace :: "string \<Rightarrow> bool" where
  "is_whitespace ch \<longleftrightarrow>
     (case map of_char ch :: nat list of
        [a] \<Rightarrow> 9 \<le> a \<and> a \<le> 13 \<or> a = 32
      | [a, b] \<Rightarrow> a = 0xC2 \<and> (b = 0x85 \<or> b = 0xA0)
      | [a, b, c] \<Rightarrow>
          a = 0xE1 \<and> b = 0x9A \<and> c = 0x80 \<or>
          a = 0xE2 \<and> b = 0x80 \<and> (0x80 \<le> c \<and> c \<le> 0x8A \<or> c = 0xA8 \<or> c = 0xA9 \<or> c = 0xAF) \<or>
          a = 0xE2 \<and> b = 0x81 \<and> c = 0x9F \<or> a = 0xE3 \<and> b = 0x80 \<and> c = 0x80
      | _ \<Rightarrow> False)"

definition trim :: "string \<Rightarrow> string" where
  "trim s = concat (rev (dropWhile is_whitespace (rev (dropWhile is_whitespace (chars s)))))"

definition trim_is_empty :: "string \<Rightarrow> bool" where
  "trim_is_empty s \<longleftrightarrow> trim s = []"

fun strip_prefix :: "string \<Rightarrow> string \<Rightarrow> string option" where
  "strip_prefix [] s = Some s"
| "strip_prefix (c # p) [] = None"
| "strip_prefix (c # p) (d # s) = (if c = d then strip_prefix p s else None)"

definition starts_with :: "string \<Rightarrow> string \<Rightarrow> bool" where
  "starts_with p s \<longleftrightarrow> strip_prefix p s \<noteq> None"

text \<open>\<open>split_once\<close> with an ASCII character.\<close>

fun split_once :: "char \<Rightarrow> string \<Rightarrow> (string \<times> string) option" where
  "split_once sep [] = None"
| "split_once sep (c # s) =
     (if c = sep then Some ([], s) else map_option (\<lambda>(a, b). (c # a, b)) (split_once sep s))"

section \<open>Laws\<close>

lemma strip_prefix_Some: "strip_prefix p s = Some r \<longleftrightarrow> s = p @ r"
  by (induction p s rule: strip_prefix.induct) auto

lemma strip_prefix_append [simp]: "strip_prefix p (p @ r) = Some r"
  by (simp add: strip_prefix_Some)

lemma split_once_Some: "split_once sep s = Some (a, b) \<longleftrightarrow> s = a @ sep # b \<and> sep \<notin> set a"
proof (induction s arbitrary: a)
  case (Cons c s)
  then show ?case by (cases a) auto
qed simp

lemma split_once_None: "split_once sep s = None \<longleftrightarrow> sep \<notin> set s"
  by (induction s) auto

lemma split_once_first: "sep \<notin> set a \<Longrightarrow> split_once sep (a @ sep # b) = Some (a, b)"
  by (simp add: split_once_Some)

lemma all_dropWhile: "(\<forall>x\<in>set (dropWhile P xs). P x) \<longleftrightarrow> (\<forall>x\<in>set xs. P x)"
  by (induction xs) auto

lemma trim_is_empty_iff: "trim_is_empty s \<longleftrightarrow> list_all is_whitespace (chars s)"
proof -
  let ?kept = "dropWhile is_whitespace (rev (dropWhile is_whitespace (chars s)))"
  have "[] \<notin> set (chars s)" by (induction s rule: chars.induct) auto
  then have "[] \<notin> set ?kept" by (metis set_dropWhileD set_rev)
  moreover have "concat (rev xs) = [] \<longleftrightarrow> xs = []" if "[] \<notin> set xs" for xs :: "string list"
    using that by (cases xs) auto
  ultimately have "trim s = [] \<longleftrightarrow> ?kept = []" unfolding trim_def by blast
  also have "\<dots> \<longleftrightarrow> list_all is_whitespace (chars s)"
    by (simp add: dropWhile_eq_Nil_conv all_dropWhile list_all_iff)
  finally show ?thesis by (simp add: trim_is_empty_def)
qed

lemma chars_ascii: "list_all (\<lambda>c. (of_char c :: nat) < 128) s \<Longrightarrow> chars s = map (\<lambda>c. [c]) s"
  by (induction s) (simp_all add: utf8_width_def)

lemma trim_ascii:
  assumes "list_all (\<lambda>c. (of_char c :: nat) < 128) s" and "\<not> is_whitespace [hd s]" and "\<not> is_whitespace [last s]"
  shows "trim s = s"
proof (cases "s = []")
  case False
  have c: "chars s = map (\<lambda>c. [c]) s" by (rule chars_ascii [OF assms(1)])
  have "dropWhile is_whitespace (chars s) = chars s"
    using False assms(2) by (simp add: c dropWhile_eq_self_iff hd_map)
  moreover have "dropWhile is_whitespace (rev (chars s)) = rev (chars s)"
    using False assms(3) by (simp add: c dropWhile_eq_self_iff hd_rev last_map)
  ultimately show ?thesis by (simp add: trim_def)
qed (simp add: trim_def)

end
