(* ===== verification/Weakest_Pre.thy ===== *)
theory Weakest_Pre
  imports Prelude
begin

text \<open>
  Weakest preconditions of stateful operations.  \<open>wp m Q E s\<close> says that \<open>m\<close>, run in \<open>s\<close>, does not panic,
  ends in \<open>Q\<close> with its result when it succeeds and in \<open>E\<close> with its error when it fails; the handlers of
  the call actor are verified by computing it backwards through their bodies.
\<close>

section \<open>Bodies of handlers\<close>

text \<open>A body as a list of steps, reading the state, failing, and handling or renaming an error.\<close>

fun steps :: "('s, unit, 'e) stateful list \<Rightarrow> ('s, unit, 'e) stateful" where
  "steps [] = return_st ()"
| "steps (m # ms) = seq_st m (steps ms)"

definition read_st :: "('s \<Rightarrow> ('s, 'a, 'e) stateful) \<Rightarrow> ('s, 'a, 'e) stateful" where
  "read_st f s = f s s"

definition fail_st :: "'e \<Rightarrow> ('s, 'a, 'e) stateful" where
  "fail_st e s = (Err e, s)"

definition when_st :: "('s \<Rightarrow> bool) \<Rightarrow> ('s, unit, 'e) stateful \<Rightarrow> ('s, unit, 'e) stateful" where
  "when_st P m s = (if P s then m s else (Ok (), s))"

definition catch_st :: "('s, 'a, 'e) stateful \<Rightarrow> ('e \<Rightarrow> ('s, 'a, 'f) stateful) \<Rightarrow> ('s, 'a, 'f) stateful" where
  "catch_st m h s = (case m s of (Ok x, t) \<Rightarrow> (Ok x, t) | (Err e, t) \<Rightarrow> h e t | (Panic, t) \<Rightarrow> (Panic, t))"

definition lift_err :: "('e \<Rightarrow> 'f) \<Rightarrow> ('s, 'a, 'e) stateful \<Rightarrow> ('s, 'a, 'f) stateful" where
  "lift_err g m s = (case m s of (r, t) \<Rightarrow> (map_err g r, t))"

definition of_outcome :: "('a, 'e) outcome \<Rightarrow> ('s, 'a, 'e) stateful" where
  "of_outcome r s = (r, s)"

section \<open>Weakest preconditions\<close>

definition wp :: "('s, 'a, 'e) stateful \<Rightarrow> ('a \<Rightarrow> 's \<Rightarrow> bool) \<Rightarrow> ('e \<Rightarrow> 's \<Rightarrow> bool) \<Rightarrow> 's \<Rightarrow> bool" where
  "wp m Q E s \<longleftrightarrow> (case m s of (Ok x, t) \<Rightarrow> Q x t | (Err e, t) \<Rightarrow> E e t | (Panic, _) \<Rightarrow> False)"

named_theorems wp_simps "equations that compute a weakest precondition"

lemma wp_bind [wp_simps]: "wp (bind_st m f) Q E s \<longleftrightarrow> wp m (\<lambda>x. wp (f x) Q E) E s"
  by (auto simp: wp_def bind_st_def split: prod.splits outcome.splits)

lemma wp_seq [wp_simps]: "wp (seq_st m n) Q E s \<longleftrightarrow> wp m (\<lambda>_. wp n Q E) E s"
  by (simp add: seq_st_def wp_bind)

lemma wp_return [wp_simps]: "wp (return_st x) Q E s \<longleftrightarrow> Q x s"
  by (simp add: wp_def)

lemma wp_modify [wp_simps]: "wp (modify_st f) Q E s \<longleftrightarrow> Q () (f s)"
  by (simp add: wp_def)

lemma wp_steps_Nil [wp_simps]: "wp (steps []) Q E s \<longleftrightarrow> Q () s"
  by (simp add: wp_return)

lemma wp_steps_Cons [wp_simps]: "wp (steps (m # ms)) Q E s \<longleftrightarrow> wp m (\<lambda>_. wp (steps ms) Q E) E s"
  by (simp add: wp_seq)

lemma wp_read [wp_simps]: "wp (read_st f) Q E s \<longleftrightarrow> wp (f s) Q E s"
  by (simp add: wp_def read_st_def)

lemma wp_fail [wp_simps]: "wp (fail_st e) Q E s \<longleftrightarrow> E e s"
  by (simp add: wp_def fail_st_def)

lemma wp_when [wp_simps]: "wp (when_st P m) Q E s \<longleftrightarrow> (if P s then wp m Q E s else Q () s)"
  by (simp add: wp_def when_st_def)

lemma wp_catch [wp_simps]: "wp (catch_st m h) Q E s \<longleftrightarrow> wp m Q (\<lambda>e. wp (h e) Q E) s"
  by (auto simp: wp_def catch_st_def split: prod.splits outcome.splits)

lemma wp_lift_err [wp_simps]: "wp (lift_err g m) Q E s \<longleftrightarrow> wp m Q (\<lambda>e. E (g e)) s"
  by (auto simp: wp_def lift_err_def split: prod.splits outcome.splits)

lemma wp_of_outcome [wp_simps]:
  "wp (of_outcome r) Q E s \<longleftrightarrow> (case r of Ok x \<Rightarrow> Q x s | Err e \<Rightarrow> E e s | Panic \<Rightarrow> False)"
  by (simp add: wp_def of_outcome_def split: outcome.splits)

lemma wp_if [wp_simps]: "wp (if b then m else n) Q E s \<longleftrightarrow> (if b then wp m Q E s else wp n Q E s)"
  by simp

lemma wp_case_option [wp_simps]:
  "wp (case x of None \<Rightarrow> m | Some y \<Rightarrow> f y) Q E s \<longleftrightarrow> (case x of None \<Rightarrow> wp m Q E s | Some y \<Rightarrow> wp (f y) Q E s)"
  by (simp split: option.splits)

lemma wp_let [wp_simps]: "wp (let x = v in m x) Q E s \<longleftrightarrow> (let x = v in wp (m x) Q E s)"
  by (simp add: Let_def)

lemma wp_zoom [wp_simps]:
  "wp (zoom_st get put err m) Q E s \<longleftrightarrow> wp m (\<lambda>x t. Q x (put t s)) (\<lambda>e t. E (err e) (put t s)) (get s)"
  by (auto simp: wp_def zoom_st_def split: prod.splits outcome.splits)

lemma wp_weaken:
  assumes "wp m Q E s" and "\<And>x t. Q x t \<Longrightarrow> Q' x t" and "\<And>e t. E e t \<Longrightarrow> E' e t"
  shows "wp m Q' E' s"
  using assms by (auto simp: wp_def split: prod.splits outcome.splits)

lemma wp_conj:
  assumes "wp m Q E s" and "wp m Q' E' s"
  shows "wp m (\<lambda>x t. Q x t \<and> Q' x t) (\<lambda>e t. E e t \<and> E' e t) s"
  using assms by (auto simp: wp_def split: prod.splits outcome.splits)

lemma wp_Ok: "wp m Q E s \<Longrightarrow> m s = (Ok x, t) \<Longrightarrow> Q x t"
  by (simp add: wp_def)

lemma wp_Err: "wp m Q E s \<Longrightarrow> m s = (Err e, t) \<Longrightarrow> E e t"
  by (simp add: wp_def)

lemma wp_state: "wp m (\<lambda>_. P) (\<lambda>_. P) s \<Longrightarrow> P (snd (m s))"
  by (auto simp: wp_def split: prod.splits outcome.splits)

lemma wp_no_panic: "wp m Q E s \<Longrightarrow> fst (m s) \<noteq> Panic"
  by (auto simp: wp_def split: prod.splits)

end
