(* ===== verification/Call_Events.thy ===== *)
theory Call_Events
  imports Texts Dtmf_Collectors Dtmf_Source Call_Services Wire_Frames Call_Runtime Weakest_Pre
begin

text \<open>
  The messages of the call runtime: what the adapter reports (\<open>crates/voipswitchd/src/runtime/call/event.rs\<close>),
  the actions submitted to it (\<open>action.rs\<close>, \<open>runtime/adapter/writer.rs\<close>, \<open>ipc/runtime.rs\<close>), what an AI agent
  asks for (\<open>crates/ai-protocol/src/control.rs\<close>), the registration of attempts (\<open>attempt.rs\<close>), and the
  messages of the actors' mailboxes (\<open>session.rs\<close>).

  The sending half of a mailbox is its name; a reply channel of a message is left out, what is sent
  through it is an effect of the handler.
\<close>

section \<open>Adapter events (event.rs)\<close>

record CallLegEvent =
  cle_call_id :: "string option"
  cle_session_id :: "string option"
  cle_adapter_call_leg_id :: string
  cle_leg_event_seq :: u64
  cle_status_code :: "u16 option"
  cle_sdp :: "SdpBody option"
  cle_reason :: "int option"

record SipDtmfReceived =
  sdr_domain_id :: string
  sdr_call_id :: string
  sdr_session_id :: string
  sdr_adapter_call_leg_id :: string
  sdr_leg_event_seq :: u64
  sdr_dialog_generation :: u64
  sdr_cseq :: u32
  sdr_digit :: DtmfDigit
  sdr_duration_ms :: u32
  sdr_content_mode :: DtmfTransport
  sdr_observed_at_ms :: u64

definition is_sip_info :: "DtmfTransport \<Rightarrow> bool" where
  "is_sip_info transport \<longleftrightarrow> transport = SipInfoRelay \<or> transport = SipInfoDtmf"

definition into_digit_event :: "SipDtmfReceived \<Rightarrow> DigitEvent option" where
  "into_digit_event e =
     (if \<not> is_sip_info (sdr_content_mode e) then None
      else Some
        \<lparr> de_event_id = SipInfoId (sdr_dialog_generation e) (sdr_session_id e) (sdr_cseq e),
          de_domain_id = sdr_domain_id e, de_call_id = sdr_call_id e, de_source_session_id = sdr_session_id e,
          de_source_media_leg_id = None, de_digit = sdr_digit e, de_transport = sdr_content_mode e,
          de_duration_ms = sdr_duration_ms e, de_observed_at_ms = sdr_observed_at_ms e,
          de_source_generation = Dialog (sdr_dialog_generation e), de_incomplete_end = False \<rparr>)"

record DtmfInfoSendResult =
  dis_call_id :: string
  dis_session_id :: string
  dis_adapter_call_leg_id :: string
  dis_action_id :: string
  dis_generation :: u64
  dis_status_code :: "u16 option"
  dis_reason :: int
  dis_succeeded :: bool

record ActionIdentity =
  aid_call_id :: string
  aid_session_id :: string
  aid_action_kind :: string
  aid_action_id :: string
  aid_generation :: u64

record ActionDeliveryFailed =
  adf_identity :: ActionIdentity
  adf_reason :: string

datatype CallActionAckStatus = AckAccepted | AckRejected | AckDuplicate

record CallActionAck =
  ack_call_id :: string
  ack_session_id :: string
  ack_action_kind :: string
  ack_action_id :: string
  ack_generation :: u64
  ack_status :: CallActionAckStatus
  ack_result :: json

text \<open>\<open>Value::get\<close> with a key and \<open>Value::as_str\<close>.\<close>

fun json_get :: "string \<Rightarrow> json \<Rightarrow> json option" where
  "json_get k (JObj entries) = map_of entries k"
| "json_get k _ = None"

fun as_str :: "json \<Rightarrow> string option" where
  "as_str (JStr s) = Some s"
| "as_str _ = None"

definition json_text :: "string \<Rightarrow> json \<Rightarrow> string option" where
  "json_text k j = Option.bind (json_get k j) as_str"

definition ack_identity :: "CallActionAck \<Rightarrow> ActionIdentity" where
  "ack_identity ack =
     \<lparr> aid_call_id = ack_call_id ack, aid_session_id = ack_session_id ack, aid_action_kind = ack_action_kind ack,
       aid_action_id = ack_action_id ack, aid_generation = ack_generation ack \<rparr>"

definition ack_accepted :: "CallActionAck \<Rightarrow> bool" where
  "ack_accepted ack \<longleftrightarrow>
     (case ack_status ack of
        AckAccepted \<Rightarrow> True
      | AckRejected \<Rightarrow> False
      | AckDuplicate \<Rightarrow> json_text ''original_status'' (ack_result ack) = Some ''accepted'')"

definition ack_adapter_call_leg_id :: "CallActionAck \<Rightarrow> string option" where
  "ack_adapter_call_leg_id ack =
     Option.bind (json_get ''data'' (ack_result ack)) (json_text ''adapter_call_leg_id'')"

text \<open>The reason of a refused action, with the text used when the adapter gives none.\<close>

definition ack_reason :: "string \<Rightarrow> CallActionAck \<Rightarrow> string" where
  "ack_reason fallback ack =
     (case json_text ''message'' (ack_result ack) of
        Some reason \<Rightarrow> reason
      | None \<Rightarrow> (case json_text ''original_status'' (ack_result ack) of Some reason \<Rightarrow> reason | None \<Rightarrow> fallback))"

definition is_call_leg_event :: "string \<Rightarrow> bool" where
  "is_call_leg_event frame_type \<longleftrightarrow>
     frame_type \<in> {''InboundInviteOffered'', ''OutboundProvisional'', ''OutboundAnswered'', ''OutboundFailed'',
                   ''InboundInviteCancelled'', ''DialogDisconnected''}"

section \<open>Agent requests (ai-protocol control.rs)\<close>

record JobRef =
  job_job_id :: string
  job_tenant_id :: string
  job_conversation_id :: string
  job_operation_id :: string
  job_generation :: u64

datatype AgentAction =
    PlayText string string
  | CollectDigitsAction u8 u64
  | TransferToExtension string
  | TransferToBusinessTarget string
  | EndCall string

record ActionRequested =
  areq_conversation :: JobRef
  areq_operation_id :: string
  areq_generation :: u64
  areq_action :: AgentAction
  areq_deadline_at_ms :: u64

record ActionResult =
  ares_conversation :: JobRef
  ares_operation_id :: string
  ares_generation :: u64
  ares_success :: bool
  ares_code :: string
  ares_message :: "string option"

fun validate_agent_action :: "AgentAction \<Rightarrow> (unit, string) outcome" where
  "validate_agent_action (PlayText words voice) =
     (if trim_is_empty words \<or> length words > 16 * 1024 \<or> length voice > 256
      then Err ''invalid PlayText parameters'' else Ok ())"
| "validate_agent_action (CollectDigitsAction max_digits timeout_ms) =
     (if max_digits = 0 \<or> max_digits > 32 \<or> timeout_ms = 0 \<or> timeout_ms > 300000
      then Err ''invalid CollectDigits parameters'' else Ok ())"
| "validate_agent_action (TransferToExtension number) =
     (if number = [] \<or> length number > 32 \<or> \<not> list_all is_digit number
      then Err ''invalid extension number'' else Ok ())"
| "validate_agent_action (TransferToBusinessTarget target) =
     (if target = [] \<or> length target > 256 \<or> list_ex (\<lambda>c. c = CHR 0x0A \<or> c = CHR 0x0D) target
      then Err ''invalid business target'' else Ok ())"
| "validate_agent_action (EndCall reason) =
     (if length reason > 1024 then Err ''end-call reason is too long'' else Ok ())"

definition validate_action_requested :: "ActionRequested \<Rightarrow> (unit, string) outcome" where
  "validate_action_requested r =
     (if job_generation (areq_conversation r) = 0 \<or> areq_generation r = 0
      then Err ''action generation must be greater than zero''
      else if trim_is_empty (areq_operation_id r) then Err ''action operation id must not be empty''
      else if areq_deadline_at_ms r = 0 then Err ''action deadline must be set''
      else validate_agent_action (areq_action r))"

text \<open>The messages the call actor sends to the AI connector.\<close>

datatype AiControlMessage =
    AiActionResult ActionResult
  | AiStopConversation JobRef string

definition operation_id_new :: "string \<Rightarrow> (string, string) outcome" where
  "operation_id_new value =
     (case validate_id value of
        Ok _ \<Rightarrow> Ok value
      | Err IdLength \<Rightarrow> Err ''OperationId must contain 1..=128 bytes''
      | Err IdCharacter \<Rightarrow> Err ''OperationId contains unsupported characters''
      | Panic \<Rightarrow> Panic)"

section \<open>Mailboxes (session.rs)\<close>

record CoordinatorIdentity =
  cid_session_id :: string
  cid_generation :: u64

record CoordinatorHandoffToken =
  hot_call_id :: string
  hot_source_session_id :: string
  hot_target_session_id :: string
  hot_source_generation :: u64
  hot_target_generation :: u64

datatype control_target = CoordinatorMailbox CallId | SessionMailbox SessionId

datatype MediaActionResult =
    SdpPrepared string u64 PrepareSdpPurpose "(SdpBody, string) outcome"
  | AnswerMediaStarted string u64 "string option"
  | DtmfCapabilityAcquired string u64 "(DtmfCapabilityReady, string) outcome"
  | DtmfCapabilityReleased string u64 "(u64, string) outcome"

datatype AttemptRegistrationResult =
    Registered u16 SessionId
  | Rejected u16 SessionId string

datatype ControlMessage =
    LegEvent string CallLegEvent
  | PeerLegEvent string CallLegEvent
  | PeerActionFailed ActionDeliveryFailed
  | ActionFailed ActionDeliveryFailed
  | ActionAck CallActionAck
  | MediaResult MediaActionResult
  | MediaDtmfObserved DigitEvent
  | SipDtmf DigitEvent
  | PeerDigitEvent DigitEvent
  | InfoSendResult DtmfInfoSendResult
  | RegistrationResult AttemptRegistrationResult
  | AiActionRequest ActionRequested
  | AiGatewayUnavailable
  | PrepareCoordinatorHandoff CoordinatorHandoffToken
  | PrepareCoordinatorTarget CoordinatorHandoffToken
  | CallFinalized
  | ForceCleanup
  | Shutdown

datatype EventMessage =
    QuerySessionSummary
  | StartDigitCollection DigitCollectionSpec
  | CancelDigitCollection CollectorId

text \<open>The actor of an outbound leg, without its mailboxes.\<close>

record CalleeSessionActor =
  cs_session :: Session
  cs_attempt_seq :: u16
  cs_leg_event_deduper :: LegEventDeduper
  cs_coordinator :: CallId
  cs_action_generation :: u64
  cs_completed_actions :: "(string \<times> u64) set"
  cs_dtmf_source :: DtmfSourceState

definition ATTEMPT_REGISTRATION_CAPACITY :: nat where
  "ATTEMPT_REGISTRATION_CAPACITY = 1024"

record AttemptRegistration =
  areg_call_id :: string
  areg_coordinator_session_id :: string
  areg_coordinator_generation :: u64
  areg_previous_session_id :: string
  areg_attempt_seq :: u16
  areg_session_id :: string
  areg_handle :: control_target
  areg_actor :: CalleeSessionActor

section \<open>Actions for the adapter (action.rs, writer.rs, ipc/runtime.rs)\<close>

record RuntimeEnvelope =
  env_version :: u16
  env_kind :: string
  env_type :: string
  env_request_id :: "string option"
  env_domain_id :: "string option"
  env_timestamp_ms :: u64
  env_body :: json

definition runtime_envelope_new :: "u64 \<Rightarrow> string \<Rightarrow> string \<Rightarrow> string option \<Rightarrow> json \<Rightarrow> RuntimeEnvelope" where
  "runtime_envelope_new now_ms kind frame_type request_id body =
     \<lparr> env_version = 1, env_kind = kind, env_type = frame_type, env_request_id = request_id, env_domain_id = None,
       env_timestamp_ms = now_ms, env_body = body \<rparr>"

text \<open>A frame on its way to the adapter, with the mailbox that learns of a failed delivery.\<close>

record WriteRequest =
  wr_frame :: RuntimeEnvelope
  wr_identity :: ActionIdentity
  wr_target :: control_target

definition ADAPTER_ACTION_QUEUE_CAPACITY :: nat where
  "ADAPTER_ACTION_QUEUE_CAPACITY = 50000"

text \<open>\<open>Map::insert\<close>: an existing entry is replaced.\<close>

fun json_insert :: "string \<Rightarrow> json \<Rightarrow> (string \<times> json) list \<Rightarrow> (string \<times> json) list" where
  "json_insert k v [] = [(k, v)]"
| "json_insert k v ((k', v') # entries) = (if k' = k then (k, v) # entries else (k', v') # json_insert k v entries)"

definition insert_identity :: "ActionIdentity \<Rightarrow> (string \<times> json) list \<Rightarrow> (string \<times> json) list" where
  "insert_identity identity body =
     json_insert ''generation'' (JNum (uint (aid_generation identity)))
       (json_insert ''action_id'' (JStr (aid_action_id identity))
         (json_insert ''session_id'' (JStr (aid_session_id identity))
           (json_insert ''call_id'' (JStr (aid_call_id identity)) body)))"

definition action_frame :: "u64 \<Rightarrow> ActionIdentity \<Rightarrow> string \<Rightarrow> (string \<times> json) list \<Rightarrow> RuntimeEnvelope" where
  "action_frame now_ms identity domain_id body =
     (runtime_envelope_new now_ms ''command'' (aid_action_kind identity)
        (Some (''call-action-'' @ aid_action_kind identity @ ''-'' @ aid_action_id identity @ ''-'' @ decimal (unat now_ms)))
        (JObj (insert_identity identity body)))\<lparr>env_domain_id := Some domain_id\<rparr>"

text \<open>\<open>try_send\<close> with the texts the callers give to its two errors.\<close>

definition try_send_text :: "string \<Rightarrow> string \<Rightarrow> 'm \<Rightarrow> ('m Channel, unit, string) stateful" where
  "try_send_text when_full when_closed m =
     lift_err (\<lambda>e. case e of Full \<Rightarrow> when_full | Closed \<Rightarrow> when_closed) (try_send m)"

definition writer_try_send :: "WriteRequest \<Rightarrow> (WriteRequest Channel, unit, string) stateful" where
  "writer_try_send = try_send_text ''adapter action queue full'' ''adapter runtime writer stopped''"

definition try_register :: "AttemptRegistration \<Rightarrow> (AttemptRegistration Channel, unit, string) stateful" where
  "try_register = try_send_text ''attempt registration queue full'' ''attempt registration service stopped''"

definition connector_try_send :: "AiControlMessage \<Rightarrow> (AiControlMessage Channel, unit, string) stateful" where
  "connector_try_send = try_send_text ''AI control queue full'' ''AI control connector stopped''"

definition media_try_send :: "MediaAction \<Rightarrow> (MediaAction Channel, unit, string) stateful" where
  "media_try_send = try_send_text ''media action queue full'' ''media action executor stopped''"

definition coordinator_try_send :: "EventMessage \<Rightarrow> (EventMessage Channel, unit, string) stateful" where
  "coordinator_try_send = try_send_text ''call_coordinator_event_mailbox_full'' ''call_coordinator_gone''"

section \<open>Properties\<close>

lemma into_digit_event_consistent:
  "into_digit_event e = Some d \<Longrightarrow> identity_is_consistent d"
  by (auto simp: into_digit_event_def is_sip_info_def identity_is_consistent_def split: if_splits)

lemma map_of_json_insert [simp]: "map_of (json_insert k v entries) j = (if j = k then Some v else map_of entries j)"
  by (induction entries) auto

lemma try_send_text_eq:
  "try_send_text when_full when_closed m c =
     (if ch_closed c then (Err when_closed, c)
      else if length (ch_queue c) \<ge> ch_capacity c then (Err when_full, c)
      else (Ok (), c\<lparr>ch_queue := ch_queue c @ [m]\<rparr>))"
  by (simp add: try_send_text_def lift_err_def try_send_def)

end
