(* ===== verification/Call_Records.thy ===== *)
theory Call_Records
  imports Call_Runtime
begin

text \<open>
  Call detail records: the snapshot a finished call leaves behind and the records written from it
  (\<open>crates/voipswitchd/src/runtime/call/cdr.rs\<close>, the record types of \<open>crates/voipswitchd/src/data_store/mod.rs\<close>).

  What stopping the media bridge yields, the time of the end and whether a trace exists are
  arguments.  The packet totals are sums of 64-bit counters, which wrap as they do in a release build.
\<close>

section \<open>The snapshot of a finished call\<close>

record FinalCallSnapshot =
  fin_call_id :: string
  fin_domain_id :: string
  fin_caller_number :: string
  fin_callee_number :: string
  fin_topology :: CallSnapshot
  fin_callee_target :: string
  fin_ai_agent_call :: bool
  fin_inbound_route_id :: "string option"
  fin_inbound_route_name :: "string option"
  fin_inbound_trunk_ref :: "string option"
  fin_inbound_trunk_name :: "string option"
  fin_outbound_route_id :: "string option"
  fin_outbound_route_name :: "string option"
  fin_outbound_trunk_ref :: "string option"
  fin_outbound_trunk_name :: "string option"
  fin_started_at_ms :: u64
  fin_answered_at_ms :: "u64 option"
  fin_last_status :: "u16 option"
  fin_hangup_cause :: "string option"
  fin_answered :: bool
  fin_recording_requested :: bool
  fin_recording_start_error :: "string option"
  fin_caller_session_id :: string
  fin_callee_session_id :: string

definition final_call_snapshot :: "CallRuntime \<Rightarrow> FinalCallSnapshot" where
  "final_call_snapshot call =
     \<lparr> fin_call_id = agg_id (rt_aggregate call), fin_domain_id = agg_domain_id (rt_aggregate call),
       fin_caller_number = rt_caller_number call, fin_callee_number = rt_callee_number call,
       fin_topology = snapshot (rt_aggregate call), fin_callee_target = rt_callee_target call,
       fin_ai_agent_call = rt_ai_agent_call call, fin_inbound_route_id = rt_inbound_route_id call,
       fin_inbound_route_name = rt_inbound_route_name call, fin_inbound_trunk_ref = rt_inbound_trunk_ref call,
       fin_inbound_trunk_name = rt_inbound_trunk_name call, fin_outbound_route_id = rt_outbound_route_id call,
       fin_outbound_route_name = rt_outbound_route_name call, fin_outbound_trunk_ref = rt_outbound_trunk_ref call,
       fin_outbound_trunk_name = rt_outbound_trunk_name call,
       fin_started_at_ms = agg_started_at_ms (rt_aggregate call),
       fin_answered_at_ms = ses_answered_at_ms (rt_caller call), fin_last_status = rt_last_status call,
       fin_hangup_cause = hangup_cause_str call, fin_answered = is_answered call,
       fin_recording_requested = rt_recording_requested call,
       fin_recording_start_error = rt_recording_start_error call,
       fin_caller_session_id = ses_id (rt_caller call),
       fin_callee_session_id = rt_current_callee_session_id call \<rparr>"

section \<open>Records\<close>

record BridgeStatsSnapshot =
  mss_caller_to_callee_packets :: u64
  mss_caller_to_callee_bytes :: u64
  mss_callee_to_caller_packets :: u64
  mss_callee_to_caller_bytes :: u64
  mss_caller_to_callee_rtcp_packets :: u64
  mss_callee_to_caller_rtcp_packets :: u64

definition media_stats_default :: BridgeStatsSnapshot where
  "media_stats_default =
     \<lparr> mss_caller_to_callee_packets = 0, mss_caller_to_callee_bytes = 0, mss_callee_to_caller_packets = 0,
       mss_callee_to_caller_bytes = 0, mss_caller_to_callee_rtcp_packets = 0, mss_callee_to_caller_rtcp_packets = 0 \<rparr>"

record RecordingRecord =
  rr_recording_id :: string
  rr_call_id :: string
  rr_domain_id :: string
  rr_status :: string
  rr_caller_number :: string
  rr_callee_number :: string
  rr_started_at_ms :: u64
  rr_ended_at_ms :: "u64 option"
  rr_duration_ms :: u64
  rr_format :: string
  rr_sample_rate :: u32
  rr_channel_count :: u8
  rr_file_name :: string
  rr_storage_root :: string
  rr_storage_path :: string
  rr_file_size_bytes :: u64
  rr_packets_tapped :: u64
  rr_packets_dropped :: u64
  rr_error_code :: "string option"
  rr_error_message :: "string option"

record LegCdrRecord =
  lc_call_id :: string
  lc_session_id :: string
  lc_domain_id :: string
  lc_leg_role :: string
  lc_direction :: string
  lc_endpoint_ref :: "string option"
  lc_endpoint_number :: "string option"
  lc_signaling_number :: "string option"
  lc_route_id :: "string option"
  lc_route_name :: "string option"
  lc_trunk_ref :: "string option"
  lc_trunk_name :: "string option"
  lc_joined_at_ms :: u64
  lc_answered_at_ms :: "u64 option"
  lc_left_at_ms :: u64
  lc_final_status :: "u16 option"
  lc_hangup_cause :: "string option"
  lc_media_packets :: u64
  lc_media_bytes :: u64
  lc_media_rtcp_packets :: u64
  lc_bridge_ids :: string

record CdrRecord =
  cdr_call_id :: string
  cdr_domain_id :: string
  cdr_caller_number :: string
  cdr_callee_number :: string
  cdr_inbound_route_id :: "string option"
  cdr_inbound_route_name :: "string option"
  cdr_inbound_trunk_ref :: "string option"
  cdr_inbound_trunk_name :: "string option"
  cdr_outbound_route_id :: "string option"
  cdr_outbound_route_name :: "string option"
  cdr_outbound_trunk_ref :: "string option"
  cdr_outbound_trunk_name :: "string option"
  cdr_started_at_ms :: u64
  cdr_answered_at_ms :: "u64 option"
  cdr_ended_at_ms :: u64
  cdr_duration_ms :: u64
  cdr_billable_ms :: u64
  cdr_answered :: bool
  cdr_final_status :: "u16 option"
  cdr_hangup_cause :: string
  cdr_media_forwarding_mode :: "MediaForwardingMode option"
  cdr_media_stats :: BridgeStatsSnapshot
  cdr_trace_available :: bool
  cdr_trace_incomplete :: bool
  cdr_incomplete :: bool
  cdr_incomplete_reason :: "string option"
  cdr_recording_status :: "string option"
  cdr_recording_available :: bool

record CdrWriteCommand =
  cw_call_cdr :: CdrRecord
  cw_leg_cdrs :: "LegCdrRecord list"
  cw_recording :: "RecordingRecord option"
  cw_trace_call_id :: string
  cw_trace_domain_id :: string
  cw_trace_ended_at_ms :: u64

text \<open>\<open>saturating_sub\<close> of the unsigned integers.\<close>

definition saturating_sub :: "'a::len word \<Rightarrow> 'a word \<Rightarrow> 'a word" where
  "saturating_sub a b = (if b \<le> a then a - b else 0)"

definition failed_recording_for_call :: "FinalCallSnapshot \<Rightarrow> u64 \<Rightarrow> string \<Rightarrow> RecordingRecord" where
  "failed_recording_for_call call ended_at_ms message =
     \<lparr> rr_recording_id = ''recording-'' @ fin_call_id call, rr_call_id = fin_call_id call,
       rr_domain_id = fin_domain_id call, rr_status = ''failed'', rr_caller_number = fin_caller_number call,
       rr_callee_number = fin_callee_number call,
       rr_started_at_ms = (case fin_answered_at_ms call of Some t \<Rightarrow> t | None \<Rightarrow> fin_started_at_ms call),
       rr_ended_at_ms = Some ended_at_ms, rr_duration_ms = 0, rr_format = ''wav'', rr_sample_rate = 8000,
       rr_channel_count = 2, rr_file_name = [], rr_storage_root = [], rr_storage_path = [],
       rr_file_size_bytes = 0, rr_packets_tapped = 0, rr_packets_dropped = 0,
       rr_error_code = Some ''recording_start_failed'', rr_error_message = Some message \<rparr>"

definition cdr_hangup_text :: "FinalCallSnapshot \<Rightarrow> string" where
  "cdr_hangup_text call =
     (case fin_hangup_cause call of
        Some cause \<Rightarrow> cause
      | None \<Rightarrow> if fin_answered call then ''normal_clearing'' else ''not_answered'')"

definition leg_bridges :: "FinalCallSnapshot \<Rightarrow> CallLeg \<Rightarrow> BridgeEdge list" where
  "leg_bridges call leg =
     filter (\<lambda>b. br_active_at_ms b \<noteq> None \<and> (br_leg_a b = leg_session_id leg \<or> br_leg_b b = leg_session_id leg))
       (snap_bridges (fin_topology call))"

fun leg_endpoint_columns ::
    "FinalCallSnapshot \<Rightarrow> SessionEndpoint \<Rightarrow> string option \<times> string option \<times> string option \<times> string option" where
  "leg_endpoint_columns call (Endpoint endpoint) =
     (Some (ep_endpoint_id endpoint), Some (ep_number endpoint), Some (ep_number endpoint), None)"
| "leg_endpoint_columns call (TrunkEndpoint trunk_id) =
     (Some trunk_id, None, Some (fin_callee_number call), Some trunk_id)"
| "leg_endpoint_columns call (AiAgentEndpoint agent_id) =
     (Some (''ai_agent:'' @ agent_id), None, Some (fin_callee_number call), None)"
| "leg_endpoint_columns call (External number) =
     (fin_inbound_trunk_ref call, Some number, Some number, fin_inbound_trunk_ref call)"

text \<open>\<open>join(",")\<close> and \<open>Iterator::min\<close>.\<close>

fun join_commas :: "string list \<Rightarrow> string" where
  "join_commas [] = []"
| "join_commas [x] = x"
| "join_commas (x # y # xs) = x @ '','' @ join_commas (y # xs)"

definition min_of :: "'a::linorder list \<Rightarrow> 'a option" where
  "min_of xs = (case xs of [] \<Rightarrow> None | x # rest \<Rightarrow> Some (fold min rest x))"

definition leg_cdr ::
    "FinalCallSnapshot \<Rightarrow> BridgeStatsSnapshot \<Rightarrow> u64 \<Rightarrow> CallLeg \<Rightarrow> LegCdrRecord option" where
  "leg_cdr call stats ended_at_ms leg =
     (let is_caller = (leg_session_id leg = fin_caller_session_id call);
          bridges = leg_bridges call leg;
          current = (leg_session_id leg = fin_callee_session_id call)
      in if \<not> is_caller \<and> bridges = [] then None
         else
           (case leg_endpoint_columns call (leg_endpoint leg) of
              (endpoint_ref, endpoint_number, signaling_number, trunk_ref) \<Rightarrow>
                Some
                  \<lparr> lc_call_id = fin_call_id call, lc_session_id = leg_session_id leg,
                    lc_domain_id = leg_domain_id leg,
                    lc_leg_role = (if is_caller then ''caller'' else ''callee''),
                    lc_direction = (if is_caller then ''inbound'' else ''outbound''),
                    lc_endpoint_ref = endpoint_ref, lc_endpoint_number = endpoint_number,
                    lc_signaling_number = signaling_number,
                    lc_route_id = (if is_caller then fin_inbound_route_id call else fin_outbound_route_id call),
                    lc_route_name = (if is_caller then fin_inbound_route_name call else fin_outbound_route_name call),
                    lc_trunk_ref = trunk_ref,
                    lc_trunk_name = (if is_caller then fin_inbound_trunk_name call
                                     else if trunk_ref = fin_outbound_trunk_ref call then fin_outbound_trunk_name call
                                     else None),
                    lc_joined_at_ms = leg_joined_at_ms leg,
                    lc_answered_at_ms = (case min_of (map br_created_at_ms bridges) of
                                           Some t \<Rightarrow> Some t
                                         | None \<Rightarrow> if is_caller then fin_answered_at_ms call else None),
                    lc_left_at_ms = (case leg_left_at_ms leg of Some t \<Rightarrow> t | None \<Rightarrow> ended_at_ms),
                    lc_final_status = (if is_caller \<or> current then fin_last_status call else Some 200),
                    lc_hangup_cause = Some (if is_caller \<or> current then cdr_hangup_text call else ''normal_clearing''),
                    lc_media_packets =
                      (if is_caller \<or> current
                       then mss_caller_to_callee_packets stats + mss_callee_to_caller_packets stats else 0),
                    lc_media_bytes =
                      (if is_caller \<or> current
                       then mss_caller_to_callee_bytes stats + mss_callee_to_caller_bytes stats else 0),
                    lc_media_rtcp_packets =
                      (if is_caller \<or> current
                       then mss_caller_to_callee_rtcp_packets stats + mss_callee_to_caller_rtcp_packets stats else 0),
                    lc_bridge_ids = join_commas (map br_bridge_id bridges) \<rparr>))"

definition build_leg_cdrs :: "FinalCallSnapshot \<Rightarrow> BridgeStatsSnapshot \<Rightarrow> u64 \<Rightarrow> LegCdrRecord list" where
  "build_leg_cdrs call stats ended_at_ms =
     List.map_filter (leg_cdr call stats ended_at_ms) (snap_legs (fin_topology call))"

text \<open>
  What \<open>finalize_call\<close> hands to the writer: \<open>media\<close> is what stopping the bridge yields (its statistics, a
  recording, the forwarding mode), or \<open>None\<close> when the call had no bridge.
\<close>

definition finalize_call ::
    "FinalCallSnapshot \<Rightarrow> (BridgeStatsSnapshot \<times> RecordingRecord option \<times> MediaForwardingMode) option \<Rightarrow> u64 \<Rightarrow> bool \<Rightarrow>
     CdrWriteCommand" where
  "finalize_call call media ended_at_ms trace_available =
     (let stats = (case media of Some (stats, _, _) \<Rightarrow> stats | None \<Rightarrow> media_stats_default);
          mode = map_option (\<lambda>(_, _, mode). mode) media;
          stopped = (case media of Some (_, recorded, _) \<Rightarrow> recorded | None \<Rightarrow> None);
          recorded =
            (if stopped = None \<and> fin_answered call \<and> fin_recording_requested call
             then Some (failed_recording_for_call call ended_at_ms
                    (case fin_recording_start_error call of Some e \<Rightarrow> e | None \<Rightarrow> ''recording did not start''))
             else stopped)
      in \<lparr> cw_call_cdr =
             \<lparr> cdr_call_id = fin_call_id call, cdr_domain_id = fin_domain_id call,
               cdr_caller_number = fin_caller_number call, cdr_callee_number = fin_callee_number call,
               cdr_inbound_route_id = fin_inbound_route_id call, cdr_inbound_route_name = fin_inbound_route_name call,
               cdr_inbound_trunk_ref = fin_inbound_trunk_ref call, cdr_inbound_trunk_name = fin_inbound_trunk_name call,
               cdr_outbound_route_id = fin_outbound_route_id call,
               cdr_outbound_route_name = fin_outbound_route_name call,
               cdr_outbound_trunk_ref = fin_outbound_trunk_ref call,
               cdr_outbound_trunk_name = fin_outbound_trunk_name call,
               cdr_started_at_ms = fin_started_at_ms call, cdr_answered_at_ms = fin_answered_at_ms call,
               cdr_ended_at_ms = ended_at_ms,
               cdr_duration_ms = saturating_sub ended_at_ms (fin_started_at_ms call),
               cdr_billable_ms = (case fin_answered_at_ms call of Some t \<Rightarrow> saturating_sub ended_at_ms t | None \<Rightarrow> 0),
               cdr_answered = fin_answered call, cdr_final_status = fin_last_status call,
               cdr_hangup_cause = cdr_hangup_text call, cdr_media_forwarding_mode = mode, cdr_media_stats = stats,
               cdr_trace_available = trace_available, cdr_trace_incomplete = False, cdr_incomplete = False,
               cdr_incomplete_reason = None, cdr_recording_status = map_option rr_status recorded,
               cdr_recording_available =
                 (case recorded of
                    Some r \<Rightarrow> (rr_status r = ''complete'' \<or> rr_status r = ''incomplete'') \<and> rr_storage_path r \<noteq> []
                  | None \<Rightarrow> False) \<rparr>,
           cw_leg_cdrs = build_leg_cdrs call stats ended_at_ms, cw_recording = recorded,
           cw_trace_call_id = fin_call_id call, cw_trace_domain_id = fin_domain_id call,
           cw_trace_ended_at_ms = ended_at_ms \<rparr>)"

end
