(* ===== verification/Pbx_Config.thy ===== *)
theory Pbx_Config
  imports Call_Config Texts
begin

text \<open>
  The configuration a call is routed by: the records of a domain (\<open>crates/voipswitchd/src/pbx/*/model.rs\<close>), the
  runtime configuration and its store (\<open>config_service\<close>), and the mirrors of registrations and trunk
  health the application keeps (\<open>app.rs\<close>).  A \<open>BTreeMap\<close> that is only read and written by key is a partial
  function; an \<open>i64\<close> is a word read with \<open>sint\<close>.
\<close>

section \<open>Records of a domain\<close>

record ExtensionConfig =
  ext_id :: u64
  ext_number :: string
  ext_auth_user :: string
  ext_password :: string
  ext_enabled :: bool

record PeerTrunkConfig =
  pt_id :: u64
  pt_name :: string
  pt_server_host :: string
  pt_server_port :: u16
  pt_outbound_proxy_host :: "string option"
  pt_outbound_proxy_port :: "u16 option"
  pt_transport :: string
  pt_keep_alive_seconds :: u32
  pt_enabled :: bool

record RegisterTrunkConfig =
  rgt_id :: u64
  rgt_name :: string
  rgt_server_host :: string
  rgt_server_port :: u16
  rgt_outbound_proxy_host :: "string option"
  rgt_outbound_proxy_port :: "u16 option"
  rgt_transport :: string
  rgt_keep_alive_seconds :: u32
  rgt_requested_expires_seconds :: u32
  rgt_enabled :: bool

record RegisterAccountConfig =
  acc_id :: u64
  acc_reg_trunk_id :: u64
  acc_auth_name :: string
  acc_auth_pwd :: string
  acc_enabled :: bool

record InboundRouteConfig =
  ir_id :: u64
  ir_name :: string
  ir_enabled :: bool
  ir_trunk_match :: string
  ir_dst_pattern :: string
  ir_src_pattern :: "string option"
  ir_dst_strip :: u8
  ir_dst_prefix :: string
  ir_dst_suffix :: string
  ir_src_strip :: u8
  ir_src_prefix :: string
  ir_src_suffix :: string
  ir_target :: string
  ir_priority :: u16

record OutboundRouteConfig =
  or_id :: u64
  or_name :: string
  or_enabled :: bool
  or_dst_pattern :: string
  or_src_pattern :: "string option"
  or_dst_strip :: u8
  or_dst_prefix :: string
  or_dst_suffix :: string
  or_src_strip :: u8
  or_src_prefix :: string
  or_src_suffix :: string
  or_priority :: u16
  or_trunk_refs :: "string list"

datatype RecordingTargetType = ExtensionTargetType | PeerTrunkTargetType | RegTrunkTargetType

record RecordingTargetRef =
  tref_target_type :: RecordingTargetType
  tref_target_id :: u64

datatype RecordingDirection = RecordInbound | RecordOutbound | RecordBoth

record RecordingPolicyConfig =
  rp_id :: u64
  rp_name :: string
  rp_enabled :: bool
  rp_targets :: "RecordingTargetRef list"
  rp_direction :: RecordingDirection
  rp_priority :: int

datatype AiPolicyDirection = AiAny | AiInternal | AiInbound | AiOutbound

record AiPolicyConfig =
  aip_id :: u64
  aip_name :: string
  aip_enabled :: bool
  aip_targets :: "RecordingTargetRef list"
  aip_direction :: AiPolicyDirection
  aip_priority :: int
  aip_ai_profile_id :: string

record AiAgentConfig =
  agent_row_id :: u64
  agent_agent_id :: string
  agent_name :: string
  agent_service_number :: string
  agent_profile_id :: string
  agent_welcome_text :: "string option"
  agent_welcome_audio :: "u8 list option"
  agent_welcome_language :: string
  agent_enabled :: bool
  agent_revision :: u64
  agent_fallback_target :: "string option"

record DomainRuntimeConfig =
  dom_domain_id :: DomainId
  dom_name :: string
  dom_realm :: string
  dom_password :: string
  dom_remark :: string
  dom_enabled :: bool
  dom_extensions :: "ExtensionConfig list"
  dom_peer_trunks :: "PeerTrunkConfig list"
  dom_reg_trunks :: "RegisterTrunkConfig list"
  dom_reg_accounts :: "RegisterAccountConfig list"
  dom_inbound_routes :: "InboundRouteConfig list"
  dom_outbound_routes :: "OutboundRouteConfig list"
  dom_recording_policies :: "RecordingPolicyConfig list"
  dom_ai_policies :: "AiPolicyConfig list"
  dom_ai_agents :: "AiAgentConfig list"
  dom_version :: u64

section \<open>References, types and directions as text\<close>

fun target_prefix :: "RecordingTargetType \<Rightarrow> string" where
  "target_prefix ExtensionTargetType = ''ext''"
| "target_prefix PeerTrunkTargetType = ''peer''"
| "target_prefix RegTrunkTargetType = ''reg''"

definition target_stable_ref :: "RecordingTargetRef \<Rightarrow> string" where
  "target_stable_ref t = target_prefix (tref_target_type t) @ CHR '':'' # decimal (unat (tref_target_id t))"

definition target_type_of_prefix :: "string \<Rightarrow> RecordingTargetType option" where
  "target_type_of_prefix p =
     (if p = ''ext'' then Some ExtensionTargetType
      else if p = ''peer'' then Some PeerTrunkTargetType
      else if p = ''reg'' then Some RegTrunkTargetType
      else None)"

text \<open>The one error of \<open>RecordingTargetRef::parse\<close>, by the text it quotes.\<close>

datatype target_error = InvalidTargetReference string

definition target_parse :: "string \<Rightarrow> (RecordingTargetRef, target_error) outcome" where
  "target_parse value =
     (case split_once CHR '':'' (trim value) of
        None \<Rightarrow> Err (InvalidTargetReference value)
      | Some (p, i) \<Rightarrow>
          (case target_type_of_prefix p of
             None \<Rightarrow> Err (InvalidTargetReference value)
           | Some target_type \<Rightarrow>
               (case parse_u64 i of
                  None \<Rightarrow> Err (InvalidTargetReference value)
                | Some target_id \<Rightarrow>
                    if target_id > 0 then Ok \<lparr> tref_target_type = target_type, tref_target_id = target_id \<rparr>
                    else Err (InvalidTargetReference value))))"

fun target_type_as_str :: "RecordingTargetType \<Rightarrow> string" where
  "target_type_as_str ExtensionTargetType = ''extension''"
| "target_type_as_str PeerTrunkTargetType = ''peer_trunk''"
| "target_type_as_str RegTrunkTargetType = ''reg_trunk''"

definition target_type_try_from :: "string \<Rightarrow> (RecordingTargetType, string) outcome" where
  "target_type_try_from value =
     (if value = ''extension'' then Ok ExtensionTargetType
      else if value = ''peer_trunk'' then Ok PeerTrunkTargetType
      else if value = ''reg_trunk'' then Ok RegTrunkTargetType
      else Err ''target_type must be extension, peer_trunk or reg_trunk'')"

fun recording_direction_as_str :: "RecordingDirection \<Rightarrow> string" where
  "recording_direction_as_str RecordInbound = ''inbound''"
| "recording_direction_as_str RecordOutbound = ''outbound''"
| "recording_direction_as_str RecordBoth = ''both''"

definition recording_direction_matches :: "RecordingDirection \<Rightarrow> RecordingDirection \<Rightarrow> bool" where
  "recording_direction_matches d direction \<longleftrightarrow> d = RecordBoth \<or> d = direction"

definition recording_direction_try_from :: "string \<Rightarrow> (RecordingDirection, string) outcome" where
  "recording_direction_try_from value =
     (if value = ''inbound'' then Ok RecordInbound
      else if value = ''outbound'' then Ok RecordOutbound
      else if value = ''both'' then Ok RecordBoth
      else Err ''direction must be inbound, outbound or both'')"

fun ai_direction_as_str :: "AiPolicyDirection \<Rightarrow> string" where
  "ai_direction_as_str AiAny = ''any''"
| "ai_direction_as_str AiInternal = ''internal''"
| "ai_direction_as_str AiInbound = ''inbound''"
| "ai_direction_as_str AiOutbound = ''outbound''"

fun ai_direction_matches :: "AiPolicyDirection \<Rightarrow> bool \<Rightarrow> bool \<Rightarrow> bool" where
  "ai_direction_matches AiAny inbound outbound = True"
| "ai_direction_matches AiInternal inbound outbound = (\<not> inbound \<and> \<not> outbound)"
| "ai_direction_matches AiInbound inbound outbound = inbound"
| "ai_direction_matches AiOutbound inbound outbound = outbound"

definition ai_direction_try_from :: "string \<Rightarrow> (AiPolicyDirection, string) outcome" where
  "ai_direction_try_from value =
     (if value = ''any'' then Ok AiAny
      else if value = ''internal'' then Ok AiInternal
      else if value = ''inbound'' then Ok AiInbound
      else if value = ''outbound'' then Ok AiOutbound
      else Err ''direction must be any, internal, inbound or outbound'')"

section \<open>The runtime configuration\<close>

datatype GlobalValue = GlobalString string | GlobalInteger "64 word" | GlobalBool bool

record SystemConfig =
  sys_instance_id :: string
  sys_data_dir :: string

record RuntimeConfig =
  cfg_system :: SystemConfig
  cfg_globals :: "string \<rightharpoonup> GlobalValue"
  cfg_domains :: "DomainId \<rightharpoonup> DomainRuntimeConfig"
  cfg_version :: u64

record CdrSpoolLimits =
  csl_warning_mb :: u64
  csl_reject_mb :: u64
  csl_resume_mb :: u64

definition call_trace_enabled :: "RuntimeConfig \<Rightarrow> bool" where
  "call_trace_enabled c = (case cfg_globals c ''call_trace_enabled'' of Some (GlobalBool b) \<Rightarrow> b | _ \<Rightarrow> True)"

definition sip_port_of :: "RuntimeConfig \<Rightarrow> u16" where
  "sip_port_of c =
     (case cfg_globals c ''sip_port'' of
        Some (GlobalInteger p) \<Rightarrow> if 0 < sint p \<and> sint p < 2 ^ 16 then of_int (sint p) else 5060
      | _ \<Rightarrow> 5060)"

definition is_log_level :: "string \<Rightarrow> bool" where
  "is_log_level v \<longleftrightarrow> v \<in> {''error'', ''warn'', ''info'', ''debug'', ''trace''}"

definition log_level_of :: "RuntimeConfig \<Rightarrow> string" where
  "log_level_of c =
     (case cfg_globals c ''log_level'' of
        Some (GlobalString level) \<Rightarrow> if is_log_level level then level else ''info''
      | _ \<Rightarrow> ''info'')"

text \<open>\<open>Path::join\<close> with a relative path.\<close>

definition path_join :: "string \<Rightarrow> string \<Rightarrow> string" where
  "path_join d x = (if d = [] \<or> last d = CHR ''/'' then d @ x else d @ CHR ''/'' # x)"

definition dir_setting :: "string \<Rightarrow> string \<Rightarrow> RuntimeConfig \<Rightarrow> string" where
  "dir_setting key subdirectory c =
     (case cfg_globals c key of
        Some (GlobalString path) \<Rightarrow>
          if \<not> trim_is_empty path then path else path_join (sys_data_dir (cfg_system c)) subdirectory
      | _ \<Rightarrow> path_join (sys_data_dir (cfg_system c)) subdirectory)"

definition recording_dir_of :: "RuntimeConfig \<Rightarrow> string" where
  "recording_dir_of = dir_setting ''recording_dir'' ''recordings''"

definition ai_welcome_audio_dir :: "RuntimeConfig \<Rightarrow> string" where
  "ai_welcome_audio_dir = dir_setting ''ai_welcome_audio_dir'' ''ai-welcome-audio''"

definition positive_global_integer :: "string \<Rightarrow> u64 \<Rightarrow> RuntimeConfig \<Rightarrow> u64" where
  "positive_global_integer key default_value c =
     (case cfg_globals c key of
        Some (GlobalInteger v) \<Rightarrow> if 0 < sint v then of_int (sint v) else default_value
      | _ \<Rightarrow> default_value)"

definition recording_retention_days :: "RuntimeConfig \<Rightarrow> u64" where
  "recording_retention_days = positive_global_integer ''recording_retention_days'' 30"

definition recording_max_size_gb :: "RuntimeConfig \<Rightarrow> u64" where
  "recording_max_size_gb = positive_global_integer ''recording_max_size_gb'' 20"

definition cdr_spool_limits :: "RuntimeConfig \<Rightarrow> CdrSpoolLimits" where
  "cdr_spool_limits c =
     \<lparr> csl_warning_mb = positive_global_integer ''cdr_spool_warning_mb'' 512 c,
       csl_reject_mb = positive_global_integer ''cdr_spool_reject_mb'' 1024 c,
       csl_resume_mb = positive_global_integer ''cdr_spool_resume_mb'' 800 c \<rparr>"

text \<open>The store: the current configuration, and the one last published to the subscribers.\<close>

record RuntimeConfigStore =
  cstore_current :: RuntimeConfig
  cstore_updates :: RuntimeConfig

definition config_store_new :: "RuntimeConfig \<Rightarrow> RuntimeConfigStore" where
  "config_store_new initial = \<lparr> cstore_current = initial, cstore_updates = initial \<rparr>"

definition config_store_replace :: "RuntimeConfig \<Rightarrow> RuntimeConfigStore \<Rightarrow> RuntimeConfig \<times> RuntimeConfigStore" where
  "config_store_replace next_config store =
     (let c = next_config\<lparr>cfg_version :=
                max (cfg_version next_config) (saturating_add (cfg_version (cstore_current store)) 1)\<rparr>
      in (c, \<lparr> cstore_current = c, cstore_updates = c \<rparr>))"

section \<open>Mirrors\<close>

text \<open>What the adapter reports of the registrations of endpoints.\<close>

datatype RegistrationState =
    RegUnknown | RegUnregistered | RegTentativeRegistered | RegRegistered | RegExpired | RegRemoved

record RegistrationView =
  rv_domain_id :: string
  rv_endpoint_id :: string
  rv_state :: RegistrationState
  rv_contact :: "string option"
  rv_route_target :: "string option"
  rv_expires_at_ms :: "u64 option"
  rv_user_agent :: "string option"
  rv_version :: "u64 option"

record RegistrationMirror =
  rm_ready :: bool
  rm_snapshot_in_progress :: bool
  rm_items :: "(string \<times> string) \<rightharpoonup> RegistrationView"

record RegistrationChanged =
  rch_domain_id :: string
  rch_endpoint_id :: string
  rch_state :: RegistrationState
  rch_contact :: "string option"
  rch_route_target :: "string option"
  rch_expires_at_ms :: "u64 option"
  rch_user_agent :: "string option"
  rch_version :: u64

definition mirror_default :: RegistrationMirror where
  "mirror_default = \<lparr> rm_ready = False, rm_snapshot_in_progress = False, rm_items = Map.empty \<rparr>"

definition mark_registration_mirror_ready :: "bool \<Rightarrow> RegistrationMirror \<Rightarrow> RegistrationMirror" where
  "mark_registration_mirror_ready ready m = m\<lparr>rm_ready := ready, rm_snapshot_in_progress := False\<rparr>"

definition begin_registration_snapshot :: "RegistrationMirror \<Rightarrow> RegistrationMirror" where
  "begin_registration_snapshot m = m\<lparr>rm_ready := False, rm_snapshot_in_progress := True, rm_items := Map.empty\<rparr>"

definition view_of :: "RegistrationChanged \<Rightarrow> RegistrationView" where
  "view_of e =
     \<lparr> rv_domain_id = rch_domain_id e, rv_endpoint_id = rch_endpoint_id e, rv_state = rch_state e,
       rv_contact = rch_contact e, rv_route_target = rch_route_target e, rv_expires_at_ms = rch_expires_at_ms e,
       rv_user_agent = rch_user_agent e, rv_version = Some (rch_version e) \<rparr>"

definition apply_registration_changed :: "RegistrationChanged \<Rightarrow> RegistrationMirror \<Rightarrow> RegistrationMirror" where
  "apply_registration_changed e m =
     (let m1 = (if \<not> rm_snapshot_in_progress m then m\<lparr>rm_ready := True\<rparr> else m)
      in m1\<lparr>rm_items := (rm_items m1)((rch_domain_id e, rch_endpoint_id e) \<mapsto> view_of e)\<rparr>)"

text \<open>What it reports of trunks.  The key of a registration is the domain, the trunk and the account.\<close>

datatype TrunkRegistrationState = TrunkRegistering | TrunkRegistered | TrunkFailed | TrunkStopped

datatype TrunkHealthState = TrunkUp | TrunkDown

record TrunkRegistrationView =
  trv_domain_id :: string
  trv_reg_trunk_id :: u64
  trv_reg_account_id :: u64
  trv_state :: TrunkRegistrationState
  trv_expires_at_ms :: "u64 option"
  trv_response_code :: "u16 option"
  trv_reason :: "string option"
  trv_version :: u64

record TrunkHealthView =
  thv_domain_id :: string
  thv_trunk_type :: string
  thv_trunk_id :: u64
  thv_state :: TrunkHealthState
  thv_response_code :: "u16 option"
  thv_reason :: "string option"
  thv_checked_at_ms :: u64
  thv_version :: u64

record TrunkRuntimeMirror =
  tm_ready :: bool
  tm_registrations :: "(string \<times> u64 \<times> u64) \<rightharpoonup> TrunkRegistrationView"
  tm_health :: "(string \<times> string \<times> u64) \<rightharpoonup> TrunkHealthView"

definition mark_trunk_runtime_mirror_ready :: "bool \<Rightarrow> TrunkRuntimeMirror \<Rightarrow> TrunkRuntimeMirror" where
  "mark_trunk_runtime_mirror_ready ready m = m\<lparr>tm_ready := ready\<rparr>"

text \<open>The events \<open>TrunkRegistrationChanged\<close> and \<open>TrunkHealthChanged\<close> have the fields of the views.\<close>

definition apply_trunk_registration_changed ::
    "TrunkRegistrationView \<Rightarrow> TrunkRuntimeMirror \<Rightarrow> TrunkRuntimeMirror" where
  "apply_trunk_registration_changed e m =
     m\<lparr>tm_ready := True,
       tm_registrations := (tm_registrations m)
         ((trv_domain_id e, trv_reg_trunk_id e, trv_reg_account_id e) \<mapsto> e)\<rparr>"

definition apply_trunk_health_changed :: "TrunkHealthView \<Rightarrow> TrunkRuntimeMirror \<Rightarrow> TrunkRuntimeMirror" where
  "apply_trunk_health_changed e m =
     m\<lparr>tm_ready := True,
       tm_health := (tm_health m)((thv_domain_id e, thv_trunk_type e, thv_trunk_id e) \<mapsto> e)\<rparr>"

section \<open>The store and the references\<close>

lemma replace_version:
  assumes "config_store_replace c st = (d, st')"
  shows "cstore_current st' = d" "cstore_updates st' = d" "cfg_version c \<le> cfg_version d"
    "cfg_version (cstore_current st) \<le> cfg_version d"
    "cfg_version (cstore_current st) \<noteq> - 1 \<Longrightarrow> cfg_version (cstore_current st) < cfg_version d"
  using assms saturating_add_ge [of "cfg_version (cstore_current st)" 1]
    saturating_add_less [of "cfg_version (cstore_current st)"]
  by (auto simp: config_store_replace_def Let_def le_max_iff_disj less_max_iff_disj)

lemma digit_not_white: "is_digit c \<Longrightarrow> \<not> is_whitespace [c]"
  by (auto simp: is_digit_def is_whitespace_def)

lemma target_stable_ref_trim [simp]: "trim (target_stable_ref t) = target_stable_ref t"
proof -
  let ?d = "decimal (unat (tref_target_id t))"
  have digits: "list_all is_digit ?d" by (rule decimal_digits)
  have "?d \<noteq> []" by (subst decimal.simps) simp
  then have "last (target_stable_ref t) \<in> set ?d" by (simp add: target_stable_ref_def)
  then have "\<not> is_whitespace [last (target_stable_ref t)]"
    using digits by (intro digit_not_white) (simp add: list_all_iff)
  moreover have "\<not> is_whitespace [hd (target_stable_ref t)]"
    by (cases "tref_target_type t") (simp_all add: target_stable_ref_def is_whitespace_def)
  moreover have "list_all (\<lambda>c. (of_char c :: nat) < 128) (target_stable_ref t)"
    using digits by (cases "tref_target_type t") (auto simp: target_stable_ref_def list_all_iff is_digit_def)
  ultimately show ?thesis by (intro trim_ascii)
qed

text \<open>A stored reference is read back.\<close>

lemma target_ref_roundtrip:
  assumes "tref_target_id t > 0"
  shows "target_parse (target_stable_ref t) = Ok t"
proof -
  have "split_once CHR '':'' (target_stable_ref t) =
      Some (target_prefix (tref_target_type t), decimal (unat (tref_target_id t)))"
    unfolding target_stable_ref_def by (rule split_once_first) (cases "tref_target_type t"; simp)
  moreover have "target_type_of_prefix (target_prefix k) = Some k" for k by (cases k) (simp_all add: target_type_of_prefix_def)
  ultimately show ?thesis using assms by (simp add: target_parse_def)
qed

end
