(* ===== verification/Call_Actor.thy ===== *)
theory Call_Actor
  imports Call_Events Call_Records Pbx_Config
begin

text \<open>
  The actor that coordinates a call: its state (\<open>crates/voipswitchd/src/runtime/call/actor.rs\<close>), the actions it
  submits, its timers (\<open>timer.rs\<close>) and how it finishes a call (\<open>cdr.rs\<close>).

  \<open>CoordinatorRuntimeState\<close> is the state a coordinator hand-off carries over, \<open>SessionActor\<close> extends it, as the
  dereferencing of the source does.  Executors and services the actor shares with the rest of the
  program appear as the bounded queues behind them; a spawned task, a trace and a call on the media
  bridge are entries of \<open>ac_effects\<close>.  What a handler reads of the application (clocks, configuration,
  registrations, whether the process shuts down) is the record \<open>AppView\<close>, fixed while a handler runs.
  \<open>publish_call_view\<close>, which copies the state to observers, is left out.
\<close>

section \<open>What the actor sees of the application\<close>

record AppView =
  app_now :: Instant
  app_unix_ms :: u64
  app_shutting_down :: bool
  app_domains :: "DomainId \<rightharpoonup> DomainRuntimeConfig"
  app_registrations :: RegistrationMirror
  app_audio_payload_types :: "SdpBody \<Rightarrow> u8 list"
  app_ai_capture_started :: bool

section \<open>State\<close>

record CallTimerSlot =
  slot_generation :: u64
  slot_deadline :: Instant

record InitialCallAction =
  ica_callee :: bool
  ica_action_kind :: string
  ica_action_id :: string
  ica_body :: "(string \<times> json) list"

record PendingAnswer =
  pa_action_id :: string
  pa_payload_types :: "u8 list"

record PendingAttemptCandidate =
  pac_attempt_seq :: u16
  pac_candidate :: OutboundCandidate

record PendingAttemptRegistration =
  par_attempt_seq :: u16
  par_candidate :: OutboundCandidate
  par_session_id :: string
  par_callee_control_tx :: control_target
  par_callee_offer :: SdpBody

record PendingAiTransfer =
  pat_conversation :: JobRef
  pat_operation_id :: string
  pat_generation :: u64
  pat_number :: string
  pat_language :: string

datatype ActorEffect =
    CallerInputEnabled bool
  | BuiltinPrompt bool string
  | DtmfCalleeTarget SessionId control_target
  | AgentTrace string u64 json
  | CallTrace string json
  | AwaitDigitResult JobRef string u64
  | PostControl control_target ControlMessage
  | ActiveCallRemoved CallId
  | FinalizeCall FinalCallSnapshot bool

record CoordinatorRuntimeState =
  ac_call :: CallRuntime
  ac_media_present :: bool
  ac_actor_started :: bool
  ac_leg_event_deduper :: LegEventDeduper
  ac_finalized :: bool
  ac_finalization_started :: bool
  ac_action_generation :: u64
  ac_completed_actions :: "(string \<times> u64) set"
  ac_media_generation :: u64
  ac_dtmf_source :: DtmfSourceState
  ac_dtmf_router :: DtmfRouterStats
  ac_dtmf_collectors :: "(CollectorId, DigitCollectorState) BTreeMap"
  ac_dtmf_collector_timer :: "DigitCollectorTimerSlot option"
  ac_dtmf_collector_timer_generation :: u64
  ac_initial_actions :: "InitialCallAction list"
  ac_pending_answer :: "PendingAnswer option"
  ac_answer_in_progress :: bool
  ac_deferred_callee_disconnect :: "CallLegEvent option"
  ac_dial_timer :: "CallTimerSlot option"
  ac_ring_timer :: "CallTimerSlot option"
  ac_cleanup_timer :: "CallTimerSlot option"
  ac_remaining_candidates :: "OutboundCandidate list"
  ac_current_attempt_seq :: u16
  ac_pending_attempt_candidate :: "PendingAttemptCandidate option"
  ac_pending_attempt_registration :: "PendingAttemptRegistration option"
  ac_retry_after_cleanup :: "u16 option"
  ac_caller_offer :: SdpBody
  ac_route_deadline :: Instant
  ac_pending_ai_transfer :: "PendingAiTransfer option"
  ac_ai_transfer_failed :: bool
  ac_prompt_generation :: u64

record SessionActor = CoordinatorRuntimeState +
  ac_writer :: "WriteRequest Channel"
  ac_media_tx :: "MediaAction Channel"
  ac_registrar :: "AttemptRegistration Channel"
  ac_event_tx :: "EventMessage Channel"
  ac_ai_jobs :: "AiControlMessage Channel option"
  ac_coordinator_handle :: CallId
  ac_callee_control_tx :: control_target
  ac_owned_session_id :: string
  ac_owned_action_generation :: u64
  ac_owned_completed_actions :: "(string \<times> u64) set"
  ac_replies :: "collector_reply list"
  ac_effects :: "ActorEffect list"

datatype actor_error = Anyhow string | RuntimeErr runtime_error

type_synonym 'a msg_op = "(SessionActor, 'a, string) stateful"
type_synonym 'a actor_op = "(SessionActor, 'a, actor_error) stateful"

definition anyhow :: "'a msg_op \<Rightarrow> 'a actor_op" where
  "anyhow = lift_err Anyhow"

definition on_call :: "(CallRuntime, 'a, runtime_error) stateful \<Rightarrow> 'a actor_op" where
  "on_call = zoom_st ac_call (\<lambda>c s. s\<lparr>ac_call := c\<rparr>) RuntimeErr"

definition emit :: "ActorEffect \<Rightarrow> SessionActor \<Rightarrow> SessionActor" where
  "emit e = ac_effects_update (\<lambda>es. es @ [e])"

section \<open>Accessors\<close>

definition call_id :: "SessionActor \<Rightarrow> CallId" where
  "call_id s = agg_id (rt_aggregate (ac_call s))"

definition domain_id :: "SessionActor \<Rightarrow> DomainId" where
  "domain_id s = agg_domain_id (rt_aggregate (ac_call s))"

definition caller_session_id :: "SessionActor \<Rightarrow> SessionId" where
  "caller_session_id s = ses_id (rt_caller (ac_call s))"

definition callee_session_id :: "SessionActor \<Rightarrow> SessionId" where
  "callee_session_id s = rt_current_callee_session_id (ac_call s)"

abbreviation terminating :: "SessionActor \<Rightarrow> bool" where
  "terminating s \<equiv> is_terminating (ac_call s)"

text \<open>\<open>format!("{prefix}-{id}")\<close>.\<close>

definition dashed :: "string \<Rightarrow> string \<Rightarrow> string" where
  "dashed p x = p @ ''-'' @ x"

definition opt_json :: "string option \<Rightarrow> json" where
  "opt_json x = (case x of Some t \<Rightarrow> JStr t | None \<Rightarrow> JNull)"

definition status_json :: "u16 \<Rightarrow> json" where
  "status_json code = JNum (uint code)"

definition leg_json :: "SessionActor \<Rightarrow> string \<times> json" where
  "leg_json s = (''adapter_call_leg_id'', JStr (rt_caller_adapter_leg_id (ac_call s)))"

section \<open>Submitting actions\<close>

definition submit_action ::
    "AppView \<Rightarrow> SessionId \<Rightarrow> control_target \<Rightarrow> string \<Rightarrow> string \<Rightarrow> (string \<times> json) list \<Rightarrow> unit msg_op" where
  "submit_action app session_id target action_kind action_id body s =
     (let identity = \<lparr> aid_call_id = call_id s, aid_session_id = session_id, aid_action_kind = action_kind,
                       aid_action_id = action_id, aid_generation = ac_action_generation s \<rparr>
      in (case writer_try_send \<lparr> wr_frame = action_frame (app_unix_ms app) identity (domain_id s) body,
                                 wr_identity = identity, wr_target = target \<rparr> (ac_writer s) of
            (r, ch) \<Rightarrow> (r, s\<lparr>ac_writer := ch\<rparr>)))"

definition submit_caller_action :: "AppView \<Rightarrow> string \<Rightarrow> string \<Rightarrow> (string \<times> json) list \<Rightarrow> unit msg_op" where
  "submit_caller_action app action_kind action_id body s =
     submit_action app (caller_session_id s) (CoordinatorMailbox (ac_coordinator_handle s)) action_kind action_id body s"

definition submit_callee_action :: "AppView \<Rightarrow> string \<Rightarrow> string \<Rightarrow> (string \<times> json) list \<Rightarrow> unit msg_op" where
  "submit_callee_action app action_kind action_id body s =
     submit_action app (callee_session_id s) (ac_callee_control_tx s) action_kind action_id body s"

definition media_submit :: "MediaAction \<Rightarrow> unit msg_op" where
  "media_submit a s = (case media_try_send a (ac_media_tx s) of (r, ch) \<Rightarrow> (r, s\<lparr>ac_media_tx := ch\<rparr>))"

definition prepare_sdp :: "string \<Rightarrow> u64 \<Rightarrow> PrepareSdpPurpose \<Rightarrow> SdpBody \<Rightarrow> unit msg_op" where
  "prepare_sdp action_id generation purpose sdp = media_submit (PrepareSdp action_id generation purpose sdp None)"

definition prepare_callee_offer :: "string \<Rightarrow> u64 \<Rightarrow> u16 \<Rightarrow> SdpBody \<Rightarrow> string option \<Rightarrow> unit msg_op" where
  "prepare_callee_offer action_id generation attempt_seq sdp route_target =
     media_submit (PrepareSdp action_id generation (CalleeAttemptOffer attempt_seq) sdp route_target)"

definition start_answer_media :: "string \<Rightarrow> u64 \<Rightarrow> RecordingSpec option \<Rightarrow> string \<Rightarrow> bool \<Rightarrow> unit msg_op" where
  "start_answer_media action_id generation spec bridge_id allow_fast_path =
     media_submit (StartAnswerMedia action_id generation spec bridge_id allow_fast_path)"

text \<open>The AI service may be absent; a message to it is then not sent.\<close>

definition ai_send :: "AiControlMessage \<Rightarrow> unit msg_op" where
  "ai_send m s =
     (case ac_ai_jobs s of
        None \<Rightarrow> (Ok (), s)
      | Some ch \<Rightarrow> (case connector_try_send m ch of (r, ch') \<Rightarrow> (r, s\<lparr>ac_ai_jobs := Some ch'\<rparr>)))"

definition try_register_attempt :: "AttemptRegistration \<Rightarrow> unit msg_op" where
  "try_register_attempt request s =
     (case try_register request (ac_registrar s) of (r, ch) \<Rightarrow> (r, s\<lparr>ac_registrar := ch\<rparr>))"

definition post_digit_collection :: "DigitCollectionSpec \<Rightarrow> unit msg_op" where
  "post_digit_collection spec s =
     (case coordinator_try_send (StartDigitCollection spec) (ac_event_tx s) of
        (r, ch) \<Rightarrow> (r, s\<lparr>ac_event_tx := ch\<rparr>))"

section \<open>Timers (timer.rs)\<close>

datatype CallTimerKind = DialTimer | RingTimer | CleanupTimer

definition slot_new :: "AppView \<Rightarrow> u64 \<Rightarrow> nat \<Rightarrow> CallTimerSlot" where
  "slot_new app generation delay = \<lparr> slot_generation = generation, slot_deadline = app_now app + delay \<rparr>"

definition route_budget_remaining :: "AppView \<Rightarrow> SessionActor \<Rightarrow> nat" where
  "route_budget_remaining app s = ac_route_deadline s - app_now app"

definition timeouts :: "SessionActor \<Rightarrow> CallTimeouts" where
  "timeouts s = ccs_timeouts (rt_config_snapshot (ac_call s))"

fun start_timer :: "AppView \<Rightarrow> CallTimerKind \<Rightarrow> SessionActor \<Rightarrow> SessionActor" where
  "start_timer app DialTimer s =
     (let g = saturating_add (rt_dial_timer_generation (ac_call s)) 1
      in s\<lparr>ac_call := (ac_call s)\<lparr>rt_dial_timer_generation := g\<rparr>,
           ac_dial_timer := Some (slot_new app g (min (to_dial (timeouts s)) (route_budget_remaining app s)))\<rparr>)"
| "start_timer app RingTimer s =
     (let g = saturating_add (rt_ring_timer_generation (ac_call s)) 1
      in s\<lparr>ac_call := (ac_call s)\<lparr>rt_ring_timer_generation := g\<rparr>,
           ac_ring_timer := Some (slot_new app g (min (to_ring (timeouts s)) (route_budget_remaining app s)))\<rparr>)"
| "start_timer app CleanupTimer s =
     (let g = saturating_add (rt_cleanup_timer_generation (ac_call s)) 1
      in s\<lparr>ac_call := (ac_call s)\<lparr>rt_cleanup_timer_generation := g\<rparr>,
           ac_cleanup_timer := Some (slot_new app g (to_cleanup (timeouts s)))\<rparr>)"

fun cancel_timer :: "CallTimerKind \<Rightarrow> SessionActor \<Rightarrow> SessionActor" where
  "cancel_timer DialTimer s =
     s\<lparr>ac_call := (ac_call s)\<lparr>rt_dial_timer_generation := saturating_add (rt_dial_timer_generation (ac_call s)) 1\<rparr>,
       ac_dial_timer := None\<rparr>"
| "cancel_timer RingTimer s =
     s\<lparr>ac_call := (ac_call s)\<lparr>rt_ring_timer_generation := saturating_add (rt_ring_timer_generation (ac_call s)) 1\<rparr>,
       ac_ring_timer := None\<rparr>"
| "cancel_timer CleanupTimer s =
     s\<lparr>ac_call := (ac_call s)\<lparr>rt_cleanup_timer_generation := saturating_add (rt_cleanup_timer_generation (ac_call s)) 1\<rparr>,
       ac_cleanup_timer := None\<rparr>"

definition cancel_all_timers :: "SessionActor \<Rightarrow> SessionActor" where
  "cancel_all_timers s = cancel_timer CleanupTimer (cancel_timer RingTimer (cancel_timer DialTimer s))"

section \<open>The collectors as part of the actor\<close>

definition collector_view :: "SessionActor \<Rightarrow> CollectorHost" where
  "collector_view s =
     \<lparr> co_collectors = ac_dtmf_collectors s, co_timer_generation = ac_dtmf_collector_timer_generation s,
       co_timer = ac_dtmf_collector_timer s, co_media_generation = ac_media_generation s,
       co_media_tx = ac_media_tx s, co_replies = ac_replies s, co_call_id = call_id s,
       co_caller_session_id = caller_session_id s, co_callee_session_id = callee_session_id s,
       co_answered = is_answered (ac_call s), co_terminating = terminating s \<rparr>"

definition put_collector_view :: "CollectorHost \<Rightarrow> SessionActor \<Rightarrow> SessionActor" where
  "put_collector_view h s =
     s\<lparr>ac_dtmf_collectors := co_collectors h, ac_dtmf_collector_timer_generation := co_timer_generation h,
       ac_dtmf_collector_timer := co_timer h, ac_media_tx := co_media_tx h, ac_replies := co_replies h\<rparr>"

definition on_collectors :: "(CollectorHost \<Rightarrow> CollectorHost) \<Rightarrow> SessionActor \<Rightarrow> SessionActor" where
  "on_collectors f s = put_collector_view (f (collector_view s)) s"

section \<open>Finishing a call (cdr.rs)\<close>

definition next_media_generation :: "SessionActor \<Rightarrow> SessionActor" where
  "next_media_generation = ac_media_generation_update (\<lambda>g. saturating_add g 1)"

definition begin_finish_call :: "AppView \<Rightarrow> SessionActor \<Rightarrow> SessionActor" where
  "begin_finish_call app s =
     (if ac_finalization_started s then s
      else
        let s1 = on_collectors (abort_digit_collection ''call_terminated'') (s\<lparr>ac_finalization_started := True\<rparr>);
            s2 = next_media_generation (cancel_all_timers s1);
            s3 = ac_call_update (release_topology (app_unix_ms app)) s2
        in emit (FinalizeCall (final_call_snapshot (ac_call s3)) (ac_media_present s3))
             (emit (ActiveCallRemoved (call_id s3)) (s3\<lparr>ac_media_present := False\<rparr>)))"

end
