(* ===== verification/Actor_Attempts.thy ===== *)
theory Actor_Attempts
  imports Call_Actor
begin

text \<open>
  Sequential attempts of the call actor (\<open>crates/voipswitchd/src/runtime/call/attempt.rs\<close>): when another
  candidate is tried, how its offer is prepared and its session registered, how a call ends when no
  candidate is left; and the failure of a transfer an AI agent asked for (\<open>fail_ai_transfer\<close> of \<open>mod.rs\<close>).
\<close>

section \<open>Transfers of an AI agent\<close>

definition ai_agent_prefix :: "string \<Rightarrow> bool" where
  "ai_agent_prefix target \<longleftrightarrow> take 9 target = ''ai_agent:''"

definition ai_agent_conversation_active :: "SessionActor \<Rightarrow> bool" where
  "ai_agent_conversation_active s \<longleftrightarrow>
     ai_agent_prefix (rt_callee_target (ac_call s)) \<or> ac_pending_ai_transfer s \<noteq> None \<or> ac_ai_transfer_failed s"

definition current_ai_language :: "AppView \<Rightarrow> SessionActor \<Rightarrow> string" where
  "current_ai_language app s =
     (case original_ai_agent_id (ac_call s) of
        None \<Rightarrow> ''zh-CN''
      | Some agent_id \<Rightarrow>
          (case Option.bind (app_domains app (domain_id s))
                  (\<lambda>d. find (\<lambda>a. agent_agent_id a = agent_id) (dom_ai_agents d)) of
             None \<Rightarrow> ''zh-CN''
           | Some agent \<Rightarrow>
               if agent_welcome_language agent = ''zh-CN'' \<or> agent_welcome_language agent = ''en-US''
               then agent_welcome_language agent else ''zh-CN''))"

definition revision_json :: "SessionActor \<Rightarrow> json" where
  "revision_json s = (case rt_ai_agent_revision (ac_call s) of Some r \<Rightarrow> JNum (uint r) | None \<Rightarrow> JNull)"

definition next_prompt :: "SessionActor \<Rightarrow> SessionActor" where
  "next_prompt = ac_prompt_generation_update (\<lambda>g. g + 1)"

text \<open>The result of a transfer, reported when the AI service is there.\<close>

definition report_transfer :: "PendingAiTransfer \<Rightarrow> bool \<Rightarrow> string \<Rightarrow> string \<Rightarrow> unit msg_op" where
  "report_transfer transfer success code message =
     when_st (\<lambda>s. ac_ai_jobs s \<noteq> None)
       (bind_st (of_outcome (operation_id_new (pat_operation_id transfer))) (\<lambda>operation_id.
          ai_send (AiActionResult
            \<lparr> ares_conversation = pat_conversation transfer, ares_operation_id = operation_id,
              ares_generation = pat_generation transfer, ares_success = success, ares_code = code,
              ares_message = Some message \<rparr>)))"

definition transfer_failed_trace :: "string \<Rightarrow> PendingAiTransfer \<Rightarrow> SessionActor \<Rightarrow> ActorEffect" where
  "transfer_failed_trace reason transfer s =
     AgentTrace ''transfer_failed'' (pat_generation transfer)
       (JObj [(''operation_id'', JStr (pat_operation_id transfer)), (''number'', JStr (pat_number transfer)),
              (''reason'', JStr reason), (''agent_revision'', revision_json s)])"

definition fail_ai_transfer :: "AppView \<Rightarrow> string \<Rightarrow> unit msg_op" where
  "fail_ai_transfer app reason =
     steps
       [modify_st (cancel_timer DialTimer),
        modify_st (cancel_timer RingTimer),
        modify_st next_prompt,
        modify_st (\<lambda>s. s\<lparr>ac_ai_transfer_failed := True\<rparr>),
        modify_st (emit (CallerInputEnabled False)),
        read_st (\<lambda>s0. steps
          [modify_st (\<lambda>s. s\<lparr>ac_pending_ai_transfer := None\<rparr>),
           modify_st (emit (BuiltinPrompt False
             (case ac_pending_ai_transfer s0 of Some t \<Rightarrow> pat_language t | None \<Rightarrow> current_ai_language app s0))),
           (case ac_pending_ai_transfer s0 of
              None \<Rightarrow> return_st ()
            | Some transfer \<Rightarrow>
                steps [modify_st (\<lambda>s. emit (transfer_failed_trace reason transfer s) s),
                       report_transfer transfer False ''TRANSFER_FAILED'' reason])]),
        modify_st (ac_call_update (\<lambda>c. c\<lparr>rt_callee_terminated := True, rt_last_status := Some 480\<rparr>))]"

section \<open>Retry decisions\<close>

definition retryable_status :: "u16 \<Rightarrow> bool" where
  "retryable_status status_code \<longleftrightarrow> status_code \<in> {408, 480, 500, 502, 503, 504}"

definition hangup_cause_for_status :: "u16 \<Rightarrow> HangupCause" where
  "hangup_cause_for_status status_code =
     (if status_code = 408 \<or> status_code = 504 then RecoveryOnTimerExpire
      else if status_code = 480 then NoUserResponse
      else if status_code = 486 \<or> status_code = 600 then UserBusy
      else if status_code = 503 then TemporaryFailure
      else NetworkFailure)"

definition has_retry_candidate :: "AppView \<Rightarrow> u16 \<Rightarrow> SessionActor \<Rightarrow> bool" where
  "has_retry_candidate app status_code s \<longleftrightarrow>
     \<not> is_answered (ac_call s) \<and> \<not> terminating s \<and> ac_pending_attempt_candidate s = None \<and>
     ac_pending_attempt_registration s = None \<and> ac_retry_after_cleanup s = None \<and>
     ac_remaining_candidates s \<noteq> [] \<and> retryable_status status_code \<and>
     route_budget_remaining app s \<ge> to_min_attempt_window (timeouts s)"

text \<open>\<open>format!("{prefix}-{call_id}-{attempt_seq}")\<close>.\<close>

definition attempt_action_id :: "string \<Rightarrow> string \<Rightarrow> u16 \<Rightarrow> SessionActor \<Rightarrow> string" where
  "attempt_action_id stem middle attempt_seq s =
     dashed (dashed stem (call_id s)) (middle @ decimal (unat attempt_seq))"

definition begin_ai_transfer_attempt :: "OutboundCandidate \<Rightarrow> AppView \<Rightarrow> unit msg_op" where
  "begin_ai_transfer_attempt candidate app =
     read_st (\<lambda>s.
       if app_shutting_down app \<or> terminating s then fail_st ''call is draining''
       else if ac_pending_attempt_candidate s \<noteq> None \<or> ac_pending_attempt_registration s \<noteq> None \<or>
          ac_pending_ai_transfer s = None
       then fail_st ''transfer attempt already in progress''
       else
         let attempt_seq = saturating_add (ac_current_attempt_seq s) 1 in
         steps
           [modify_st (cancel_timer DialTimer),
            modify_st (cancel_timer RingTimer),
            modify_st (cancel_timer CleanupTimer),
            modify_st (\<lambda>s. s\<lparr>ac_pending_attempt_candidate :=
              Some \<lparr> pac_attempt_seq = attempt_seq, pac_candidate = candidate \<rparr>\<rparr>),
            modify_st next_media_generation,
            read_st (\<lambda>s. prepare_callee_offer (attempt_action_id ''prepare-transfer-offer'' [] attempt_seq s)
              (ac_media_generation s) attempt_seq (ac_caller_offer s) (oc_callee_route_target candidate))])"

section \<open>Ending a call without a candidate\<close>

definition terminate_retry_setup :: "AppView \<Rightarrow> string \<Rightarrow> unit msg_op" where
  "terminate_retry_setup app cause =
     steps
       [modify_st (ac_call_update (begin_terminating HangupCause.InternalError)),
        modify_st (ac_call_update (\<lambda>c. c\<lparr>rt_state := Terminating, rt_last_status := Some 503,
          rt_hangup_cause := Some HangupCause.InternalError, rt_callee_terminated := True\<rparr>)),
        read_st (\<lambda>s. submit_caller_action app ''RejectInboundInvite'' (dashed (dashed ''reject'' cause) (call_id s))
          [leg_json s, (''status_code'', status_json 503)]),
        modify_st (start_timer app CleanupTimer)]"

definition terminate_exhausted_retry :: "AppView \<Rightarrow> u16 \<Rightarrow> unit msg_op" where
  "terminate_exhausted_retry app status_code =
     steps
       [modify_st (ac_call_update (begin_terminating HangupCause.InternalError)),
        modify_st (ac_call_update (\<lambda>c. c\<lparr>rt_state := Terminating, rt_last_status := Some status_code,
          rt_hangup_cause := Some HangupCause.NoRoute, rt_callee_terminated := True\<rparr>)),
        read_st (\<lambda>s. submit_caller_action app ''RejectInboundInvite'' (dashed ''reject-route-budget'' (call_id s))
          [leg_json s, (''status_code'', status_json status_code)]),
        modify_st (start_timer app CleanupTimer)]"

section \<open>The next candidate\<close>

definition begin_next_attempt :: "AppView \<Rightarrow> u16 \<Rightarrow> bool actor_op" where
  "begin_next_attempt app previous_status =
     read_st (\<lambda>s.
       if app_shutting_down app \<or> terminating s then return_st False
       else if \<not> retryable_status previous_status \<or> route_budget_remaining app s < to_min_attempt_window (timeouts s)
       then return_st False
       else
         (case ac_remaining_candidates s of
            [] \<Rightarrow> return_st False
          | candidate # rest \<Rightarrow>
              let attempt_seq = saturating_add (ac_current_attempt_seq s) 1 in
              seq_st (steps
                [modify_st (\<lambda>s. s\<lparr>ac_remaining_candidates := rest\<rparr>),
                 on_call (update_current_attempt CalleeAttemptState.Failed (Some (hangup_cause_for_status previous_status))),
                 modify_st (cancel_timer DialTimer),
                 modify_st (cancel_timer RingTimer),
                 modify_st (cancel_timer CleanupTimer),
                 modify_st (\<lambda>s. s\<lparr>ac_pending_attempt_candidate :=
                   Some \<lparr> pac_attempt_seq = attempt_seq, pac_candidate = candidate \<rparr>\<rparr>),
                 modify_st (ac_call_update (\<lambda>c. c\<lparr>rt_last_status := Some previous_status\<rparr>)),
                 modify_st next_media_generation,
                 read_st (\<lambda>s. anyhow (prepare_callee_offer (attempt_action_id ''prepare-attempt-offer'' [] attempt_seq s)
                   (ac_media_generation s) attempt_seq (ac_caller_offer s) (oc_callee_route_target candidate)))])
                (return_st True)))"

text \<open>Try the next candidate, or end the call.\<close>

definition next_attempt_or_end :: "AppView \<Rightarrow> u16 \<Rightarrow> unit actor_op" where
  "next_attempt_or_end app status_code =
     bind_st (begin_next_attempt app status_code)
       (\<lambda>started. if started then return_st () else anyhow (terminate_exhausted_retry app status_code))"

definition wait_for_retry_cleanup :: "AppView \<Rightarrow> u16 \<Rightarrow> bool msg_op" where
  "wait_for_retry_cleanup app status_code =
     read_st (\<lambda>s.
       if \<not> has_retry_candidate app status_code s then return_st False
       else
         seq_st (steps
           [modify_st (cancel_timer DialTimer),
            modify_st (cancel_timer RingTimer),
            modify_st (\<lambda>s. s\<lparr>ac_retry_after_cleanup := Some status_code\<rparr>),
            modify_st (ac_call_update (\<lambda>c. c\<lparr>rt_last_status := Some status_code\<rparr>)),
            read_st (\<lambda>s. submit_callee_action app ''CancelOutbound''
              (attempt_action_id ''retry-cancel'' ''attempt-'' (ac_current_attempt_seq s) s)
              [(''reason'', JStr ''sequential_hunt_retry'')]),
            modify_st (start_timer app CleanupTimer)])
           (return_st True))"

definition callee_gone :: "SessionActor \<Rightarrow> SessionActor" where
  "callee_gone = ac_call_update (\<lambda>c. c\<lparr>rt_callee_terminated := True\<rparr>)"

definition retry_after_originate_failure :: "AppView \<Rightarrow> bool actor_op" where
  "retry_after_originate_failure app =
     read_st (\<lambda>s.
       if \<not> has_retry_candidate app 503 s then return_st False
       else seq_st (modify_st callee_gone) (begin_next_attempt app 503))"

definition retry_after_attempt_ended :: "AppView \<Rightarrow> u16 \<Rightarrow> bool actor_op" where
  "retry_after_attempt_ended app status_code =
     read_st (\<lambda>s.
       case ac_retry_after_cleanup s of
         Some retry_status \<Rightarrow>
           seq_st (steps
             [modify_st (\<lambda>s. s\<lparr>ac_retry_after_cleanup := None\<rparr>),
              modify_st (cancel_timer CleanupTimer),
              modify_st callee_gone,
              next_attempt_or_end app retry_status])
             (return_st True)
       | None \<Rightarrow>
           if \<not> has_retry_candidate app status_code s then return_st False
           else seq_st (modify_st callee_gone) (begin_next_attempt app status_code))"

definition retry_after_late_answer :: "AppView \<Rightarrow> bool actor_op" where
  "retry_after_late_answer app =
     read_st (\<lambda>s.
       case ac_retry_after_cleanup s of
         None \<Rightarrow> return_st False
       | Some status_code \<Rightarrow>
           seq_st (steps
             [modify_st (\<lambda>s. s\<lparr>ac_retry_after_cleanup := None\<rparr>),
              modify_st (cancel_timer CleanupTimer),
              read_st (\<lambda>s. anyhow (submit_callee_action app ''HangupDialog''
                (attempt_action_id ''retry-late-answer-hangup'' ''attempt-'' (ac_current_attempt_seq s) s) [])),
              modify_st callee_gone,
              next_attempt_or_end app status_code])
             (return_st True))"

definition force_retry_after_cleanup :: "AppView \<Rightarrow> bool actor_op" where
  "force_retry_after_cleanup app =
     read_st (\<lambda>s.
       case ac_retry_after_cleanup s of
         None \<Rightarrow> return_st False
       | Some status_code \<Rightarrow>
           seq_st (steps
             [modify_st (\<lambda>s. s\<lparr>ac_retry_after_cleanup := None\<rparr>),
              read_st (\<lambda>s. anyhow (submit_callee_action app ''HangupDialog''
                (attempt_action_id ''retry-cleanup-hangup'' ''attempt-'' (ac_current_attempt_seq s) s) [])),
              modify_st callee_gone,
              next_attempt_or_end app status_code])
             (return_st True))"

section \<open>Offer and registration of the next attempt\<close>

text \<open>A failed preparation ends the transfer when there is one, the call otherwise.\<close>

definition attempt_setup_failed :: "AppView \<Rightarrow> string \<Rightarrow> unit msg_op" where
  "attempt_setup_failed app cause =
     read_st (\<lambda>s. if ac_pending_ai_transfer s \<noteq> None then fail_ai_transfer app cause else terminate_retry_setup app cause)"

definition attempt_session_id :: "u16 \<Rightarrow> SessionActor \<Rightarrow> SessionId" where
  "attempt_session_id attempt_seq s =
     dashed ''session'' (call_id s) @ ''-callee-attempt-'' @ decimal (unat attempt_seq)"

definition new_callee_actor :: "Session \<Rightarrow> u16 \<Rightarrow> SessionActor \<Rightarrow> CalleeSessionActor" where
  "new_callee_actor callee attempt_seq s =
     \<lparr> cs_session = callee, cs_attempt_seq = attempt_seq, cs_leg_event_deduper = deduper_default,
       cs_coordinator = call_id s, cs_action_generation = ac_action_generation s, cs_completed_actions = {},
       cs_dtmf_source = source_default \<rparr>"

definition attempt_registration :: "u16 \<Rightarrow> CalleeSessionActor \<Rightarrow> SessionActor \<Rightarrow> AttemptRegistration" where
  "attempt_registration attempt_seq actor s =
     \<lparr> areg_call_id = call_id s, areg_coordinator_session_id = agg_coordinator (rt_aggregate (ac_call s)),
       areg_coordinator_generation = agg_coordinator_generation (rt_aggregate (ac_call s)),
       areg_previous_session_id = callee_session_id s, areg_attempt_seq = attempt_seq,
       areg_session_id = attempt_session_id attempt_seq s,
       areg_handle = SessionMailbox (attempt_session_id attempt_seq s), areg_actor = actor \<rparr>"

definition register_prepared_attempt :: "AppView \<Rightarrow> u16 \<Rightarrow> OutboundCandidate \<Rightarrow> SdpBody \<Rightarrow> unit actor_op" where
  "register_prepared_attempt app attempt_seq candidate callee_offer =
     seq_st (modify_st (ac_action_generation_update (\<lambda>g. saturating_add g 1)))
       (read_st (\<lambda>s.
         bind_st (lift_err RuntimeErr (of_outcome (make_callee_session (attempt_session_id attempt_seq s) attempt_seq
             (oc_outbound_target candidate) (app_unix_ms app) (ac_call s))))
           (\<lambda>callee. steps
             [modify_st (\<lambda>s. s\<lparr>ac_pending_attempt_registration :=
                Some \<lparr> par_attempt_seq = attempt_seq, par_candidate = candidate,
                       par_session_id = attempt_session_id attempt_seq s,
                       par_callee_control_tx = SessionMailbox (attempt_session_id attempt_seq s),
                       par_callee_offer = callee_offer \<rparr>\<rparr>),
              catch_st
                (read_st (\<lambda>s. try_register_attempt (attempt_registration attempt_seq (new_callee_actor callee attempt_seq s) s)))
                (\<lambda>_. steps
                   [modify_st (\<lambda>s. s\<lparr>ac_pending_attempt_registration := None\<rparr>),
                    anyhow (attempt_setup_failed app ''attempt_registration_overload'')])])))"

definition handle_attempt_offer_prepared :: "AppView \<Rightarrow> u16 \<Rightarrow> (SdpBody, string) outcome \<Rightarrow> unit actor_op" where
  "handle_attempt_offer_prepared app attempt_seq result =
     read_st (\<lambda>s.
       case ac_pending_attempt_candidate s of
         None \<Rightarrow> return_st ()
       | Some pending \<Rightarrow>
           seq_st (modify_st (\<lambda>s. s\<lparr>ac_pending_attempt_candidate := None\<rparr>))
             (if pac_attempt_seq pending \<noteq> attempt_seq \<or> terminating s then return_st ()
              else
                (case result of
                   Ok callee_offer \<Rightarrow> register_prepared_attempt app attempt_seq (pac_candidate pending) callee_offer
                 | Err _ \<Rightarrow> anyhow (attempt_setup_failed app ''attempt_media_failed'')
                 | Panic \<Rightarrow> return_st ())))"

fun target_callee_number :: "OutboundTarget \<Rightarrow> string \<Rightarrow> string" where
  "target_callee_number (EndpointTarget _ endpoint_number) signaling_callee = endpoint_number"
| "target_callee_number (OutboundTrunk _) signaling_callee = signaling_callee"
| "target_callee_number (OutboundAiAgent _) signaling_callee = signaling_callee"

definition originate_body ::
    "(string \<times> json) list \<Rightarrow> OutboundCandidate \<Rightarrow> SdpBody \<Rightarrow> SessionActor \<Rightarrow> (string \<times> json) list" where
  "originate_body target_fields candidate callee_offer s =
     (let numbers = ccs_numbers (rt_config_snapshot (ac_call s)) in
      [(''domain_id'', JStr (domain_id s)), (''caller_session_id'', JStr (caller_session_id s))] @ target_fields @
      [(''caller_number'', JStr (ns_signaling_caller numbers)), (''caller_display_name'', JNull),
       (''callee_number'', JStr (target_callee_number (oc_outbound_target candidate) (ns_signaling_callee numbers))),
       (''sdp_offer'', sdp_json callee_offer), (''sip_metadata'', JObj []), (''extension_headers'', JObj [])])"

definition submit_originate :: "AppView \<Rightarrow> OutboundCandidate \<Rightarrow> SdpBody \<Rightarrow> unit msg_op" where
  "submit_originate app candidate callee_offer =
     read_st (\<lambda>s.
       let action_id = attempt_action_id ''originate'' ''attempt-'' (ac_current_attempt_seq s) s in
       (case oc_outbound_target candidate of
          EndpointTarget endpoint_id endpoint_number \<Rightarrow>
            submit_callee_action app ''OriginateEndpoint'' action_id
              (originate_body [(''endpoint_id'', JStr endpoint_id), (''endpoint_number'', JStr endpoint_number)]
                 candidate callee_offer s)
        | OutboundTrunk trunk_ref \<Rightarrow>
            submit_callee_action app ''OriginateTrunk'' action_id
              (originate_body [(''trunk_ref'', JStr trunk_ref)] candidate callee_offer s)
        | OutboundAiAgent _ \<Rightarrow> return_st ()))"

definition adopt_attempt :: "PendingAttemptRegistration \<Rightarrow> SessionActor \<Rightarrow> SessionActor" where
  "adopt_attempt pending s =
     (let candidate = par_candidate pending in
      emit (DtmfCalleeTarget (par_session_id pending) (par_callee_control_tx pending))
        (s\<lparr>ac_current_attempt_seq := par_attempt_seq pending,
           ac_callee_control_tx := par_callee_control_tx pending,
           ac_call := (ac_call s)
             \<lparr>rt_callee_target := stable_ref (oc_outbound_target candidate),
              rt_outbound_trunk_ref := oc_outbound_trunk_ref candidate,
              rt_outbound_trunk_name := oc_outbound_trunk_name candidate,
              rt_recording_requested := oc_recording_requested candidate,
              rt_ai_policy := oc_ai_policy candidate, rt_recording_start_error := None,
              rt_last_status := None, rt_hangup_cause := None, rt_callee_terminated := False,
              rt_late_answer_cleanup_sent := False\<rparr>\<rparr>))"

fun handle_attempt_registration_result :: "AppView \<Rightarrow> AttemptRegistrationResult \<Rightarrow> unit actor_op" where
  "handle_attempt_registration_result app (Registered attempt_seq session_id) =
     read_st (\<lambda>s.
       case ac_pending_attempt_registration s of
         None \<Rightarrow> return_st ()
       | Some pending \<Rightarrow>
           seq_st (modify_st (\<lambda>s. s\<lparr>ac_pending_attempt_registration := None\<rparr>))
             (if par_attempt_seq pending \<noteq> attempt_seq \<or> par_session_id pending \<noteq> session_id \<or> terminating s
              then modify_st (emit (PostControl (par_callee_control_tx pending) Shutdown))
              else steps
                [on_call (register_attempt attempt_seq session_id (oc_outbound_target (par_candidate pending)) (app_unix_ms app)),
                 modify_st (adopt_attempt pending),
                 anyhow (submit_originate app (par_candidate pending) (par_callee_offer pending)),
                 modify_st (start_timer app DialTimer)]))"
| "handle_attempt_registration_result app (Rejected attempt_seq session_id reason) =
     read_st (\<lambda>s.
       case ac_pending_attempt_registration s of
         None \<Rightarrow> return_st ()
       | Some pending \<Rightarrow>
           if par_attempt_seq pending = attempt_seq \<and> par_session_id pending = session_id
           then seq_st (modify_st (\<lambda>s. s\<lparr>ac_pending_attempt_registration := None\<rparr>))
                  (anyhow (attempt_setup_failed app ''attempt_registration_failed''))
           else return_st ())"

end
