(* ===== verification/Actor_Calls.thy ===== *)
theory Actor_Calls
  imports Actor_Attempts
begin

text \<open>
  The progress of a call in its actor: provisional answers, the answer and its confirmation, failures,
  cancellation and disconnection, the results of media actions
  (\<open>crates/voipswitchd/src/runtime/call/mod.rs\<close>), and what the timers do when they expire (\<open>timer.rs\<close>).
\<close>

section \<open>Ending a call\<close>

definition caller_gone :: "SessionActor \<Rightarrow> SessionActor" where
  "caller_gone = ac_call_update (\<lambda>c. c\<lparr>rt_caller_terminated := True\<rparr>)"

definition set_last_status :: "u16 option \<Rightarrow> SessionActor \<Rightarrow> SessionActor" where
  "set_last_status status = ac_call_update (\<lambda>c. c\<lparr>rt_last_status := status\<rparr>)"

definition set_state :: "CallState \<Rightarrow> SessionActor \<Rightarrow> SessionActor" where
  "set_state state = ac_call_update (\<lambda>c. c\<lparr>rt_state := state\<rparr>)"

definition set_cause :: "HangupCause \<Rightarrow> SessionActor \<Rightarrow> SessionActor" where
  "set_cause cause = ac_call_update (\<lambda>c. c\<lparr>rt_hangup_cause := Some cause\<rparr>)"

definition default_cause :: "HangupCause \<Rightarrow> SessionActor \<Rightarrow> SessionActor" where
  "default_cause cause = ac_call_update (\<lambda>c. c\<lparr>rt_hangup_cause := get_or_insert (rt_hangup_cause c) cause\<rparr>)"

definition terminate_with :: "HangupCause \<Rightarrow> SessionActor \<Rightarrow> SessionActor" where
  "terminate_with cause = ac_call_update (begin_terminating cause)"

text \<open>The common end of the handlers that take a leg away.\<close>

definition finish_or_wait :: "AppView \<Rightarrow> bool \<Rightarrow> (SessionActor, unit, 'e) stateful" where
  "finish_or_wait app start_cleanup_timer =
     read_st (\<lambda>s.
       if rt_caller_terminated (ac_call s) \<and> rt_callee_terminated (ac_call s) then modify_st (begin_finish_call app)
       else if start_cleanup_timer then modify_st (start_timer app CleanupTimer) else return_st ())"

definition fail_media_negotiation :: "AppView \<Rightarrow> string \<Rightarrow> unit msg_op" where
  "fail_media_negotiation app callee_command =
     when_st (\<lambda>s. \<not> terminating s)
       (steps
         [modify_st (terminate_with HangupCause.InternalError),
          modify_st (\<lambda>s. s\<lparr>ac_answer_in_progress := False\<rparr>),
          modify_st (set_state Terminating),
          modify_st (set_last_status (Some 488)),
          modify_st (set_cause IncompatibleDestination),
          modify_st (cancel_timer DialTimer),
          modify_st (cancel_timer RingTimer),
          modify_st next_media_generation,
          read_st (\<lambda>s. submit_callee_action app callee_command (dashed ''media-failure-callee'' (call_id s)) []),
          read_st (\<lambda>s. submit_caller_action app ''RejectInboundInvite'' (dashed ''media-failure-caller'' (call_id s))
            [leg_json s, (''status_code'', status_json 488)]),
          modify_st (start_timer app CleanupTimer)])"

definition signal_disconnected :: "AppView \<Rightarrow> bool \<Rightarrow> unit msg_op" where
  "signal_disconnected app peer_is_callee =
     read_st (\<lambda>s.
       if \<not> peer_is_callee then submit_caller_action app ''HangupDialog'' (dashed ''hangup'' (call_id s)) []
       else if ac_pending_ai_transfer s \<noteq> None then
         seq_st (modify_st (\<lambda>s. s\<lparr>ac_pending_ai_transfer := None\<rparr>))
           (submit_callee_action app (if ac_answer_in_progress s then ''HangupDialog'' else ''CancelOutbound'')
              (dashed ''hangup-ai-transfer'' (call_id s)) [])
       else if ai_agent_conversation_active s then modify_st callee_gone
       else submit_callee_action app ''HangupDialog'' (dashed ''hangup'' (call_id s)) [])"

definition disconnect_leg :: "CallLegEvent \<Rightarrow> SessionActor \<Rightarrow> SessionActor" where
  "disconnect_leg event s =
     (if cle_session_id event = Some (caller_session_id s) then caller_gone s
      else if cle_session_id event = Some (callee_session_id s) then callee_gone s
      else s)"

definition handle_disconnected :: "AppView \<Rightarrow> CallLegEvent \<Rightarrow> unit actor_op" where
  "handle_disconnected app event =
     read_st (\<lambda>s.
       let from_caller = (cle_session_id event = Some (caller_session_id s));
           should_signal_peer = (\<not> terminating s)
       in
       if ac_ai_transfer_failed s \<and> \<not> from_caller then return_st ()
       else if \<not> terminating s \<and> ac_pending_ai_transfer s \<noteq> None \<and> \<not> from_caller
       then anyhow (fail_ai_transfer app ''callee_disconnected'')
       else if \<not> terminating s \<and> cle_session_id event = Some (callee_session_id s) \<and> ac_retry_after_cleanup s \<noteq> None
       then bind_st (retry_after_attempt_ended app (case cle_status_code event of Some c \<Rightarrow> c | None \<Rightarrow> 487))
              (\<lambda>_. return_st ())
       else
         steps
           [modify_st (cancel_timer DialTimer),
            modify_st (set_state Terminating),
            when_st (\<lambda>_. should_signal_peer) (modify_st (\<lambda>s. set_last_status
              (case cle_status_code event of Some c \<Rightarrow> Some c | None \<Rightarrow> rt_last_status (ac_call s)) s)),
            modify_st (default_cause NormalClearing),
            modify_st (disconnect_leg event),
            when_st (\<lambda>_. should_signal_peer) (steps
              [modify_st (terminate_with HangupCause.InternalError),
               modify_st (cancel_timer RingTimer),
               anyhow (signal_disconnected app from_caller)]),
            finish_or_wait app should_signal_peer])"

definition signal_cancelled :: "AppView \<Rightarrow> bool \<Rightarrow> bool msg_op" where
  "signal_cancelled app transfer_pending =
     read_st (\<lambda>s.
       if transfer_pending then
         seq_st (submit_callee_action app (if ac_answer_in_progress s then ''HangupDialog'' else ''CancelOutbound'')
             (dashed ''cancel-ai-transfer'' (call_id s)) [])
           (return_st True)
       else if ai_agent_conversation_active s then seq_st (modify_st callee_gone) (return_st False)
       else
         seq_st
           (if is_answered (ac_call s)
            then submit_callee_action app ''HangupDialog'' (dashed ''hangup-after-cancel'' (call_id s)) []
            else submit_callee_action app ''CancelOutbound'' (dashed ''cancel'' (call_id s)) [])
           (return_st True))"

definition handle_cancelled :: "AppView \<Rightarrow> unit msg_op" where
  "handle_cancelled app =
     read_st (\<lambda>s0.
       let transfer_pending = (ac_pending_ai_transfer s0 \<noteq> None);
           should_signal_peer = (\<not> terminating s0)
       in steps
         [modify_st (cancel_timer DialTimer),
          modify_st next_prompt,
          modify_st (\<lambda>s. s\<lparr>ac_pending_ai_transfer := None\<rparr>),
          modify_st caller_gone,
          modify_st (set_state Terminating),
          modify_st (default_cause OriginatorCancel),
          bind_st
            (if should_signal_peer
             then seq_st (modify_st (terminate_with HangupCause.InternalError))
                    (seq_st (modify_st (cancel_timer RingTimer)) (signal_cancelled app transfer_pending))
             else return_st False)
            (finish_or_wait app)])"

definition handle_failed :: "AppView \<Rightarrow> CallLegEvent \<Rightarrow> unit actor_op" where
  "handle_failed app event =
     seq_st (modify_st (cancel_timer DialTimer))
       (read_st (\<lambda>s.
         let status_code = (case cle_status_code event of Some c \<Rightarrow> c | None \<Rightarrow> 480) in
         if \<not> terminating s \<and> ac_pending_ai_transfer s \<noteq> None
         then anyhow (fail_ai_transfer app (''sip_'' @ decimal (unat status_code)))
         else
           bind_st (if terminating s then return_st False else retry_after_attempt_ended app status_code)
             (\<lambda>retried. if retried then return_st () else
               read_st (\<lambda>s.
                 let should_signal_peer = (\<not> terminating s) in
                 steps
                   [when_st (\<lambda>_. should_signal_peer) (modify_st (set_last_status (cle_status_code event))),
                    modify_st (terminate_with CallRejected),
                    when_st (\<lambda>s. cle_session_id event = Some (callee_session_id s)) (modify_st callee_gone),
                    when_st (\<lambda>_. should_signal_peer) (steps
                      [modify_st (terminate_with HangupCause.InternalError),
                       modify_st (cancel_timer RingTimer),
                       read_st (\<lambda>s. anyhow (submit_caller_action app ''RejectInboundInvite'' (dashed ''reject'' (call_id s))
                         [leg_json s, (''status_code'', status_json status_code)]))]),
                    finish_or_wait app should_signal_peer]))))"

section \<open>Progress and answer\<close>

definition provisional_body :: "u16 \<Rightarrow> json \<Rightarrow> SessionActor \<Rightarrow> (string \<times> json) list" where
  "provisional_body status_code sdp s =
     [leg_json s, (''status_code'', status_json status_code), (''sdp'', sdp)]"

definition provisional_id :: "u16 \<Rightarrow> SessionActor \<Rightarrow> string" where
  "provisional_id status_code s = dashed (dashed ''provisional'' (call_id s)) (decimal (unat status_code))"

definition handle_provisional :: "AppView \<Rightarrow> CallLegEvent \<Rightarrow> unit msg_op" where
  "handle_provisional app event =
     read_st (\<lambda>s.
       let status_code = (case cle_status_code event of Some c \<Rightarrow> c | None \<Rightarrow> 180) in
       if terminating s \<or> ac_pending_answer s \<noteq> None \<or> ac_answer_in_progress s \<or>
          is_answered (ac_call s) \<and> ac_pending_ai_transfer s = None
       then return_st ()
       else if status_code \<noteq> 180 \<and> status_code \<noteq> 183 then return_st ()
       else if ac_pending_ai_transfer s \<noteq> None then
         steps
           [modify_st (cancel_timer DialTimer),
            modify_st (set_last_status (Some status_code)),
            when_st (\<lambda>s. ac_ring_timer s = None) (modify_st (start_timer app RingTimer))]
       else
         steps
           [modify_st (cancel_timer DialTimer),
            modify_st (set_last_status (Some status_code)),
            modify_st (set_state Establishing),
            when_st (\<lambda>s. ac_ring_timer s = None) (modify_st (start_timer app RingTimer)),
            (case cle_sdp event of
               Some sdp \<Rightarrow>
                 read_st (\<lambda>s'.
                   if \<not> ac_media_present s' then fail_media_negotiation app ''CancelOutbound''
                   else seq_st (modify_st next_media_generation)
                     (read_st (\<lambda>s'. prepare_sdp
                        (dashed (dashed ''prepare-provisional'' (call_id s')) (decimal (unat status_code)))
                        (ac_media_generation s') (ProvisionalSdp status_code (ac_ring_timer s = None)) sdp)))
             | None \<Rightarrow>
                 read_st (\<lambda>s'. submit_caller_action app ''ForwardProvisional'' (provisional_id status_code s')
                   ((''session_id'', JStr (caller_session_id s')) # provisional_body status_code JNull s')))])"

definition handle_answered :: "AppView \<Rightarrow> CallLegEvent \<Rightarrow> unit actor_op" where
  "handle_answered app event =
     seq_st (modify_st (cancel_timer DialTimer))
       (bind_st (retry_after_late_answer app) (\<lambda>retried. if retried then return_st () else
         read_st (\<lambda>s.
           let transfer_answer = (ac_pending_ai_transfer s \<noteq> None) in
           if \<not> transfer_answer \<and> is_answered (ac_call s) \<or> ac_pending_answer s \<noteq> None then return_st ()
           else if terminating s then
             (if rt_late_answer_cleanup_sent (ac_call s) then return_st ()
              else seq_st (modify_st (ac_call_update (\<lambda>c. c\<lparr>rt_late_answer_cleanup_sent := True\<rparr>)))
                (anyhow (submit_callee_action app ''HangupDialog'' (dashed ''hangup-late-answer'' (call_id s)) [])))
           else
             (case cle_sdp event of
                None \<Rightarrow> anyhow (fail_media_negotiation app ''HangupDialog'')
              | Some answer \<Rightarrow>
                  if \<not> ac_media_present s then anyhow (fail_media_negotiation app ''HangupDialog'')
                  else steps
                    [modify_st next_media_generation,
                     modify_st (\<lambda>s. s\<lparr>ac_answer_in_progress := True\<rparr>),
                     read_st (\<lambda>s. anyhow (prepare_sdp (dashed ''prepare-answer'' (call_id s)) (ac_media_generation s)
                       (if transfer_answer then TransferAnswer else AnswerSdp (app_audio_payload_types app answer))
                       answer))]))))"

definition complete_answer :: "AppView \<Rightarrow> SdpBody \<Rightarrow> u8 list \<Rightarrow> unit msg_op" where
  "complete_answer app caller_answer payload_types =
     read_st (\<lambda>s.
       let action_id = dashed ''answer'' (call_id s) in
       steps
         [submit_caller_action app ''AnswerInboundInvite'' action_id
            [(''domain_id'', JStr (domain_id s)), (''call_id'', JStr (call_id s)), leg_json s,
             (''status_code'', status_json 200), (''sdp_answer'', sdp_json caller_answer),
             (''sip_metadata'', JObj []), (''extension_headers'', JObj [])],
          modify_st (set_state Answering),
          modify_st (\<lambda>s. s\<lparr>ac_pending_answer := Some \<lparr> pa_action_id = action_id, pa_payload_types = payload_types \<rparr>\<rparr>)])"

definition recording_spec_from_snapshot :: "CallRuntime \<Rightarrow> u64 \<Rightarrow> u8 list \<Rightarrow> RecordingSpec" where
  "recording_spec_from_snapshot call answered_at_ms payload_types =
     \<lparr> rec_call_id = agg_id (rt_aggregate call), rec_domain_id = agg_domain_id (rt_aggregate call),
       rec_caller_number = ns_original_caller (ccs_numbers (rt_config_snapshot call)),
       rec_callee_number = ns_original_callee (ccs_numbers (rt_config_snapshot call)),
       rec_started_at_ms = answered_at_ms,
       rec_recording_dir = rds_recording_dir (ccs_recording (rt_config_snapshot call)),
       rec_payload_types = payload_types \<rparr>"

text \<open>Whether an AI capture was started is read from the application; an AI agent call never asks for one.\<close>

definition ai_capture_requested :: "AppView \<Rightarrow> SessionActor \<Rightarrow> bool" where
  "ai_capture_requested app s \<longleftrightarrow>
     \<not> ai_agent_prefix (rt_callee_target (ac_call s)) \<and> rt_ai_policy (ac_call s) \<noteq> None \<and> ac_ai_jobs s \<noteq> None \<and>
     app_ai_capture_started app"

definition handle_deferred_disconnect :: "AppView \<Rightarrow> unit actor_op" where
  "handle_deferred_disconnect app =
     read_st (\<lambda>s.
       case ac_deferred_callee_disconnect s of
         None \<Rightarrow> return_st ()
       | Some event \<Rightarrow>
           seq_st (modify_st (\<lambda>s. s\<lparr>ac_deferred_callee_disconnect := None\<rparr>)) (handle_disconnected app event))"

definition confirm_answer :: "AppView \<Rightarrow> string \<Rightarrow> unit actor_op" where
  "confirm_answer app action_id =
     read_st (\<lambda>s.
       case ac_pending_answer s of
         None \<Rightarrow> return_st ()
       | Some pending \<Rightarrow>
           seq_st (modify_st (\<lambda>s. s\<lparr>ac_pending_answer := None\<rparr>))
             (if pa_action_id pending \<noteq> action_id \<or> terminating s
              then modify_st (\<lambda>s. s\<lparr>ac_answer_in_progress := False\<rparr>)
              else steps
                [modify_st (set_state Connected),
                 on_call (mark_answered (app_unix_ms app) (ac_media_generation s)),
                 modify_st (set_last_status (Some 200)),
                 modify_st (cancel_timer RingTimer),
                 read_st (\<lambda>s. anyhow (start_answer_media (dashed ''start-answer-media'' (call_id s)) (ac_media_generation s)
                   (if rt_recording_requested (ac_call s)
                    then Some (recording_spec_from_snapshot (ac_call s) (app_unix_ms app) (pa_payload_types pending))
                    else None)
                   (call_id s) (\<not> rt_recording_requested (ac_call s) \<and> \<not> ai_capture_requested app s))),
                 modify_st (\<lambda>s. s\<lparr>ac_answer_in_progress := False\<rparr>),
                 handle_deferred_disconnect app]))"

section \<open>Results of media actions\<close>

definition transfer_connected :: "PendingAiTransfer \<Rightarrow> unit msg_op" where
  "transfer_connected transfer =
     steps
       [modify_st (\<lambda>s. emit (AgentTrace ''transfer_connected'' (pat_generation transfer)
          (JObj [(''operation_id'', JStr (pat_operation_id transfer)), (''number'', JStr (pat_number transfer)),
                 (''media_generation'', JNum (uint (ac_media_generation s))), (''agent_revision'', revision_json s)])) s),
        catch_st (ai_send (AiStopConversation (pat_conversation transfer) ''transfer_connected'')) (\<lambda>_. return_st ()),
        report_transfer transfer True ''TRANSFER_CONNECTED'' (pat_number transfer)]"

definition transfer_answered :: "AppView \<Rightarrow> unit actor_op" where
  "transfer_answered app =
     steps
       [modify_st (\<lambda>s. s\<lparr>ac_answer_in_progress := False, ac_ai_transfer_failed := False\<rparr>),
        modify_st next_prompt,
        modify_st (set_state Connected),
        modify_st (ac_call_update (\<lambda>c. c\<lparr>rt_callee_terminated := False\<rparr>)),
        read_st (\<lambda>s. on_call (mark_transfer_answered (app_unix_ms app) (ac_media_generation s))),
        read_st (\<lambda>s. anyhow (start_answer_media (dashed ''start-transfer-media'' (call_id s)) (ac_media_generation s) None
          (call_id s) False)),
        read_st (\<lambda>s.
          case ac_pending_ai_transfer s of
            None \<Rightarrow> return_st ()
          | Some transfer \<Rightarrow>
              seq_st (modify_st (\<lambda>s. s\<lparr>ac_pending_ai_transfer := None\<rparr>)) (anyhow (transfer_connected transfer)))]"

fun is_provisional_sdp :: "PrepareSdpPurpose \<Rightarrow> bool" where
  "is_provisional_sdp (ProvisionalSdp _ _) = True"
| "is_provisional_sdp _ = False"

fun handle_sdp_failed :: "AppView \<Rightarrow> PrepareSdpPurpose \<Rightarrow> string \<Rightarrow> unit actor_op" where
  "handle_sdp_failed app (ProvisionalSdp _ _) error = anyhow (fail_media_negotiation app ''CancelOutbound'')"
| "handle_sdp_failed app (CalleeAttemptOffer attempt_seq) error = handle_attempt_offer_prepared app attempt_seq (Err error)"
| "handle_sdp_failed app _ error = anyhow (fail_media_negotiation app ''HangupDialog'')"

fun handle_sdp_prepared :: "AppView \<Rightarrow> PrepareSdpPurpose \<Rightarrow> SdpBody \<Rightarrow> unit actor_op" where
  "handle_sdp_prepared app (ProvisionalSdp status_code start_ring_timer) prepared =
     steps
       [read_st (\<lambda>s. anyhow (submit_caller_action app ''ForwardProvisional'' (provisional_id status_code s)
          (provisional_body status_code (sdp_json prepared) s))),
        when_st (\<lambda>s. start_ring_timer \<and> ac_ring_timer s = None) (modify_st (start_timer app RingTimer))]"
| "handle_sdp_prepared app (AnswerSdp payload_types) prepared = anyhow (complete_answer app prepared payload_types)"
| "handle_sdp_prepared app AiAgentAnswer prepared = anyhow (complete_answer app prepared [])"
| "handle_sdp_prepared app TransferAnswer prepared = transfer_answered app"
| "handle_sdp_prepared app (CalleeAttemptOffer attempt_seq) prepared =
     handle_attempt_offer_prepared app attempt_seq (Ok prepared)"

fun handle_media_action_result :: "AppView \<Rightarrow> MediaActionResult \<Rightarrow> unit actor_op" where
  "handle_media_action_result app (SdpPrepared action_id generation purpose result) =
     read_st (\<lambda>s.
       if generation \<noteq> ac_media_generation s \<or> terminating s \<or>
          is_provisional_sdp purpose \<and>
            (ac_pending_answer s \<noteq> None \<or> ac_answer_in_progress s \<or> is_answered (ac_call s))
       then return_st ()
       else
         (case result of
            Ok prepared \<Rightarrow> handle_sdp_prepared app purpose prepared
          | Err error \<Rightarrow> handle_sdp_failed app purpose error
          | Panic \<Rightarrow> return_st ()))"
| "handle_media_action_result app (AnswerMediaStarted action_id generation recording_error) =
     read_st (\<lambda>s.
       if generation \<noteq> ac_media_generation s then return_st ()
       else steps
         [modify_st (ac_call_update (\<lambda>c. case recording_error of
            Some error \<Rightarrow> c\<lparr>rt_recording_start_error := Some error\<rparr> | None \<Rightarrow> c)),
          on_call (activate_current_bridge generation (app_unix_ms app))])"
| "handle_media_action_result app (DtmfCapabilityAcquired action_id generation result) =
     when_st (\<lambda>s. generation = ac_media_generation s \<and> \<not> terminating s)
       (modify_st (on_collectors (handle_dtmf_capability_acquired (app_now app) action_id result)))"
| "handle_media_action_result app (DtmfCapabilityReleased action_id generation result) =
     when_st (\<lambda>s. generation = ac_media_generation s)
       (modify_st (on_collectors (handle_dtmf_capability_released action_id result)))"

section \<open>Expired timers (timer.rs)\<close>

record CallTimerEvent =
  cte_call_id :: string
  cte_kind :: CallTimerKind
  cte_generation :: u64

text \<open>The two arms for an attempt that does not progress differ in their names only.\<close>

definition attempt_timeout :: "AppView \<Rightarrow> CallTimerKind \<Rightarrow> string \<Rightarrow> u16 \<Rightarrow> HangupCause \<Rightarrow> unit msg_op" where
  "attempt_timeout app kind name status_code cause =
     read_st (\<lambda>s.
       if ac_pending_ai_transfer s \<noteq> None then
         steps
           [modify_st (cancel_timer kind),
            read_st (\<lambda>s. submit_callee_action app ''CancelOutbound''
              (dashed ''ai-transfer'' (dashed (name @ ''-timeout'') (call_id s))) [(''reason'', JStr (name @ ''_timeout''))]),
            fail_ai_transfer app (name @ ''_timeout'')]
       else if is_answered (ac_call s) then return_st ()
       else
         bind_st (wait_for_retry_cleanup app status_code) (\<lambda>waiting. if waiting then return_st () else
           steps
             [modify_st (cancel_timer kind),
              modify_st (set_state Terminating),
              modify_st (set_last_status (Some status_code)),
              modify_st (set_cause cause),
              read_st (\<lambda>s. submit_callee_action app ''CancelOutbound'' (dashed (name @ ''-timeout-cancel'') (call_id s))
                [(''reason'', JStr (name @ ''_timeout''))]),
              read_st (\<lambda>s. submit_caller_action app ''RejectInboundInvite'' (dashed (name @ ''-timeout-reject'') (call_id s))
                [leg_json s, (''status_code'', status_json status_code)]),
              modify_st (start_timer app CleanupTimer)]))"

definition cleanup_timeout :: "AppView \<Rightarrow> unit actor_op" where
  "cleanup_timeout app =
     read_st (\<lambda>s.
       if ac_retry_after_cleanup s \<noteq> None then bind_st (force_retry_after_cleanup app) (\<lambda>_. return_st ())
       else if \<not> terminating s then return_st ()
       else steps
         [when_st (\<lambda>_. \<not> rt_caller_terminated (ac_call s))
            (read_st (\<lambda>s. anyhow (submit_caller_action app ''HangupDialog'' (dashed ''cleanup-hangup-caller'' (call_id s)) []))),
          when_st (\<lambda>_. \<not> rt_callee_terminated (ac_call s))
            (read_st (\<lambda>s. anyhow (submit_callee_action app ''HangupDialog'' (dashed ''cleanup-hangup-callee'' (call_id s)) []))),
          modify_st (default_cause HangupCause.InternalError),
          modify_st (begin_finish_call app)])"

definition handle_timer :: "AppView \<Rightarrow> CallTimerEvent \<Rightarrow> unit actor_op" where
  "handle_timer app event =
     read_st (\<lambda>s.
       case cte_kind event of
         DialTimer \<Rightarrow>
           if call_id s \<noteq> cte_call_id event \<or> rt_dial_timer_generation (ac_call s) \<noteq> cte_generation event \<or> terminating s
           then return_st ()
           else anyhow (attempt_timeout app DialTimer ''dial'' 408 RecoveryOnTimerExpire)
       | RingTimer \<Rightarrow>
           if call_id s \<noteq> cte_call_id event \<or> rt_ring_timer_generation (ac_call s) \<noteq> cte_generation event \<or> terminating s
           then return_st ()
           else anyhow (attempt_timeout app RingTimer ''ring'' 480 NoUserResponse)
       | CleanupTimer \<Rightarrow>
           if call_id s \<noteq> cte_call_id event \<or> rt_cleanup_timer_generation (ac_call s) \<noteq> cte_generation event
           then return_st ()
           else cleanup_timeout app)"

fun clear_slot :: "CallTimerKind \<Rightarrow> SessionActor \<Rightarrow> SessionActor" where
  "clear_slot DialTimer s = s\<lparr>ac_dial_timer := None\<rparr>"
| "clear_slot RingTimer s = s\<lparr>ac_ring_timer := None\<rparr>"
| "clear_slot CleanupTimer s = s\<lparr>ac_cleanup_timer := None\<rparr>"

definition handle_timer_expiry :: "AppView \<Rightarrow> CallTimerKind \<Rightarrow> u64 \<Rightarrow> unit actor_op" where
  "handle_timer_expiry app kind generation =
     seq_st (modify_st (clear_slot kind))
       (read_st (\<lambda>s. handle_timer app \<lparr> cte_call_id = call_id s, cte_kind = kind, cte_generation = generation \<rparr>))"

end
