(* ===== verification/Actor_Control.thy ===== *)
theory Actor_Control
  imports Actor_Calls
begin

text \<open>
  The mailbox loop of the call actor (\<open>crates/voipswitchd/src/runtime/call/actor.rs\<close>): which handler a control
  message reaches, actions an AI agent asks for, digits, acknowledgements of adapter actions, shutdown,
  and what the loop does with a handler's result; how a call is set up (\<open>mod.rs\<close>); and the hand-off of
  the coordinator role to the actor of another leg.
\<close>

section \<open>Shutdown and results\<close>

definition begin_shutdown :: "AppView \<Rightarrow> unit msg_op" where
  "begin_shutdown app =
     seq_st (modify_st (\<lambda>s. s\<lparr>ac_retry_after_cleanup := None\<rparr>))
       (read_st (\<lambda>s.
         let answered = is_answered (ac_call s) in
         if terminating s then return_st ()
         else steps
           [modify_st (terminate_with SystemShutdown),
            modify_st (cancel_timer DialTimer),
            modify_st (cancel_timer RingTimer),
            when_st (\<lambda>s. \<not> rt_caller_terminated (ac_call s))
              (read_st (\<lambda>s. submit_caller_action app (if answered then ''HangupDialog'' else ''RejectInboundInvite'')
                 (dashed ''shutdown-caller'' (call_id s)) [leg_json s, (''status_code'', status_json 503)])),
            when_st (\<lambda>s. ai_agent_conversation_active s \<and> ac_pending_ai_transfer s = None) (modify_st callee_gone),
            when_st (\<lambda>s. \<not> rt_callee_terminated (ac_call s))
              (read_st (\<lambda>s. submit_callee_action app
                 (if answered \<and> ac_pending_ai_transfer s = None then ''HangupDialog'' else ''CancelOutbound'')
                 (dashed ''shutdown-callee'' (call_id s)) [(''reason'', JStr ''system_shutdown'')])),
            modify_st (start_timer app CleanupTimer)]))"

text \<open>A handler's panic ends the task.\<close>

fun complete_processing :: "AppView \<Rightarrow> (unit, 'e) outcome \<Rightarrow> SessionActor \<Rightarrow> bool \<times> SessionActor" where
  "complete_processing app (Err _) s =
     (True, begin_finish_call app (default_cause HangupCause.InternalError (terminate_with HangupCause.InternalError s)))"
| "complete_processing app (Ok _) s =
     (if ac_finalized s then (False, s)
      else if rt_caller_terminated (ac_call s) \<and> rt_callee_terminated (ac_call s) then (True, begin_finish_call app s)
      else (True, s))"
| "complete_processing app Panic s = (False, s)"

definition processed :: "AppView \<Rightarrow> (SessionActor, unit, 'e) stateful \<Rightarrow> SessionActor \<Rightarrow> bool \<times> SessionActor" where
  "processed app m s = (case m s of (r, t) \<Rightarrow> complete_processing app r t)"

section \<open>Actions of an AI agent\<close>

type_synonym agent_answer = "bool \<times> string \<times> string option"

fun agent_action_kind :: "AgentAction \<Rightarrow> string" where
  "agent_action_kind (PlayText _ _) = ''play_text''"
| "agent_action_kind (CollectDigitsAction _ _) = ''collect_digits''"
| "agent_action_kind (TransferToExtension _) = ''transfer_to_extension''"
| "agent_action_kind (TransferToBusinessTarget _) = ''transfer_to_business_target''"
| "agent_action_kind (EndCall _) = ''end_call''"

definition ensure :: "bool \<Rightarrow> string \<Rightarrow> (SessionActor, unit, string) stateful" where
  "ensure b message = (if b then return_st () else fail_st message)"

definition validate_ai_action :: "AppView \<Rightarrow> ActionRequested \<Rightarrow> unit msg_op" where
  "validate_ai_action app request =
     read_st (\<lambda>s. steps
       [of_outcome (validate_action_requested request),
        ensure (job_conversation_id (areq_conversation request) = call_id s) ''conversation does not match active call'',
        ensure (job_tenant_id (areq_conversation request) = domain_id s) ''conversation tenant does not match active domain'',
        ensure (areq_generation request = job_generation (areq_conversation request)) ''action generation mismatch'',
        ensure (areq_deadline_at_ms request \<ge> app_unix_ms app) ''action deadline exceeded'',
        ensure (ai_agent_conversation_active s \<and> is_answered (ac_call s))
          ''AI action is only valid on an answered AI Agent call'',
        ensure (\<not> terminating s) ''call is terminating''])"

definition end_call_action :: "AppView \<Rightarrow> string \<Rightarrow> agent_answer msg_op" where
  "end_call_action app reason =
     seq_st (steps
       [modify_st (terminate_with NormalClearing),
        modify_st (set_cause NormalClearing),
        modify_st (set_state Terminating),
        modify_st callee_gone,
        modify_st (cancel_timer DialTimer),
        modify_st (cancel_timer RingTimer),
        read_st (\<lambda>s. submit_caller_action app ''HangupDialog'' (dashed ''ai-end-call'' (call_id s)) [(''reason'', JStr reason)]),
        modify_st (start_timer app CleanupTimer)])
       (return_st (True, ''ACCEPTED'', None))"

definition agent_collection_spec :: "string \<Rightarrow> u8 \<Rightarrow> u64 \<Rightarrow> SessionActor \<Rightarrow> DigitCollectionSpec" where
  "agent_collection_spec operation_id max_digits timeout_ms s =
     \<lparr> sp_collector_id = operation_id, sp_owner = operation_id, sp_source_session_id = caller_session_id s,
       sp_mode = CollectDigits, sp_allowed = {D0, D1, D2, D3, D4, D5, D6, D7, D8, D9, Star}, sp_min_digits = 1,
       sp_max_digits = unat max_digits, sp_terminators = {Pound}, sp_first_digit_timeout = unat timeout_ms,
       sp_inter_digit_timeout = unat timeout_ms, sp_overall_timeout = unat timeout_ms \<rparr>"

definition collect_digits_action :: "AppView \<Rightarrow> ActionRequested \<Rightarrow> u8 \<Rightarrow> u64 \<Rightarrow> agent_answer msg_op" where
  "collect_digits_action app request max_digits timeout_ms =
     read_st (\<lambda>s.
       let timeout_ms = min timeout_ms (max (saturating_sub (areq_deadline_at_ms request) (app_unix_ms app)) 1) in
       if ac_ai_jobs s = None then fail_st ''AI connector is unavailable''
       else seq_st (steps
         [post_digit_collection (agent_collection_spec (areq_operation_id request) max_digits timeout_ms s),
          modify_st (emit (AwaitDigitResult (areq_conversation request) (areq_operation_id request) (areq_generation request)))])
         (return_st (True, ''DEFERRED'', None)))"

definition start_transfer_failure_prompt :: "AppView \<Rightarrow> ActionRequested \<Rightarrow> string \<Rightarrow> string \<Rightarrow> unit msg_op" where
  "start_transfer_failure_prompt app request number reason =
     steps
       [modify_st next_prompt,
        modify_st (emit (CallerInputEnabled False)),
        modify_st (\<lambda>s. emit (BuiltinPrompt False (current_ai_language app s)) s),
        modify_st (\<lambda>s. emit (AgentTrace ''transfer_failed'' (areq_generation request)
          (JObj [(''operation_id'', JStr (areq_operation_id request)), (''number'', JStr number),
                 (''reason'', JStr reason), (''agent_revision'', revision_json s)])) s),
        ai_send (AiActionResult
          \<lparr> ares_conversation = areq_conversation request, ares_operation_id = areq_operation_id request,
            ares_generation = areq_generation request, ares_success = False, ares_code = ''TRANSFER_FAILED'',
            ares_message = Some reason \<rparr>)]"

definition endpoint_resolved_route ::
    "AppView \<Rightarrow> string \<Rightarrow> string \<Rightarrow> string \<Rightarrow> string \<Rightarrow> string \<Rightarrow> ResolvedRoute option" where
  "endpoint_resolved_route app domain endpoint_id endpoint_number signaling_caller_number signaling_callee_number =
     (case rm_items (app_registrations app) (domain, endpoint_id) of
        None \<Rightarrow> None
      | Some registration \<Rightarrow>
          if rv_state registration \<noteq> RegRegistered then None
          else if \<not> rm_ready (app_registrations app) then None
          else Some
            \<lparr> rr_signaling_caller_number = signaling_caller_number, rr_signaling_callee_number = signaling_callee_number,
              rr_candidates =
                [\<lparr> oc_outbound_target = EndpointTarget endpoint_id endpoint_number,
                   oc_callee_route_target = rv_route_target registration, oc_outbound_trunk_ref = None,
                   oc_outbound_trunk_name = None, oc_recording_requested = False, oc_recording_policy_ids = [],
                   oc_ai_policy = None, oc_ai_agent_revision = None, oc_ai_fallback_target = None \<rparr>],
              rr_outbound_route_id = None, rr_outbound_route_name = None \<rparr>)"

definition transfer_candidate :: "AppView \<Rightarrow> string \<Rightarrow> SessionActor \<Rightarrow> (OutboundCandidate, string) outcome" where
  "transfer_candidate app number s =
     and_then (ok_or ''domain_not_found'' (app_domains app (domain_id s))) (\<lambda>domain.
     and_then (ok_or ''extension_not_found''
         (find (\<lambda>e. ext_enabled e \<and> ext_number e = number) (dom_extensions domain))) (\<lambda>extension.
     and_then (ok_or ''extension_unavailable''
         (endpoint_resolved_route app (domain_id s) (decimal (unat (ext_id extension))) (ext_number extension)
            (rt_caller_number (ac_call s)) (ext_number extension))) (\<lambda>resolved.
     ok_or ''extension_unavailable'' (case rr_candidates resolved of [] \<Rightarrow> None | candidate # _ \<Rightarrow> Some candidate))))"

definition transfer_action :: "AppView \<Rightarrow> ActionRequested \<Rightarrow> string \<Rightarrow> agent_answer msg_op" where
  "transfer_action app request number =
     read_st (\<lambda>s.
       if ac_pending_ai_transfer s \<noteq> None then return_st (True, ''IDEMPOTENT_REPLAY'', None)
       else
         seq_st
           (case transfer_candidate app number s of
              Ok candidate \<Rightarrow>
                steps
                  [modify_st (\<lambda>s. s\<lparr>ac_pending_ai_transfer := Some
                     \<lparr> pat_conversation = areq_conversation request, pat_operation_id = areq_operation_id request,
                       pat_generation = areq_generation request, pat_number = number,
                       pat_language = current_ai_language app s \<rparr>\<rparr>),
                   modify_st next_prompt,
                   modify_st (emit (CallerInputEnabled False)),
                   modify_st (\<lambda>s. emit (BuiltinPrompt True (current_ai_language app s)) s),
                   catch_st (begin_ai_transfer_attempt candidate app)
                     (\<lambda>error. fail_ai_transfer app (''attempt_start_failed:'' @ error))]
            | Err reason \<Rightarrow> start_transfer_failure_prompt app request number reason
            | Panic \<Rightarrow> return_st ())
           (return_st (True, ''DEFERRED'', None)))"

definition perform_agent_action :: "AppView \<Rightarrow> ActionRequested \<Rightarrow> agent_answer msg_op" where
  "perform_agent_action app request =
     (case areq_action request of
        EndCall reason \<Rightarrow> end_call_action app reason
      | CollectDigitsAction max_digits timeout_ms \<Rightarrow> collect_digits_action app request max_digits timeout_ms
      | TransferToExtension number \<Rightarrow> transfer_action app request number
      | TransferToBusinessTarget _ \<Rightarrow>
          return_st (False, ''ACTION_NOT_AVAILABLE'', Some ''action requires a later core capability batch'')
      | PlayText _ _ \<Rightarrow>
          return_st (False, ''ACTION_NOT_AVAILABLE'', Some ''action requires a later core capability batch''))"

definition agent_action_key :: "ActionRequested \<Rightarrow> string \<times> u64" where
  "agent_action_key request = (''ai:'' @ areq_operation_id request, areq_generation request)"

definition attempt_agent_action :: "AppView \<Rightarrow> ActionRequested \<Rightarrow> agent_answer msg_op" where
  "attempt_agent_action app request =
     seq_st (validate_ai_action app request)
       (read_st (\<lambda>s.
         if agent_action_key request \<in> ac_completed_actions s then return_st (True, ''IDEMPOTENT_REPLAY'', None)
         else seq_st (modify_st (ac_completed_actions_update (insert (agent_action_key request))))
                (perform_agent_action app request)))"

definition handle_ai_action :: "AppView \<Rightarrow> ActionRequested \<Rightarrow> unit msg_op" where
  "handle_ai_action app request =
     bind_st (catch_st (attempt_agent_action app request) (\<lambda>error. return_st (False, ''ACTION_REJECTED'', Some error)))
       (\<lambda>(success, code, message). steps
         [when_st (\<lambda>_. code \<noteq> ''DEFERRED'') (ai_send (AiActionResult
            \<lparr> ares_conversation = areq_conversation request, ares_operation_id = areq_operation_id request,
              ares_generation = areq_generation request, ares_success = success, ares_code = code,
              ares_message = message \<rparr>)),
          modify_st (\<lambda>s. emit (CallTrace (''AI ActionRequested '' @ agent_action_kind (areq_action request))
            (JObj [(''operation_id'', JStr (areq_operation_id request)),
                   (''generation'', JNum (uint (areq_generation request))), (''agent_revision'', revision_json s),
                   (''action'', JStr (agent_action_kind (areq_action request))), (''success'', JBool success),
                   (''code'', JStr code)])) s)])"

definition handle_ai_gateway_unavailable :: "AppView \<Rightarrow> unit msg_op" where
  "handle_ai_gateway_unavailable app =
     read_st (\<lambda>s.
       let fallback_target = (case rt_ai_fallback_target (ac_call s) of Some t \<Rightarrow> t | None \<Rightarrow> ''end_call'');
           fallback_mode = (if fallback_target = ''end_call'' then ''end_call'' else ''unsupported'')
       in
       if \<not> ai_agent_conversation_active s \<or> terminating s then return_st ()
       else steps
         [modify_st (terminate_with TemporaryFailure),
          modify_st (set_cause TemporaryFailure),
          modify_st (set_state Terminating),
          modify_st callee_gone,
          modify_st (cancel_timer DialTimer),
          modify_st (cancel_timer RingTimer),
          read_st (\<lambda>s. submit_caller_action app ''HangupDialog'' (dashed ''ai-gateway-unavailable'' (call_id s))
            [(''reason'', JStr ''ai_gateway_unavailable''), (''fallback'', JStr fallback_mode)]),
          modify_st (\<lambda>s. emit (CallTrace ''AI gateway unavailable fallback''
            (JObj [(''event'', JStr ''gateway_unavailable_fallback''), (''fallback_target'', JStr fallback_target),
                   (''fallback_mode'', JStr fallback_mode), (''agent_revision'', revision_json s)])) s),
          modify_st (start_timer app CleanupTimer)])"

section \<open>Leg events\<close>

text \<open>
  The deduper of leg events; its eviction loop always ends on a well-formed deduper, an endless loop
  would show as a panic.
\<close>

definition actor_accept_leg_event :: "CallLegEvent \<Rightarrow> bool actor_op" where
  "actor_accept_leg_event event s =
     (if cle_call_id event \<noteq> None \<and> cle_call_id event \<noteq> Some (call_id s) then (Ok False, s)
      else
        (case accept_leg_event (cle_adapter_call_leg_id event) (cle_leg_event_seq event) (ac_leg_event_deduper s) of
           Some (accepted, deduper) \<Rightarrow> (Ok accepted, s\<lparr>ac_leg_event_deduper := deduper\<rparr>)
         | None \<Rightarrow> (Panic, s)))"

definition handle_caller_leg_event :: "AppView \<Rightarrow> string \<Rightarrow> CallLegEvent \<Rightarrow> unit actor_op" where
  "handle_caller_leg_event app frame_type event =
     bind_st (actor_accept_leg_event event) (\<lambda>accepted.
       if \<not> accepted then return_st ()
       else if frame_type = ''InboundInviteCancelled'' then anyhow (handle_cancelled app)
       else if frame_type = ''DialogDisconnected'' then handle_disconnected app event
       else return_st ())"

definition handle_peer_leg_event :: "AppView \<Rightarrow> string \<Rightarrow> CallLegEvent \<Rightarrow> unit actor_op" where
  "handle_peer_leg_event app frame_type event =
     read_st (\<lambda>s.
       if cle_session_id event \<noteq> Some (callee_session_id s) then return_st ()
       else if frame_type = ''OutboundProvisional'' \<and> ac_retry_after_cleanup s \<noteq> None then return_st ()
       else if frame_type = ''DialogDisconnected'' \<and> ac_answer_in_progress s \<and> \<not> terminating s
       then modify_st (\<lambda>s. s\<lparr>ac_deferred_callee_disconnect := Some event\<rparr>)
       else if frame_type = ''OutboundProvisional'' then anyhow (handle_provisional app event)
       else if frame_type = ''OutboundAnswered'' then handle_answered app event
       else if frame_type = ''OutboundFailed'' then handle_failed app event
       else if frame_type = ''DialogDisconnected'' then handle_disconnected app event
       else return_st ())"

section \<open>Digits\<close>

definition valid_source_event :: "DigitEvent \<Rightarrow> DomainId \<Rightarrow> CallId \<Rightarrow> SessionId \<Rightarrow> bool" where
  "valid_source_event event domain call session \<longleftrightarrow>
     identity_is_consistent event \<and> de_domain_id event = domain \<and> de_call_id event = call \<and>
     de_source_session_id event = session"

fun digit_json :: "DtmfDigit \<Rightarrow> json" where
  "digit_json D0 = JStr ''d0''"
| "digit_json D1 = JStr ''d1''"
| "digit_json D2 = JStr ''d2''"
| "digit_json D3 = JStr ''d3''"
| "digit_json D4 = JStr ''d4''"
| "digit_json D5 = JStr ''d5''"
| "digit_json D6 = JStr ''d6''"
| "digit_json D7 = JStr ''d7''"
| "digit_json D8 = JStr ''d8''"
| "digit_json D9 = JStr ''d9''"
| "digit_json Star = JStr ''star''"
| "digit_json Pound = JStr ''pound''"
| "digit_json DA = JStr ''a''"
| "digit_json DB = JStr ''b''"
| "digit_json DC = JStr ''c''"
| "digit_json DD = JStr ''d''"
| "digit_json Flash = JStr ''flash''"

fun transport_json :: "DtmfTransport \<Rightarrow> json" where
  "transport_json Rfc4733 = JStr ''rfc4733''"
| "transport_json SipInfoRelay = JStr ''sip_info_relay''"
| "transport_json SipInfoDtmf = JStr ''sip_info_dtmf''"
| "transport_json InBand = JStr ''in_band''"

definition forward_info :: "AppView \<Rightarrow> DigitEvent \<Rightarrow> SessionId \<Rightarrow> unit msg_op" where
  "forward_info app event peer_session_id =
     (case de_event_id event of
        SipInfoId dialog_generation _ cseq \<Rightarrow>
          read_st (\<lambda>s. submit_caller_action app ''SendDtmfInfo''
            (dashed (dashed (dashed ''dtmf-info'' (call_id s)) (decimal (unat dialog_generation))) (decimal (unat cseq)))
            [(''target_session_id'', JStr peer_session_id), (''digit'', digit_json (de_digit event)),
             (''duration_ms'', JNum (uint (de_duration_ms event))), (''content_mode'', transport_json (de_transport event))])
      | Rfc4733Id _ _ _ _ _ \<Rightarrow> return_st ())"

definition route_digit :: "AppView \<Rightarrow> DigitEvent \<Rightarrow> unit msg_op" where
  "route_digit app event =
     read_st (\<lambda>s.
       let (consumed, h) = collect_digit (app_now app) event (collector_view s) in
       seq_st (modify_st (put_collector_view h))
         (if consumed then modify_st (ac_dtmf_router_update record_consumed)
          else
            read_st (\<lambda>s.
              let (disposition, stats) =
                    route event (caller_session_id s) (Some (callee_session_id s)) (\<not> terminating s) (ac_dtmf_router s) in
              seq_st (modify_st (\<lambda>s. s\<lparr>ac_dtmf_router := stats\<rparr>))
                (case disposition of
                   Forward peer_session_id \<Rightarrow>
                     if is_sip_info (de_transport event) then forward_info app event peer_session_id else return_st ()
                 | Ignore _ \<Rightarrow> return_st ()))))"

definition handle_source_digit :: "AppView \<Rightarrow> DigitEvent \<Rightarrow> unit msg_op" where
  "handle_source_digit app event =
     read_st (\<lambda>s.
       if \<not> valid_source_event event (domain_id s) (call_id s) (ac_owned_session_id s) then return_st ()
       else
         let (decision, source) = accept event (ac_dtmf_source s) in
         seq_st (modify_st (\<lambda>s. s\<lparr>ac_dtmf_source := source\<rparr>))
           (if decision = Accepted then route_digit app event else return_st ()))"

definition handle_peer_digit :: "AppView \<Rightarrow> DigitEvent \<Rightarrow> unit msg_op" where
  "handle_peer_digit app event =
     read_st (\<lambda>s.
       if de_domain_id event \<noteq> domain_id s \<or> de_call_id event \<noteq> call_id s then return_st () else route_digit app event)"

definition handle_dtmf_info_send_result :: "DtmfInfoSendResult \<Rightarrow> unit msg_op" where
  "handle_dtmf_info_send_result result =
     when_st (\<lambda>s. dis_call_id result = call_id s \<and> dis_session_id result = caller_session_id s \<and>
                  dis_generation result = ac_action_generation s)
       (modify_st (ac_dtmf_router_update (record_info_send_result (dis_succeeded result))))"

section \<open>Acknowledgements\<close>

definition accept_action_result :: "ActionIdentity \<Rightarrow> (SessionActor, bool, 'e) stateful" where
  "accept_action_result identity =
     read_st (\<lambda>s.
       if aid_call_id identity \<noteq> call_id s \<or> aid_session_id identity \<noteq> caller_session_id s \<or>
          aid_generation identity \<noteq> ac_action_generation s
       then return_st False
       else seq_st (modify_st (ac_completed_actions_update (insert (aid_action_id identity, aid_generation identity))))
              (return_st ((aid_action_id identity, aid_generation identity) \<notin> ac_completed_actions s)))"

definition is_originate :: "ActionIdentity \<Rightarrow> bool" where
  "is_originate identity \<longleftrightarrow> take 9 (aid_action_kind identity) = ''Originate''"

definition fail_call_action :: "AppView \<Rightarrow> ActionDeliveryFailed \<Rightarrow> bool \<Rightarrow> unit msg_op" where
  "fail_call_action app failure peer_failure =
     when_st (\<lambda>s. \<not> terminating s)
       (steps
         [modify_st (terminate_with HangupCause.InternalError),
          modify_st (set_state Terminating),
          modify_st (ac_call_update (\<lambda>c. c\<lparr>rt_last_status := get_or_insert (rt_last_status c) 503\<rparr>)),
          modify_st (set_cause HangupCause.InternalError),
          modify_st (cancel_timer DialTimer),
          modify_st (cancel_timer RingTimer),
          when_st (\<lambda>_. peer_failure) (modify_st callee_gone),
          when_st (\<lambda>_. is_originate (adf_identity failure))
            (read_st (\<lambda>s. submit_caller_action app ''RejectInboundInvite'' (dashed ''reject-action-failure'' (call_id s))
               [leg_json s, (''status_code'', status_json 503)])),
          modify_st (start_timer app CleanupTimer)])"

definition handle_action_failure :: "AppView \<Rightarrow> ActionDeliveryFailed \<Rightarrow> bool \<Rightarrow> unit actor_op" where
  "handle_action_failure app failure peer_failure =
     bind_st (if peer_failure then return_st True else accept_action_result (adf_identity failure)) (\<lambda>accepted.
       if \<not> accepted then return_st ()
       else if aid_action_kind (adf_identity failure) = ''SendDtmfInfo''
       then modify_st (ac_dtmf_router_update (record_info_send_result False))
       else
         read_st (\<lambda>s.
           if peer_failure \<and> is_originate (adf_identity failure) \<and> ac_pending_ai_transfer s \<noteq> None
           then anyhow (fail_ai_transfer app (''originate_failed:'' @ adf_reason failure))
           else
             bind_st (if peer_failure \<and> is_originate (adf_identity failure) then retry_after_originate_failure app
                      else return_st False)
               (\<lambda>retried. if retried then return_st () else anyhow (fail_call_action app failure peer_failure))))"

definition handle_action_ack :: "AppView \<Rightarrow> CallActionAck \<Rightarrow> unit actor_op" where
  "handle_action_ack app ack =
     (if ack_accepted ack then
        bind_st (accept_action_result (ack_identity ack)) (\<lambda>accepted.
          if accepted \<and> ack_action_kind ack = ''AnswerInboundInvite'' then confirm_answer app (ack_action_id ack)
          else return_st ())
      else handle_action_failure app
             \<lparr> adf_identity = ack_identity ack, adf_reason = ack_reason ''adapter rejected call action'' ack \<rparr> False)"

definition handle_owned_leg_action_ack :: "AppView \<Rightarrow> CallActionAck \<Rightarrow> unit actor_op" where
  "handle_owned_leg_action_ack app ack =
     read_st (\<lambda>s.
       if ack_call_id ack \<noteq> call_id s \<or> ack_session_id ack \<noteq> ac_owned_session_id s \<or>
          ack_generation ack \<noteq> ac_owned_action_generation s \<or>
          (ack_action_id ack, ack_generation ack) \<in> ac_owned_completed_actions s
       then return_st ()
       else
         seq_st (modify_st (ac_owned_completed_actions_update (insert (ack_action_id ack, ack_generation ack))))
           (if ack_accepted ack then return_st ()
            else handle_action_failure app
              \<lparr> adf_identity = ack_identity ack, adf_reason = ack_reason ''adapter rejected owner leg action'' ack \<rparr> True))"

section \<open>The mailbox loop\<close>

datatype ControlSource = OwnedLeg | CoordinatorSource

definition owns_caller :: "SessionActor \<Rightarrow> bool" where
  "owns_caller s \<longleftrightarrow> ac_owned_session_id s = caller_session_id s"

fun dispatch_control :: "AppView \<Rightarrow> ControlSource \<Rightarrow> ControlMessage \<Rightarrow> unit actor_op" where
  "dispatch_control app source (LegEvent frame_type event) =
     read_st (\<lambda>s. if owns_caller s then handle_caller_leg_event app frame_type event
                  else handle_peer_leg_event app frame_type event)"
| "dispatch_control app source (PeerLegEvent frame_type event) = handle_peer_leg_event app frame_type event"
| "dispatch_control app source (ActionFailed failure) =
     read_st (\<lambda>s. handle_action_failure app failure (source = OwnedLeg \<and> \<not> owns_caller s))"
| "dispatch_control app source (PeerActionFailed failure) = handle_action_failure app failure True"
| "dispatch_control app source (ActionAck ack) =
     read_st (\<lambda>s. if source = OwnedLeg \<and> \<not> owns_caller s then handle_owned_leg_action_ack app ack
                  else handle_action_ack app ack)"
| "dispatch_control app source (MediaResult result) = handle_media_action_result app result"
| "dispatch_control app source (MediaDtmfObserved event) = anyhow (handle_source_digit app event)"
| "dispatch_control app source (SipDtmf event) = anyhow (handle_source_digit app event)"
| "dispatch_control app source (PeerDigitEvent event) = anyhow (handle_peer_digit app event)"
| "dispatch_control app source (InfoSendResult result) = anyhow (handle_dtmf_info_send_result result)"
| "dispatch_control app source (RegistrationResult result) = handle_attempt_registration_result app result"
| "dispatch_control app source (AiActionRequest request) = anyhow (handle_ai_action app request)"
| "dispatch_control app source AiGatewayUnavailable = anyhow (handle_ai_gateway_unavailable app)"
| "dispatch_control app source Shutdown = anyhow (begin_shutdown app)"
| "dispatch_control app source _ = return_st ()"

definition handle_control :: "AppView \<Rightarrow> ControlSource \<Rightarrow> ControlMessage \<Rightarrow> SessionActor \<Rightarrow> bool \<times> SessionActor" where
  "handle_control app source message s =
     (if ac_finalization_started s then
        (if message = ForceCleanup then (False, s)
         else if message = CallFinalized then (False, s\<lparr>ac_finalized := True\<rparr>)
         else (True, s))
      else if message = CallFinalized then (False, s\<lparr>ac_finalized := True\<rparr>)
      else if message = ForceCleanup then
        (False, begin_finish_call app
           (terminate_with (if app_shutting_down app then SystemShutdown else HangupCause.InternalError) s))
      else processed app (dispatch_control app source message) s)"

fun handle_event_message :: "EventMessage \<Rightarrow> SessionActor \<Rightarrow> SessionActor" where
  "handle_event_message QuerySessionSummary s = s"
| "handle_event_message (StartDigitCollection spec) s = on_collectors (start_digit_collection spec) s"
| "handle_event_message (CancelDigitCollection collector_id) s =
     on_collectors (\<lambda>h. snd (cancel_digit_collection collector_id h)) s"

text \<open>What remains to be done when the loop ends.\<close>

definition after_loop :: "AppView \<Rightarrow> SessionActor \<Rightarrow> SessionActor" where
  "after_loop app s =
     (let s1 = (if ac_finalized s then s else begin_finish_call app (default_cause HangupCause.InternalError s))
      in if ac_owned_session_id s1 \<noteq> callee_session_id s1
         then emit (PostControl (ac_callee_control_tx s1) Shutdown) s1 else s1)"

section \<open>The start of the loop\<close>

fun submit_initial_actions :: "AppView \<Rightarrow> InitialCallAction list \<Rightarrow> SessionActor \<Rightarrow> SessionActor" where
  "submit_initial_actions app [] s = s"
| "submit_initial_actions app (a # actions) s =
     (case (if ica_callee a then submit_callee_action app (ica_action_kind a) (ica_action_id a) (ica_body a) s
            else submit_caller_action app (ica_action_kind a) (ica_action_id a) (ica_body a) s) of
        (Err _, t) \<Rightarrow>
          begin_finish_call app (set_cause HangupCause.InternalError (terminate_with HangupCause.InternalError t))
      | (_, t) \<Rightarrow> submit_initial_actions app actions t)"

definition prepare_agent_answer :: "AppView \<Rightarrow> SessionActor \<Rightarrow> SessionActor" where
  "prepare_agent_answer app s =
     (if \<not> ac_finalization_started s \<and> ai_agent_prefix (rt_callee_target (ac_call s)) then
        let s1 = next_media_generation s in
        (case prepare_sdp (dashed ''prepare-ai-agent-answer'' (call_id s1)) (ac_media_generation s1) AiAgentAnswer
                (ac_caller_offer s1) s1 of
           (Err _, s2) \<Rightarrow> begin_finish_call app (terminate_with HangupCause.InternalError s2)
         | (_, s2) \<Rightarrow> s2)
      else s)"

definition actor_start :: "AppView \<Rightarrow> SessionActor \<Rightarrow> SessionActor" where
  "actor_start app s =
     (let s1 = (if app_shutting_down app
                then snd (processed app (begin_shutdown app) (s\<lparr>ac_actor_started := True\<rparr>)) else s)
      in if ac_actor_started s1 then s1
         else
           let s2 = submit_initial_actions app (ac_initial_actions s1)
                      (s1\<lparr>ac_actor_started := True, ac_initial_actions := []\<rparr>);
               s3 = prepare_agent_answer app s2
           in if ac_finalization_started s3 then s3 else start_timer app DialTimer s3)"

end
