(* ===== verification/Actor_Rules.thy ===== *)
theory Actor_Rules
  imports Actor_Control Runtime_Topology Collector_Timers
begin

text \<open>
  The invariant of the call actor and the rules that carry it through the bodies of the handlers:
  introduction rules for weakest preconditions, in which a bounded queue is any queue, and the effect
  of the primitive steps.
\<close>

section \<open>Rules\<close>

named_theorems wp_intros "introduction rules for weakest preconditions"

lemmas [wp_intros] =
  wp_return [THEN iffD2] wp_modify [THEN iffD2] wp_steps_Nil [THEN iffD2] wp_steps_Cons [THEN iffD2]
  wp_read [THEN iffD2] wp_fail [THEN iffD2] wp_bind [THEN iffD2] wp_seq [THEN iffD2] wp_catch [THEN iffD2]
  wp_lift_err [THEN iffD2]

lemma wpI_if [wp_intros]:
  assumes "b \<Longrightarrow> wp m Q E s" and "\<not> b \<Longrightarrow> wp n Q E s"
  shows "wp (if b then m else n) Q E s"
  using assms by simp

lemma wpI_when [wp_intros]:
  assumes "P s \<Longrightarrow> wp m Q E s" and "\<not> P s \<Longrightarrow> Q () s"
  shows "wp (when_st P m) Q E s"
  using assms by (simp add: wp_when)

lemma wpI_option [wp_intros]:
  assumes "x = None \<Longrightarrow> wp m Q E s" and "\<And>y. x = Some y \<Longrightarrow> wp (f y) Q E s"
  shows "wp (case x of None \<Rightarrow> m | Some y \<Rightarrow> f y) Q E s"
  using assms by (simp split: option.splits)

lemma wpI_list [wp_intros]:
  assumes "x = [] \<Longrightarrow> wp m Q E s" and "\<And>y ys. x = y # ys \<Longrightarrow> wp (f y ys) Q E s"
  shows "wp (case x of [] \<Rightarrow> m | y # ys \<Rightarrow> f y ys) Q E s"
  using assms by (simp split: list.splits)

lemma wpI_result [wp_intros]:
  assumes "\<And>y. x = Ok y \<Longrightarrow> wp (f y) Q E s" and "\<And>e. x = Err e \<Longrightarrow> wp (g e) Q E s" and "x = Panic \<Longrightarrow> wp m Q E s"
  shows "wp (case x of Ok y \<Rightarrow> f y | Err e \<Rightarrow> g e | Panic \<Rightarrow> m) Q E s"
  using assms by (simp split: outcome.splits)

lemma wpI_target [wp_intros]:
  assumes "\<And>i n. x = EndpointTarget i n \<Longrightarrow> wp (f i n) Q E s" and "\<And>r. x = OutboundTrunk r \<Longrightarrow> wp (g r) Q E s"
    and "\<And>a. x = OutboundAiAgent a \<Longrightarrow> wp (h a) Q E s"
  shows "wp (case x of EndpointTarget i n \<Rightarrow> f i n | OutboundTrunk r \<Rightarrow> g r | OutboundAiAgent a \<Rightarrow> h a) Q E s"
  using assms by (simp split: OutboundTarget.splits)

lemma wpI_let [wp_intros]: "(\<And>x. x = v \<Longrightarrow> wp (m x) Q E s) \<Longrightarrow> wp (let x = v in m x) Q E s"
  by (simp add: Let_def)

lemma wpI_outcome [wp_intros]:
  assumes "\<And>x. r = Ok x \<Longrightarrow> Q x s" and "\<And>e. r = Err e \<Longrightarrow> E e s" and "r \<noteq> Panic"
  shows "wp (of_outcome r) Q E s"
  using assms by (cases r) (simp_all add: wp_of_outcome)

lemma wpI_anyhow [wp_intros]: "wp m Q (\<lambda>e. E (Anyhow e)) s \<Longrightarrow> wp (anyhow m) Q E s"
  by (simp add: anyhow_def wp_lift_err)

lemma wpI_submit_caller [wp_intros]:
  assumes "\<And>ch. Q () (s\<lparr>ac_writer := ch\<rparr>)" and "\<And>e. E e s"
  shows "wp (submit_caller_action app kind i body) Q E s"
  using assms
  by (simp add: wp_def submit_caller_action_def submit_action_def writer_try_send_def try_send_text_eq Let_def)

lemma wpI_submit_callee [wp_intros]:
  assumes "\<And>ch. Q () (s\<lparr>ac_writer := ch\<rparr>)" and "\<And>e. E e s"
  shows "wp (submit_callee_action app kind i body) Q E s"
  using assms
  by (simp add: wp_def submit_callee_action_def submit_action_def writer_try_send_def try_send_text_eq Let_def)

lemma wpI_media_submit:
  assumes "\<And>ch. Q () (s\<lparr>ac_media_tx := ch\<rparr>)" and "\<And>e. E e s"
  shows "wp (media_submit a) Q E s"
  using assms by (simp add: wp_def media_submit_def media_try_send_def try_send_text_eq)

lemmas [wp_intros] =
  wpI_media_submit [of Q s E "PrepareSdp i g p d None" for Q s E i g p d, folded prepare_sdp_def]
  wpI_media_submit [of Q s E "PrepareSdp i g (CalleeAttemptOffer n) d t" for Q s E i g n d t, folded prepare_callee_offer_def]
  wpI_media_submit [of Q s E "StartAnswerMedia i g spec b f" for Q s E i g spec b f, folded start_answer_media_def]

lemma wpI_ai_send [wp_intros]:
  assumes "\<And>ch. Q () (s\<lparr>ac_ai_jobs := ch\<rparr>)" and "\<And>e. E e s"
  shows "wp (ai_send m) Q E s"
proof (cases "ac_ai_jobs s")
  case None
  then have "s\<lparr>ac_ai_jobs := None\<rparr> = s" by simp
  then have "Q () s" using assms(1) [of None] by (simp only:)
  with None show ?thesis by (simp add: wp_def ai_send_def)
next
  case (Some ch)
  then have "s\<lparr>ac_ai_jobs := Some ch\<rparr> = s" by simp
  then have "E e (s\<lparr>ac_ai_jobs := Some ch\<rparr>)" for e using assms(2) by (simp only:)
  with assms(1) Some show ?thesis
    by (simp add: wp_def ai_send_def connector_try_send_def try_send_text_eq split: if_splits)
qed

lemma wpI_register [wp_intros]:
  assumes "\<And>ch. Q () (s\<lparr>ac_registrar := ch\<rparr>)" and "\<And>e. E e s"
  shows "wp (try_register_attempt r) Q E s"
  using assms by (simp add: wp_def try_register_attempt_def try_register_def try_send_text_eq)

lemma wpI_post_collection [wp_intros]:
  assumes "\<And>ch. Q () (s\<lparr>ac_event_tx := ch\<rparr>)" and "\<And>e. E e s"
  shows "wp (post_digit_collection spec) Q E s"
  using assms by (simp add: wp_def post_digit_collection_def coordinator_try_send_def try_send_text_eq)

text \<open>
  What an operation on the runtime of a call leaves alone: the state of the call, its timers and its
  identity.
\<close>

definition runtime_same :: "CallRuntime \<Rightarrow> CallRuntime \<Rightarrow> bool" where
  "runtime_same r c \<longleftrightarrow>
     rt_state c = rt_state r \<and> rt_hangup_cause c = rt_hangup_cause r \<and>
     rt_caller_terminated c = rt_caller_terminated r \<and> rt_callee_terminated c = rt_callee_terminated r \<and>
     rt_dial_timer_generation c = rt_dial_timer_generation r \<and>
     rt_ring_timer_generation c = rt_ring_timer_generation r \<and>
     rt_cleanup_timer_generation c = rt_cleanup_timer_generation r \<and>
     ses_id (rt_caller c) = ses_id (rt_caller r) \<and> agg_id (rt_aggregate c) = agg_id (rt_aggregate r) \<and>
     agg_domain_id (rt_aggregate c) = agg_domain_id (rt_aggregate r)"

definition frames_runtime :: "(CallRuntime, 'a, 'e) stateful \<Rightarrow> bool" where
  "frames_runtime m \<longleftrightarrow> (\<forall>r. runtime_same r (snd (m r)))"

lemma runtime_same_trans: "runtime_same r c \<Longrightarrow> runtime_same c d \<Longrightarrow> runtime_same r d"
  by (simp add: runtime_same_def)

lemma frames_bind:
  assumes "frames_runtime m" and "\<And>x. frames_runtime (f x)"
  shows "frames_runtime (bind_st m f)"
  unfolding frames_runtime_def
proof
  fix r :: CallRuntime
  obtain res c where m: "m r = (res, c)" by (cases "m r")
  have c: "runtime_same r c" using assms(1) m by (metis frames_runtime_def snd_conv)
  show "runtime_same r (snd (bind_st m f r))"
  proof (cases res)
    case (Ok x)
    then show ?thesis using c assms(2) [of x] by (auto simp: bind_st_def m frames_runtime_def intro: runtime_same_trans)
  qed (simp_all add: bind_st_def m c)
qed

lemma frames_seq: "frames_runtime m \<Longrightarrow> frames_runtime n \<Longrightarrow> frames_runtime (seq_st m n)"
  by (simp add: seq_st_def frames_bind)

lemma frames_modify: "(\<And>r. runtime_same r (f r)) \<Longrightarrow> frames_runtime (modify_st f)"
  by (simp add: frames_runtime_def)

lemma frames_on_aggregate:
  assumes "\<And>r. agg_frame (rt_aggregate r) (snd (m r (rt_aggregate r)))"
  shows "frames_runtime (\<lambda>r. on_aggregate (m r) r)"
  using assms by (auto simp: frames_runtime_def runtime_same_def agg_frame_def)

lemma frames_update_current_attempt: "frames_runtime (update_current_attempt st h)"
  unfolding update_current_attempt_def [abs_def] by (intro frames_on_aggregate) simp

lemma frames_bridge_current: "frames_runtime (bridge_current t g)"
  unfolding bridge_current_def plan_current_bridge_def [abs_def] Let_def
proof (intro frames_seq)
  show "frames_runtime (\<lambda>r. seq_st (on_aggregate (aggregate_op (add_bridge (bridge_id_of (rt_current_attempt_id r))
      (ses_id (rt_caller r)) (rt_current_callee_session_id r) g t)))
      (modify_st (\<lambda>r'. r'\<lparr>rt_current_bridge_id := Some (bridge_id_of (rt_current_attempt_id r))\<rparr>)) r)"
    unfolding frames_runtime_def
  proof
    fix r :: CallRuntime
    have "frames_runtime (seq_st (on_aggregate (aggregate_op (add_bridge b k k' g t)))
        (modify_st (\<lambda>r'. r'\<lparr>rt_current_bridge_id := Some b\<rparr>)))" for b k k'
      by (intro frames_seq frames_modify frames_on_aggregate [of "\<lambda>_. m" for m, simplified])
        (simp_all add: runtime_same_def)
    then show "runtime_same r (snd (seq_st (on_aggregate (aggregate_op (add_bridge (bridge_id_of (rt_current_attempt_id r))
      (ses_id (rt_caller r)) (rt_current_callee_session_id r) g t)))
      (modify_st (\<lambda>r'. r'\<lparr>rt_current_bridge_id := Some (bridge_id_of (rt_current_attempt_id r))\<rparr>)) r))"
      unfolding frames_runtime_def by blast
  qed
qed (auto intro!: frames_modify frames_on_aggregate simp: runtime_same_def)

lemma frames_mark_answered: "frames_runtime (mark_answered t g)"
  unfolding mark_answered_def select_current_attempt_def [abs_def]
  by (intro frames_seq frames_update_current_attempt frames_bridge_current frames_modify frames_on_aggregate)
    (simp_all add: runtime_same_def session_mark_answered_def)

lemma frames_mark_transfer_answered: "frames_runtime (mark_transfer_answered t g)"
  unfolding mark_transfer_answered_def
proof (intro frames_seq frames_update_current_attempt frames_bridge_current frames_modify frames_on_aggregate)
  have "frames_runtime (on_aggregate (aggregate_op (mark_leg_left k t)))" for k
    by (intro frames_on_aggregate [of "\<lambda>_. m" for m, simplified]) simp
  then show "frames_runtime (\<lambda>r. case winner_session (snapshot (rt_aggregate r)) of
      Some session_id \<Rightarrow> on_aggregate (aggregate_op (mark_leg_left session_id t)) r | None \<Rightarrow> (Ok (), r))"
    by (auto simp: frames_runtime_def runtime_same_def split: option.splits)
next
  fix r :: CallRuntime
  have "agg_frame (rt_aggregate r) (release_all_bridges t (rt_aggregate r))" by simp
  then show "runtime_same r (r\<lparr>rt_aggregate := release_all_bridges t (rt_aggregate r)\<rparr>)"
    by (simp add: runtime_same_def agg_frame_def)
qed simp

lemma frames_activate: "frames_runtime (activate_current_bridge g t)"
  using op_frames(8)
  by (auto simp: frames_runtime_def activate_current_bridge_def runtime_same_def agg_frame_def split: option.splits)

lemma frames_register_attempt: "frames_runtime (register_attempt n k target t)"
  unfolding register_attempt_def [abs_def] frames_runtime_def
proof
  fix r :: CallRuntime
  have "frames_runtime (bind_st (\<lambda>r. (callee_session (rt_caller r) k (attempt_id_of n) target t, r))
       (\<lambda>callee. seq_st (on_aggregate (enter_attempt (attempt_id_of n) k target callee))
         (modify_st (\<lambda>r. r\<lparr>rt_current_attempt_id := attempt_id_of n, rt_current_callee_session_id := k,
                           rt_caller := (rt_caller r)\<lparr>ses_peer := Some k\<rparr>\<rparr>))))"
    by (intro frames_bind frames_seq frames_modify frames_on_aggregate [of "\<lambda>_. m" for m, simplified])
      (simp_all add: frames_runtime_def runtime_same_def enter_attempt_frame)
  then show "runtime_same r (snd (bind_st (\<lambda>r. (callee_session (rt_caller r) k (attempt_id_of n) target t, r))
       (\<lambda>callee. seq_st (on_aggregate (enter_attempt (attempt_id_of n) k target callee))
         (modify_st (\<lambda>r. r\<lparr>rt_current_attempt_id := attempt_id_of n, rt_current_callee_session_id := k,
                           rt_caller := (rt_caller r)\<lparr>ses_peer := Some k\<rparr>\<rparr>))) r))"
    unfolding frames_runtime_def by blast
qed

lemma release_topology_same: "runtime_same r (release_topology t r)"
proof -
  have "agg_frame (rt_aggregate r) (rt_aggregate (release_topology t r))"
    using agg_frame_trans [OF op_frames(10) leave_fold_frame [of _ t "s # ss" for s ss]]
    by (simp add: release_topology_def Let_def)
  then show ?thesis by (simp add: runtime_same_def agg_frame_def release_topology_def Let_def)
qed

text \<open>An operation on the runtime of the call that keeps it well formed.\<close>

lemma wpI_on_call:
  assumes "runtime_safe (m (ac_call s))" and "frames_runtime m"
    and "\<And>x c. runtime_wf c \<Longrightarrow> runtime_same (ac_call s) c \<Longrightarrow> Q x (s\<lparr>ac_call := c\<rparr>)"
    and "\<And>e c. runtime_wf c \<Longrightarrow> runtime_same (ac_call s) c \<Longrightarrow> E (RuntimeErr e) (s\<lparr>ac_call := c\<rparr>)"
  shows "wp (on_call m) Q E s"
proof -
  obtain res c where m: "m (ac_call s) = (res, c)" by (cases "m (ac_call s)")
  moreover from this have "runtime_same (ac_call s) c" using assms(2) by (metis frames_runtime_def snd_conv)
  ultimately show ?thesis
    using assms(1,3,4) by (cases res) (auto simp: wp_def on_call_def zoom_st_def runtime_safe_def)
qed

section \<open>The invariant\<close>

text \<open>Which collectors a call with a given name may have.\<close>

definition collectors_ok :: "CallId \<Rightarrow> (CollectorId, DigitCollectorState) BTreeMap \<Rightarrow> bool" where
  "collectors_ok i m \<longleftrightarrow>
     bt_wf m \<and> length m \<le> DTMF_COLLECTOR_CAPACITY \<and>
     (\<forall>k c. bt_get m k = Some c \<longrightarrow>
        sp_collector_id (col_spec c) = k \<and> col_release_action_id c = release_id i k \<and> collector_good (\<lambda>_. None) k c)"

lemma host_wf_view: "host_wf (collector_view s) \<longleftrightarrow> collectors_ok (call_id s) (ac_dtmf_collectors s)"
  by (simp add: host_upto_def collectors_ok_def collector_view_def)

definition slot_current :: "u64 \<Rightarrow> CallTimerSlot option \<Rightarrow> bool" where
  "slot_current g slot \<longleftrightarrow> (case slot of None \<Rightarrow> True | Some t \<Rightarrow> slot_generation t = g)"

lemma slot_current_simps [simp]:
  "slot_current g None" "slot_current g (Some (slot_new app g d))"
  by (simp_all add: slot_current_def slot_new_def)

definition slots_current :: "SessionActor \<Rightarrow> bool" where
  "slots_current s \<longleftrightarrow>
     slot_current (rt_dial_timer_generation (ac_call s)) (ac_dial_timer s) \<and>
     slot_current (rt_ring_timer_generation (ac_call s)) (ac_ring_timer s) \<and>
     slot_current (rt_cleanup_timer_generation (ac_call s)) (ac_cleanup_timer s)"

definition idle :: "SessionActor \<Rightarrow> bool" where
  "idle s \<longleftrightarrow> ac_dial_timer s = None \<and> ac_ring_timer s = None \<and> ac_cleanup_timer s = None \<and>
     ac_dtmf_collectors s = [] \<and> ac_dtmf_collector_timer s = None"

text \<open>How often the actor has asked for the record of the call to be written.\<close>

fun is_finalize :: "ActorEffect \<Rightarrow> bool" where
  "is_finalize (FinalizeCall _ _) = True"
| "is_finalize _ = False"

lemma transfer_failed_no_finalize [simp]: "\<not> is_finalize (transfer_failed_trace r t s)"
  by (simp add: transfer_failed_trace_def)

definition finalizations :: "SessionActor \<Rightarrow> nat" where
  "finalizations s = length (filter is_finalize (ac_effects s))"

definition actor_wf :: "SessionActor \<Rightarrow> bool" where
  "actor_wf s \<longleftrightarrow>
     runtime_wf (ac_call s) \<and> collectors_ok (call_id s) (ac_dtmf_collectors s) \<and>
     deduper_wf (ac_leg_event_deduper s) \<and> 0 < led_capacity (ac_leg_event_deduper s) \<and>
     source_wf (ac_dtmf_source s) \<and> slots_current s \<and>
     (rt_caller_terminated (ac_call s) \<longrightarrow> terminating s) \<and>
     (terminating s \<longrightarrow> rt_hangup_cause (ac_call s) \<noteq> None) \<and>
     (ac_finalization_started s \<longrightarrow> terminating s \<and> idle s) \<and>
     finalizations s = (if ac_finalization_started s then 1 else 0)"

text \<open>
  A terminating call that is not being finalized has its cleanup timer armed; \<open>k\<close> says whether this
  is being followed.
\<close>

definition armed :: "bool \<Rightarrow> SessionActor \<Rightarrow> bool" where
  "armed k s \<longleftrightarrow> (k \<and> terminating s \<and> \<not> ac_finalization_started s \<longrightarrow> ac_cleanup_timer s \<noteq> None)"

text \<open>Whether the writer would take a message.\<close>

definition takes :: "'m Channel \<Rightarrow> bool" where
  "takes ch \<longleftrightarrow> \<not> ch_closed ch \<and> length (ch_queue ch) < ch_capacity ch"

lemma wpI_submit_caller_taken:
  assumes "takes (ac_writer s)" and "\<And>ch. Q () (s\<lparr>ac_writer := ch\<rparr>)"
  shows "wp (submit_caller_action app kind i body) Q E s"
  using assms
  by (simp add: wp_def submit_caller_action_def submit_action_def writer_try_send_def try_send_text_eq Let_def takes_def)

text \<open>What never goes back: termination, finalization, the candidates, the media generation, the identity.\<close>

definition advances :: "SessionActor \<Rightarrow> SessionActor \<Rightarrow> bool" where
  "advances s t \<longleftrightarrow>
     (terminating s \<longrightarrow> terminating t) \<and> (ac_finalization_started s \<longrightarrow> ac_finalization_started t) \<and>
     (\<exists>xs. ac_remaining_candidates s = xs @ ac_remaining_candidates t) \<and>
     ac_media_generation s \<le> ac_media_generation t \<and> call_id t = call_id s \<and> domain_id t = domain_id s \<and>
     caller_session_id t = caller_session_id s"

definition good :: "SessionActor \<Rightarrow> SessionActor \<Rightarrow> bool" where
  "good s0 s \<longleftrightarrow> actor_wf s \<and> advances s0 s"

definition live :: "SessionActor \<Rightarrow> SessionActor \<Rightarrow> bool" where
  "live s0 s \<longleftrightarrow> good s0 s \<and> \<not> ac_finalization_started s"

lemma live_good: "live s0 s \<Longrightarrow> good s0 s"
  by (simp add: live_def)

lemma advances_refl [simp]: "advances s s"
  by (simp add: advances_def)

lemma advances_trans: "advances s t \<Longrightarrow> advances t u \<Longrightarrow> advances s u"
  by (fastforce simp: advances_def)

text \<open>Fields of the runtime that its well-formedness does not depend on.\<close>

lemma runtime_wf_fields [simp]:
  "runtime_wf (c\<lparr>rt_state := x1\<rparr>) = runtime_wf c"
  "runtime_wf (c\<lparr>rt_last_status := x2\<rparr>) = runtime_wf c"
  "runtime_wf (c\<lparr>rt_hangup_cause := x3\<rparr>) = runtime_wf c"
  "runtime_wf (c\<lparr>rt_dial_timer_generation := x4\<rparr>) = runtime_wf c"
  "runtime_wf (c\<lparr>rt_ring_timer_generation := x5\<rparr>) = runtime_wf c"
  "runtime_wf (c\<lparr>rt_cleanup_timer_generation := x6\<rparr>) = runtime_wf c"
  "runtime_wf (c\<lparr>rt_caller_terminated := x7\<rparr>) = runtime_wf c"
  "runtime_wf (c\<lparr>rt_callee_terminated := x8\<rparr>) = runtime_wf c"
  "runtime_wf (c\<lparr>rt_late_answer_cleanup_sent := x9\<rparr>) = runtime_wf c"
  "runtime_wf (c\<lparr>rt_recording_start_error := y1\<rparr>) = runtime_wf c"
  "runtime_wf (c\<lparr>rt_callee_target := y2\<rparr>) = runtime_wf c"
  "runtime_wf (c\<lparr>rt_outbound_trunk_ref := y3\<rparr>) = runtime_wf c"
  "runtime_wf (c\<lparr>rt_outbound_trunk_name := y4\<rparr>) = runtime_wf c"
  "runtime_wf (c\<lparr>rt_recording_requested := y5\<rparr>) = runtime_wf c"
  "runtime_wf (c\<lparr>rt_ai_policy := y6\<rparr>) = runtime_wf c"
  by (simp_all add: runtime_wf_def)

lemma terminating_states [simp]:
  "is_terminating_or_completed Terminating" "\<not> is_terminating_or_completed Establishing"
  "\<not> is_terminating_or_completed Answering" "\<not> is_terminating_or_completed Connected"
  by simp_all

lemmas actor_state_defs =
  actor_wf_def advances_def slots_current_def idle_def armed_def call_id_def domain_id_def caller_session_id_def
  is_terminating_def begin_terminating_def finalizations_def

lemmas actor_step_defs =
  set_state_def set_last_status_def set_cause_def default_cause_def terminate_with_def callee_gone_def
  caller_gone_def next_prompt_def next_media_generation_def emit_def Let_def

end
