(* ===== verification/Actor_Invariants.thy ===== *)
theory Actor_Invariants
  imports Actor_Rules
begin

text \<open>
  Every handler of the call actor keeps the actor well formed and, unless it fails, leaves a
  terminating call with its cleanup timer armed.
\<close>

lemmas leaf_defs = live_def good_def actor_state_defs actor_step_defs runtime_same_def

text \<open>The timers as steps of their own: what they leave alone, and what the contract says of them.\<close>

lemmas timer_steps = start_timer.simps cancel_timer.simps

lemma timer_fields [simp]:
  "ac_finalization_started (start_timer app t s) = ac_finalization_started s"
  "ac_remaining_candidates (start_timer app t s) = ac_remaining_candidates s"
  "ac_caller_offer (start_timer app t s) = ac_caller_offer s"
  "ac_writer (start_timer app t s) = ac_writer s"
  "ac_callee_control_tx (start_timer app t s) = ac_callee_control_tx s"
  "rt_state (ac_call (start_timer app t s)) = rt_state (ac_call s)"
  "rt_hangup_cause (ac_call (start_timer app t s)) = rt_hangup_cause (ac_call s)"
  "rt_caller_terminated (ac_call (start_timer app t s)) = rt_caller_terminated (ac_call s)"
  "rt_callee_terminated (ac_call (start_timer app t s)) = rt_callee_terminated (ac_call s)"
  "rt_aggregate (ac_call (start_timer app t s)) = rt_aggregate (ac_call s)"
  "rt_caller (ac_call (start_timer app t s)) = rt_caller (ac_call s)"
  "runtime_wf (ac_call (start_timer app t s)) = runtime_wf (ac_call s)"
  "ac_finalization_started (cancel_timer t s) = ac_finalization_started s"
  "ac_remaining_candidates (cancel_timer t s) = ac_remaining_candidates s"
  "ac_caller_offer (cancel_timer t s) = ac_caller_offer s"
  "ac_writer (cancel_timer t s) = ac_writer s"
  "ac_callee_control_tx (cancel_timer t s) = ac_callee_control_tx s"
  "rt_state (ac_call (cancel_timer t s)) = rt_state (ac_call s)"
  "rt_hangup_cause (ac_call (cancel_timer t s)) = rt_hangup_cause (ac_call s)"
  "rt_caller_terminated (ac_call (cancel_timer t s)) = rt_caller_terminated (ac_call s)"
  "rt_callee_terminated (ac_call (cancel_timer t s)) = rt_callee_terminated (ac_call s)"
  "rt_aggregate (ac_call (cancel_timer t s)) = rt_aggregate (ac_call s)"
  "rt_caller (ac_call (cancel_timer t s)) = rt_caller (ac_call s)"
  "runtime_wf (ac_call (cancel_timer t s)) = runtime_wf (ac_call s)"
  by (cases t; simp add: timer_steps Let_def)+

declare timer_steps [simp del]

lemma step_call [simp]:
  "ac_call (emit e s) = ac_call s" "ac_call (next_prompt s) = ac_call s" "ac_call (next_media_generation s) = ac_call s"
  by (simp_all add: emit_def next_prompt_def next_media_generation_def)

text \<open>A step of the call that keeps its record in order.\<close>

definition call_ok :: "CallRuntime \<Rightarrow> bool" where
  "call_ok c \<longleftrightarrow> runtime_wf c \<and> (rt_caller_terminated c \<longrightarrow> is_terminating c) \<and>
     (is_terminating c \<longrightarrow> rt_hangup_cause c \<noteq> None)"

definition call_step :: "CallRuntime \<Rightarrow> CallRuntime \<Rightarrow> bool" where
  "call_step c d \<longleftrightarrow> (call_ok c \<longrightarrow>
     call_ok d \<and> (is_terminating c \<longrightarrow> is_terminating d) \<and>
     rt_dial_timer_generation d = rt_dial_timer_generation c \<and>
     rt_ring_timer_generation d = rt_ring_timer_generation c \<and>
     rt_cleanup_timer_generation d = rt_cleanup_timer_generation c \<and>
     ses_id (rt_caller d) = ses_id (rt_caller c) \<and> agg_id (rt_aggregate d) = agg_id (rt_aggregate c) \<and>
     agg_domain_id (rt_aggregate d) = agg_domain_id (rt_aggregate c))"

lemma live_call [simp]:
  assumes "live s0 s" and "call_step (ac_call s) (f (ac_call s))"
  shows "live s0 (ac_call_update f s)"
  using assms unfolding live_def good_def
  by (auto simp: actor_wf_def advances_def call_step_def call_ok_def slots_current_def finalizations_def call_id_def
      domain_id_def caller_session_id_def)

lemmas call_steps =
  call_step_def call_ok_def set_state_def set_last_status_def set_cause_def default_cause_def terminate_with_def
  callee_gone_def caller_gone_def begin_terminating_def is_terminating_def runtime_same_def Let_def

text \<open>A retry decision: either the next step is under way, or the actor is as it was but for the callee.\<close>

definition retried :: "bool \<Rightarrow> SessionActor \<Rightarrow> SessionActor \<Rightarrow> bool \<Rightarrow> SessionActor \<Rightarrow> bool" where
  "retried k s0 s r t \<longleftrightarrow> live s0 t \<and> (r \<longrightarrow> armed k t) \<and> (\<not> r \<longrightarrow> t = s \<or> t = callee_gone s)"

text \<open>An action that ends the call.\<close>

fun ends_call :: "AgentAction \<Rightarrow> bool" where
  "ends_call (EndCall _) = True"
| "ends_call _ = False"

text \<open>The contract of the handlers, with or without the cleanup timer.\<close>

locale handler_contract =
  fixes k :: bool
begin

text \<open>The contract of a handler, as a rule for the code that calls it.\<close>

lemma live_rule:
  assumes "wp m (\<lambda>_ t. live s0 t \<and> armed k t) (\<lambda>_ t. live s0 t) s"
    and "\<And>x t. live s0 t \<Longrightarrow> armed k t \<Longrightarrow> Q x t" and "\<And>e t. live s0 t \<Longrightarrow> E e t"
  shows "wp m Q E s"
  by (rule wp_weaken [OF assms(1)]) (auto intro: assms(2,3))

lemma armed_rule:
  assumes "wp m (\<lambda>_ t. live s0 t \<and> armed k t) (\<lambda>_ t. live s0 t \<and> armed k t) s"
  shows "wp m (\<lambda>_ t. live s0 t \<and> armed k t) (\<lambda>_ t. live s0 t) s"
  by (rule wp_weaken [OF assms]) simp_all

text \<open>Fields the contract does not speak of.\<close>

lemma other_fields [simp]:
  "live s0 (ac_media_present_update f1 s) = live s0 s" "armed k (ac_media_present_update f1 s) = armed k s"
  "live s0 (ac_actor_started_update f2 s) = live s0 s" "armed k (ac_actor_started_update f2 s) = armed k s"
  "live s0 (ac_finalized_update f3 s) = live s0 s" "armed k (ac_finalized_update f3 s) = armed k s"
  "live s0 (ac_action_generation_update f4 s) = live s0 s" "armed k (ac_action_generation_update f4 s) = armed k s"
  "live s0 (ac_completed_actions_update f5 s) = live s0 s" "armed k (ac_completed_actions_update f5 s) = armed k s"
  "live s0 (ac_dtmf_router_update f6 s) = live s0 s" "armed k (ac_dtmf_router_update f6 s) = armed k s"
  "live s0 (ac_dtmf_collector_timer_generation_update f7 s) = live s0 s" "armed k (ac_dtmf_collector_timer_generation_update f7 s) = armed k s"
  "live s0 (ac_initial_actions_update f8 s) = live s0 s" "armed k (ac_initial_actions_update f8 s) = armed k s"
  "live s0 (ac_pending_answer_update f9 s) = live s0 s" "armed k (ac_pending_answer_update f9 s) = armed k s"
  "live s0 (ac_answer_in_progress_update f10 s) = live s0 s" "armed k (ac_answer_in_progress_update f10 s) = armed k s"
  "live s0 (ac_deferred_callee_disconnect_update f11 s) = live s0 s" "armed k (ac_deferred_callee_disconnect_update f11 s) = armed k s"
  "live s0 (ac_current_attempt_seq_update f12 s) = live s0 s" "armed k (ac_current_attempt_seq_update f12 s) = armed k s"
  "live s0 (ac_pending_attempt_candidate_update f13 s) = live s0 s" "armed k (ac_pending_attempt_candidate_update f13 s) = armed k s"
  "live s0 (ac_pending_attempt_registration_update f14 s) = live s0 s" "armed k (ac_pending_attempt_registration_update f14 s) = armed k s"
  "live s0 (ac_retry_after_cleanup_update f15 s) = live s0 s" "armed k (ac_retry_after_cleanup_update f15 s) = armed k s"
  "live s0 (ac_caller_offer_update f16 s) = live s0 s" "armed k (ac_caller_offer_update f16 s) = armed k s"
  "live s0 (ac_route_deadline_update f17 s) = live s0 s" "armed k (ac_route_deadline_update f17 s) = armed k s"
  "live s0 (ac_pending_ai_transfer_update f18 s) = live s0 s" "armed k (ac_pending_ai_transfer_update f18 s) = armed k s"
  "live s0 (ac_ai_transfer_failed_update f19 s) = live s0 s" "armed k (ac_ai_transfer_failed_update f19 s) = armed k s"
  "live s0 (ac_prompt_generation_update f20 s) = live s0 s" "armed k (ac_prompt_generation_update f20 s) = armed k s"
  "live s0 (ac_writer_update f21 s) = live s0 s" "armed k (ac_writer_update f21 s) = armed k s"
  "live s0 (ac_media_tx_update f22 s) = live s0 s" "armed k (ac_media_tx_update f22 s) = armed k s"
  "live s0 (ac_registrar_update f23 s) = live s0 s" "armed k (ac_registrar_update f23 s) = armed k s"
  "live s0 (ac_event_tx_update f24 s) = live s0 s" "armed k (ac_event_tx_update f24 s) = armed k s"
  "live s0 (ac_ai_jobs_update f25 s) = live s0 s" "armed k (ac_ai_jobs_update f25 s) = armed k s"
  "live s0 (ac_coordinator_handle_update f26 s) = live s0 s" "armed k (ac_coordinator_handle_update f26 s) = armed k s"
  "live s0 (ac_callee_control_tx_update f27 s) = live s0 s" "armed k (ac_callee_control_tx_update f27 s) = armed k s"
  "live s0 (ac_owned_session_id_update f28 s) = live s0 s" "armed k (ac_owned_session_id_update f28 s) = armed k s"
  "live s0 (ac_owned_action_generation_update f29 s) = live s0 s" "armed k (ac_owned_action_generation_update f29 s) = armed k s"
  "live s0 (ac_owned_completed_actions_update f30 s) = live s0 s" "armed k (ac_owned_completed_actions_update f30 s) = armed k s"
  "live s0 (ac_replies_update f31 s) = live s0 s" "armed k (ac_replies_update f31 s) = armed k s"
  "live s0 (next_prompt s) = live s0 s" "armed k (next_prompt s) = armed k s"
  "live s0 (set_last_status x s) = live s0 s" "armed k (set_last_status x s) = armed k s"
  "\<not> is_finalize e \<Longrightarrow> live s0 (emit e s) = live s0 s" "armed k (emit e s) = armed k s"
  by (simp_all add: live_def good_def actor_state_defs emit_def next_prompt_def set_last_status_def)

lemma candidate_live [simp]:
  assumes "live s0 s" and "ac_remaining_candidates s = c # rest"
  shows "live s0 (s\<lparr>ac_remaining_candidates := rest\<rparr>)"
  using assms by (auto simp: live_def good_def actor_state_defs)

lemma armed_while_up [simp]: "\<not> terminating s \<Longrightarrow> armed k s"
  by (simp add: armed_def)

lemma call_armed [simp]:
  "armed k s \<Longrightarrow> is_terminating (f (ac_call s)) \<longrightarrow> terminating s \<Longrightarrow> armed k (ac_call_update f s)"
  by (simp add: armed_def)

text \<open>Timers, and the steps that only add to what is known of the end of the call.\<close>

lemma timer_live [simp]:
  assumes "live s0 s"
  shows "live s0 (start_timer app t s)" and "live s0 (cancel_timer t s)"
  using assms by (cases t; simp add: leaf_defs timer_steps)+

lemma timer_armed [simp]:
  "armed k (start_timer app CleanupTimer s)"
  "armed k s \<Longrightarrow> armed k (start_timer app t s)"
  "t \<noteq> CleanupTimer \<Longrightarrow> armed k (cancel_timer t s) = armed k s"
  by (cases t; simp add: actor_state_defs timer_steps Let_def)+

lemma terminate_live [simp]:
  assumes "live s0 s"
  shows "live s0 (terminate_with c s)" and "live s0 (set_cause c s)" and "live s0 (default_cause c s)"
    and "live s0 (next_media_generation s)"
  using assms by (auto simp: leaf_defs intro: order_trans saturating_add_ge)

section \<open>Attempts\<close>

lemma operation_id_new_no_panic [simp]: "operation_id_new i \<noteq> Panic"
  by (simp add: operation_id_new_def validate_id_def)

lemma fail_ai_transfer_live:
  assumes "live s0 s" and "armed k s"
  shows "wp (fail_ai_transfer app reason) (\<lambda>_ t. live s0 t \<and> armed k t) (\<lambda>_ t. live s0 t \<and> armed k t) s"
  unfolding fail_ai_transfer_def report_transfer_def
  by (intro wp_intros) (simp_all add: assms call_steps)

lemma begin_ai_transfer_attempt_live:
  assumes "live s0 s" and "armed k s"
  shows "wp (begin_ai_transfer_attempt candidate app) (\<lambda>_ t. live s0 t \<and> armed k t) (\<lambda>_ t. live s0 t \<and> armed k t) s"
  unfolding begin_ai_transfer_attempt_def
  by (intro wp_intros) (simp_all add: assms call_steps)

lemma terminate_retry_setup_live:
  assumes "live s0 s"
  shows "wp (terminate_retry_setup app cause) (\<lambda>_ t. live s0 t \<and> armed k t) (\<lambda>_ t. live s0 t) s"
  unfolding terminate_retry_setup_def
  by (intro wp_intros) (simp_all add: assms call_steps)

lemma terminate_exhausted_retry_live:
  assumes "live s0 s"
  shows "wp (terminate_exhausted_retry app status) (\<lambda>_ t. live s0 t \<and> armed k t) (\<lambda>_ t. live s0 t) s"
  unfolding terminate_exhausted_retry_def
  by (intro wp_intros) (simp_all add: assms call_steps)

lemma begin_next_attempt_live:
  assumes "live s0 s"
  shows "wp (begin_next_attempt app status) (\<lambda>started t. if started then live s0 t \<and> armed k t else t = s) (\<lambda>_ t. live s0 t) s"
proof -
  have "runtime_wf (ac_call s)" using assms by (simp add: leaf_defs)
  then show ?thesis
    unfolding begin_next_attempt_def
    by (intro wp_intros wpI_on_call frames_update_current_attempt)
      (simp_all add: assms call_steps update_current_attempt_safe)
qed

lemma next_attempt_or_end_live:
  assumes "live s0 s"
  shows "wp (next_attempt_or_end app status) (\<lambda>_ t. live s0 t \<and> armed k t) (\<lambda>_ t. live s0 t) s"
  unfolding next_attempt_or_end_def
  by (intro wp_intros, rule wp_weaken [OF begin_next_attempt_live [OF assms, of app status]])
    (use assms in \<open>auto intro!: wp_intros terminate_exhausted_retry_live split: if_splits\<close>)

lemma wait_for_retry_cleanup_live:
  assumes "live s0 s"
  shows "wp (wait_for_retry_cleanup app status) (\<lambda>waiting t. if waiting then live s0 t \<and> armed k t else t = s)
    (\<lambda>_ t. live s0 t) s"
  unfolding wait_for_retry_cleanup_def
  by (intro wp_intros) (simp_all add: assms call_steps)

lemma callee_gone_live [simp]: "live s0 (callee_gone s) = live s0 s" "armed k (callee_gone s) = armed k s"
  by (auto simp: leaf_defs)

lemma begin_next_attempt_retried:
  assumes "live s0 s"
  shows "wp (begin_next_attempt app status) (retried k s0 s) (\<lambda>_ t. live s0 t) s"
    and "wp (begin_next_attempt app status) (retried k s0 s) (\<lambda>_ t. live s0 t) (callee_gone s)"
proof -
  show "wp (begin_next_attempt app status) (retried k s0 s) (\<lambda>_ t. live s0 t) s"
    by (rule wp_weaken [OF begin_next_attempt_live [OF assms]]) (use assms in \<open>auto simp: retried_def split: if_splits\<close>)
  have "live s0 (callee_gone s)" using assms by simp
  from begin_next_attempt_live [OF this] show "wp (begin_next_attempt app status) (retried k s0 s) (\<lambda>_ t. live s0 t) (callee_gone s)"
    by (rule wp_weaken) (use assms in \<open>auto simp: retried_def split: if_splits\<close>)
qed

lemma retry_after_originate_failure_live:
  assumes "live s0 s"
  shows "wp (retry_after_originate_failure app) (retried k s0 s) (\<lambda>_ t. live s0 t) s"
  unfolding retry_after_originate_failure_def
  by (intro wp_intros begin_next_attempt_retried(2)) (use assms in \<open>simp_all add: retried_def\<close>)

lemma retry_after_attempt_ended_live:
  assumes "live s0 s"
  shows "wp (retry_after_attempt_ended app status) (retried k s0 s) (\<lambda>_ t. live s0 t) s"
  unfolding retry_after_attempt_ended_def
  by (intro wp_intros begin_next_attempt_retried(2) live_rule [OF next_attempt_or_end_live [of s0]])
    (simp_all add: assms retried_def)

lemma retry_after_late_answer_live:
  assumes "live s0 s"
  shows "wp (retry_after_late_answer app) (retried k s0 s) (\<lambda>_ t. live s0 t) s"
  unfolding retry_after_late_answer_def
  by (intro wp_intros live_rule [OF next_attempt_or_end_live [of s0]])
    (simp_all add: assms retried_def)

lemma force_retry_after_cleanup_live:
  assumes "live s0 s" and "ac_retry_after_cleanup s \<noteq> None"
  shows "wp (force_retry_after_cleanup app) (\<lambda>_ t. live s0 t \<and> armed k t) (\<lambda>_ t. live s0 t) s"
  unfolding force_retry_after_cleanup_def
  by (intro wp_intros live_rule [OF next_attempt_or_end_live [of s0]])
    (simp_all add: assms call_steps)

lemma attempt_setup_failed_live:
  assumes "live s0 s" and "armed k s"
  shows "wp (attempt_setup_failed app cause) (\<lambda>_ t. live s0 t \<and> armed k t) (\<lambda>_ t. live s0 t) s"
  unfolding attempt_setup_failed_def
  by (intro wp_intros armed_rule [OF fail_ai_transfer_live] terminate_retry_setup_live assms)

lemma make_callee_session_no_panic [simp]: "make_callee_session sid n target t c \<noteq> Panic"
proof -
  have "session_endpoint target \<noteq> Panic"
    by (cases target) (auto simp: parse_extension_number_def split: if_splits option.splits)
  then show ?thesis by (auto simp: make_callee_session_def callee_session_def)
qed

lemma register_prepared_attempt_live:
  assumes "live s0 s" and "armed k s"
  shows "wp (register_prepared_attempt app n candidate offer) (\<lambda>_ t. live s0 t \<and> armed k t) (\<lambda>_ t. live s0 t) s"
  unfolding register_prepared_attempt_def
  by (intro wp_intros live_rule [OF attempt_setup_failed_live [of s0]])
    (simp_all add: assms call_steps)

lemma handle_attempt_offer_prepared_live:
  assumes "live s0 s" and "armed k s"
  shows "wp (handle_attempt_offer_prepared app n result) (\<lambda>_ t. live s0 t \<and> armed k t) (\<lambda>_ t. live s0 t) s"
  unfolding handle_attempt_offer_prepared_def
  by (intro wp_intros live_rule [OF attempt_setup_failed_live [of s0]] live_rule [OF register_prepared_attempt_live [of s0]])
    (simp_all add: assms call_steps)

lemma handle_attempt_registration_result_live:
  assumes "live s0 s" and "armed k s"
  shows "wp (handle_attempt_registration_result app result) (\<lambda>_ t. live s0 t \<and> armed k t) (\<lambda>_ t. live s0 t) s"
proof (cases result)
  case (Registered n sid)
  have "runtime_wf (ac_call s)" using assms by (simp add: leaf_defs)
  then show ?thesis
    unfolding Registered handle_attempt_registration_result.simps submit_originate_def
    by (intro wp_intros wpI_on_call frames_register_attempt)
      (simp_all add: assms call_steps register_attempt_safe adopt_attempt_def)
next
  case (Rejected n sid reason)
  show ?thesis
    unfolding Rejected handle_attempt_registration_result.simps
    by (intro wp_intros live_rule [OF attempt_setup_failed_live [of s0]])
    (simp_all add: assms call_steps)
qed

section \<open>Finishing\<close>

lemma abort_fold_keeps:
  "co_collectors (fold (abort_collector r) cs h) = co_collectors h \<and> co_timer (fold (abort_collector r) cs h) = co_timer h"
proof (induction cs arbitrary: h)
  case (Cons c cs)
  have "co_collectors (abort_collector r c h) = co_collectors h \<and> co_timer (abort_collector r c h) = co_timer h"
    by (auto simp: abort_collector_def reply_def submit_media_action_def Let_def split: prod.splits outcome.splits TrySendError.splits)
  then show ?case using Cons by simp
qed simp

lemma abort_clears [simp]:
  "co_collectors (abort_digit_collection r h) = []" "co_timer (abort_digit_collection r h) = None"
  by (simp_all add: abort_digit_collection_def Let_def abort_fold_keeps)

lemma collectors_ok_empty [simp]: "collectors_ok i []"
  by (simp add: collectors_ok_def)

lemma release_topology_fields [simp]:
  "rt_state (release_topology t r) = rt_state r" "rt_hangup_cause (release_topology t r) = rt_hangup_cause r"
  "ses_id (rt_caller (release_topology t r)) = ses_id (rt_caller r)"
  "agg_id (rt_aggregate (release_topology t r)) = agg_id (rt_aggregate r)"
  "agg_domain_id (rt_aggregate (release_topology t r)) = agg_domain_id (rt_aggregate r)"
  "rt_caller_terminated (release_topology t r) = rt_caller_terminated r"
  using release_topology_same [of r t] by (simp_all add: runtime_same_def)

lemma begin_finish_call_good:
  assumes "good s0 s" and "terminating s"
  shows "good s0 (begin_finish_call app s) \<and> armed k (begin_finish_call app s) \<and> ac_finalization_started (begin_finish_call app s)"
  using assms
  by (auto simp: begin_finish_call_def on_collectors_def put_collector_view_def cancel_all_timers_def timer_steps good_def
      actor_state_defs actor_step_defs release_topology_wf intro: order_trans saturating_add_ge)

lemma finish_or_wait_rule:
  assumes "live s0 s" and "flag \<or> armed k s \<or> rt_caller_terminated (ac_call s) \<and> rt_callee_terminated (ac_call s)"
    and "\<And>t. good s0 t \<Longrightarrow> armed k t \<Longrightarrow> Q () t"
  shows "wp (finish_or_wait app flag) Q E s"
  unfolding finish_or_wait_def
proof (intro wp_intros assms(3))
  assume both: "rt_caller_terminated (ac_call s) \<and> rt_callee_terminated (ac_call s)"
  then have "good s0 s" "terminating s" using assms(1) by (simp_all add: live_def good_def actor_wf_def)
  then show "good s0 (begin_finish_call app s)" "armed k (begin_finish_call app s)"
    by (simp_all add: begin_finish_call_good)
next
  assume "flag"
  then show "good s0 (start_timer app CleanupTimer s)" "armed k (start_timer app CleanupTimer s)"
    using assms(1) by (simp_all add: live_good)
next
  assume "\<not> flag" "\<not> (rt_caller_terminated (ac_call s) \<and> rt_callee_terminated (ac_call s))"
  then show "good s0 s" "armed k s" using assms(1,2) by (auto simp: live_def)
qed

text \<open>A handler may finish the call; what it leaves is then well formed and needs no timer.\<close>

lemma good_rule:
  assumes "wp m (\<lambda>_ t. live s0 t \<and> armed k t) (\<lambda>_ t. live s0 t) s"
  shows "wp m (\<lambda>_ t. good s0 t \<and> armed k t) (\<lambda>_ t. live s0 t) s"
  by (rule live_rule [OF assms]) (simp_all add: live_good)

section \<open>The progress of a call\<close>

lemma fail_media_negotiation_live:
  assumes "live s0 s" and "armed k s"
  shows "wp (fail_media_negotiation app command) (\<lambda>_ t. live s0 t \<and> armed k t) (\<lambda>_ t. live s0 t) s"
  unfolding fail_media_negotiation_def
  by (intro wp_intros) (simp_all add: assms call_steps)

lemma handle_provisional_live:
  assumes "live s0 s" and "armed k s"
  shows "wp (handle_provisional app event) (\<lambda>_ t. live s0 t \<and> armed k t) (\<lambda>_ t. live s0 t) s"
  unfolding handle_provisional_def
  by (intro wp_intros live_rule [OF fail_media_negotiation_live [of s0]])
    (simp_all add: assms call_steps)

lemma complete_answer_live:
  assumes "live s0 s" and "armed k s" and "\<not> terminating s"
  shows "wp (complete_answer app answer types) (\<lambda>_ t. live s0 t \<and> armed k t) (\<lambda>_ t. live s0 t) s"
  unfolding complete_answer_def
  by (intro wp_intros) (use assms in \<open>simp_all add: call_steps\<close>)

text \<open>The rule for the code after a retry decision, from a state in which the timer is armed.\<close>

lemma retried_rule:
  assumes "wp m (retried k s0 s) (\<lambda>_ t. live s0 t) s" and "armed k s"
    and "\<And>r t. live s0 t \<Longrightarrow> armed k t \<Longrightarrow> (\<not> r \<Longrightarrow> t = s \<or> t = callee_gone s) \<Longrightarrow> Q r t" and "\<And>e t. live s0 t \<Longrightarrow> E e t"
  shows "wp m Q E s"
proof (rule wp_weaken [OF assms(1)])
  fix r t assume "retried k s0 s r t"
  then have "live s0 t" "armed k t" "\<not> r \<Longrightarrow> t = s \<or> t = callee_gone s"
    using assms(2) by (auto simp: retried_def)
  then show "Q r t" by (rule assms(3))
qed (rule assms(4))

lemma handle_answered_live:
  assumes "live s0 s" and "armed k s"
  shows "wp (handle_answered app event) (\<lambda>_ t. live s0 t \<and> armed k t) (\<lambda>_ t. live s0 t) s"
proof -
  have s: "live s0 (cancel_timer DialTimer s)" "armed k (cancel_timer DialTimer s)"
    using assms by simp_all
  show ?thesis
    unfolding handle_answered_def
    by (intro wp_intros live_rule [OF fail_media_negotiation_live [of s0]]
        retried_rule [OF retry_after_late_answer_live [of s0]] s)
      (simp_all add: call_steps)
qed

lemma signal_disconnected_live:
  assumes "live s0 s" and "terminating s"
  shows "wp (signal_disconnected app peer) (\<lambda>_ t. live s0 t \<and> terminating t) (\<lambda>_ t. live s0 t) s"
  unfolding signal_disconnected_def
  by (intro wp_intros) (use assms in \<open>simp_all add: call_steps\<close>)

lemma handle_disconnected_good:
  assumes "live s0 s" and "armed k s"
  shows "wp (handle_disconnected app event) (\<lambda>_ t. good s0 t \<and> armed k t) (\<lambda>_ t. live s0 t) s"
  unfolding handle_disconnected_def
  by (intro wp_intros live_rule [OF armed_rule [OF fail_ai_transfer_live [of s0]]] retried_rule [OF retry_after_attempt_ended_live [of s0]]
      wp_weaken [OF signal_disconnected_live [of s0]] finish_or_wait_rule [of s0])
    (simp_all add: assms live_good call_steps disconnect_leg_def)

lemma signal_cancelled_live:
  assumes "live s0 s" and "rt_caller_terminated (ac_call s)"
  shows "wp (signal_cancelled app pending)
    (\<lambda>flag t. live s0 t \<and> (flag \<or> rt_caller_terminated (ac_call t) \<and> rt_callee_terminated (ac_call t))) (\<lambda>_ t. live s0 t) s"
  unfolding signal_cancelled_def
  by (intro wp_intros) (simp_all add: assms call_steps)

lemma handle_cancelled_good:
  assumes "live s0 s" and "armed k s"
  shows "wp (handle_cancelled app) (\<lambda>_ t. good s0 t \<and> armed k t) (\<lambda>_ t. live s0 t) s"
  unfolding handle_cancelled_def
  by (intro wp_intros wp_weaken [OF signal_cancelled_live [of s0]] finish_or_wait_rule [of s0])
    (simp_all add: assms call_steps, auto)

lemma handle_failed_good:
  assumes "live s0 s" and "armed k s"
  shows "wp (handle_failed app event) (\<lambda>_ t. good s0 t \<and> armed k t) (\<lambda>_ t. live s0 t) s"
proof -
  have s: "live s0 (cancel_timer DialTimer s)" "armed k (cancel_timer DialTimer s)"
    using assms by simp_all
  show ?thesis
    unfolding handle_failed_def
    by (intro wp_intros live_rule [OF armed_rule [OF fail_ai_transfer_live [of s0]]] retried_rule [OF retry_after_attempt_ended_live [of s0]]
        finish_or_wait_rule [of s0] s)
      (simp_all add: s live_good call_steps)
qed

lemma confirm_answer_good:
  assumes "live s0 s" and "armed k s"
  shows "wp (confirm_answer app i) (\<lambda>_ t. good s0 t \<and> armed k t) (\<lambda>_ t. live s0 t) s"
proof -
  have "runtime_wf (ac_call s)" using assms by (simp add: leaf_defs)
  then show ?thesis
    unfolding confirm_answer_def handle_deferred_disconnect_def
    by (intro wp_intros wpI_on_call frames_mark_answered wp_weaken [OF handle_disconnected_good [of s0]])
      (simp_all add: mark_answered_safe assms live_good call_steps)
qed

lemma transfer_connected_live:
  assumes "live s0 s" and "armed k s"
  shows "wp (transfer_connected transfer) (\<lambda>_ t. live s0 t \<and> armed k t) (\<lambda>_ t. live s0 t) s"
  unfolding transfer_connected_def report_transfer_def
  by (intro wp_intros) (simp_all add: assms)

lemma transfer_answered_live:
  assumes "live s0 s" and "armed k s" and "\<not> terminating s"
  shows "wp (transfer_answered app) (\<lambda>_ t. live s0 t \<and> armed k t) (\<lambda>_ t. live s0 t) s"
proof -
  have "runtime_wf (ac_call s)" using assms by (simp add: leaf_defs)
  then show ?thesis
    unfolding transfer_answered_def
    by (intro wp_intros wpI_on_call frames_mark_transfer_answered live_rule [OF transfer_connected_live [of s0]])
      (use assms in \<open>simp_all add: mark_transfer_answered_safe call_steps\<close>)
qed

section \<open>Collectors\<close>

lemma collectors_ok_keeps:
  assumes "keeps (\<lambda>_. None) (\<lambda>_. None) (collector_view s) h" and "collectors_ok (call_id s) (ac_dtmf_collectors s)"
  shows "collectors_ok (call_id s) (co_collectors h)"
proof -
  have "host_wf (collector_view s)" using assms(2) by (simp add: host_wf_view)
  then have "host_wf h" "co_call_id h = call_id s"
    using assms(1) by (simp_all add: keeps_def) (simp add: collector_view_def)
  then show ?thesis by (simp add: host_upto_def collectors_ok_def)
qed

lemma put_collector_view_live:
  assumes "live s0 s" and "keeps (\<lambda>_. None) (\<lambda>_. None) (collector_view s) h"
  shows "live s0 (put_collector_view h s)" and "armed k (put_collector_view h s) = armed k s"
proof -
  have "collectors_ok (call_id s) (co_collectors h)"
    using assms by (intro collectors_ok_keeps) (simp_all add: live_def good_def actor_wf_def)
  then show "live s0 (put_collector_view h s)"
    using assms(1) by (auto simp: leaf_defs put_collector_view_def)
qed (simp add: armed_def is_terminating_def put_collector_view_def)

lemma on_collectors_live:
  assumes "live s0 s" and "keeps (\<lambda>_. None) (\<lambda>_. None) (collector_view s) (f (collector_view s))"
  shows "live s0 (on_collectors f s)" and "armed k (on_collectors f s) = armed k s"
  using put_collector_view_live [OF assms] by (simp_all add: on_collectors_def)

section \<open>Media results and timers\<close>

lemma handle_sdp_prepared_live:
  assumes "live s0 s" and "armed k s" and "\<not> terminating s"
  shows "wp (handle_sdp_prepared app purpose sdp) (\<lambda>_ t. live s0 t \<and> armed k t) (\<lambda>_ t. live s0 t) s"
proof (cases purpose)
  case (ProvisionalSdp n b)
  show ?thesis
    unfolding ProvisionalSdp handle_sdp_prepared.simps by (intro wp_intros) (simp_all add: assms call_steps)
next
  case (AnswerSdp x)
  show ?thesis
    unfolding AnswerSdp handle_sdp_prepared.simps by (intro wp_intros complete_answer_live assms)
next
  case AiAgentAnswer
  show ?thesis
    unfolding AiAgentAnswer handle_sdp_prepared.simps by (intro wp_intros complete_answer_live assms)
qed (simp_all add: handle_attempt_offer_prepared_live transfer_answered_live assms)

lemma handle_sdp_failed_live:
  assumes "live s0 s" and "armed k s"
  shows "wp (handle_sdp_failed app purpose e) (\<lambda>_ t. live s0 t \<and> armed k t) (\<lambda>_ t. live s0 t) s"
  by (cases purpose)
    (simp_all add: handle_attempt_offer_prepared_live wpI_anyhow fail_media_negotiation_live assms)

lemma handle_media_action_result_live:
  assumes "live s0 s" and "armed k s"
  shows "wp (handle_media_action_result app result) (\<lambda>_ t. live s0 t \<and> armed k t) (\<lambda>_ t. live s0 t) s"
proof (cases result)
  case (SdpPrepared i g purpose r)
  show ?thesis
    unfolding SdpPrepared handle_media_action_result.simps
    by (intro wp_intros handle_sdp_prepared_live handle_sdp_failed_live) (use assms in simp_all)
next
  case (AnswerMediaStarted i g e)
  have "runtime_wf (ac_call s)" using assms by (simp add: leaf_defs)
  then show ?thesis
    unfolding AnswerMediaStarted handle_media_action_result.simps
    by (intro wp_intros wpI_on_call frames_activate)
      (simp_all add: assms call_steps activate_current_bridge_safe split: option.splits)
next
  case (DtmfCapabilityAcquired i g r)
  show ?thesis
    unfolding DtmfCapabilityAcquired handle_media_action_result.simps
    by (intro wp_intros) (use assms in \<open>simp_all add: on_collectors_live acquired_keeps\<close>)
next
  case (DtmfCapabilityReleased i g r)
  show ?thesis
    unfolding DtmfCapabilityReleased handle_media_action_result.simps
    by (intro wp_intros) (use assms in \<open>simp_all add: on_collectors_live released_keeps\<close>)
qed

lemma attempt_timeout_live:
  assumes "live s0 s" and "\<not> terminating s"
  shows "wp (attempt_timeout app kind name status cause) (\<lambda>_ t. live s0 t \<and> armed k t) (\<lambda>_ t. live s0 t) s"
  unfolding attempt_timeout_def
  by (cases kind; intro wp_intros live_rule [OF armed_rule [OF fail_ai_transfer_live [of s0]]] wp_weaken [OF wait_for_retry_cleanup_live [of s0]])
      (use assms in \<open>simp_all add: call_steps split: if_splits\<close>)

lemma default_cause_finish:
  assumes "live s0 s" and "terminating s"
  shows "good s0 (begin_finish_call app (default_cause c s)) \<and> armed k (begin_finish_call app (default_cause c s))"
proof -
  have "good s0 (default_cause c s)" "terminating (default_cause c s)" using assms by (auto simp: leaf_defs)
  then show ?thesis by (simp add: begin_finish_call_good)
qed

lemma cleanup_timeout_good:
  assumes "live s0 s"
  shows "wp (cleanup_timeout app) (\<lambda>_ t. good s0 t \<and> armed k t) (\<lambda>_ t. live s0 t) s"
  unfolding cleanup_timeout_def
  by (intro wp_intros live_rule [OF force_retry_after_cleanup_live [of s0]] default_cause_finish)
    (use assms in \<open>simp_all add: live_good armed_def\<close>)

lemma clear_slot_live: "live s0 s \<Longrightarrow> live s0 (clear_slot kind s)"
  by (cases kind) (auto simp: leaf_defs)

text \<open>A timer that fires with the current generation, as the slots do.\<close>

lemma handle_timer_expiry_good:
  assumes "live s0 s" and "armed k s" and "kind = CleanupTimer \<Longrightarrow> g = rt_cleanup_timer_generation (ac_call s)"
  shows "wp (handle_timer_expiry app kind g) (\<lambda>_ t. good s0 t \<and> armed k t) (\<lambda>_ t. live s0 t) s"
proof -
  note s = clear_slot_live [OF assms(1), of kind]
  have "armed k (clear_slot kind s)" if "kind \<noteq> CleanupTimer"
    using that assms(2) by (cases kind) (simp_all add: armed_def)
  moreover have "call_id (clear_slot kind s) = call_id s" "terminating (clear_slot kind s) = terminating s"
    by (cases kind; simp add: call_id_def)+
  ultimately show ?thesis
    unfolding handle_timer_expiry_def handle_timer_def
    by (cases kind; intro wp_intros)
      (use s assms in \<open>auto intro!: wp_intros good_rule attempt_timeout_live cleanup_timeout_good live_good\<close>)
qed

section \<open>Control messages\<close>

lemma begin_shutdown_live:
  assumes "live s0 s" and "armed k s"
  shows "wp (begin_shutdown app) (\<lambda>_ t. live s0 t \<and> armed k t) (\<lambda>_ t. live s0 t) s"
  unfolding begin_shutdown_def
  by (intro wp_intros) (simp_all add: assms call_steps)

lemma handle_ai_gateway_unavailable_live:
  assumes "live s0 s" and "armed k s"
  shows "wp (handle_ai_gateway_unavailable app) (\<lambda>_ t. live s0 t \<and> armed k t) (\<lambda>_ t. live s0 t) s"
  unfolding handle_ai_gateway_unavailable_def
  by (intro wp_intros) (simp_all add: assms call_steps)

lemma actor_accept_leg_event_live:
  assumes "live s0 s"
  shows "wp (actor_accept_leg_event event) (\<lambda>_ t. live s0 t \<and> armed k t = armed k s) (\<lambda>_ t. live s0 t) s"
proof -
  have "deduper_wf (ac_leg_event_deduper s)" "0 < led_capacity (ac_leg_event_deduper s)"
    using assms by (simp_all add: leaf_defs)
  from accept_leg_event_total [OF this, of "cle_adapter_call_leg_id event" "cle_leg_event_seq event"] obtain b d where
    "accept_leg_event (cle_adapter_call_leg_id event) (cle_leg_event_seq event) (ac_leg_event_deduper s) = Some (b, d)"
    "deduper_wf d" "led_capacity d = led_capacity (ac_leg_event_deduper s)"
    by blast
  then show ?thesis using assms by (auto simp: wp_def actor_accept_leg_event_def leaf_defs)
qed

lemma handle_caller_leg_event_good:
  assumes "live s0 s" and "armed k s"
  shows "wp (handle_caller_leg_event app frame_type event) (\<lambda>_ t. good s0 t \<and> armed k t) (\<lambda>_ t. live s0 t) s"
  unfolding handle_caller_leg_event_def
  by (intro wp_intros wp_weaken [OF actor_accept_leg_event_live [of s0]] handle_cancelled_good handle_disconnected_good)
    (use assms in \<open>simp_all add: live_good\<close>)

lemma handle_peer_leg_event_good:
  assumes "live s0 s" and "armed k s"
  shows "wp (handle_peer_leg_event app frame_type event) (\<lambda>_ t. good s0 t \<and> armed k t) (\<lambda>_ t. live s0 t) s"
  unfolding handle_peer_leg_event_def
  by (intro wp_intros good_rule [OF handle_provisional_live] good_rule [OF handle_answered_live] handle_failed_good
      handle_disconnected_good)
    (simp_all add: assms live_good call_steps)

lemma forward_info_live:
  assumes "live s0 s" and "armed k s"
  shows "wp (forward_info app event peer) (\<lambda>_ t. live s0 t \<and> armed k t) (\<lambda>_ t. live s0 t) s"
  unfolding forward_info_def
  by (cases "de_event_id event") (auto intro!: wp_intros simp: assms)

lemma router_live [simp]:
  "live s0 (ac_dtmf_router_update f32 s) = live s0 s" "armed k (ac_dtmf_router_update f32 s) = armed k s"
  by (simp_all add: leaf_defs)

lemma route_digit_live:
  assumes "live s0 s" and "armed k s"
  shows "wp (route_digit app event) (\<lambda>_ t. live s0 t \<and> armed k t) (\<lambda>_ t. live s0 t) s"
proof -
  obtain consumed h where h: "collect_digit (app_now app) event (collector_view s) = (consumed, h)"
    by (cases "collect_digit (app_now app) event (collector_view s)")
  have k: "keeps (\<lambda>_. None) (\<lambda>_. None) (collector_view s) h" using digit_keeps [of "collector_view s" "app_now app" event] h by simp
  have t: "live s0 (put_collector_view h s)" "armed k (put_collector_view h s)"
    using put_collector_view_live [OF assms(1) k] assms(2) by simp_all
  show ?thesis
    unfolding route_digit_def
    by (auto simp: h wp_simps t Let_def split: prod.splits DtmfDisposition.splits intro!: forward_info_live)
qed

lemma handle_source_digit_live:
  assumes "live s0 s" and "armed k s"
  shows "wp (handle_source_digit app event) (\<lambda>_ t. live s0 t \<and> armed k t) (\<lambda>_ t. live s0 t) s"
proof -
  obtain d source where a: "accept event (ac_dtmf_source s) = (d, source)" by (cases "accept event (ac_dtmf_source s)")
  have "source_wf source" using accept_wf [of "ac_dtmf_source s" event] a assms by (simp add: leaf_defs)
  then have t: "live s0 (s\<lparr>ac_dtmf_source := source\<rparr>)" "armed k (s\<lparr>ac_dtmf_source := source\<rparr>)"
    using assms by (auto simp: leaf_defs)
  show ?thesis
    unfolding handle_source_digit_def
    by (auto simp: a wp_simps t assms Let_def intro!: route_digit_live)
qed

lemma handle_peer_digit_live:
  assumes "live s0 s" and "armed k s"
  shows "wp (handle_peer_digit app event) (\<lambda>_ t. live s0 t \<and> armed k t) (\<lambda>_ t. live s0 t) s"
  unfolding handle_peer_digit_def by (intro wp_intros route_digit_live) (use assms in simp_all)

lemma handle_dtmf_info_send_result_live:
  assumes "live s0 s" and "armed k s"
  shows "wp (handle_dtmf_info_send_result result) (\<lambda>_ t. live s0 t \<and> armed k t) (\<lambda>_ t. live s0 t) s"
  unfolding handle_dtmf_info_send_result_def by (intro wp_intros) (use assms in simp_all)

section \<open>Acknowledgements\<close>

lemma completed_live [simp]:
  "live s0 (ac_completed_actions_update f33 s) = live s0 s" "armed k (ac_completed_actions_update f33 s) = armed k s"
  "live s0 (ac_owned_completed_actions_update f34 s) = live s0 s"
  "armed k (ac_owned_completed_actions_update f s) = armed k s"
  by (simp_all add: leaf_defs)

lemma accept_action_result_live:
  assumes "live s0 s" and "armed k s"
  shows "wp (accept_action_result identity) (\<lambda>_ t. live s0 t \<and> armed k t) (\<lambda>_ t. live s0 t) s"
  unfolding accept_action_result_def by (intro wp_intros) (use assms in simp_all)

lemma fail_call_action_live:
  assumes "live s0 s" and "armed k s"
  shows "wp (fail_call_action app failure peer) (\<lambda>_ t. live s0 t \<and> armed k t) (\<lambda>_ t. live s0 t) s"
  unfolding fail_call_action_def
  by (intro wp_intros) (simp_all add: assms call_steps)

lemma handle_action_failure_live:
  assumes "live s0 s" and "armed k s"
  shows "wp (handle_action_failure app failure peer) (\<lambda>_ t. live s0 t \<and> armed k t) (\<lambda>_ t. live s0 t) s"
  unfolding handle_action_failure_def
  by (intro wp_intros live_rule [OF accept_action_result_live [of s0]] armed_rule [OF fail_ai_transfer_live [of s0]]
      retried_rule [OF retry_after_originate_failure_live [of s0]] fail_call_action_live)
    (use assms in simp_all)

lemma handle_action_ack_good:
  assumes "live s0 s" and "armed k s"
  shows "wp (handle_action_ack app ack) (\<lambda>_ t. good s0 t \<and> armed k t) (\<lambda>_ t. live s0 t) s"
  unfolding handle_action_ack_def
  by (intro wp_intros live_rule [OF accept_action_result_live [of s0]] confirm_answer_good
      good_rule [OF handle_action_failure_live])
    (use assms in \<open>simp_all add: live_good\<close>)

lemma handle_owned_leg_action_ack_live:
  assumes "live s0 s" and "armed k s"
  shows "wp (handle_owned_leg_action_ack app ack) (\<lambda>_ t. live s0 t \<and> armed k t) (\<lambda>_ t. live s0 t) s"
  unfolding handle_owned_leg_action_ack_def
  by (intro wp_intros handle_action_failure_live) (use assms in simp_all)

section \<open>Actions of an AI agent\<close>

lemma validate_action_requested_no_panic [simp]: "validate_action_requested request \<noteq> Panic"
  by (cases "areq_action request") (simp_all add: validate_action_requested_def)

lemma validate_ai_action_live:
  assumes "live s0 s" and "armed k s"
  shows "wp (validate_ai_action app request) (\<lambda>_ t. t = s \<and> \<not> terminating t) (\<lambda>_ t. t = s) s"
  unfolding validate_ai_action_def ensure_def
  by (intro wp_intros) (use assms in simp_all)

text \<open>
  Only ending the call may leave it terminating without a cleanup timer: when the writer does not take
  the hang-up, the failure is answered and not raised.
\<close>

lemma end_call_action_live:
  assumes "live s0 s"
  shows "wp (end_call_action app reason) (\<lambda>_ t. live s0 t \<and> armed k t) (\<lambda>_ t. live s0 t \<and> \<not> takes (ac_writer s)) s"
proof (cases "takes (ac_writer s)")
  case True
  show ?thesis
    unfolding end_call_action_def
    by (intro wp_intros wpI_submit_caller_taken) (simp_all add: True assms call_steps)
next
  case False
  show ?thesis
    unfolding end_call_action_def
    by (intro wp_intros) (simp_all add: False assms call_steps)
qed

lemma collect_digits_action_live:
  assumes "live s0 s" and "armed k s"
  shows "wp (collect_digits_action app request n ms) (\<lambda>_ t. live s0 t \<and> armed k t) (\<lambda>_ t. live s0 t \<and> armed k t) s"
  unfolding collect_digits_action_def
  by (intro wp_intros) (simp_all add: assms call_steps)

lemma start_transfer_failure_prompt_live:
  assumes "live s0 s" and "armed k s"
  shows "wp (start_transfer_failure_prompt app request number reason)
    (\<lambda>_ t. live s0 t \<and> armed k t) (\<lambda>_ t. live s0 t \<and> armed k t) s"
  unfolding start_transfer_failure_prompt_def
  by (intro wp_intros) (simp_all add: assms call_steps)

lemma transfer_action_live:
  assumes "live s0 s" and "armed k s"
  shows "wp (transfer_action app request number) (\<lambda>_ t. live s0 t \<and> armed k t) (\<lambda>_ t. live s0 t \<and> armed k t) s"
  unfolding transfer_action_def
  by (intro wp_intros wp_weaken [OF begin_ai_transfer_attempt_live [of s0]] wp_weaken [OF fail_ai_transfer_live [of s0]]
      wp_weaken [OF start_transfer_failure_prompt_live [of s0]])
    (simp_all add: assms)

lemma perform_agent_action_live:
  assumes "live s0 s" and "armed k s"
  shows "wp (perform_agent_action app request) (\<lambda>_ t. live s0 t \<and> armed k t)
    (\<lambda>_ t. live s0 t \<and> (ends_call (areq_action request) \<and> \<not> takes (ac_writer s) \<or> armed k t)) s"
proof (cases "areq_action request")
  case (EndCall reason)
  show ?thesis
    unfolding perform_agent_action_def EndCall AgentAction.case ends_call.simps
    by (rule wp_weaken [OF end_call_action_live [OF assms(1)]]) simp_all
next
  case (CollectDigitsAction n ms)
  show ?thesis by (simp add: perform_agent_action_def CollectDigitsAction collect_digits_action_live assms)
next
  case (TransferToExtension number)
  show ?thesis by (simp add: perform_agent_action_def TransferToExtension transfer_action_live assms)
qed (simp_all add: perform_agent_action_def wp_simps assms)

lemma attempt_agent_action_live:
  assumes "live s0 s" and "armed k s"
  shows "wp (attempt_agent_action app request) (\<lambda>_ t. live s0 t \<and> armed k t)
    (\<lambda>_ t. live s0 t \<and> (ends_call (areq_action request) \<and> \<not> takes (ac_writer s) \<or> armed k t)) s"
  unfolding attempt_agent_action_def
  by (intro wp_intros wp_weaken [OF validate_ai_action_live [of s0]] wp_weaken [OF perform_agent_action_live [of s0]])
    (use assms in simp_all)

lemma handle_ai_action_live:
  assumes "live s0 s" and "armed k s"
  shows "wp (handle_ai_action app request) (\<lambda>_ t. live s0 t \<and> (ends_call (areq_action request) \<and> \<not> takes (ac_writer s) \<or> armed k t))
    (\<lambda>_ t. live s0 t) s"
proof -
  have jobs: "live s0 (t\<lparr>ac_ai_jobs := ch\<rparr>) = live s0 t" "armed k (t\<lparr>ac_ai_jobs := ch\<rparr>) = armed k t"
      "live s0 (emit (CallTrace x j) t) = live s0 t" "armed k (emit e t) = armed k t" for t ch e x j
    by (simp_all add: leaf_defs)
  show ?thesis
    unfolding handle_ai_action_def
    by (intro wp_intros wp_weaken [OF attempt_agent_action_live [of s0]])
      (use assms in \<open>auto simp: jobs split: prod.splits intro!: wp_intros\<close>)
qed

end

text \<open>The contract with the cleanup timer, and the part of it that needs no such timer.\<close>

interpretation timed: handler_contract True .

interpretation untimed: handler_contract False .

end
