(* ===== verification/Actor_Loop.thy ===== *)
theory Actor_Loop
  imports Actor_Invariants Machines
begin

text \<open>
  The loop of the call actor (\<open>SessionActor::run\<close>, \<open>actor.rs\<close>): what it waits for, what a message or an
  expired timer does, and the hand-off of the coordinator role to the actor of another leg.
\<close>

section \<open>Hand-off of the coordinator role\<close>

definition prepare_handoff :: "CoordinatorHandoffToken \<Rightarrow> SessionActor \<Rightarrow> bool" where
  "prepare_handoff token s \<longleftrightarrow>
     call_id s = hot_call_id token \<and> ac_owned_session_id s = hot_source_session_id token \<and>
     agg_coordinator (rt_aggregate (ac_call s)) = hot_source_session_id token \<and>
     agg_coordinator_generation (rt_aggregate (ac_call s)) = hot_source_generation token \<and>
     checked_add (hot_source_generation token) 1 = Some (hot_target_generation token) \<and>
     list_ex (\<lambda>candidate. candidate = hot_target_session_id token) (handoff_candidates None (rt_aggregate (ac_call s)))"

definition target_ready :: "CoordinatorHandoffToken \<Rightarrow> SessionActor \<Rightarrow> CalleeSessionActor \<Rightarrow> (unit, string) outcome" where
  "target_ready token s target =
     (if ses_call_id (cs_session target) \<noteq> hot_call_id token \<or> ses_id (cs_session target) \<noteq> hot_target_session_id token \<or>
         leg_is_terminal (ses_state (cs_session target))
      then Err ''coordinator_handoff_target_unavailable''
      else if call_id s \<noteq> hot_call_id token \<or> ac_owned_session_id s \<noteq> hot_source_session_id token \<or>
         agg_coordinator (rt_aggregate (ac_call s)) \<noteq> hot_source_session_id token \<or>
         agg_coordinator_generation (rt_aggregate (ac_call s)) \<noteq> hot_source_generation token \<or>
         ac_coordinator_handle s \<noteq> hot_call_id token \<or> cs_coordinator target \<noteq> hot_call_id token
      then Err ''coordinator_handoff_package_mismatch'' else Ok ())"

datatype install_error = InstallRefused string | InstallFailed CallError

text \<open>A failure hands the package back: the actor in it is the one returned.\<close>

definition install_on ::
    "CoordinatorHandoffToken \<Rightarrow> CalleeSessionActor \<Rightarrow> CoordinatorIdentity \<Rightarrow> (SessionActor, unit, install_error) stateful" where
  "install_on token target committed s =
     (if cid_session_id committed \<noteq> hot_target_session_id token \<or> cid_generation committed \<noteq> hot_target_generation token
      then (Err (InstallRefused ''coordinator_handoff_not_committed''), s)
      else
        (case target_ready token s target of
           Ok _ \<Rightarrow>
             (case handoff_coordinator (hot_source_session_id token) (hot_source_generation token)
                     (hot_target_session_id token) (rt_aggregate (ac_call s)) of
                (r, agg) \<Rightarrow>
                  let s1 = ac_call_update (\<lambda>c. c\<lparr>rt_aggregate := agg\<rparr>) s in
                  (case r of
                     Ok generation \<Rightarrow>
                       if generation = hot_target_generation token then
                         (Ok (), s1\<lparr>ac_owned_session_id := ses_id (cs_session target),
                                    ac_leg_event_deduper := cs_leg_event_deduper target,
                                    ac_dtmf_source := cs_dtmf_source target,
                                    ac_owned_action_generation := cs_action_generation target,
                                    ac_owned_completed_actions := cs_completed_actions target\<rparr>)
                       else (Err (InstallRefused ''coordinator_handoff_generation_mismatch''), s1)
                   | Err error \<Rightarrow> (Err (InstallFailed error), s1)
                   | Panic \<Rightarrow> (Panic, s1)))
         | Err error \<Rightarrow> (Err (InstallRefused error), s)
         | Panic \<Rightarrow> (Panic, s)))"

section \<open>The loop\<close>

text \<open>
  What the loop waits for: the shutdown signal, the two control mailboxes, the timers and the two event
  mailboxes.  A request for the hand-off stands apart from the other control messages, with whether
  the one who asks still waits for the answer.
\<close>

datatype LoopInput =
    ShutdownChanged
  | ControlReceived ControlSource ControlMessage
  | HandoffReceived CoordinatorHandoffToken bool
  | TimerFired CallTimerKind
  | CollectorTimerFired
  | EventReceived EventMessage

datatype loop_next = Continue | Leave | HandedOver

fun timer_slot :: "CallTimerKind \<Rightarrow> SessionActor \<Rightarrow> CallTimerSlot option" where
  "timer_slot DialTimer s = ac_dial_timer s"
| "timer_slot RingTimer s = ac_ring_timer s"
| "timer_slot CleanupTimer s = ac_cleanup_timer s"

definition continue_if :: "bool \<times> SessionActor \<Rightarrow> loop_next \<times> SessionActor" where
  "continue_if = map_prod (\<lambda>b. if b then Continue else Leave) id"

text \<open>A timer that is not armed, or whose deadline has not come, does not fire.\<close>

definition wait_for_timer :: "AppView \<Rightarrow> CallTimerKind \<Rightarrow> SessionActor \<Rightarrow> u64 option" where
  "wait_for_timer app kind s =
     (case timer_slot kind s of
        Some t \<Rightarrow> if slot_deadline t \<le> app_now app then Some (slot_generation t) else None
      | None \<Rightarrow> None)"

definition wait_for_digit_collector_timer ::
    "AppView \<Rightarrow> SessionActor \<Rightarrow> (u64 \<times> CollectorId \<times> DigitCollectorDeadline) option" where
  "wait_for_digit_collector_timer app s =
     (case ac_dtmf_collector_timer s of
        Some t \<Rightarrow> if ts_at t \<le> app_now app then Some (ts_generation t, ts_collector_id t, ts_deadline t) else None
      | None \<Rightarrow> None)"

fun loop_step :: "AppView \<Rightarrow> LoopInput \<Rightarrow> SessionActor \<Rightarrow> loop_next \<times> SessionActor" where
  "loop_step app ShutdownChanged s = continue_if (processed app (begin_shutdown app) s)"
| "loop_step app (ControlReceived source message) s = continue_if (handle_control app source message s)"
| "loop_step app (HandoffReceived token waiting) s =
     (if prepare_handoff token s \<and> waiting then (HandedOver, s) else (Continue, s))"
| "loop_step app (TimerFired kind) s =
     (case wait_for_timer app kind s of
        Some generation \<Rightarrow> continue_if (processed app (handle_timer_expiry app kind generation) s)
      | None \<Rightarrow> (Continue, s))"
| "loop_step app CollectorTimerFired s =
     (case wait_for_digit_collector_timer app s of
        Some (generation, collector_id, deadline) \<Rightarrow>
          continue_if (processed app
            (modify_st (on_collectors (handle_digit_collector_timeout generation collector_id deadline)) :: unit msg_op) s)
      | None \<Rightarrow> (Continue, s))"
| "loop_step app (EventReceived message) s = (Continue, handle_event_message message s)"

text \<open>
  Between two rounds of the loop other tasks take from the queues and close them, so each round sees
  the world and the queues as they are then.
\<close>

record Surroundings =
  su_app :: AppView
  su_writer :: "WriteRequest Channel"
  su_media_tx :: "MediaAction Channel"
  su_registrar :: "AttemptRegistration Channel"
  su_event_tx :: "EventMessage Channel"
  su_ai_jobs :: "AiControlMessage Channel option"

definition refresh :: "Surroundings \<Rightarrow> SessionActor \<Rightarrow> SessionActor" where
  "refresh e s = s\<lparr>ac_writer := su_writer e, ac_media_tx := su_media_tx e, ac_registrar := su_registrar e,
                    ac_event_tx := su_event_tx e, ac_ai_jobs := su_ai_jobs e\<rparr>"

definition loop_round :: "loop_next \<times> SessionActor \<Rightarrow> Surroundings \<times> LoopInput \<Rightarrow> loop_next \<times> SessionActor" where
  "loop_round p r =
     (case (p, r) of ((n, s), e, i) \<Rightarrow> if n = Continue then loop_step (su_app e) i (refresh e s) else (n, s))"

definition loop_run :: "SessionActor \<Rightarrow> (Surroundings \<times> LoopInput) list \<Rightarrow> loop_next \<times> SessionActor" where
  "loop_run s rs = foldl loop_round (Continue, s) rs"

section \<open>Every round keeps the invariant\<close>

lemma collectors_post:
  assumes "actor_wf s" and "host_wf h" and "co_call_id h = call_id s"
    and "ac_finalization_started s \<Longrightarrow> co_collectors h = [] \<and> co_timer h = None"
  shows "good s (put_collector_view h s)" and "armed k (put_collector_view h s) = armed k s"
proof -
  have "collectors_ok (call_id s) (co_collectors h)"
    using assms(2,3) by (simp add: host_upto_def collectors_ok_def)
  then show "good s (put_collector_view h s)"
    using assms(1,4) by (auto simp: good_def actor_state_defs put_collector_view_def)
qed (simp add: armed_def is_terminating_def put_collector_view_def)

text \<open>A terminating call takes no new collection.\<close>

lemma start_rejected:
  assumes "co_terminating h"
  shows "co_collectors (start_digit_collection spec h) = co_collectors h \<and> co_timer (start_digit_collection spec h) = co_timer h \<and>
    co_media_tx (start_digit_collection spec h) = co_media_tx h"
proof (cases "validate_spec spec")
  case Panic
  then show ?thesis by (simp add: validate_spec_def split: if_splits)
qed (simp_all add: start_digit_collection_def assms reply_def)

lemma handle_event_message_good:
  assumes "actor_wf s"
  shows "good s (handle_event_message message s)" and "armed k (handle_event_message message s) = armed k s"
proof -
  let ?h = "collector_view s"
  have h: "host_wf ?h" "co_call_id ?h = call_id s" "co_collectors ?h = ac_dtmf_collectors s" "co_timer ?h = ac_dtmf_collector_timer s"
    "co_terminating ?h = terminating s"
    using assms by (simp_all add: host_wf_view actor_wf_def) (simp_all add: collector_view_def)
  have fin: "ac_dtmf_collectors s = [] \<and> ac_dtmf_collector_timer s = None \<and> terminating s" if "ac_finalization_started s"
    using that assms by (simp add: actor_wf_def idle_def)
  note start = start_rejected [of ?h, unfolded h(5)]
  have "good s (handle_event_message message s) \<and> armed k (handle_event_message message s) = armed k s"
  proof (cases message)
    case QuerySessionSummary
    with assms show ?thesis by (simp add: good_def)
  next
    case (StartDigitCollection spec)
    have "host_wf (start_digit_collection spec ?h)" "co_call_id (start_digit_collection spec ?h) = call_id s"
      using start_tally [OF h(1), of spec] h(2) by simp_all
    with assms start fin show ?thesis
      by (simp add: StartDigitCollection on_collectors_def collectors_post h)
  next
    case (CancelDigitCollection i)
    have "snd (cancel_digit_collection i ?h) = ?h" if "ac_finalization_started s"
      using fin [OF that] by (simp add: cancel_digit_collection_def h)
    moreover have "host_wf (snd (cancel_digit_collection i ?h))" "co_call_id (snd (cancel_digit_collection i ?h)) = call_id s"
      using cancel_keeps [of ?h i] h(1,2) by (simp_all add: keeps_def)
    ultimately show ?thesis
      using assms fin by (simp add: CancelDigitCollection on_collectors_def collectors_post h)
  qed
  then show "good s (handle_event_message message s)" "armed k (handle_event_message message s) = armed k s" by simp_all
qed

section \<open>A round of the loop\<close>

text \<open>An input that asks to end the call while the writer takes nothing.\<close>

fun hangup_lost :: "WriteRequest Channel \<Rightarrow> LoopInput \<Rightarrow> bool" where
  "hangup_lost ch (ControlReceived _ (AiActionRequest request)) \<longleftrightarrow>
     ends_call (areq_action request) \<and> \<not> takes ch"
| "hangup_lost ch _ \<longleftrightarrow> False"

context handler_contract
begin

lemma terminated_finish:
  assumes "good s0 s"
  shows "good s0 (begin_finish_call app (default_cause c (terminate_with c s)))"
    and "armed k (begin_finish_call app (default_cause c (terminate_with c s)))"
proof -
  have "good s0 (default_cause c (terminate_with c s))" "terminating (default_cause c (terminate_with c s))"
    using assms by (auto simp: good_def actor_state_defs actor_step_defs)
  then show "good s0 (begin_finish_call app (default_cause c (terminate_with c s)))"
    "armed k (begin_finish_call app (default_cause c (terminate_with c s)))"
    by (simp_all add: begin_finish_call_good)
qed

text \<open>What the loop makes of a handler's result.\<close>

lemma processed_good:
  assumes "wp m (\<lambda>_ t. good s0 t \<and> (dropped \<or> armed k t)) (\<lambda>_ t. live s0 t) s"
  shows "good s0 (snd (processed app m s)) \<and> (dropped \<or> armed k (snd (processed app m s)))"
proof -
  obtain r t where m: "m s = (r, t)" by (cases "m s")
  show ?thesis
  proof (cases r)
    case (Ok x)
    have t: "good s0 t" "dropped \<or> armed k t" using wp_Ok [OF assms] m Ok by simp_all
    have "terminating t" if "rt_caller_terminated (ac_call t)" using that t by (simp add: good_def actor_wf_def)
    then show ?thesis using t begin_finish_call_good [OF t(1)] by (auto simp: processed_def m Ok)
  next
    case (Err e)
    then have "good s0 t" using wp_Err [OF assms] m by (simp add: live_good)
    then show ?thesis using terminated_finish by (simp add: processed_def m Err)
  next
    case Panic
    then show ?thesis using wp_no_panic [OF assms] m by simp
  qed
qed

lemma armed_or:
  "wp m (\<lambda>_ t. good s0 t \<and> armed k t) E s \<Longrightarrow> wp m (\<lambda>_ t. good s0 t \<and> (dropped \<or> armed k t)) E s"
  by (erule wp_weaken) simp_all

lemmas live_armed_or = armed_or [OF good_rule]

lemma dispatch_control_good:
  assumes "live s0 s" and "armed k s"
  shows "wp (dispatch_control app source message)
    (\<lambda>_ t. good s0 t \<and> (hangup_lost (ac_writer s) (ControlReceived source message) \<or> armed k t)) (\<lambda>_ t. live s0 t) s"
proof (cases message)
  case (LegEvent frame_type event)
  show ?thesis unfolding LegEvent dispatch_control.simps
    by (intro wp_intros armed_or [OF handle_caller_leg_event_good] armed_or [OF handle_peer_leg_event_good] assms)
next
  case (PeerLegEvent frame_type event)
  show ?thesis unfolding PeerLegEvent dispatch_control.simps by (intro armed_or [OF handle_peer_leg_event_good] assms)
next
  case (ActionFailed failure)
  show ?thesis unfolding ActionFailed dispatch_control.simps
    by (intro wp_intros live_armed_or [OF handle_action_failure_live] assms)
next
  case (PeerActionFailed failure)
  show ?thesis unfolding PeerActionFailed dispatch_control.simps by (intro live_armed_or [OF handle_action_failure_live] assms)
next
  case (ActionAck ack)
  show ?thesis unfolding ActionAck dispatch_control.simps
    by (intro wp_intros armed_or [OF handle_action_ack_good] live_armed_or [OF handle_owned_leg_action_ack_live] assms)
next
  case (MediaResult result)
  show ?thesis unfolding MediaResult dispatch_control.simps by (intro live_armed_or [OF handle_media_action_result_live] assms)
next
  case (MediaDtmfObserved event)
  show ?thesis unfolding MediaDtmfObserved dispatch_control.simps
    by (intro wp_intros live_armed_or [OF handle_source_digit_live] assms)
next
  case (SipDtmf event)
  show ?thesis unfolding SipDtmf dispatch_control.simps by (intro wp_intros live_armed_or [OF handle_source_digit_live] assms)
next
  case (PeerDigitEvent event)
  show ?thesis unfolding PeerDigitEvent dispatch_control.simps
    by (intro wp_intros live_armed_or [OF handle_peer_digit_live] assms)
next
  case (InfoSendResult result)
  show ?thesis unfolding InfoSendResult dispatch_control.simps
    by (intro wp_intros live_armed_or [OF handle_dtmf_info_send_result_live] assms)
next
  case (RegistrationResult result)
  show ?thesis unfolding RegistrationResult dispatch_control.simps
    by (intro live_armed_or [OF handle_attempt_registration_result_live] assms)
next
  case (AiActionRequest request)
  show ?thesis unfolding AiActionRequest dispatch_control.simps
    by (intro wp_intros wp_weaken [OF handle_ai_action_live [OF assms]]) (auto simp: live_good)
next
  case AiGatewayUnavailable
  show ?thesis unfolding AiGatewayUnavailable dispatch_control.simps
    by (intro wp_intros live_armed_or [OF handle_ai_gateway_unavailable_live] assms)
next
  case Shutdown
  show ?thesis unfolding Shutdown dispatch_control.simps by (intro wp_intros live_armed_or [OF begin_shutdown_live] assms)
qed (simp_all add: wp_simps assms live_good)

lemma live_self: "actor_wf s \<Longrightarrow> \<not> ac_finalization_started s \<Longrightarrow> live s s"
  by (simp add: live_def good_def)

lemma finalized_good [simp]: "good s0 (s\<lparr>ac_finalized := b\<rparr>) = good s0 s" "armed k (s\<lparr>ac_finalized := b\<rparr>) = armed k s"
  by (simp_all add: good_def actor_state_defs)

lemma good_self: "actor_wf s \<Longrightarrow> good s s"
  by (simp add: good_def)

lemma handle_control_good:
  assumes "actor_wf s" and "armed k s"
  shows "good s (snd (handle_control app source message s)) \<and>
    (hangup_lost (ac_writer s) (ControlReceived source message) \<or> armed k (snd (handle_control app source message s)))"
proof (cases "ac_finalization_started s")
  case True
  then show ?thesis using assms by (simp add: handle_control_def good_self)
next
  case False
  have "good s (terminate_with c s)" "terminating (terminate_with c s)" for c
    using assms by (auto simp: good_def actor_state_defs actor_step_defs)
  note forced = begin_finish_call_good [OF this]
  show ?thesis
    using assms False forced processed_good [OF dispatch_control_good [OF live_self [OF assms(1) False] assms(2), of app source message]]
    by (auto simp: handle_control_def good_self)
qed

lemma shutdown_good:
  assumes "actor_wf s" and "armed k s"
  shows "good s (snd (processed app (begin_shutdown app) s)) \<and> armed k (snd (processed app (begin_shutdown app) s))"
proof (cases "ac_finalization_started s")
  case True
  then have "terminating s" using assms(1) by (simp add: actor_wf_def)
  then have "wp (begin_shutdown app) (\<lambda>_ t. good s t \<and> armed k t) (\<lambda>_ t. live s t) s"
    using assms by (simp add: begin_shutdown_def wp_simps Let_def) (simp add: good_def actor_state_defs)
  then show ?thesis using processed_good [where dropped = False] by simp
next
  case False
  from processed_good [OF live_armed_or [OF begin_shutdown_live [OF live_self [OF assms(1) False] assms(2)], where dropped = False]]
  show ?thesis by simp
qed

lemma timer_fires_good:
  assumes "actor_wf s" and "armed k s" and "wait_for_timer app kind s = Some g"
  shows "good s (snd (processed app (handle_timer_expiry app kind g) s)) \<and>
    armed k (snd (processed app (handle_timer_expiry app kind g) s))"
proof -
  have slot: "timer_slot kind s \<noteq> None" using assms(3) by (auto simp: wait_for_timer_def split: option.splits)
  then have fin: "\<not> ac_finalization_started s" using assms(1) by (cases kind) (auto simp: actor_wf_def idle_def)
  have "g = rt_cleanup_timer_generation (ac_call s)" if "kind = CleanupTimer"
    using that assms(1,3)
    by (auto simp: wait_for_timer_def actor_wf_def slots_current_def slot_current_def split: option.splits if_splits)
  with processed_good [OF armed_or [OF handle_timer_expiry_good [OF live_self [OF assms(1) fin] assms(2)], where dropped = False]]
  show ?thesis by simp
qed

lemma collector_timer_good:
  assumes "actor_wf s" and "armed k s" and "wait_for_digit_collector_timer app s = Some (g, i, d)"
  shows "good s (snd (processed app (modify_st (on_collectors (handle_digit_collector_timeout g i d)) :: unit msg_op) s)) \<and>
    armed k (snd (processed app (modify_st (on_collectors (handle_digit_collector_timeout g i d)) :: unit msg_op) s))"
proof -
  have "ac_dtmf_collector_timer s \<noteq> None" using assms(3) by (auto simp: wait_for_digit_collector_timer_def split: option.splits)
  then have fin: "\<not> ac_finalization_started s" using assms(1) by (auto simp: actor_wf_def idle_def)
  have "live s (on_collectors (handle_digit_collector_timeout g i d) s)" "armed k (on_collectors (handle_digit_collector_timeout g i d) s)"
    using on_collectors_live [OF live_self [OF assms(1) fin], of "handle_digit_collector_timeout g i d"] timeout_keeps assms(2)
    by blast+
  then have "wp (modify_st (on_collectors (handle_digit_collector_timeout g i d)) :: unit msg_op)
      (\<lambda>_ t. good s t \<and> (False \<or> armed k t)) (\<lambda>_ t. live s t) s"
    by (simp add: wp_simps live_good)
  from processed_good [OF this] show ?thesis by simp
qed

lemma loop_step_good:
  assumes "actor_wf s" and "armed k s"
  shows "good s (snd (loop_step app i s)) \<and> (hangup_lost (ac_writer s) i \<or> armed k (snd (loop_step app i s)))"
proof (cases i)
  case (ControlReceived source message)
  show ?thesis using handle_control_good [OF assms, of app source message]
    unfolding ControlReceived by (simp add: continue_if_def)
next
  case (TimerFired kind)
  show ?thesis using assms timer_fires_good [OF assms] unfolding TimerFired
    by (auto simp: continue_if_def good_self split: option.splits)
next
  case CollectorTimerFired
  show ?thesis using assms collector_timer_good [OF assms] unfolding CollectorTimerFired
    by (auto simp: continue_if_def good_self split: option.splits)
qed (use assms shutdown_good [OF assms] handle_event_message_good [OF assms(1)] in \<open>auto simp: continue_if_def good_self\<close>)

end

end
