(* ===== verification/Actor_Setup.thy ===== *)
theory Actor_Setup
  imports Actor_Loop
begin

text \<open>
  The end of the set-up of a call (\<open>SessionActor::create_call\<close>, \<open>crates/voipswitchd/src/runtime/call/mod.rs\<close>): the
  identifiers of the call, the actions it begins with and the two actors.  The route has been resolved
  and the media bridge allocated before.
\<close>

definition COORDINATOR_EVENT_MAILBOX_CAPACITY :: nat where
  "COORDINATOR_EVENT_MAILBOX_CAPACITY = 128"

definition call_id_of :: "u64 \<Rightarrow> u64 \<Rightarrow> CallId" where
  "call_id_of now_ms sequence = ''call-'' @ decimal (unat now_ms) @ ''-'' @ decimal (unat sequence)"

definition caller_session_id_of :: "CallId \<Rightarrow> SessionId" where
  "caller_session_id_of call = ''session-'' @ call @ ''-caller''"

definition callee_session_id_of :: "CallId \<Rightarrow> SessionId" where
  "callee_session_id_of call = ''session-'' @ call @ ''-callee-attempt-1''"

text \<open>What the invite brings and what the route analysis made of it.\<close>

record CallSetup =
  cst_call_id :: CallId
  cst_event_domain_id :: DomainId
  cst_domain_id :: DomainId
  cst_adapter_call_leg_id :: AdapterCallLegId
  cst_sdp_offer :: SdpBody
  cst_signaling_caller :: string
  cst_signaling_callee :: string
  cst_first_candidate :: OutboundCandidate
  cst_config_snapshot :: CallConfigSnapshot
  cst_callee_offer :: SdpBody
  cst_started_at_ms :: u64

definition initial_originate_body :: "(string \<times> json) list \<Rightarrow> CallSetup \<Rightarrow> (string \<times> json) list" where
  "initial_originate_body target_fields c =
     [(''domain_id'', JStr (cst_domain_id c)), (''caller_session_id'', JStr (caller_session_id_of (cst_call_id c)))] @
     target_fields @
     [(''caller_number'', JStr (cst_signaling_caller c)), (''caller_display_name'', JNull),
      (''callee_number'', JStr (cst_signaling_callee c)), (''sdp_offer'', sdp_json (cst_callee_offer c)),
      (''sip_metadata'', JObj []), (''extension_headers'', JObj [])]"

definition initial_call_actions :: "CallSetup \<Rightarrow> InitialCallAction list" where
  "initial_call_actions c =
     \<lparr> ica_callee = False, ica_action_kind = ''AdoptInboundInvite'', ica_action_id = dashed ''adopt'' (cst_call_id c),
       ica_body = [(''domain_id'', JStr (cst_event_domain_id c)),
                   (''adapter_call_leg_id'', JStr (cst_adapter_call_leg_id c))] \<rparr> #
     (case oc_outbound_target (cst_first_candidate c) of
        EndpointTarget endpoint_id endpoint_number \<Rightarrow>
          [\<lparr> ica_callee = True, ica_action_kind = ''OriginateEndpoint'',
             ica_action_id = dashed ''originate'' (cst_call_id c) @ ''-attempt-1'',
             ica_body = initial_originate_body
               [(''endpoint_id'', JStr endpoint_id), (''endpoint_number'', JStr endpoint_number)] c \<rparr>]
      | OutboundTrunk trunk_ref \<Rightarrow>
          [\<lparr> ica_callee = True, ica_action_kind = ''OriginateTrunk'',
             ica_action_id = dashed ''originate'' (cst_call_id c) @ ''-attempt-1'',
             ica_body = initial_originate_body [(''trunk_ref'', JStr trunk_ref)] c \<rparr>]
      | OutboundAiAgent _ \<Rightarrow> [])"

definition new_router_stats :: DtmfRouterStats where
  "new_router_stats = \<lparr> drs_forwarded = 0, drs_consumed = 0, drs_ignored = 0, drs_info_send_succeeded = 0,
     drs_info_send_failed = 0 \<rparr>"

definition new_session_actor :: "Surroundings \<Rightarrow> CallSetup \<Rightarrow> CallRuntime \<Rightarrow> SessionActor" where
  "new_session_actor e c call =
     \<lparr> ac_call = call, ac_media_present = True, ac_actor_started = False, ac_leg_event_deduper = deduper_default,
       ac_finalized = False, ac_finalization_started = False, ac_action_generation = 1, ac_completed_actions = {},
       ac_media_generation = 0, ac_dtmf_source = source_default, ac_dtmf_router = new_router_stats,
       ac_dtmf_collectors = [], ac_dtmf_collector_timer = None, ac_dtmf_collector_timer_generation = 0,
       ac_initial_actions = initial_call_actions c, ac_pending_answer = None, ac_answer_in_progress = False,
       ac_deferred_callee_disconnect = None, ac_dial_timer = None, ac_ring_timer = None, ac_cleanup_timer = None,
       ac_remaining_candidates = drop 1 (ccs_candidates (cst_config_snapshot c)), ac_current_attempt_seq = 1,
       ac_pending_attempt_candidate = None, ac_pending_attempt_registration = None, ac_retry_after_cleanup = None,
       ac_caller_offer = cst_sdp_offer c,
       ac_route_deadline = app_now (su_app e) + to_route_budget (ccs_timeouts (cst_config_snapshot c)),
       ac_pending_ai_transfer = None, ac_ai_transfer_failed = False, ac_prompt_generation = 0,
       ac_writer = su_writer e, ac_media_tx = channel MEDIA_ACTION_QUEUE_CAPACITY, ac_registrar = su_registrar e,
       ac_event_tx = channel COORDINATOR_EVENT_MAILBOX_CAPACITY, ac_ai_jobs = su_ai_jobs e,
       ac_coordinator_handle = cst_call_id c, ac_callee_control_tx = SessionMailbox (callee_session_id_of (cst_call_id c)),
       ac_owned_session_id = caller_session_id_of (cst_call_id c), ac_owned_action_generation = 1,
       ac_owned_completed_actions = {}, ac_replies = [], ac_effects = [] \<rparr>"

definition new_callee_session_actor :: "CallSetup \<Rightarrow> Session \<Rightarrow> CalleeSessionActor" where
  "new_callee_session_actor c callee =
     \<lparr> cs_session = callee, cs_attempt_seq = 1, cs_leg_event_deduper = deduper_default, cs_coordinator = cst_call_id c,
       cs_action_generation = 1, cs_completed_actions = {}, cs_dtmf_source = source_default \<rparr>"

definition create_actors :: "Surroundings \<Rightarrow> CallSetup \<Rightarrow> (SessionActor \<times> CalleeSessionActor, runtime_error) outcome" where
  "create_actors e c =
     and_then (call_runtime_new (cst_call_id c) (caller_session_id_of (cst_call_id c)) (callee_session_id_of (cst_call_id c))
         (cst_adapter_call_leg_id c) (cst_first_candidate c) (cst_config_snapshot c) (cst_started_at_ms c)) (\<lambda>call.
     and_then (make_callee_session (callee_session_id_of (cst_call_id c)) 1 (oc_outbound_target (cst_first_candidate c))
         (cst_started_at_ms c) call) (\<lambda>callee.
     Ok (new_session_actor e c call, new_callee_session_actor c callee)))"

section \<open>A created actor is well formed, and so is a started one\<close>

lemma call_runtime_new_state:
  assumes "call_runtime_new i caller callee leg candidate config t = Ok r"
  shows "rt_state r = Establishing" "\<not> rt_caller_terminated r" "agg_id (rt_aggregate r) = i"
    "rt_callee_target r = stable_ref (oc_outbound_target candidate)" "ses_id (rt_caller r) = caller"
    "\<not> rt_callee_terminated r" "rt_hangup_cause r = None" "\<not> is_answered r"
    "rt_current_callee_session_id r = callee" "rt_config_snapshot r = config"
proof -
  let ?caller = "initial_caller i caller callee leg config t"
  obtain x agg0 agg where agg0: "aggregate_new ?caller (ccs_bridge_policy config) t [] = Ok agg0"
    and agg: "enter_attempt ''attempt-1'' callee (oc_outbound_target candidate) x agg0 = (Ok (), agg)"
    and r: "r = initial_runtime config agg ?caller callee leg candidate"
  proof -
    obtain x agg0 where agg0: "aggregate_new ?caller (ccs_bridge_policy config) t [] = Ok agg0"
      and run: "(case enter_attempt ''attempt-1'' callee (oc_outbound_target candidate) x agg0 of
          (Ok _, c1) \<Rightarrow> Ok (initial_runtime config c1 ?caller callee leg candidate)
        | (Err e, _) \<Rightarrow> Err e | (Panic, _) \<Rightarrow> Panic) = Ok r"
      using assms by (auto simp: call_runtime_new_def Let_def split: if_splits)
    with that show thesis
      by (cases "enter_attempt ''attempt-1'' callee (oc_outbound_target candidate) x agg0") (auto split: outcome.splits)
  qed
  from r show "rt_state r = Establishing" "\<not> rt_caller_terminated r"
    "rt_callee_target r = stable_ref (oc_outbound_target candidate)" "ses_id (rt_caller r) = caller"
    "\<not> rt_callee_terminated r" "rt_hangup_cause r = None" "\<not> is_answered r"
    "rt_current_callee_session_id r = callee" "rt_config_snapshot r = config"
    by (simp_all add: initial_runtime_def initial_caller_def is_answered_def)
  have "agg_id agg = agg_id agg0"
    using enter_attempt_frame [of agg0 "''attempt-1''" callee "oc_outbound_target candidate" x] agg by (simp add: agg_frame_def)
  moreover have "agg_id agg0 = i" using agg0 by (auto simp: aggregate_new_def initial_caller_def split: if_splits)
  ultimately show "agg_id (rt_aggregate r) = i" by (simp add: r initial_runtime_def)
qed

lemma create_actors_OkD:
  assumes "create_actors e c = Ok (s, callee)"
  shows "actor_wf s" "\<not> terminating s" "\<not> ac_finalization_started s" "call_id s = cst_call_id c"
    "ac_remaining_candidates s = drop 1 (ccs_candidates (cst_config_snapshot c))" "ac_effects s = []"
proof -
  obtain call where new: "call_runtime_new (cst_call_id c) (caller_session_id_of (cst_call_id c)) (callee_session_id_of (cst_call_id c))
         (cst_adapter_call_leg_id c) (cst_first_candidate c) (cst_config_snapshot c) (cst_started_at_ms c) = Ok call"
    and s: "s = new_session_actor e c call"
    using assms by (auto simp: create_actors_def)
  note state = call_runtime_new_state [OF new]
  show "\<not> terminating s" "\<not> ac_finalization_started s" "call_id s = cst_call_id c"
    "ac_remaining_candidates s = drop 1 (ccs_candidates (cst_config_snapshot c))" "ac_effects s = []"
    using state by (simp_all add: s new_session_actor_def is_terminating_def call_id_def)
  then show "actor_wf s"
    using call_runtime_new_cases(2) [OF new] state deduper_default_wf source_default_wf
    by (simp add: s new_session_actor_def actor_wf_def slots_current_def finalizations_def)
qed

lemma finish_started [simp]: "ac_actor_started (begin_finish_call app s) = ac_actor_started s"
  by (simp add: begin_finish_call_def on_collectors_def put_collector_view_def cancel_all_timers_def timer_steps actor_step_defs)

lemma shutdown_started:
  assumes "ac_actor_started s"
  shows "ac_actor_started (snd (processed app (begin_shutdown app) s))"
proof -
  have w: "wp (begin_shutdown app) (\<lambda>_. ac_actor_started) (\<lambda>_. ac_actor_started) s"
    unfolding begin_shutdown_def by (intro wp_intros) (simp_all add: assms actor_step_defs timer_steps)
  obtain r t where m: "begin_shutdown app s = (r, t)" by (cases "begin_shutdown app s")
  have "ac_actor_started t" using wp_state [OF w] m by simp
  then show ?thesis by (cases r) (simp_all add: processed_def m actor_step_defs)
qed

context handler_contract
begin

lemma begin_terminated_good:
  assumes "good s0 s" and "terminating s"
  shows "good s0 (begin_finish_call app s)" and "armed k (begin_finish_call app s)"
  using begin_finish_call_good [OF assms] by simp_all

lemma terminate_good:
  assumes "good s0 s"
  shows "good s0 (terminate_with c s)" "terminating (terminate_with c s)"
    "good s0 (set_cause c (terminate_with c s))" "terminating (set_cause c (terminate_with c s))"
  using assms by (auto simp: good_def actor_state_defs actor_step_defs)

lemma submit_initial_actions_good:
  assumes "live s0 s" and "armed k s"
  shows "good s0 (submit_initial_actions app actions s) \<and> armed k (submit_initial_actions app actions s)"
  using assms
proof (induction actions arbitrary: s)
  case Nil
  then show ?case by (simp add: live_good)
next
  case (Cons a actions)
  let ?m = "if ica_callee a then submit_callee_action app (ica_action_kind a) (ica_action_id a) (ica_body a)
    else submit_caller_action app (ica_action_kind a) (ica_action_id a) (ica_body a)"
  have w: "wp ?m (\<lambda>_ t. live s0 t \<and> armed k t) (\<lambda>_ t. live s0 t) s"
    by (intro wp_intros) (use Cons.prems in simp_all)
  obtain r t where m: "?m s = (r, t)" by (cases "?m s")
  show ?case
  proof (cases r)
    case (Ok x)
    then show ?thesis using wp_Ok [OF w] m Cons.IH [of t] by (auto split: if_splits)
  next
    case (Err e)
    then have "good s0 t" using wp_Err [OF w] m by (simp add: live_good)
    then show ?thesis using m Err begin_terminated_good [OF terminate_good(3,4)] by (auto split: if_splits)
  next
    case Panic
    then show ?thesis using wp_no_panic [OF w] m by simp
  qed
qed

lemma prepare_agent_answer_good:
  assumes "good s0 s" and "armed k s"
  shows "good s0 (prepare_agent_answer app s) \<and> armed k (prepare_agent_answer app s)"
proof (cases "\<not> ac_finalization_started s \<and> ai_agent_prefix (rt_callee_target (ac_call s))")
  case True
  let ?s = "next_media_generation s"
  let ?m = "prepare_sdp (dashed ''prepare-ai-agent-answer'' (call_id ?s)) (ac_media_generation ?s) AiAgentAnswer (ac_caller_offer ?s)"
  have s: "live s0 ?s" using assms(1) True terminate_live(4) [of s0 s] by (simp add: live_def)
  moreover have "armed k ?s" using assms(2) by (simp add: armed_def next_media_generation_def)
  ultimately have w: "wp ?m (\<lambda>_ t. live s0 t \<and> armed k t) (\<lambda>_ t. live s0 t) ?s"
    by (intro wp_intros) simp_all
  obtain r t where m: "?m ?s = (r, t)" by (cases "?m ?s")
  show ?thesis
  proof (cases r)
    case (Ok x)
    then show ?thesis using True wp_Ok [OF w] m by (simp add: prepare_agent_answer_def Let_def live_good)
  next
    case (Err e)
    then have "good s0 t" using wp_Err [OF w] m by (simp add: live_good)
    then show ?thesis using True m Err begin_terminated_good [OF terminate_good(1,2)] by (simp add: prepare_agent_answer_def Let_def)
  next
    case Panic
    then show ?thesis using wp_no_panic [OF w] m by simp
  qed
qed (use assms in \<open>auto simp: prepare_agent_answer_def\<close>)

lemma started_flags [simp]:
  "actor_wf (s\<lparr>ac_actor_started := b\<rparr>) = actor_wf s" "armed k (s\<lparr>ac_actor_started := b\<rparr>) = armed k s"
  "actor_wf (s\<lparr>ac_actor_started := b, ac_initial_actions := a\<rparr>) = actor_wf s"
  "armed k (s\<lparr>ac_actor_started := b, ac_initial_actions := a\<rparr>) = armed k s"
  "advances s (s\<lparr>ac_actor_started := b\<rparr>)" "advances s (s\<lparr>ac_actor_started := b, ac_initial_actions := a\<rparr>)"
  by (simp_all add: actor_state_defs)

lemma actor_start_good:
  assumes "actor_wf s" and "armed k s" and "\<not> ac_finalization_started s" and "\<not> ac_actor_started s"
  shows "good s (actor_start app s) \<and> armed k (actor_start app s)"
proof -
  let ?s0 = "s\<lparr>ac_actor_started := True\<rparr>" and ?s1 = "s\<lparr>ac_actor_started := True, ac_initial_actions := []\<rparr>"
  have trans: "good s t" if "good s1 t" "advances s s1" for s1 t
    using that advances_trans by (auto simp: good_def)
  have down: "good s (snd (processed app (begin_shutdown app) ?s0)) \<and> armed k (snd (processed app (begin_shutdown app) ?s0))"
    using shutdown_good [of ?s0 app] assms trans [of ?s0] by simp
  let ?s2 = "submit_initial_actions app (ac_initial_actions s) ?s1"
  have "live s ?s1" "armed k ?s1" using assms by (simp_all add: live_def good_def)
  then have "good s ?s2 \<and> armed k ?s2" by (rule submit_initial_actions_good)
  then have s3: "good s (prepare_agent_answer app ?s2) \<and> armed k (prepare_agent_answer app ?s2)"
    using prepare_agent_answer_good by blast
  have dial: "good s (start_timer app DialTimer t) \<and> armed k (start_timer app DialTimer t)"
    if "good s t" "armed k t" "\<not> ac_finalization_started t" for t
    using that timer_live(1) [of s t app DialTimer] by (simp add: live_def)
  show ?thesis
  proof (cases "app_shutting_down app")
    case True
    have "ac_actor_started (snd (processed app (begin_shutdown app) ?s0))"
      by (rule shutdown_started) simp
    then show ?thesis using down True by (simp add: actor_start_def)
  next
    case False
    then show ?thesis using s3 dial assms(4) by (auto simp: actor_start_def Let_def)
  qed
qed

end

end
