(* ===== verification/Actor_Properties.thy ===== *)
theory Actor_Properties
  imports Actor_Setup
begin

text \<open>
  What holds of a call actor over every run of its loop, from its creation on: whatever messages
  arrive, whichever timers fire, and however the queues and the rest of the application change
  between two rounds.
\<close>

section \<open>Runs\<close>

lemma refresh_good [simp]:
  "actor_wf (refresh e s) = actor_wf s" "armed k (refresh e s) = armed k s" "advances s (refresh e s)"
  "ac_finalization_started (refresh e s) = ac_finalization_started s" "terminating (refresh e s) = terminating s"
  "ac_writer (refresh e s) = su_writer e"
  by (simp_all add: refresh_def actor_state_defs)

lemma loop_round_good:
  assumes "actor_wf s"
  shows "actor_wf (snd (loop_round (n, s) r))" and "advances s (snd (loop_round (n, s) r))"
proof -
  obtain e i where r: "r = (e, i)" by (cases r)
  have "good (refresh e s) (snd (loop_step (su_app e) i (refresh e s)))"
    using untimed.loop_step_good [of "refresh e s"] assms by (simp add: armed_def)
  then show "actor_wf (snd (loop_round (n, s) r))" "advances s (snd (loop_round (n, s) r))"
    using assms advances_trans [OF refresh_good(3) [of s e]] by (auto simp: loop_round_def r good_def)
qed

interpretation loop: invariant_machine loop_round "\<lambda>p. actor_wf (snd p)"
  by unfold_locales (metis loop_round_good(1) prod.collapse)

lemma loop_run_wf: "actor_wf s \<Longrightarrow> actor_wf (snd (loop_run s rs))"
  unfolding loop_run_def by (rule loop.run_inv) simp

lemma loop_run_advances:
  assumes "actor_wf s"
  shows "advances s (snd (loop_run s rs))"
proof -
  have "advances (snd (Continue, s)) (snd (foldl loop_round (Continue, s) rs))"
  proof (rule loop.run_relation [where R = "\<lambda>p q. advances (snd p) (snd q)"])
    show "advances (snd p) (snd (loop_round p r))" if "actor_wf (snd p)" for p r
      using loop_round_good(2) [OF that, of "fst p" r] by simp
  qed (auto simp: assms elim: advances_trans)
  then show ?thesis by (simp add: loop_run_def)
qed

text \<open>A run in which the writer takes every request of an agent to end the call.\<close>

definition hangups_taken :: "(Surroundings \<times> LoopInput) list \<Rightarrow> bool" where
  "hangups_taken rs \<longleftrightarrow> list_all (\<lambda>(e, i). \<not> hangup_lost (su_writer e) i) rs"

lemma loop_run_armed:
  assumes "actor_wf s" and "armed True s" and "hangups_taken rs"
  shows "armed True (snd (loop_run s rs))"
  using assms(3)
proof (induction rs rule: rev_induct)
  case Nil
  then show ?case using assms(2) by (simp add: loop_run_def)
next
  case (snoc r rs)
  obtain n t where t: "loop_run s rs = (n, t)" by (cases "loop_run s rs")
  obtain e i where r: "r = (e, i)" by (cases r)
  have "armed True t" "actor_wf t" "\<not> hangup_lost (su_writer e) i"
    using snoc loop_run_wf [OF assms(1), of rs] by (simp_all add: t r hangups_taken_def)
  then show ?case
    using timed.loop_step_good [of "refresh e t" "su_app e" i]
    by (simp add: loop_run_def loop_round_def t [unfolded loop_run_def] r)
qed

text \<open>An actor as \<open>create_call\<close> makes it and \<open>run\<close> starts it.\<close>

definition started :: "Surroundings \<Rightarrow> CallSetup \<Rightarrow> (SessionActor, runtime_error) outcome" where
  "started e c = and_then (create_actors e c) (\<lambda>(s, _). Ok (actor_start (su_app e) s))"

lemma startedE:
  assumes "started e c = Ok s"
  obtains s0 callee where "create_actors e c = Ok (s0, callee)" "s = actor_start (su_app e) s0" "good s0 s" "armed True s"
proof -
  obtain s0 callee where s0: "create_actors e c = Ok (s0, callee)" "s = actor_start (su_app e) s0"
    using assms by (auto simp: started_def)
  moreover have "armed True s0" "\<not> ac_actor_started s0"
    using create_actors_OkD(2) [OF s0(1)] s0(1) by (auto simp: armed_def create_actors_def new_session_actor_def)
  ultimately show thesis
    using that timed.actor_start_good create_actors_OkD(1,3) [OF s0(1)] by blast
qed

lemma started_wf: "started e c = Ok s \<Longrightarrow> actor_wf s \<and> armed True s"
  by (elim startedE) (simp add: good_def)

section \<open>Invariant, safety, liveness\<close>

text \<open>C6: Whatever a started call actor receives, in any order and with any timers firing, it stays well
  formed: its call runtime, its digit collectors and its deduplication are consistent, armed timers
  carry the current generation, a call that is terminating has a hang-up cause, and a call that is
  being finalized has no timer and no collector left.  The call keeps its identity, never leaves
  termination or finalization again, its media generation never decreases and the candidates it may
  still try are a suffix of the configured ones.  No control message makes a handler panic.
\<close>

theorem actor_run_wf:
  assumes "started e c = Ok s"
  shows "actor_wf (snd (loop_run s rs)) \<and> advances s (snd (loop_run s rs)) \<and>
    call_id (snd (loop_run s rs)) = cst_call_id c \<and>
    (\<exists>xs. ccs_candidates (cst_config_snapshot c) = xs @ ac_remaining_candidates (snd (loop_run s rs))) \<and>
    (ac_finalization_started (snd (loop_run s rs)) \<or> fst (dispatch_control app source message (snd (loop_run s rs))) \<noteq> Panic)"
proof -
  let ?t = "snd (loop_run s rs)"
  have wf: "actor_wf s" using started_wf [OF assms] by simp
  note t = loop_run_wf [OF wf, of rs] loop_run_advances [OF wf, of rs]
  obtain s0 callee where s0: "create_actors e c = Ok (s0, callee)" "good s0 s" using assms by (rule startedE)
  have adv: "advances s0 ?t" using s0(2) t(2) advances_trans by (auto simp: good_def)
  note init = create_actors_OkD [OF s0(1)]
  have "call_id ?t = cst_call_id c" using adv init(4) by (simp add: advances_def)
  moreover have "\<exists>xs. ccs_candidates (cst_config_snapshot c) = xs @ ac_remaining_candidates ?t"
  proof -
    obtain ys where "drop 1 (ccs_candidates (cst_config_snapshot c)) = ys @ ac_remaining_candidates ?t"
      using adv init(5) by (auto simp: advances_def)
    then have "ccs_candidates (cst_config_snapshot c) = (take 1 (ccs_candidates (cst_config_snapshot c)) @ ys) @ ac_remaining_candidates ?t"
      by (metis append.assoc append_take_drop_id)
    then show ?thesis by blast
  qed
  moreover have "fst (dispatch_control app source message ?t) \<noteq> Panic" if "\<not> ac_finalization_started ?t"
    using wp_no_panic [OF untimed.dispatch_control_good [OF untimed.live_self [OF t(1) that]]] by (simp add: armed_def)
  ultimately show ?thesis using t by blast
qed

text \<open>The effect of the cleanup timer on a terminating call with no retry pending.\<close>

lemma begin_finish_started [simp]: "ac_finalization_started (begin_finish_call app s)"
  by (simp add: begin_finish_call_def on_collectors_def put_collector_view_def cancel_all_timers_def actor_step_defs)

lemma cleanup_finalizes:
  assumes "actor_wf s" and "terminating s" and "ac_retry_after_cleanup s = None" and "wait_for_timer app CleanupTimer s = Some g"
  shows "ac_finalization_started (snd (loop_step app (TimerFired CleanupTimer) s))"
proof -
  have g: "g = rt_cleanup_timer_generation (ac_call s)"
    using assms(1,4)
    by (auto simp: wait_for_timer_def actor_wf_def slots_current_def slot_current_def split: option.splits if_splits)
  have "terminating (t\<lparr>ac_cleanup_timer := None\<rparr>) = terminating t" "call_id (t\<lparr>ac_cleanup_timer := None\<rparr>) = call_id t" for t
    by (simp_all add: call_id_def)
  then have w: "wp (handle_timer_expiry app CleanupTimer g) (\<lambda>_. ac_finalization_started) (\<lambda>_ _. True) s"
    unfolding handle_timer_expiry_def handle_timer_def cleanup_timeout_def
    by (intro wp_intros) (use assms g in \<open>auto intro!: wp_intros\<close>)
  obtain r t where m: "handle_timer_expiry app CleanupTimer g s = (r, t)" by (cases "handle_timer_expiry app CleanupTimer g s")
  show ?thesis
    using assms(4) wp_Ok [OF w] wp_no_panic [OF w] m
    by (cases r) (auto simp: processed_def continue_if_def)
qed


text \<open>What the end of the task does to the count of finalizations.\<close>

lemma begin_finish_count:
  "finalizations (begin_finish_call app s) = (if ac_finalization_started s then finalizations s else Suc (finalizations s))"
  by (simp add: begin_finish_call_def on_collectors_def put_collector_view_def cancel_all_timers_def timer_steps actor_step_defs
      finalizations_def)


lemma finalizing_step:
  assumes "actor_wf s" and "ac_finalization_started s" and "t = snd (loop_step app i s)"
  shows "ac_call t = ac_call s \<and> ac_writer t = ac_writer s \<and> ac_media_tx t = ac_media_tx s \<and> ac_registrar t = ac_registrar s \<and>
    ac_event_tx t = ac_event_tx s \<and> ac_ai_jobs t = ac_ai_jobs s \<and> ac_effects t = ac_effects s \<and> ac_finalization_started t"
proof -
  have idle: "terminating s" "idle s" using assms(1,2) by (simp_all add: actor_wf_def)
  have start: "co_media_tx (start_digit_collection spec (collector_view s)) = ac_media_tx s" for spec
    using start_rejected [of "collector_view s" spec] idle(1) by (simp add: collector_view_def)
  show ?thesis
  proof (cases i)
    case ShutdownChanged
    have "begin_shutdown app s = (Ok (), s\<lparr>ac_retry_after_cleanup := None\<rparr>)"
      using idle(1) by (simp add: begin_shutdown_def Let_def seq_st_def bind_st_def modify_st_def read_st_def return_st_def)
    then show ?thesis using assms by (simp add: ShutdownChanged processed_def continue_if_def begin_finish_call_def)
  next
    case (ControlReceived source message)
    then show ?thesis using assms by (simp add: handle_control_def continue_if_def)
  next
    case (TimerFired kind)
    then show ?thesis using assms idle(2) by (cases kind) (simp_all add: wait_for_timer_def idle_def)
  next
    case CollectorTimerFired
    then show ?thesis using assms idle(2) by (simp add: wait_for_digit_collector_timer_def idle_def)
  next
    case (EventReceived message)
    show ?thesis
    proof (cases message)
      case (CancelDigitCollection x)
      have "cancel_digit_collection x (collector_view s) = (Err ''dtmf_collector_not_found'', collector_view s)"
        using idle(2) by (simp add: cancel_digit_collection_def idle_def collector_view_def)
      then show ?thesis using assms by (simp add: EventReceived CancelDigitCollection on_collectors_def) (simp add: put_collector_view_def collector_view_def)
    qed (use assms start in \<open>simp_all add: EventReceived on_collectors_def put_collector_view_def\<close>)
  qed (use assms in simp_all)
qed

text \<open>C18: While a call is being finalized the actor is silent: whatever arrives, nothing is submitted to
  the adapter, the media executor, the attempt registrar or the AI service, no task is spawned, and
  the runtime of the call, from which its record is written, stays as it is.
\<close>

theorem finalizing_silent:
  assumes "started e c = Ok s" and "loop_run s rs = (n, u)" and "ac_finalization_started u" and "t = snd (loop_step app i u)"
  shows "ac_call t = ac_call u \<and> ac_writer t = ac_writer u \<and> ac_media_tx t = ac_media_tx u \<and> ac_registrar t = ac_registrar u \<and>
    ac_event_tx t = ac_event_tx u \<and> ac_ai_jobs t = ac_ai_jobs u \<and> ac_effects t = ac_effects u \<and> ac_finalization_started t"
  using finalizing_step [OF _ assms(3,4)] loop_run_wf [of s rs] started_wf [OF assms(1)] assms(2) by simp

fun result_generation :: "MediaActionResult \<Rightarrow> u64" where
  "result_generation (SdpPrepared _ generation _ _) = generation"
| "result_generation (AnswerMediaStarted _ generation _) = generation"
| "result_generation (DtmfCapabilityAcquired _ generation _) = generation"
| "result_generation (DtmfCapabilityReleased _ generation _) = generation"

text \<open>The result of a media action that belongs to an earlier media generation, from before a retry or
  the end of the call, changes nothing, however late it arrives.
\<close>

theorem stale_media_result_ignored:
  assumes "started e c = Ok s" and "loop_run s rs = (n, u)" and "result_generation r < ac_media_generation u"
    and "t = snd (loop_run u rs')"
  shows "dispatch_control app source (MediaResult r) t = (Ok (), t)"
proof -
  have "actor_wf u" using loop_run_wf [of s rs] started_wf [OF assms(1)] assms(2) by simp
  then have "ac_media_generation u \<le> ac_media_generation t"
    using loop_run_advances assms(4) by (simp add: advances_def)
  then have "result_generation r \<noteq> ac_media_generation t" using assms(3) by auto
  then show ?thesis by (cases r) (simp_all add: read_st_def return_st_def when_st_def)
qed

text \<open>C19: Each retry uses up a candidate: the next attempt is prepared for the first candidate that is left
  and the rest remains, so a call with n configured candidates makes at most n - 1 retries; when no retry is
  started nothing has changed, and none is started on a terminating call or without the time for one.
\<close>

theorem retry_consumes_candidate:
  assumes "actor_wf s" and "begin_next_attempt app status s = (Ok b, t)"
  shows "if b then \<exists>candidate. ac_remaining_candidates s = candidate # ac_remaining_candidates t \<and>
        ac_pending_attempt_candidate t =
          Some \<lparr> pac_attempt_seq = saturating_add (ac_current_attempt_seq s) 1, pac_candidate = candidate \<rparr> \<and>
        \<not> terminating s \<and> retryable_status status \<and> to_min_attempt_window (timeouts s) \<le> route_budget_remaining app s
     else t = s"
proof -
  have "runtime_wf (ac_call s)" using assms(1) by (simp add: actor_wf_def)
  then have "wp (begin_next_attempt app status) (\<lambda>b t. if b then \<exists>candidate.
        ac_remaining_candidates s = candidate # ac_remaining_candidates t \<and>
        ac_pending_attempt_candidate t =
          Some \<lparr> pac_attempt_seq = saturating_add (ac_current_attempt_seq s) 1, pac_candidate = candidate \<rparr> \<and>
        \<not> terminating s \<and> retryable_status status \<and> to_min_attempt_window (timeouts s) \<le> route_budget_remaining app s
     else t = s) (\<lambda>_ _. True) s"
    unfolding begin_next_attempt_def
    by (intro wp_intros wpI_on_call frames_update_current_attempt)
      (simp_all add: update_current_attempt_safe actor_step_defs)
  from wp_Ok [OF this assms(2)] show ?thesis .
qed

section \<open>Concrete calls\<close>

text \<open>On concrete calls the timers are computed.\<close>

declare timer_steps [simp]

definition demo_view :: "nat \<Rightarrow> AppView" where
  "demo_view now = \<lparr> app_now = now, app_unix_ms = 7, app_shutting_down = False, app_domains = (\<lambda>_. None),
     app_registrations = \<lparr> rm_ready = True, rm_snapshot_in_progress = False, rm_items = Map.empty \<rparr>, app_audio_payload_types = (\<lambda>_. []),
     app_ai_capture_started = False \<rparr>"

definition demo_surroundings :: "nat \<Rightarrow> bool \<Rightarrow> Surroundings" where
  "demo_surroundings now gone = \<lparr> su_app = demo_view now, su_writer = (channel 8)\<lparr>ch_closed := gone\<rparr>, su_media_tx = channel 8,
     su_registrar = channel 8, su_event_tx = channel 8, su_ai_jobs = None \<rparr>"

definition demo_sdp :: SdpBody where
  "demo_sdp = \<lparr> sdp_content_type = ''application/sdp'', sdp_text = ''v=0'' \<rparr>"

definition demo_call :: CallSetup where
  "demo_call =
     \<lparr> cst_call_id = ''c'', cst_event_domain_id = ''d'', cst_domain_id = ''d'', cst_adapter_call_leg_id = ''leg'',
       cst_sdp_offer = demo_sdp, cst_signaling_caller = ''1001'', cst_signaling_callee = ''1002'',
       cst_first_candidate = demo_candidate,
       cst_config_snapshot = demo_config\<lparr>ccs_candidates := [demo_candidate, demo_candidate],
         ccs_timeouts := \<lparr> to_route = 1, to_dial = 1, to_ring = 1, to_cleanup = 1, to_route_budget = 9, to_min_attempt_window = 1 \<rparr>\<rparr>,
       cst_callee_offer = demo_sdp, cst_started_at_ms = 5 \<rparr>"

definition demo_runtime_of :: "CallSetup \<Rightarrow> CallRuntime" where
  "demo_runtime_of c = (case call_runtime_new (cst_call_id c) (caller_session_id_of (cst_call_id c)) (callee_session_id_of (cst_call_id c))
         (cst_adapter_call_leg_id c) (cst_first_candidate c) (cst_config_snapshot c) (cst_started_at_ms c) of Ok r \<Rightarrow> r | _ \<Rightarrow> undefined)"

lemma demo_setup_new: "call_runtime_new (cst_call_id demo_call) (caller_session_id_of (cst_call_id demo_call))
    (callee_session_id_of (cst_call_id demo_call)) (cst_adapter_call_leg_id demo_call) (cst_first_candidate demo_call)
    (cst_config_snapshot demo_call) (cst_started_at_ms demo_call) = Ok (demo_runtime_of demo_call)"
proof -
  have "is_ok (call_runtime_new (cst_call_id demo_call) (caller_session_id_of (cst_call_id demo_call))
    (callee_session_id_of (cst_call_id demo_call)) (cst_adapter_call_leg_id demo_call) (cst_first_candidate demo_call)
    (cst_config_snapshot demo_call) (cst_started_at_ms demo_call))"
    by code_simp
  then show ?thesis by (auto simp: demo_runtime_of_def elim: is_okE)
qed

definition demo_actor :: SessionActor where
  "demo_actor = new_session_actor (demo_surroundings 0 False) demo_call (demo_runtime_of demo_call)"

lemma demo_created: "\<exists>callee. create_actors (demo_surroundings 0 False) demo_call = Ok (demo_actor, callee)"
proof -
  have "is_ok (session_endpoint (oc_outbound_target demo_candidate))" by code_simp
  then obtain x where "session_endpoint (oc_outbound_target demo_candidate) = Ok x" by (rule is_okE)
  then show ?thesis
    by (simp add: create_actors_def demo_setup_new demo_actor_def make_callee_session_def callee_session_def)
      (simp add: demo_call_def)
qed

lemma demo_fields:
  "ac_call demo_actor = demo_runtime_of demo_call" "ac_writer demo_actor = channel 8" "ac_finalization_started demo_actor = False"
  "ac_actor_started demo_actor = False" "ac_action_generation demo_actor = 1" "ac_completed_actions demo_actor = {}"
  "ac_owned_session_id demo_actor = ''session-c-caller''" "ac_pending_ai_transfer demo_actor = None"
  "ac_initial_actions demo_actor = initial_call_actions demo_call"
  by (simp_all add: demo_actor_def new_session_actor_def demo_surroundings_def channel_def demo_call_def caller_session_id_of_def)

lemma demo_target: "ai_agent_prefix (rt_callee_target (demo_runtime_of demo_call)) = False"
  unfolding call_runtime_new_state(4) [OF demo_setup_new] by code_simp

lemma submit_taken:
  assumes "takes (ac_writer s)"
  shows "\<exists>m. submit_caller_action app kind i body s =
      (Ok (), s\<lparr>ac_writer := (ac_writer s)\<lparr>ch_queue := ch_queue (ac_writer s) @ [m]\<rparr>\<rparr>) \<and> aid_action_kind (wr_identity m) = kind"
    and "\<exists>m. submit_callee_action app kind i body s =
      (Ok (), s\<lparr>ac_writer := (ac_writer s)\<lparr>ch_queue := ch_queue (ac_writer s) @ [m]\<rparr>\<rparr>) \<and> aid_action_kind (wr_identity m) = kind"
  using assms
  by (auto simp: submit_caller_action_def submit_callee_action_def submit_action_def writer_try_send_def try_send_text_eq
      takes_def Let_def)

lemma submit_initial_taken:
  assumes "\<not> ch_closed (ac_writer s)" and "length (ch_queue (ac_writer s)) + length actions \<le> ch_capacity (ac_writer s)"
  shows "\<exists>w. submit_initial_actions app actions s = s\<lparr>ac_writer := w\<rparr>"
  using assms
proof (induction actions arbitrary: s)
  case Nil
  then show ?case by (auto intro: exI [of _ "ac_writer s"])
next
  case (Cons a actions)
  then have "takes (ac_writer s)" by (simp add: takes_def)
  then obtain m where m: "(if ica_callee a then submit_callee_action app (ica_action_kind a) (ica_action_id a) (ica_body a) s
      else submit_caller_action app (ica_action_kind a) (ica_action_id a) (ica_body a) s) =
      (Ok (), s\<lparr>ac_writer := (ac_writer s)\<lparr>ch_queue := ch_queue (ac_writer s) @ [m]\<rparr>\<rparr>)"
    using submit_taken [of s app "ica_action_kind a" "ica_action_id a" "ica_body a"] by (cases "ica_callee a") auto
  show ?case
    using Cons.IH [of "s\<lparr>ac_writer := (ac_writer s)\<lparr>ch_queue := ch_queue (ac_writer s) @ [m]\<rparr>\<rparr>"] Cons.prems
    by (auto simp: m)
qed

lemma demo_start:
  "\<exists>w. actor_start (demo_view 0) demo_actor =
     start_timer (demo_view 0) DialTimer (demo_actor\<lparr>ac_actor_started := True, ac_initial_actions := [], ac_writer := w\<rparr>)"
proof -
  have up: "app_shutting_down (demo_view 0) = False" by (simp add: demo_view_def)
  let ?s = "demo_actor\<lparr>ac_actor_started := True, ac_initial_actions := []\<rparr>"
  have "length (initial_call_actions demo_call) = 2"
    by (simp add: initial_call_actions_def demo_call_def demo_candidate_def)
  then obtain w where w: "submit_initial_actions (demo_view 0) (initial_call_actions demo_call) ?s = ?s\<lparr>ac_writer := w\<rparr>"
    using submit_initial_taken [of ?s "initial_call_actions demo_call" "demo_view 0"] by (auto simp: demo_fields channel_def)
  have "prepare_agent_answer (demo_view 0) (?s\<lparr>ac_writer := w\<rparr>) = ?s\<lparr>ac_writer := w\<rparr>"
    by (simp add: prepare_agent_answer_def demo_fields demo_target)
  then have "actor_start (demo_view 0) demo_actor = start_timer (demo_view 0) DialTimer (?s\<lparr>ac_writer := w\<rparr>)"
    unfolding actor_start_def Let_def up if_False demo_fields(4,9) w by (simp add: demo_fields del: start_timer.simps)
  then show ?thesis by (intro exI [of _ w]) (simp del: start_timer.simps)
qed

definition demo_begun :: SessionActor where
  "demo_begun = actor_start (demo_view 0) demo_actor"

lemma demo_begun_started: "started (demo_surroundings 0 False) demo_call = Ok demo_begun"
proof -
  have "su_app (demo_surroundings 0 False) = demo_view 0" by (simp add: demo_surroundings_def)
  then show ?thesis using demo_created by (auto simp: started_def demo_begun_def)
qed

lemma demo_begun_fields:
  "ac_finalization_started demo_begun = False" "ac_finalized demo_begun = False" "ac_action_generation demo_begun = 1"
  "ac_completed_actions demo_begun = {}" "call_id demo_begun = ''c''" "caller_session_id demo_begun = ''session-c-caller''"
  "terminating demo_begun = False" "rt_caller_terminated (ac_call demo_begun) = False"
  "rt_callee_terminated (ac_call demo_begun) = False" "ac_retry_after_cleanup demo_begun = None"
  "ac_media_generation demo_begun = 0"
proof -
  obtain w where w: "demo_begun = start_timer (demo_view 0) DialTimer
      (demo_actor\<lparr>ac_actor_started := True, ac_initial_actions := [], ac_writer := w\<rparr>)"
    using demo_start by (auto simp: demo_begun_def)
  note state = call_runtime_new_state [OF demo_setup_new]
  have ids: "cst_call_id demo_call = ''c''" "caller_session_id_of ''c'' = ''session-c-caller''"
    by (simp_all add: demo_call_def caller_session_id_of_def)
  show "ac_finalization_started demo_begun = False" "ac_finalized demo_begun = False" "ac_action_generation demo_begun = 1"
    "ac_completed_actions demo_begun = {}" "call_id demo_begun = ''c''" "caller_session_id demo_begun = ''session-c-caller''"
    "terminating demo_begun = False" "rt_caller_terminated (ac_call demo_begun) = False"
    "rt_callee_terminated (ac_call demo_begun) = False" "ac_retry_after_cleanup demo_begun = None"
    "ac_media_generation demo_begun = 0"
    using state
    by (simp_all add: w demo_fields timer_steps Let_def call_id_def caller_session_id_def is_terminating_def ids)
      (simp_all add: demo_actor_def new_session_actor_def)
qed

text \<open>A failed action of the caller's leg, the shortest way into termination.\<close>

definition demo_failure :: ActionDeliveryFailed where
  "demo_failure = \<lparr> adf_identity = \<lparr> aid_call_id = ''c'', aid_session_id = ''session-c-caller'',
     aid_action_kind = ''AdoptInboundInvite'', aid_action_id = ''adopt-c'', aid_generation = 1 \<rparr>, adf_reason = ''gone'' \<rparr>"

definition demo_rounds :: "(Surroundings \<times> LoopInput) list" where
  "demo_rounds = [(demo_surroundings 0 False, ControlReceived CoordinatorSource (ActionFailed demo_failure))]"

lemma demo_failed:
  "\<exists>t. loop_run demo_begun demo_rounds = (Continue, t) \<and> terminating t \<and> \<not> ac_finalization_started t"
proof -
  let ?s = "refresh (demo_surroundings 0 False) demo_begun"
  let ?m = "dispatch_control (demo_view 0) CoordinatorSource (ActionFailed demo_failure)"
  have s: "ac_finalization_started ?s = False" "ac_finalized ?s = False" "ac_action_generation ?s = 1"
    "ac_completed_actions ?s = {}" "call_id ?s = ''c''" "caller_session_id ?s = ''session-c-caller''"
    "terminating ?s = False" "rt_caller_terminated (ac_call ?s) = False"
    using demo_begun_fields by (simp_all add: refresh_def call_id_def caller_session_id_def)
  have "wp ?m (\<lambda>_ t. terminating t \<and> \<not> ac_finalization_started t \<and> \<not> ac_finalized t \<and> \<not> rt_caller_terminated (ac_call t)) (\<lambda>_ _. False) ?s"
    unfolding dispatch_control.simps handle_action_failure_def accept_action_result_def fail_call_action_def
    by (intro wp_intros) (use s in \<open>simp_all add: demo_failure_def is_originate_def actor_step_defs is_terminating_def begin_terminating_def\<close>)
  moreover obtain r t where m: "?m ?s = (r, t)" by (cases "?m ?s")
  ultimately have t: "r = Ok ()" "terminating t" "\<not> ac_finalization_started t" "\<not> ac_finalized t" "\<not> rt_caller_terminated (ac_call t)"
    by (auto simp: wp_def split: outcome.splits)
  have "loop_round (Continue, demo_begun) (demo_surroundings 0 False, ControlReceived CoordinatorSource (ActionFailed demo_failure)) =
      (Continue, t)"
    using s t m by (simp add: loop_round_def handle_control_def processed_def continue_if_def demo_surroundings_def)
  with t show ?thesis by (simp add: loop_run_def demo_rounds_def)
qed

theorem actor_run_wf_witness:
  "actor_wf (snd (loop_run demo_begun demo_rounds)) \<and> call_id (snd (loop_run demo_begun demo_rounds)) = ''c''"
  using actor_run_wf [OF demo_begun_started, of demo_rounds] by (simp add: demo_call_def)



definition demo_forced :: "(Surroundings \<times> LoopInput) list" where
  "demo_forced = [(demo_surroundings 0 False, ControlReceived CoordinatorSource ForceCleanup)]"

lemma demo_forced_end:
  "\<exists>u. loop_run demo_begun demo_forced = (Leave, u) \<and> ac_finalization_started u \<and> ac_media_generation u = 1"
proof -
  let ?s = "refresh (demo_surroundings 0 False) demo_begun"
  let ?u = "begin_finish_call (demo_view 0) (terminate_with HangupCause.InternalError ?s)"
  have "loop_run demo_begun demo_forced = (Leave, ?u)"
    using demo_begun_fields(1)
    by (simp add: loop_run_def demo_forced_def loop_round_def handle_control_def continue_if_def demo_surroundings_def demo_view_def)
  moreover have "ac_media_generation ?u = 1"
    using demo_begun_fields(1,11)
    by (simp add: begin_finish_call_def on_collectors_def put_collector_view_def cancel_all_timers_def actor_step_defs
        refresh_def saturating_add_def)
  ultimately show ?thesis by simp
qed

theorem finalizing_silent_witness:
  "ac_writer (snd (loop_step (demo_view 9) ShutdownChanged (snd (loop_run demo_begun demo_forced)))) =
     ac_writer (snd (loop_run demo_begun demo_forced))"
proof -
  obtain u where u: "loop_run demo_begun demo_forced = (Leave, u)" "ac_finalization_started u" using demo_forced_end by blast
  from finalizing_silent [OF demo_begun_started u refl, of "demo_view 9" ShutdownChanged] show ?thesis by (simp only: u snd_conv)
qed

theorem stale_media_result_ignored_witness:
  "fst (dispatch_control (demo_view 9) CoordinatorSource (MediaResult (AnswerMediaStarted ''a'' 0 None))
     (snd (loop_run demo_begun demo_forced))) = Ok ()"
proof -
  obtain u where u: "loop_run demo_begun demo_forced = (Leave, u)" "ac_media_generation u = 1" using demo_forced_end by blast
  have "result_generation (AnswerMediaStarted ''a'' 0 None) < ac_media_generation u" by (simp add: u(2))
  moreover have "u = snd (loop_run u [])" by (simp add: loop_run_def)
  ultimately have "dispatch_control (demo_view 9) CoordinatorSource (MediaResult (AnswerMediaStarted ''a'' 0 None)) u = (Ok (), u)"
    by (rule stale_media_result_ignored [OF demo_begun_started u(1)])
  then show ?thesis by (simp only: u(1) snd_conv fst_conv)
qed

lemma demo_attempt_fails: "is_ok (fst (update_current_attempt CalleeAttemptState.Failed (Some (hangup_cause_for_status 503)) (demo_runtime_of demo_call)))"
  by code_simp

lemma demo_retry: "\<exists>t. begin_next_attempt (demo_view 0) 503 demo_actor = (Ok True, t)"
proof -
  obtain c where c: "update_current_attempt CalleeAttemptState.Failed (Some (hangup_cause_for_status 503)) (demo_runtime_of demo_call) = (Ok (), c)"
    using demo_attempt_fails
    by (cases "update_current_attempt CalleeAttemptState.Failed (Some (hangup_cause_for_status 503)) (demo_runtime_of demo_call)") (auto elim: is_okE)
  have "\<not> terminating demo_actor" "ac_remaining_candidates demo_actor = [demo_candidate]" "ac_route_deadline demo_actor = 9"
    "to_min_attempt_window (timeouts demo_actor) = 1" "ac_media_tx demo_actor = channel MEDIA_ACTION_QUEUE_CAPACITY"
    using call_runtime_new_state(1) [OF demo_setup_new]
    by (simp_all add: is_terminating_def demo_fields timeouts_def call_runtime_new_state(10) [OF demo_setup_new])
      (simp_all add: demo_call_def demo_actor_def new_session_actor_def demo_surroundings_def demo_view_def)
  then show ?thesis
    by (simp add: begin_next_attempt_def read_st_def seq_st_def bind_st_def Let_def demo_view_def retryable_status_def
        route_budget_remaining_def modify_st_def on_call_def zoom_st_def demo_fields c return_st_def anyhow_def
        prepare_callee_offer_def media_submit_def media_try_send_def try_send_text_eq lift_err_def actor_step_defs channel_def
        MEDIA_ACTION_QUEUE_CAPACITY_def)
qed

theorem retry_consumes_candidate_witness:
  "\<exists>t. begin_next_attempt (demo_view 0) 503 demo_actor = (Ok True, t) \<and>
     ac_remaining_candidates demo_actor = demo_candidate # ac_remaining_candidates t"
proof -
  obtain callee where "create_actors (demo_surroundings 0 False) demo_call = Ok (demo_actor, callee)" using demo_created by blast
  then have wf: "actor_wf demo_actor" and c: "ac_remaining_candidates demo_actor = [demo_candidate]"
    using create_actors_OkD(1,5) by (auto simp: demo_call_def)
  obtain t where t: "begin_next_attempt (demo_view 0) 503 demo_actor = (Ok True, t)" using demo_retry by blast
  from retry_consumes_candidate [OF wf t] show ?thesis using t c by auto
qed

section \<open>Two ways a call ends badly\<close>

text \<open>What a submission comes to when it is known whether the writer takes it.\<close>

definition refusal :: "WriteRequest Channel \<Rightarrow> string" where
  "refusal w = (if ch_closed w then ''adapter runtime writer stopped'' else ''adapter action queue full'')"

lemma wp_submit_refused:
  "\<not> takes (ac_writer s) \<Longrightarrow> wp (submit_caller_action app kind i body) Q E s = E (refusal (ac_writer s)) s"
  by (auto simp: wp_def submit_caller_action_def submit_action_def writer_try_send_def try_send_text_eq takes_def Let_def refusal_def)

lemma wp_total: "wp m Q (\<lambda>_ _. False) s \<Longrightarrow> \<exists>x t. m s = (Ok x, t) \<and> Q x t"
  by (auto simp: wp_def split: prod.splits outcome.splits)


definition demo_agent_actor :: SessionActor where
  "demo_agent_actor = demo_actor
     \<lparr>ac_call := (ac_call demo_actor)\<lparr>rt_callee_target := ''ai_agent:a'',
        rt_caller := (rt_caller (ac_call demo_actor))\<lparr>ses_answered_at_ms := Some 6\<rparr>\<rparr>,
      ac_writer := (channel 8)\<lparr>ch_closed := True\<rparr>\<rparr>"

definition demo_end_request :: ActionRequested where
  "demo_end_request =
     \<lparr> areq_conversation = \<lparr> job_job_id = ''j'', job_tenant_id = domain_id demo_actor, job_conversation_id = call_id demo_actor,
         job_operation_id = ''o'', job_generation = 1 \<rparr>, areq_operation_id = ''o'', areq_generation = 1,
       areq_action = EndCall ''done'', areq_deadline_at_ms = 100 \<rparr>"


text \<open>The kinds of the actions that wait for the writer.\<close>

definition queued_kinds :: "SessionActor \<Rightarrow> string list" where
  "queued_kinds s = map (\<lambda>m. aid_action_kind (wr_identity m)) (ch_queue (ac_writer s))"

definition writer_room :: "nat \<Rightarrow> SessionActor \<Rightarrow> bool" where
  "writer_room n s \<longleftrightarrow> \<not> ch_closed (ac_writer s) \<and> length (ch_queue (ac_writer s)) + n \<le> ch_capacity (ac_writer s)"

definition queue_request :: "WriteRequest \<Rightarrow> SessionActor \<Rightarrow> SessionActor" where
  "queue_request m = ac_writer_update (\<lambda>w. w\<lparr>ch_queue := ch_queue w @ [m]\<rparr>)"

lemmas wp_plain =
  wp_return [THEN iffD2] wp_modify [THEN iffD2] wp_steps_Nil [THEN iffD2] wp_steps_Cons [THEN iffD2]
  wp_read [THEN iffD2] wp_bind [THEN iffD2] wp_seq [THEN iffD2] wpI_if wpI_when wpI_option wpI_let wpI_anyhow

lemma wp_submit_queued:
  assumes "writer_room (Suc n) s" and "\<And>m. aid_action_kind (wr_identity m) = kind \<Longrightarrow> Q () (queue_request m s)"
  shows "wp (submit_caller_action app kind i body) Q E s" and "wp (submit_callee_action app kind i body) Q E s"
proof -
  have t: "takes (ac_writer s)" using assms(1) by (simp add: takes_def writer_room_def)
  have "s\<lparr>ac_writer := (ac_writer s)\<lparr>ch_queue := ch_queue (ac_writer s) @ [m]\<rparr>\<rparr> = queue_request m s" for m
    by (simp add: queue_request_def)
  then show "wp (submit_caller_action app kind i body) Q E s" "wp (submit_callee_action app kind i body) Q E s"
    using submit_taken [OF t, of app kind i body] assms(2) by (auto simp: wp_def)
qed

lemma queue_request_fields [simp]:
  "ac_call (queue_request m s) = ac_call s" "ac_retry_after_cleanup (queue_request m s) = ac_retry_after_cleanup s"
  "queued_kinds (queue_request m s) = queued_kinds s @ [aid_action_kind (wr_identity m)]"
  "writer_room n (queue_request m s) = writer_room (Suc n) s"
  by (simp_all add: queue_request_def queued_kinds_def writer_room_def)

text \<open>Steps that leave the writer alone.\<close>

lemma queue_frame [simp]:
  "queued_kinds (ac_call_update f1 s) = queued_kinds s" "writer_room n (ac_call_update f1 s) = writer_room n s"
  "queued_kinds (ac_dial_timer_update f2 s) = queued_kinds s" "writer_room n (ac_dial_timer_update f2 s) = writer_room n s"
  "queued_kinds (ac_ring_timer_update f3 s) = queued_kinds s" "writer_room n (ac_ring_timer_update f3 s) = writer_room n s"
  "queued_kinds (ac_cleanup_timer_update f4 s) = queued_kinds s" "writer_room n (ac_cleanup_timer_update f4 s) = writer_room n s"
  "queued_kinds (ac_prompt_generation_update f5 s) = queued_kinds s" "writer_room n (ac_prompt_generation_update f5 s) = writer_room n s"
  "queued_kinds (ac_pending_ai_transfer_update f6 s) = queued_kinds s" "writer_room n (ac_pending_ai_transfer_update f6 s) = writer_room n s"
  "queued_kinds (ac_retry_after_cleanup_update f7 s) = queued_kinds s" "writer_room n (ac_retry_after_cleanup_update f7 s) = writer_room n s"
  by (simp_all add: queued_kinds_def writer_room_def)

text \<open>C24: When the caller cancels while an attempt that timed out is being cleaned up before a retry, the
  pending retry is not withdrawn: the call terminates as cancelled by its originator, and when the
  cleanup timer expires the actor finds that it cannot retry, replaces the cause by NoRoute and
  rejects the invitation the caller has already cancelled.
\<close>

theorem cancelled_retry_overwrites_cause:
  assumes "\<not> terminating s" and "ac_retry_after_cleanup s = Some status" and "rt_hangup_cause (ac_call s) = None"
    and "ac_pending_ai_transfer s = None" and "\<not> ai_agent_conversation_active s" and "\<not> is_answered (ac_call s)"
    and "\<not> rt_callee_terminated (ac_call s)" and "writer_room 3 s"
  shows "\<exists>t u. handle_cancelled app s = (Ok (), t) \<and> rt_hangup_cause (ac_call t) = Some OriginatorCancel \<and>
    rt_caller_terminated (ac_call t) \<and> cleanup_timeout app' t = (Ok (), u) \<and>
    rt_hangup_cause (ac_call u) = Some HangupCause.NoRoute \<and>
    queued_kinds u = queued_kinds s @ [''CancelOutbound'', ''HangupDialog'', ''RejectInboundInvite'']"
proof -
  have "wp (handle_cancelled app) (\<lambda>_ t. rt_hangup_cause (ac_call t) = Some OriginatorCancel \<and> rt_caller_terminated (ac_call t) \<and>
      terminating t \<and> ac_retry_after_cleanup t = Some status \<and> writer_room 2 t \<and> queued_kinds t = queued_kinds s @ [''CancelOutbound''])
    (\<lambda>_ _. False) s"
    unfolding handle_cancelled_def signal_cancelled_def finish_or_wait_def
    by (intro wp_plain wp_submit_queued [where n = 2])
      (use assms in \<open>simp_all add: actor_step_defs is_terminating_def begin_terminating_def ai_agent_conversation_active_def
         is_answered_def numeral_3_eq_3 numeral_2_eq_2\<close>)
  then obtain t where t: "handle_cancelled app s = (Ok (), t)" "rt_hangup_cause (ac_call t) = Some OriginatorCancel"
      "rt_caller_terminated (ac_call t)" "terminating t" "ac_retry_after_cleanup t = Some status" "writer_room 2 t"
      "queued_kinds t = queued_kinds s @ [''CancelOutbound'']"
    by (auto dest: wp_total)
  have "wp (cleanup_timeout app') (\<lambda>_ u. rt_hangup_cause (ac_call u) = Some HangupCause.NoRoute \<and>
      queued_kinds u = queued_kinds t @ [''HangupDialog'', ''RejectInboundInvite'']) (\<lambda>_ _. False) t"
    unfolding cleanup_timeout_def force_retry_after_cleanup_def next_attempt_or_end_def begin_next_attempt_def terminate_exhausted_retry_def
    by (intro wp_plain wp_submit_queued [where n = 1] wp_submit_queued [where n = 0])
      (use t in \<open>simp_all add: actor_step_defs is_terminating_def begin_terminating_def numeral_2_eq_2\<close>)
  with t show ?thesis by (auto dest!: wp_total)
qed

theorem cancelled_retry_overwrites_cause_witness:
  "\<exists>t u. handle_cancelled (demo_view 1) (demo_actor\<lparr>ac_retry_after_cleanup := Some 408\<rparr>) = (Ok (), t) \<and>
     rt_hangup_cause (ac_call t) = Some OriginatorCancel \<and> cleanup_timeout (demo_view 2) t = (Ok (), u) \<and>
     rt_hangup_cause (ac_call u) = Some HangupCause.NoRoute"
proof -
  let ?s = "demo_actor\<lparr>ac_retry_after_cleanup := Some 408\<rparr>"
  note state = call_runtime_new_state [OF demo_setup_new]
  have "\<not> terminating ?s" "ac_retry_after_cleanup ?s = Some 408" "rt_hangup_cause (ac_call ?s) = None"
    "ac_pending_ai_transfer ?s = None" "\<not> is_answered (ac_call ?s)" "\<not> rt_callee_terminated (ac_call ?s)" "writer_room 3 ?s"
    using state by (simp_all add: is_terminating_def demo_fields) (simp add: writer_room_def demo_fields channel_def)
  moreover have "ac_ai_transfer_failed demo_actor = False" by (simp add: demo_actor_def new_session_actor_def)
  then have "\<not> ai_agent_conversation_active ?s" by (simp add: ai_agent_conversation_active_def demo_fields demo_target)
  ultimately show ?thesis
    using cancelled_retry_overwrites_cause [of ?s 408 "demo_view 1" "demo_view 2"] by blast
qed

end
