(* ===== verification/Session_Manager.thy ===== *)
theory Session_Manager
  imports Call_Events Hash_Map Machines
begin

text \<open>
  The index of the running actors (\<open>SessionManager\<close>, \<open>crates/voipswitchd/src/runtime/call/session.rs\<close>):
  which mailbox belongs to a session, which call a session is part of, who coordinates a call, and
  the hand-off of that role in two phases.  A handle is the mailbox it names; whether a mailbox is
  closed is an argument, because the other end closes it.
\<close>

section \<open>State\<close>

record CoordinatorRegistration =
  creg_session_id :: string
  creg_generation :: u64
  creg_handle :: CallId

record SessionManager =
  sm_sessions :: "(string, control_target) HashMap"
  sm_session_calls :: "(string, string) HashMap"
  sm_call_originators :: "(string, string) HashMap"
  sm_call_coordinators :: "(string, CoordinatorRegistration) HashMap"
  sm_pending_handoffs :: "(string, CoordinatorHandoffToken) HashMap"
  sm_leg_sessions :: "(string, string) HashMap"

datatype CoordinatorHandoffError =
  CallNotFound | HandoffInProgress | StaleOwner | InvalidTarget | GenerationExhausted | TokenMismatch

definition manager_default :: SessionManager where
  "manager_default = \<lparr> sm_sessions = [], sm_session_calls = [], sm_call_originators = [], sm_call_coordinators = [],
     sm_pending_handoffs = [], sm_leg_sessions = [] \<rparr>"

type_synonym 'a manager_op = "(SessionManager, 'a, CoordinatorHandoffError) stateful"

section \<open>Operations\<close>

text \<open>\<open>HashMap::retain\<close>.\<close>

definition hm_retain :: "('k \<Rightarrow> 'v \<Rightarrow> bool) \<Rightarrow> ('k, 'v) HashMap \<Rightarrow> ('k, 'v) HashMap" where
  "hm_retain keep m = filter (\<lambda>(k, v). keep k v) m"

definition register_caller :: "string \<Rightarrow> string \<Rightarrow> string \<Rightarrow> control_target \<Rightarrow> CallId \<Rightarrow> SessionManager \<Rightarrow> SessionManager" where
  "register_caller session_id call adapter_call_leg_id handle coordinator m =
     m\<lparr>sm_sessions := hm_insert session_id handle (sm_sessions m),
       sm_session_calls := hm_insert session_id call (sm_session_calls m),
       sm_call_originators := hm_insert call session_id (sm_call_originators m),
       sm_call_coordinators := hm_insert call
         \<lparr> creg_session_id = session_id, creg_generation = 1, creg_handle = coordinator \<rparr> (sm_call_coordinators m),
       sm_leg_sessions := hm_insert adapter_call_leg_id session_id (sm_leg_sessions m)\<rparr>"

definition register_callee :: "string \<Rightarrow> string \<Rightarrow> control_target \<Rightarrow> SessionManager \<Rightarrow> SessionManager" where
  "register_callee session_id call handle m =
     m\<lparr>sm_sessions := hm_insert session_id handle (sm_sessions m),
       sm_session_calls := hm_insert session_id call (sm_session_calls m)\<rparr>"

definition bind_adapter_leg :: "string \<Rightarrow> string \<Rightarrow> SessionManager \<Rightarrow> bool \<times> SessionManager" where
  "bind_adapter_leg session_id adapter_call_leg_id m =
     (if \<not> hm_contains_key (sm_sessions m) session_id then (False, m)
      else (True, m\<lparr>sm_leg_sessions := hm_insert adapter_call_leg_id session_id
                      (hm_retain (\<lambda>_ candidate. candidate \<noteq> session_id) (sm_leg_sessions m))\<rparr>))"

definition unregister_session :: "string \<Rightarrow> SessionManager \<Rightarrow> control_target option \<times> SessionManager" where
  "unregister_session session_id m =
     (hm_get (sm_sessions m) session_id,
      m\<lparr>sm_pending_handoffs := hm_retain
          (\<lambda>_ handoff. hot_source_session_id handoff \<noteq> session_id \<and> hot_target_session_id handoff \<noteq> session_id)
          (sm_pending_handoffs m),
        sm_session_calls := hm_remove session_id (sm_session_calls m),
        sm_leg_sessions := hm_retain (\<lambda>_ candidate. candidate \<noteq> session_id) (sm_leg_sessions m),
        sm_sessions := hm_remove session_id (sm_sessions m)\<rparr>)"

definition coordinator_session :: "string \<Rightarrow> SessionManager \<Rightarrow> string option" where
  "coordinator_session call m = map_option creg_session_id (hm_get (sm_call_coordinators m) call)"

definition caller_session :: "string \<Rightarrow> SessionManager \<Rightarrow> string option" where
  "caller_session call m = hm_get (sm_call_originators m) call"

definition identity_of :: "CoordinatorRegistration \<Rightarrow> CoordinatorIdentity" where
  "identity_of r = \<lparr> cid_session_id = creg_session_id r, cid_generation = creg_generation r \<rparr>"

definition coordinator_identity :: "string \<Rightarrow> SessionManager \<Rightarrow> CoordinatorIdentity option" where
  "coordinator_identity call m = map_option identity_of (hm_get (sm_call_coordinators m) call)"

definition coordinator_handle :: "(CallId \<Rightarrow> bool) \<Rightarrow> string \<Rightarrow> SessionManager \<Rightarrow> CallId option" where
  "coordinator_handle is_closed call m =
     (case hm_get (sm_call_coordinators m) call of
        Some r \<Rightarrow> if is_closed (creg_handle r) then None else Some (creg_handle r)
      | None \<Rightarrow> None)"

definition session_of_call :: "string \<Rightarrow> string \<Rightarrow> SessionManager \<Rightarrow> bool" where
  "session_of_call session_id call m \<longleftrightarrow>
     hm_contains_key (sm_sessions m) session_id \<and> hm_get (sm_session_calls m) session_id = Some call"

definition prepare_coordinator_handoff :: "string \<Rightarrow> string \<Rightarrow> u64 \<Rightarrow> string \<Rightarrow> CoordinatorHandoffToken manager_op" where
  "prepare_coordinator_handoff call source_session_id source_generation target_session_id m =
     (if hm_contains_key (sm_pending_handoffs m) call then (Err HandoffInProgress, m)
      else
        (case hm_get (sm_call_coordinators m) call of
           None \<Rightarrow> (Err CallNotFound, m)
         | Some r \<Rightarrow>
             if creg_session_id r \<noteq> source_session_id \<or> creg_generation r \<noteq> source_generation then (Err StaleOwner, m)
             else if target_session_id = source_session_id \<or> \<not> session_of_call target_session_id call m
             then (Err InvalidTarget, m)
             else
               (case checked_add source_generation 1 of
                  None \<Rightarrow> (Err GenerationExhausted, m)
                | Some target_generation \<Rightarrow>
                    let token = \<lparr> hot_call_id = call, hot_source_session_id = source_session_id,
                          hot_target_session_id = target_session_id, hot_source_generation = source_generation,
                          hot_target_generation = target_generation \<rparr>
                    in (Ok token, m\<lparr>sm_pending_handoffs := hm_insert call token (sm_pending_handoffs m)\<rparr>))))"

definition hand_registration :: "string \<Rightarrow> CoordinatorRegistration \<Rightarrow> string \<Rightarrow> u64 \<Rightarrow> SessionManager \<Rightarrow> SessionManager" where
  "hand_registration call r session_id generation m =
     m\<lparr>sm_call_coordinators := hm_insert call (r\<lparr>creg_session_id := session_id, creg_generation := generation\<rparr>)
         (sm_call_coordinators m)\<rparr>"

definition commit_coordinator_handoff :: "CoordinatorHandoffToken \<Rightarrow> CoordinatorIdentity manager_op" where
  "commit_coordinator_handoff token m =
     (if hm_get (sm_pending_handoffs m) (hot_call_id token) \<noteq> Some token then (Err TokenMismatch, m)
      else
        (case hm_get (sm_call_coordinators m) (hot_call_id token) of
           None \<Rightarrow> (Err CallNotFound, m)
         | Some r \<Rightarrow>
             if creg_session_id r \<noteq> hot_source_session_id token \<or> creg_generation r \<noteq> hot_source_generation token
             then (Err StaleOwner, m)
             else if \<not> session_of_call (hot_target_session_id token) (hot_call_id token) m then (Err InvalidTarget, m)
             else
               (Ok \<lparr> cid_session_id = hot_target_session_id token, cid_generation = hot_target_generation token \<rparr>,
                (hand_registration (hot_call_id token) r (hot_target_session_id token) (hot_target_generation token) m)
                  \<lparr>sm_pending_handoffs := hm_remove (hot_call_id token) (sm_pending_handoffs m)\<rparr>)))"

definition abort_coordinator_handoff :: "CoordinatorHandoffToken \<Rightarrow> unit manager_op" where
  "abort_coordinator_handoff token m =
     (if hm_get (sm_pending_handoffs m) (hot_call_id token) \<noteq> Some token then (Err TokenMismatch, m)
      else (Ok (), m\<lparr>sm_pending_handoffs := hm_remove (hot_call_id token) (sm_pending_handoffs m)\<rparr>))"

definition rollback_committed_coordinator_handoff :: "CoordinatorHandoffToken \<Rightarrow> CoordinatorIdentity manager_op" where
  "rollback_committed_coordinator_handoff token m =
     (if hm_contains_key (sm_pending_handoffs m) (hot_call_id token) then (Err HandoffInProgress, m)
      else
        (case hm_get (sm_call_coordinators m) (hot_call_id token) of
           None \<Rightarrow> (Err CallNotFound, m)
         | Some r \<Rightarrow>
             if creg_session_id r \<noteq> hot_target_session_id token \<or> creg_generation r \<noteq> hot_target_generation token
             then (Err StaleOwner, m)
             else if \<not> session_of_call (hot_source_session_id token) (hot_call_id token) m then (Err InvalidTarget, m)
             else
               (Ok \<lparr> cid_session_id = hot_source_session_id token, cid_generation = hot_source_generation token \<rparr>,
                hand_registration (hot_call_id token) r (hot_source_session_id token) (hot_source_generation token) m)))"

text \<open>The first session of the call, in the order of the hash map, that is not its coordinator.\<close>

definition peer_session :: "(string, string) hash_order \<Rightarrow> string \<Rightarrow> SessionManager \<Rightarrow> string option" where
  "peer_session order call m =
     map_option fst (find (\<lambda>(session_id, candidate). candidate = call \<and> coordinator_session call m \<noteq> Some session_id)
       (order (sm_session_calls m)))"

definition destroy_call :: "string \<Rightarrow> SessionManager \<Rightarrow> SessionManager" where
  "destroy_call call m =
     (let session_ids = map fst (filter (\<lambda>(_, candidate). candidate = call) (sm_session_calls m))
      in m\<lparr>sm_sessions := fold hm_remove session_ids (sm_sessions m),
           sm_session_calls := fold hm_remove session_ids (sm_session_calls m),
           sm_call_coordinators := hm_remove call (sm_call_coordinators m),
           sm_pending_handoffs := hm_remove call (sm_pending_handoffs m),
           sm_call_originators := hm_remove call (sm_call_originators m),
           sm_leg_sessions := hm_retain (\<lambda>_ session_id. session_id \<notin> set session_ids) (sm_leg_sessions m)\<rparr>)"

definition lookup_by_session :: "string \<Rightarrow> SessionManager \<Rightarrow> control_target option" where
  "lookup_by_session session_id m = hm_get (sm_sessions m) session_id"

definition lookup_by_adapter_leg :: "string \<Rightarrow> SessionManager \<Rightarrow> string option" where
  "lookup_by_adapter_leg adapter_call_leg_id m = hm_get (sm_leg_sessions m) adapter_call_leg_id"

definition coordinators :: "(string, CoordinatorRegistration) hash_order \<Rightarrow> SessionManager \<Rightarrow> (string \<times> CallId) list" where
  "coordinators order m = map (\<lambda>(_, r). (creg_session_id r, creg_handle r)) (order (sm_call_coordinators m))"

definition manager_is_empty :: "SessionManager \<Rightarrow> bool" where
  "manager_is_empty m \<longleftrightarrow> sm_call_coordinators m = []"

section \<open>Invariant\<close>

lemma hm_get_retain [simp]:
  assumes "hm_wf m"
  shows "hm_get (hm_retain keep m) k = (case hm_get m k of Some v \<Rightarrow> if keep k v then Some v else None | None \<Rightarrow> None)"
  using assms by (induction m) (auto simp: hm_get_def hm_wf_def hm_retain_def map_of_eq_None_iff image_iff split: option.splits)

lemma hm_wf_retain [simp]: "hm_wf m \<Longrightarrow> hm_wf (hm_retain keep m)"
  by (auto simp: hm_wf_def hm_retain_def distinct_map_filter)

lemma hm_get_fold_remove [simp]: "hm_get (fold hm_remove ks m) k = (if k \<in> set ks then None else hm_get m k)"
  by (induction ks arbitrary: m) auto

lemma hm_wf_fold_remove [simp]: "hm_wf m \<Longrightarrow> hm_wf (fold hm_remove ks m)"
  by (induction ks arbitrary: m) (auto simp: hm_wf_remove)

lemma keys_of_value: "hm_wf m \<Longrightarrow> set (map fst (filter (\<lambda>(_, w). w = v) m)) = {k. hm_get m k = Some v}"
  by (auto simp: hm_get_def hm_wf_def image_iff)

lemmas manager_maps = hm_wf_insert hm_wf_remove hm_contains_key_def

definition token_ok :: "string \<Rightarrow> CoordinatorHandoffToken \<Rightarrow> bool" where
  "token_ok call t \<longleftrightarrow>
     hot_call_id t = call \<and> hot_source_session_id t \<noteq> hot_target_session_id t \<and>
     checked_add (hot_source_generation t) 1 = Some (hot_target_generation t)"

definition manager_wf :: "SessionManager \<Rightarrow> bool" where
  "manager_wf m \<longleftrightarrow>
     hm_wf (sm_sessions m) \<and> hm_wf (sm_session_calls m) \<and> hm_wf (sm_call_originators m) \<and>
     hm_wf (sm_call_coordinators m) \<and> hm_wf (sm_pending_handoffs m) \<and> hm_wf (sm_leg_sessions m) \<and>
     (\<forall>k. hm_get (sm_session_calls m) k = None \<longleftrightarrow> hm_get (sm_sessions m) k = None) \<and>
     (\<forall>call. hm_get (sm_call_originators m) call = None \<longleftrightarrow> hm_get (sm_call_coordinators m) call = None) \<and>
     (\<forall>leg k. hm_get (sm_leg_sessions m) leg = Some k \<longrightarrow> hm_get (sm_sessions m) k \<noteq> None) \<and>
     (\<forall>call t. hm_get (sm_pending_handoffs m) call = Some t \<longrightarrow> hm_get (sm_call_coordinators m) call \<noteq> None \<and> token_ok call t)"

datatype ManagerOp =
    RegisterCaller string string string control_target CallId
  | RegisterCallee string string control_target
  | BindAdapterLeg string string
  | UnregisterSession string
  | PrepareHandoff string string u64 string
  | CommitHandoff CoordinatorHandoffToken
  | AbortHandoff CoordinatorHandoffToken
  | RollbackHandoff CoordinatorHandoffToken
  | DestroyCall string

fun manager_step :: "SessionManager \<Rightarrow> ManagerOp \<Rightarrow> SessionManager" where
  "manager_step m (RegisterCaller session call leg handle coordinator) = register_caller session call leg handle coordinator m"
| "manager_step m (RegisterCallee session call handle) = register_callee session call handle m"
| "manager_step m (BindAdapterLeg session leg) = snd (bind_adapter_leg session leg m)"
| "manager_step m (UnregisterSession session) = snd (unregister_session session m)"
| "manager_step m (PrepareHandoff call source generation target) = snd (prepare_coordinator_handoff call source generation target m)"
| "manager_step m (CommitHandoff token) = snd (commit_coordinator_handoff token m)"
| "manager_step m (AbortHandoff token) = snd (abort_coordinator_handoff token m)"
| "manager_step m (RollbackHandoff token) = snd (rollback_committed_coordinator_handoff token m)"
| "manager_step m (DestroyCall call) = destroy_call call m"

lemma manager_wf_handed:
  assumes "manager_wf m" and "hm_get (sm_call_coordinators m) call = Some r"
  shows "manager_wf (hand_registration call r session generation m)"
  using assms by (auto simp: manager_wf_def hand_registration_def manager_maps)

lemma manager_wf_settled:
  assumes "manager_wf m"
  shows "manager_wf (m\<lparr>sm_pending_handoffs := hm_remove call (sm_pending_handoffs m)\<rparr>)"
  using assms by (auto simp: manager_wf_def manager_maps split: if_splits)

lemma prepare_wf:
  assumes "manager_wf m"
  shows "manager_wf (snd (prepare_coordinator_handoff call source g target m))"
  using assms
  by (auto simp: prepare_coordinator_handoff_def Let_def manager_wf_def manager_maps token_ok_def split: option.splits)

lemma destroy_get:
  assumes "manager_wf m"
  shows "hm_get (sm_sessions (destroy_call call m)) =
      (\<lambda>k. if hm_get (sm_session_calls m) k = Some call then None else hm_get (sm_sessions m) k)"
    and "hm_get (sm_session_calls (destroy_call call m)) =
      (\<lambda>k. if hm_get (sm_session_calls m) k = Some call then None else hm_get (sm_session_calls m) k)"
    and "hm_get (sm_leg_sessions (destroy_call call m)) =
      (\<lambda>l. case hm_get (sm_leg_sessions m) l of None \<Rightarrow> None
         | Some k \<Rightarrow> if hm_get (sm_session_calls m) k = Some call then None else Some k)"
  using assms keys_of_value [of "sm_session_calls m" call]
  by (auto simp: destroy_call_def Let_def manager_wf_def fun_eq_iff split: option.splits)

lemma destroy_wf:
  assumes "manager_wf m"
  shows "manager_wf (destroy_call call m)"
proof -
  have "hm_wf (sm_sessions (destroy_call call m))" "hm_wf (sm_session_calls (destroy_call call m))"
    "hm_wf (sm_leg_sessions (destroy_call call m))"
    using assms by (simp_all add: destroy_call_def Let_def manager_wf_def)
  moreover have "sm_call_coordinators (destroy_call call m) = hm_remove call (sm_call_coordinators m)"
    "sm_pending_handoffs (destroy_call call m) = hm_remove call (sm_pending_handoffs m)"
    "sm_call_originators (destroy_call call m) = hm_remove call (sm_call_originators m)"
    by (simp_all add: destroy_call_def Let_def)
  ultimately show ?thesis
    using assms unfolding manager_wf_def destroy_get [OF assms]
    by (auto simp: manager_maps split: if_splits option.splits)
qed

lemma manager_step_wf:
  assumes "manager_wf m"
  shows "manager_wf (manager_step m op)"
proof (cases op)
  case (RegisterCaller session call leg handle coordinator)
  show ?thesis using assms unfolding RegisterCaller
    by (auto simp: manager_wf_def register_caller_def manager_maps split: if_splits)
next
  case (RegisterCallee session call handle)
  show ?thesis using assms unfolding RegisterCallee
    by (auto simp: manager_wf_def register_callee_def manager_maps)
next
  case (BindAdapterLeg session leg)
  show ?thesis using assms unfolding BindAdapterLeg
    by (auto simp: manager_wf_def bind_adapter_leg_def manager_maps split: if_splits option.splits)
next
  case (UnregisterSession session)
  show ?thesis using assms unfolding UnregisterSession
    by (auto simp: manager_wf_def unregister_session_def manager_maps split: if_splits option.splits)
next
  case (CommitHandoff token)
  have "sm_pending_handoffs (hand_registration call r session g m) = sm_pending_handoffs m" for call r session g
    by (simp add: hand_registration_def)
  then show ?thesis using assms manager_wf_settled [OF manager_wf_handed [OF assms]] unfolding CommitHandoff
    by (simp add: commit_coordinator_handoff_def split: option.splits)
next
  case (AbortHandoff token)
  show ?thesis using assms unfolding AbortHandoff
    by (auto simp: abort_coordinator_handoff_def manager_wf_settled)
next
  case (RollbackHandoff token)
  show ?thesis using assms unfolding RollbackHandoff
    by (auto simp: rollback_committed_coordinator_handoff_def manager_wf_handed split: option.splits)
qed (simp_all add: assms prepare_wf destroy_wf)

lemma manager_default_wf [simp]: "manager_wf manager_default"
  by (simp add: manager_wf_def manager_default_def hm_get_def)

interpretation manager: invariant_machine manager_step manager_wf
  by unfold_locales (rule manager_step_wf)

section \<open>Properties\<close>

lemma hm_remove_insert_fresh: "hm_get m k = None \<Longrightarrow> hm_remove k (hm_insert k v m) = m"
  by (induction k v m rule: hm_insert.induct)
    (auto simp: hm_get_def hm_remove_def filter_id_conv split: if_splits)

text \<open>C21: The session index stays consistent whatever sequence of operations is applied to it: a session
  has a mailbox exactly when it belongs to a call, every adapter leg names a session that exists,
  every call that has a coordinator has an originator, and every pending hand-off is of a call with a
  coordinator, between two different sessions and to the next generation.
\<close>

theorem manager_run_wf:
  "manager_wf (foldl manager_step manager_default ops)"
  by (rule manager.run_inv) simp

text \<open>What \<open>prepare\<close> accepts.\<close>

lemma prepare_Ok_iff:
  "prepare_coordinator_handoff call source g target m = (Ok token, m1) \<longleftrightarrow>
     hm_get (sm_pending_handoffs m) call = None \<and> coordinator_identity call m = Some \<lparr> cid_session_id = source, cid_generation = g \<rparr> \<and>
     target \<noteq> source \<and> session_of_call target call m \<and> checked_add g 1 = Some (hot_target_generation token) \<and>
     token = \<lparr> hot_call_id = call, hot_source_session_id = source, hot_target_session_id = target, hot_source_generation = g,
               hot_target_generation = hot_target_generation token \<rparr> \<and>
     m1 = m\<lparr>sm_pending_handoffs := hm_insert call token (sm_pending_handoffs m)\<rparr>"
  by (auto simp: prepare_coordinator_handoff_def hm_contains_key_def coordinator_identity_def identity_of_def Let_def
      split: option.splits)

text \<open>C20: A prepared hand-off of the coordinator role can be committed once: the call is then coordinated
  by the target under the next generation, every other call keeps its coordinator, and committing or
  aborting again with the same token is refused.  Aborting instead gives the index back as it was
  before.  A committed hand-off can be rolled back while the former coordinator is still registered,
  which restores its identity, and not otherwise.
\<close>

theorem handoff_two_phase:
  assumes "prepare_coordinator_handoff call source g target m = (Ok token, m1)"
  shows "\<exists>m2. commit_coordinator_handoff token m1 = (Ok \<lparr> cid_session_id = target, cid_generation = g + 1 \<rparr>, m2) \<and>
      coordinator_identity call m2 = Some \<lparr> cid_session_id = target, cid_generation = g + 1 \<rparr> \<and> g < g + 1 \<and>
      (\<forall>other. other \<noteq> call \<longrightarrow> coordinator_identity other m2 = coordinator_identity other m) \<and>
      commit_coordinator_handoff token m2 = (Err TokenMismatch, m2) \<and>
      abort_coordinator_handoff token m2 = (Err TokenMismatch, m2) \<and>
      (if session_of_call source call m then
         \<exists>m3. rollback_committed_coordinator_handoff token m2 = (Ok \<lparr> cid_session_id = source, cid_generation = g \<rparr>, m3) \<and>
           (\<forall>c. coordinator_identity c m3 = coordinator_identity c m)
       else rollback_committed_coordinator_handoff token m2 = (Err InvalidTarget, m2)) \<and>
      abort_coordinator_handoff token m1 = (Ok (), m)"
proof -
  note p = assms [unfolded prepare_Ok_iff]
  have gen: "hot_target_generation token = g + 1" using p by (auto simp: checked_add_def split: if_splits)
  have less: "g < g + 1"
    using p checked_add_Some [of g 1] by (auto simp: word_less_nat_alt checked_add_def split: if_splits)
  obtain r where r: "hm_get (sm_call_coordinators m) call = Some r" "creg_session_id r = source" "creg_generation r = g"
    using p by (auto simp: coordinator_identity_def identity_of_def)
  have t: "token = \<lparr> hot_call_id = call, hot_source_session_id = source, hot_target_session_id = target,
      hot_source_generation = g, hot_target_generation = g + 1 \<rparr>" using p gen by simp
  define m2 where "m2 = (hand_registration call r target (g + 1) m1)\<lparr>sm_pending_handoffs := hm_remove call (sm_pending_handoffs m1)\<rparr>"
  have "abort_coordinator_handoff token m1 = (Ok (), m)"
    using p by (simp add: abort_coordinator_handoff_def t hm_remove_insert_fresh)
  moreover have "commit_coordinator_handoff token m1 = (Ok \<lparr> cid_session_id = target, cid_generation = g + 1 \<rparr>, m2)"
    using p r by (simp add: commit_coordinator_handoff_def t m2_def session_of_call_def)
  moreover have "rollback_committed_coordinator_handoff token m2 =
      (if session_of_call source call m
       then (Ok \<lparr> cid_session_id = source, cid_generation = g \<rparr>,
             hand_registration call (r\<lparr>creg_session_id := target, creg_generation := g + 1\<rparr>) source g m2)
       else (Err InvalidTarget, m2))"
    using p by (simp add: rollback_committed_coordinator_handoff_def t m2_def hand_registration_def hm_contains_key_def
        session_of_call_def)
  ultimately show ?thesis
    using p r less
    by (auto simp: m2_def hand_registration_def coordinator_identity_def identity_of_def commit_coordinator_handoff_def
        abort_coordinator_handoff_def t intro!: exI [of _ m2])
qed

definition demo_manager :: SessionManager where
  "demo_manager = register_callee ''k2'' ''c'' (SessionMailbox ''k2'')
     (register_caller ''k1'' ''c'' ''leg'' (SessionMailbox ''k1'') ''c'' manager_default)"

definition demo_token :: CoordinatorHandoffToken where
  "demo_token = \<lparr> hot_call_id = ''c'', hot_source_session_id = ''k1'', hot_target_session_id = ''k2'',
     hot_source_generation = 1, hot_target_generation = 2 \<rparr>"

lemma demo_prepare: "prepare_coordinator_handoff ''c'' ''k1'' 1 ''k2'' demo_manager =
    (Ok demo_token, demo_manager\<lparr>sm_pending_handoffs := [(''c'', demo_token)]\<rparr>)"
  by code_simp

theorem handoff_two_phase_witness:
  "\<exists>m2. coordinator_identity ''c'' m2 = Some \<lparr> cid_session_id = ''k2'', cid_generation = 2 \<rparr> \<and>
     commit_coordinator_handoff demo_token (demo_manager\<lparr>sm_pending_handoffs := [(''c'', demo_token)]\<rparr>) =
       (Ok \<lparr> cid_session_id = ''k2'', cid_generation = 2 \<rparr>, m2)"
  using handoff_two_phase [OF demo_prepare] by auto


lemma demo_manager_wf: "manager_wf demo_manager"
  by (simp add: demo_manager_def manager_step_wf [of _ "RegisterCallee a b h" for a b h, simplified]
      manager_step_wf [of _ "RegisterCaller a b l h q" for a b l h q, simplified])


end
