(* ===== verification/Runtime_Handoff.thy ===== *)
theory Runtime_Handoff
  imports Actor_Properties Session_Manager
begin

text \<open>
  How the adapter runtime (\<open>crates/voipswitchd/src/runtime/adapter.rs\<close>) moves the coordinator role between two
  running actors and registers a new attempt: the session index and the actors have to agree on who
  coordinates a call.  Awaiting the two actors and sending the answer are left to the caller; an actor
  that is spawned again is part of the result.
\<close>

section \<open>Beginning a hand-off\<close>

datatype handoff_failure =
    HandoffRefused string
  | HandoffPrepareFailed CoordinatorHandoffError
  | HandoffCommitFailed CoordinatorHandoffError
  | HandoffInstallFailed install_error

text \<open>
  The messages the two actors get, or why there are none; \<open>permits\<close> says whether another hand-off may
  be under way.
\<close>

definition begin_coordinator_handoff ::
    "bool \<Rightarrow> (CallId \<Rightarrow> bool) \<Rightarrow> string \<Rightarrow> string \<Rightarrow>
     (SessionManager, CoordinatorHandoffToken \<times> (control_target \<times> ControlMessage) list, handoff_failure) stateful" where
  "begin_coordinator_handoff permits is_closed call target_session_id m =
     (if \<not> permits then (Err (HandoffRefused ''coordinator_handoff_capacity_exhausted''), m)
      else
        (case coordinator_identity call m of
           None \<Rightarrow> (Err (HandoffRefused ''coordinator_handoff_call_not_found''), m)
         | Some source \<Rightarrow>
             (case coordinator_handle is_closed call m of
                None \<Rightarrow> (Err (HandoffRefused ''coordinator_handoff_source_unavailable''), m)
              | Some coordinator \<Rightarrow>
                  (case lookup_by_session target_session_id m of
                     None \<Rightarrow> (Err (HandoffRefused ''coordinator_handoff_target_unavailable''), m)
                   | Some target \<Rightarrow>
                       (case prepare_coordinator_handoff call (cid_session_id source) (cid_generation source) target_session_id m of
                          (Ok token, m1) \<Rightarrow>
                            (Ok (token, [(CoordinatorMailbox coordinator, PrepareCoordinatorHandoff token),
                                         (target, PrepareCoordinatorTarget token)]), m1)
                        | (Err error, m1) \<Rightarrow> (Err (HandoffPrepareFailed error), m1)
                        | (Panic, m1) \<Rightarrow> (Panic, m1))))))"

section \<open>Completing a hand-off\<close>

record CoordinatorHandoffReady =
  hr_token :: CoordinatorHandoffToken
  hr_source :: "string + SessionActor"
  hr_target :: "string + CalleeSessionActor"

text \<open>What is answered, and the actors that run afterwards.\<close>

record HandoffResult =
  ho_reply :: "handoff_failure + CoordinatorIdentity"
  ho_coordinator :: "SessionActor option"
  ho_callee :: "CalleeSessionActor option"

fun right_of :: "'e + 'a \<Rightarrow> 'a option" where
  "right_of (Inr x) = Some x"
| "right_of (Inl _) = None"

definition recover_actors :: "handoff_failure \<Rightarrow> string + SessionActor \<Rightarrow> string + CalleeSessionActor \<Rightarrow> HandoffResult" where
  "recover_actors reason source target =
     \<lparr> ho_reply = Inl reason, ho_coordinator = right_of source, ho_callee = right_of target \<rparr>"

definition complete_coordinator_handoff :: "CoordinatorHandoffReady \<Rightarrow> SessionManager \<Rightarrow> HandoffResult \<times> SessionManager" where
  "complete_coordinator_handoff ready m =
     (let token = hr_token ready in
      case (hr_source ready, hr_target ready) of
        (Inl reason, target) \<Rightarrow>
          (recover_actors (HandoffRefused reason) (Inl reason) target, snd (abort_coordinator_handoff token m))
      | (Inr source, Inl reason) \<Rightarrow>
          (recover_actors (HandoffRefused reason) (Inr source) (Inl reason), snd (abort_coordinator_handoff token m))
      | (Inr source, Inr target) \<Rightarrow>
          (case target_ready token source target of
             Ok _ \<Rightarrow>
               (case commit_coordinator_handoff token m of
                  (Ok committed, m1) \<Rightarrow>
                    (case install_on token target committed source of
                       (Ok _, actor) \<Rightarrow>
                         (\<lparr> ho_reply = Inr committed, ho_coordinator = Some actor, ho_callee = None \<rparr>,
                          snd (unregister_session (hot_source_session_id token) m1))
                     | (Err error, actor) \<Rightarrow>
                         (recover_actors (HandoffInstallFailed error) (Inr actor) (Inr target),
                          snd (rollback_committed_coordinator_handoff token m1))
                     | (Panic, actor) \<Rightarrow> (recover_actors (HandoffRefused []) (Inr actor) (Inr target), m1))
                | (Err error, m1) \<Rightarrow>
                    (recover_actors (HandoffCommitFailed error) (Inr source) (Inr target), snd (abort_coordinator_handoff token m1))
                | (Panic, m1) \<Rightarrow> (recover_actors (HandoffRefused []) (Inr source) (Inr target), m1))
           | Err reason \<Rightarrow>
               (recover_actors (HandoffRefused reason) (Inr source) (Inr target), snd (abort_coordinator_handoff token m))
           | Panic \<Rightarrow> (recover_actors (HandoffRefused []) (Inr source) (Inr target), m)))"

section \<open>Registering an attempt\<close>

text \<open>
  The messages posted, whether the actor of the attempt is started, and the index; \<open>delivered\<close> says
  whether the coordinator's mailbox takes the answer.
\<close>

definition handle_attempt_registration ::
    "(CallId \<Rightarrow> bool) \<Rightarrow> bool \<Rightarrow> AttemptRegistration \<Rightarrow> SessionManager \<Rightarrow>
     (control_target \<times> ControlMessage) list \<times> bool \<times> SessionManager" where
  "handle_attempt_registration is_closed delivered r m =
     (let coordinator = coordinator_handle is_closed (areg_call_id r) m;
          valid = (coordinator_identity (areg_call_id r) m =
                     Some \<lparr> cid_session_id = areg_coordinator_session_id r, cid_generation = areg_coordinator_generation r \<rparr> \<and>
                   coordinator \<noteq> None);
          (previous, m1) = (if valid then unregister_session (areg_previous_session_id r) m else (None, m));
          stops = (case previous of Some target \<Rightarrow> [(target, Shutdown)] | None \<Rightarrow> []);
          m2 = (if valid then register_callee (areg_session_id r) (areg_call_id r) (areg_handle r) m1 else m1);
          result = (if valid then Registered (areg_attempt_seq r) (areg_session_id r)
                    else Rejected (areg_attempt_seq r) (areg_session_id r) ''call coordinator no longer active'')
      in case coordinator of
           None \<Rightarrow> (stops, valid, snd (unregister_session (areg_session_id r) m2))
         | Some c \<Rightarrow>
             if delivered then (stops @ [(CoordinatorMailbox c, RegistrationResult result)], valid, m2)
             else
               (case unregister_session (areg_session_id r) m2 of
                  (Some new_attempt, m3) \<Rightarrow> (stops @ [(new_attempt, Shutdown)], valid, m3)
                | (None, m3) \<Rightarrow> (stops, valid, m3)))"

section \<open>Agreement\<close>

text \<open>The index and the actor name the same coordinator under the same generation.\<close>

definition agree :: "SessionManager \<Rightarrow> SessionActor \<Rightarrow> bool" where
  "agree m s \<longleftrightarrow> coordinator_identity (call_id s) m =
     Some \<lparr> cid_session_id = agg_coordinator (rt_aggregate (ac_call s)),
            cid_generation = agg_coordinator_generation (rt_aggregate (ac_call s)) \<rparr>"

text \<open>An actor that was prepared under a token accepts the role for the target once the token is committed.\<close>

lemma install_prepared:
  assumes "actor_wf s" and "prepare_handoff token s" and "target_ready token s target = Ok ()"
    and "committed = \<lparr> cid_session_id = hot_target_session_id token, cid_generation = hot_target_generation token \<rparr>"
  shows "\<exists>t. install_on token target committed s = (Ok (), t) \<and> ac_owned_session_id t = hot_target_session_id token \<and>
    call_id t = call_id s \<and> agg_coordinator (rt_aggregate (ac_call t)) = hot_target_session_id token \<and>
    agg_coordinator_generation (rt_aggregate (ac_call t)) = hot_target_generation token"
proof -
  let ?c = "rt_aggregate (ac_call s)" and ?k = "hot_target_session_id token"
  note p = assms(2) [unfolded prepare_handoff_def]
  have wf: "call_wf ?c" using assms(1) by (simp add: actor_wf_def runtime_wf_aggregate)
  have "?k \<in> set (handoff_candidates None ?c)" using p by (auto simp: list_ex_iff)
  then have k: "?k \<noteq> agg_coordinator ?c" "coordinator_eligible ?c ?k" using handoff_candidates_set [OF wf] by auto
  have "ses_id (cs_session target) = ?k" using assms(3) by (auto simp: target_ready_def split: if_splits)
  moreover have "\<exists>c'. handoff_coordinator (hot_source_session_id token) (hot_source_generation token) ?k ?c =
      (Ok (hot_target_generation token), c') \<and> agg_id c' = agg_id ?c \<and> agg_coordinator c' = ?k \<and>
      agg_coordinator_generation c' = hot_target_generation token"
    using p k by (cases "bt_get (agg_legs ?c) ?k") (simp_all add: handoff_coordinator_def coordinator_eligible_def)
  ultimately show ?thesis
    using assms(3,4) by (auto simp: install_on_def Let_def call_id_def)
qed

lemma abort_settles:
  "coordinator_identity c (snd (abort_coordinator_handoff token m)) = coordinator_identity c m"
  "hm_get (sm_pending_handoffs (snd (abort_coordinator_handoff token m))) (hot_call_id token) \<noteq> Some token"
  by (simp_all add: abort_coordinator_handoff_def coordinator_identity_def)

lemma unregister_keeps_identity:
  "coordinator_identity c (snd (unregister_session k m)) = coordinator_identity c m"
  "lookup_by_session k (snd (unregister_session k m)) = None"
  by (simp_all add: unregister_session_def coordinator_identity_def lookup_by_session_def)

lemma commit_Ok:
  assumes "commit_coordinator_handoff token m = (Ok committed, m1)"
  shows "committed = \<lparr> cid_session_id = hot_target_session_id token, cid_generation = hot_target_generation token \<rparr>"
    "coordinator_identity (hot_call_id token) m1 = Some committed"
    "hm_get (sm_pending_handoffs m1) (hot_call_id token) = None" "manager_wf m \<Longrightarrow> manager_wf m1"
  using assms manager_step_wf [of m "CommitHandoff token"]
  by (auto simp: commit_coordinator_handoff_def hand_registration_def coordinator_identity_def identity_of_def
      split: if_splits option.splits)

lemma commit_Err:
  assumes "commit_coordinator_handoff token m = (r, m1)" and "\<nexists>x. r = Ok x"
  shows "m1 = m" "r \<noteq> Panic"
  using assms by (auto simp: commit_coordinator_handoff_def split: if_splits option.splits)

text \<open>C5: Completing a hand-off is atomic.  The source actor was stopped under the token and agrees with
  the session index on who coordinates the call.  Then afterwards exactly one coordinator runs and
  again agrees with the index: either the target's identity was committed, the actor has taken over the
  target's leg and the former coordinator's session is gone, or the source actor goes on
  unchanged and every call has the coordinator it had.  Once the index has committed, the actor never
  refuses, so nothing has to be rolled back; and the token is used up in both cases.
\<close>

theorem handoff_completes_atomically:
  assumes "actor_wf s" and "manager_wf m" and "prepare_handoff (hr_token ready) s" and "hr_source ready = Inr s"
    and "agree m s" and "complete_coordinator_handoff ready m = (result, m')"
  shows "\<exists>t. ho_coordinator result = Some t \<and> agree m' t \<and>
    hm_get (sm_pending_handoffs m') (call_id s) \<noteq> Some (hr_token ready) \<and>
    (case ho_reply result of
       Inr identity \<Rightarrow> coordinator_identity (call_id s) m' = Some identity \<and> ac_owned_session_id t = cid_session_id identity \<and>
         cid_session_id identity = hot_target_session_id (hr_token ready) \<and> call_id t = call_id s \<and>
         lookup_by_session (hot_source_session_id (hr_token ready)) m' = None
     | Inl reason \<Rightarrow> t = s \<and> (\<forall>c. coordinator_identity c m' = coordinator_identity c m))"
proof -
  let ?token = "hr_token ready"
  have call: "hot_call_id ?token = call_id s" using assms(3) by (simp add: prepare_handoff_def)
  note abort = abort_settles [where token = ?token and m = m, unfolded call]
  have kept: "agree (snd (abort_coordinator_handoff ?token m)) s" using assms(5) by (simp add: agree_def abort)
  show ?thesis
  proof (cases "hr_target ready")
    case (Inl reason)
    then show ?thesis
      using assms(4,6) abort kept by (auto simp: complete_coordinator_handoff_def Let_def recover_actors_def)
  next
    case (Inr target)
    have "target_ready ?token s target \<noteq> Panic" by (simp add: target_ready_def)
    then consider (ready) "target_ready ?token s target = Ok ()" | (refused) e where "target_ready ?token s target = Err e"
      by (cases "target_ready ?token s target") auto
    then show ?thesis
    proof cases
      case refused
      then show ?thesis
        using assms(4,6) Inr abort kept by (auto simp: complete_coordinator_handoff_def Let_def recover_actors_def)
    next
      case ready
      obtain r m1 where c: "commit_coordinator_handoff ?token m = (r, m1)" by (cases "commit_coordinator_handoff ?token m")
      show ?thesis
      proof (cases r)
        case (Ok committed)
        note ok = commit_Ok [OF c [unfolded Ok]]
        obtain t where t: "install_on ?token target committed s = (Ok (), t)" "ac_owned_session_id t = hot_target_session_id ?token"
            "call_id t = call_id s" "agg_coordinator (rt_aggregate (ac_call t)) = hot_target_session_id ?token"
            "agg_coordinator_generation (rt_aggregate (ac_call t)) = hot_target_generation ?token"
          using install_prepared [OF assms(1,3) ready ok(1)] by blast
        let ?m = "snd (unregister_session (hot_source_session_id ?token) m1)"
        have res: "result = \<lparr> ho_reply = Inr committed, ho_coordinator = Some t, ho_callee = None \<rparr>" "m' = ?m"
          using assms(4,6) Inr ready c Ok t(1) by (auto simp: complete_coordinator_handoff_def Let_def)
        have "hm_get (sm_pending_handoffs ?m) (call_id s) = None"
          using ok(3,4) assms(2) call by (simp add: unregister_session_def manager_wf_def)
        then show ?thesis using res t ok call by (simp add: agree_def unregister_keeps_identity)
      qed (use assms(4,6) Inr ready c abort kept commit_Err [OF c] in
          \<open>auto simp: complete_coordinator_handoff_def Let_def recover_actors_def\<close>)
    qed
  qed
qed

definition demo_callee_id :: string where
  "demo_callee_id = ''session-c-callee-attempt-1''"

definition demo_handoff_token :: CoordinatorHandoffToken where
  "demo_handoff_token = \<lparr> hot_call_id = ''c'', hot_source_session_id = ''session-c-caller'', hot_target_session_id = demo_callee_id,
     hot_source_generation = 1, hot_target_generation = 2 \<rparr>"

definition demo_index :: SessionManager where
  "demo_index = register_callee demo_callee_id ''c'' (SessionMailbox demo_callee_id)
     (register_caller ''session-c-caller'' ''c'' ''leg'' (SessionMailbox ''session-c-caller'') ''c'' manager_default)"

definition demo_ready :: CoordinatorHandoffReady where
  "demo_ready = \<lparr> hr_token = demo_handoff_token, hr_source = Inr demo_actor, hr_target = Inl ''coordinator_handoff_target_channel_closed'' \<rparr>"

lemma demo_coordinator:
  "agg_coordinator (rt_aggregate (demo_runtime_of demo_call)) = ''session-c-caller'' \<and>
   agg_coordinator_generation (rt_aggregate (demo_runtime_of demo_call)) = 1 \<and>
   list_ex (\<lambda>candidate. candidate = demo_callee_id) (handoff_candidates None (rt_aggregate (demo_runtime_of demo_call)))"
  by code_simp

theorem handoff_completes_atomically_witness:
  "\<exists>t. ho_coordinator (fst (complete_coordinator_handoff demo_ready demo_index)) = Some t \<and>
     agree (snd (complete_coordinator_handoff demo_ready demo_index)) t"
proof -
  obtain callee where new: "create_actors (demo_surroundings 0 False) demo_call = Ok (demo_actor, callee)" using demo_created by blast
  have id: "call_id demo_actor = ''c''" using create_actors_OkD(4) [OF new] by (simp add: demo_call_def)
  have "checked_add (1::u64) 1 = Some 2" by code_simp
  then have "prepare_handoff (hr_token demo_ready) demo_actor"
    using id demo_coordinator by (simp add: prepare_handoff_def demo_ready_def demo_handoff_token_def demo_fields)
  moreover have "manager_wf demo_index"
    unfolding demo_index_def
    by (intro manager_step_wf [of _ "RegisterCallee a b h" for a b h, simplified]
        manager_step_wf [of _ "RegisterCaller a b l h q" for a b l h q, simplified]) simp
  moreover have "agree demo_index demo_actor"
    using demo_coordinator
    by (simp add: agree_def id demo_fields demo_index_def register_callee_def register_caller_def coordinator_identity_def identity_of_def)
  moreover have "hr_source demo_ready = Inr demo_actor" by (simp add: demo_ready_def)
  ultimately show ?thesis
    using handoff_completes_atomically [OF create_actors_OkD(1) [OF new], of demo_index demo_ready] by (metis prod.collapse)
qed

end
