(* ===== verification/Pbx_Routing.thy ===== *)
theory Pbx_Routing
  imports Pbx_Config
begin

text \<open>
  Routing by the configuration of a domain: the inbound routes of a trunk and the number analyzers the
  PBX modules register (\<open>crates/voipswitchd/src/pbx/route/analysis.rs\<close>, \<open>extension/analysis.rs\<close>, \<open>ai_agent.rs\<close>,
  \<open>mod.rs\<close>).  The regular expressions of the \<open>regex\<close> crate are a parameter: \<open>rgx p\<close> is the matcher of the
  pattern \<open>p\<close>, if \<open>p\<close> is a pattern.
\<close>

type_synonym regex = "string \<Rightarrow> (string \<Rightarrow> bool) option"

section \<open>Numbers\<close>

definition anchored :: "string \<Rightarrow> string" where
  "anchored pattern = CHR 0x5C # ''A(?:'' @ pattern @ '')'' @ CHR 0x5C # ''z''"

definition pattern_matches :: "regex \<Rightarrow> string \<Rightarrow> string \<Rightarrow> bool" where
  "pattern_matches rgx pattern number = (case rgx (anchored pattern) of None \<Rightarrow> False | Some is_match \<Rightarrow> is_match number)"

text \<open>\<open>strip\<close> counts characters; stripping a whole number leaves the prefix and the suffix.\<close>

definition transform_number :: "string \<Rightarrow> u8 \<Rightarrow> string \<Rightarrow> string \<Rightarrow> string option" where
  "transform_number number strip front back =
     (let cs = chars number in
      if unat strip < length cs then Some (front @ concat (drop (unat strip) cs) @ back)
      else if length cs = unat strip then Some (front @ back)
      else None)"

section \<open>Inbound routes\<close>

datatype InboundRouteTarget = RouteReject_target | RouteAuto | RouteExtension string | RouteAiAgent string

record InboundRouteMatch =
  im_route_id :: string
  im_route_name :: string
  im_transformed_caller :: string
  im_transformed_callee :: string
  im_target :: InboundRouteTarget

definition inbound_route_matches :: "regex \<Rightarrow> InboundRouteConfig \<Rightarrow> string \<Rightarrow> string \<Rightarrow> bool" where
  "inbound_route_matches rgx route caller callee \<longleftrightarrow>
     pattern_matches rgx (ir_dst_pattern route) callee \<and>
     (case ir_src_pattern route of None \<Rightarrow> True | Some pattern \<Rightarrow> pattern_matches rgx pattern caller)"

definition inbound_target :: "string \<Rightarrow> InboundRouteTarget option" where
  "inbound_target value =
     (if value = ''rej'' then Some RouteReject_target
      else if value = ''auto'' then Some RouteAuto
      else if starts_with ''ai_agent:'' value then map_option RouteAiAgent (strip_prefix ''ai_agent:'' value)
      else map_option RouteExtension (strip_prefix ''ext-'' value))"

text \<open>
  One iteration of the inner loop: \<open>None\<close> is \<open>continue\<close>, \<open>Some r\<close> returns \<open>r\<close>.  A target that is none of
  the four forms ends the search with no match.
\<close>

definition inbound_iteration ::
    "regex \<Rightarrow> string \<Rightarrow> string \<Rightarrow> InboundRouteConfig \<Rightarrow> InboundRouteMatch option option" where
  "inbound_iteration rgx caller callee route =
     (if \<not> inbound_route_matches rgx route caller callee then None
      else
        (case transform_number caller (ir_src_strip route) (ir_src_prefix route) (ir_src_suffix route) of
           None \<Rightarrow> None
         | Some transformed_caller \<Rightarrow>
             (case transform_number callee (ir_dst_strip route) (ir_dst_prefix route) (ir_dst_suffix route) of
                None \<Rightarrow> None
              | Some transformed_callee \<Rightarrow>
                  Some (map_option (\<lambda>target.
                    \<lparr> im_route_id = decimal (unat (ir_id route)), im_route_name = ir_name route,
                      im_transformed_caller = transformed_caller, im_transformed_callee = transformed_callee,
                      im_target = target \<rparr>) (inbound_target (ir_target route))))))"

fun inbound_search ::
    "regex \<Rightarrow> string \<Rightarrow> string \<Rightarrow> InboundRouteConfig list \<Rightarrow> InboundRouteMatch option option" where
  "inbound_search rgx caller callee [] = None"
| "inbound_search rgx caller callee (route # routes) =
     (case inbound_iteration rgx caller callee route of
        None \<Rightarrow> inbound_search rgx caller callee routes
      | Some r \<Rightarrow> Some r)"

fun inbound_passes ::
    "regex \<Rightarrow> DomainRuntimeConfig \<Rightarrow> string \<Rightarrow> string \<Rightarrow> string list \<Rightarrow> InboundRouteMatch option" where
  "inbound_passes rgx domain caller callee [] = None"
| "inbound_passes rgx domain caller callee (trunk_match # rest) =
     (case inbound_search rgx caller callee
             (filter (\<lambda>route. ir_enabled route \<and> ir_trunk_match route = trunk_match) (dom_inbound_routes domain)) of
        None \<Rightarrow> inbound_passes rgx domain caller callee rest
      | Some r \<Rightarrow> r)"

definition analyze_inbound_route ::
    "regex \<Rightarrow> DomainRuntimeConfig \<Rightarrow> string \<Rightarrow> string \<Rightarrow> string \<Rightarrow> InboundRouteMatch option" where
  "analyze_inbound_route rgx domain trunk_ref caller callee = inbound_passes rgx domain caller callee [trunk_ref, '''']"

section \<open>Availability of trunks\<close>

definition trunk_healthy :: "TrunkRuntimeMirror \<Rightarrow> DomainId \<Rightarrow> string \<Rightarrow> u64 \<Rightarrow> u32 \<Rightarrow> bool" where
  "trunk_healthy mirror dom_id kind i keep_alive_seconds \<longleftrightarrow>
     keep_alive_seconds = 0 \<or>
     tm_ready mirror \<and>
     (case tm_health mirror (dom_id, kind, i) of None \<Rightarrow> False | Some health \<Rightarrow> thv_state health = TrunkUp)"

text \<open>The reference \<open>reg:<trunk>/<account>\<close>.\<close>

definition reg_reference :: "string \<Rightarrow> (u64 \<times> u64) option" where
  "reg_reference trunk_ref =
     (case strip_prefix ''reg:'' trunk_ref of
        None \<Rightarrow> None
      | Some reference \<Rightarrow>
          (case split_once CHR ''/'' reference of
             None \<Rightarrow> None
           | Some (trunk_id, account_id) \<Rightarrow>
               (case (parse_u64 trunk_id, parse_u64 account_id) of
                  (Some t, Some a) \<Rightarrow> Some (t, a)
                | _ \<Rightarrow> None)))"

definition trunk_available :: "TrunkRuntimeMirror \<Rightarrow> DomainRuntimeConfig \<Rightarrow> string \<Rightarrow> bool" where
  "trunk_available mirror domain trunk_ref =
     (case strip_prefix ''peer:'' trunk_ref of
        Some i \<Rightarrow>
          (case parse_u64 i of
             None \<Rightarrow> False
           | Some i \<Rightarrow>
               (case find (\<lambda>trunk. pt_id trunk = i \<and> pt_enabled trunk) (dom_peer_trunks domain) of
                  None \<Rightarrow> False
                | Some trunk \<Rightarrow>
                    trunk_healthy mirror (dom_domain_id domain) ''peer'' i (pt_keep_alive_seconds trunk)))
      | None \<Rightarrow>
          (case reg_reference trunk_ref of
             None \<Rightarrow> False
           | Some (trunk_id, account_id) \<Rightarrow>
               (case find (\<lambda>trunk. rgt_id trunk = trunk_id \<and> rgt_enabled trunk) (dom_reg_trunks domain) of
                  None \<Rightarrow> False
                | Some trunk \<Rightarrow>
                    if \<not> list_ex (\<lambda>account. acc_id account = account_id \<and> acc_reg_trunk_id account = trunk_id \<and>
                          acc_enabled account) (dom_reg_accounts domain)
                    then False
                    else
                      (tm_ready mirror \<and>
                       (case tm_registrations mirror (dom_domain_id domain, trunk_id, account_id) of
                          None \<Rightarrow> False
                        | Some registration \<Rightarrow> trv_state registration = TrunkRegistered)) \<and>
                      trunk_healthy mirror (dom_domain_id domain) ''register'' trunk_id (rgt_keep_alive_seconds trunk))))"

section \<open>The analyzers\<close>

definition route_matches :: "regex \<Rightarrow> OutboundRouteConfig \<Rightarrow> string \<Rightarrow> string \<Rightarrow> bool" where
  "route_matches rgx route caller callee \<longleftrightarrow>
     pattern_matches rgx (or_dst_pattern route) callee \<and>
     (case or_src_pattern route of None \<Rightarrow> True | Some pattern \<Rightarrow> pattern_matches rgx pattern caller)"

text \<open>One iteration of the loop over the enabled outbound routes; \<open>Continue\<close> is \<open>continue\<close>.\<close>

definition outbound_iteration ::
    "regex \<Rightarrow> TrunkRuntimeMirror \<Rightarrow> DomainRuntimeConfig \<Rightarrow> NumberAnalysisRequest \<Rightarrow> OutboundRouteConfig \<Rightarrow> RouteDecision" where
  "outbound_iteration rgx mirror domain request route =
     (if \<not> route_matches rgx route (req_caller request) (req_callee request) then Continue
      else
        (case transform_number (req_caller request) (or_src_strip route) (or_src_prefix route) (or_src_suffix route) of
           None \<Rightarrow> Continue
         | Some transformed_caller \<Rightarrow>
             (case transform_number (req_callee request) (or_dst_strip route) (or_dst_prefix route) (or_dst_suffix route) of
                None \<Rightarrow> Continue
              | Some transformed_callee \<Rightarrow>
                  let trunks = filter (trunk_available mirror domain) (or_trunk_refs route) in
                  if trunks = []
                  then Reject \<lparr> rej_cause = TemporaryFailure, rej_sip_status = 503, rej_reason = NoAvailableTrunk \<rparr>
                  else Matched (TrunkResult
                    \<lparr> tr_domain_id = req_domain_id request, tr_route_id = decimal (unat (or_id route)),
                      tr_route_name = or_name route, tr_trunks = trunks,
                      tr_original_caller = req_caller request, tr_original_callee = req_callee request,
                      tr_transformed_caller = transformed_caller, tr_transformed_callee = transformed_callee \<rparr>))))"

fun outbound_search ::
    "regex \<Rightarrow> TrunkRuntimeMirror \<Rightarrow> DomainRuntimeConfig \<Rightarrow> NumberAnalysisRequest \<Rightarrow> OutboundRouteConfig list \<Rightarrow> RouteDecision"
  where
  "outbound_search rgx mirror domain request [] = Continue"
| "outbound_search rgx mirror domain request (route # routes) =
     (case outbound_iteration rgx mirror domain request route of
        Continue \<Rightarrow> outbound_search rgx mirror domain request routes
      | decision \<Rightarrow> decision)"

definition outbound_route_analyze ::
    "regex \<Rightarrow> RuntimeConfig \<Rightarrow> TrunkRuntimeMirror \<Rightarrow> NumberAnalysisRequest \<Rightarrow> RouteDecision" where
  "outbound_route_analyze rgx config mirror request =
     (case cfg_domains config (req_domain_id request) of
        None \<Rightarrow> Continue
      | Some domain \<Rightarrow> outbound_search rgx mirror domain request (filter or_enabled (dom_outbound_routes domain)))"

definition extension_caller_analyze :: "RuntimeConfig \<Rightarrow> NumberAnalysisRequest \<Rightarrow> RouteDecision" where
  "extension_caller_analyze config request =
     (case cfg_domains config (req_domain_id request) of
        None \<Rightarrow> Reject (reject_not_found NoSuchExtension)
      | Some domain \<Rightarrow>
          (case find (\<lambda>e. ext_number e = req_caller request) (dom_extensions domain) of
             None \<Rightarrow> Continue
           | Some e \<Rightarrow> if ext_enabled e then Continue else Reject (reject_disabled BusinessTargetDisabled)))"

definition extension_callee_analyze :: "RuntimeConfig \<Rightarrow> NumberAnalysisRequest \<Rightarrow> RouteDecision" where
  "extension_callee_analyze config request =
     (case cfg_domains config (req_domain_id request) of
        None \<Rightarrow> Reject (reject_not_found NoSuchExtension)
      | Some domain \<Rightarrow>
          (case find (\<lambda>e. ext_number e = req_callee request) (dom_extensions domain) of
             None \<Rightarrow> Continue
           | Some e \<Rightarrow>
               if \<not> ext_enabled e then Reject (reject_disabled BusinessTargetDisabled)
               else
                 (case parse_extension_number (ext_number e) of
                    Ok number \<Rightarrow>
                      Matched (ExtensionResult
                        \<lparr> er_domain_id = req_domain_id request, er_extension = number,
                          er_endpoint = \<lparr> ep_endpoint_id = decimal (unat (ext_id e)), ep_number = number \<rparr>,
                          er_transformed_caller = req_caller request, er_transformed_callee = req_callee request,
                          er_callee_session_plan = None \<rparr>)
                  | _ \<Rightarrow>
                      Reject \<lparr> rej_cause = HangupCause.InvalidNumberFormat, rej_sip_status = 484,
                               rej_reason = RouteRejectReason.InvalidNumberFormat \<rparr>)))"

definition ai_agent_number_analyze :: "RuntimeConfig \<Rightarrow> NumberAnalysisRequest \<Rightarrow> RouteDecision" where
  "ai_agent_number_analyze config request =
     (case cfg_domains config (req_domain_id request) of
        None \<Rightarrow> Continue
      | Some domain \<Rightarrow>
          (case find (\<lambda>a. agent_enabled a \<and> agent_service_number a = req_callee request) (dom_ai_agents domain) of
             None \<Rightarrow> Continue
           | Some a \<Rightarrow>
               Matched (BusinessModuleResult
                 \<lparr> bm_domain_id = req_domain_id request, bm_module = ''ai_agent'', bm_target_id = agent_agent_id a,
                   bm_original_caller = req_caller request, bm_original_callee = req_callee request,
                   bm_transformed_caller = req_caller request, bm_transformed_callee = req_callee request,
                   bm_callee_session_plan = None \<rparr>)))"

text \<open>The registry after \<open>init_modules\<close>: the extension module, the route module, then the AI agents.\<close>

definition pbx_analyzers :: "regex \<Rightarrow> RuntimeConfig \<Rightarrow> TrunkRuntimeMirror \<Rightarrow> NumberAnalyzer list" where
  "pbx_analyzers rgx config mirror =
     [\<lparr> an_name = ''extension-caller'', an_phase = CallerAnalysis, an_priority = 100,
        an_analyze = extension_caller_analyze config \<rparr>,
      \<lparr> an_name = ''extension-callee'', an_phase = CalleeAnalysis, an_priority = 100,
        an_analyze = extension_callee_analyze config \<rparr>,
      \<lparr> an_name = ''outbound-route'', an_phase = OutboundRoute, an_priority = 100,
        an_analyze = outbound_route_analyze rgx config mirror \<rparr>,
      \<lparr> an_name = ''ai-agent-number'', an_phase = CalleeBusinessAnalysis, an_priority = 100,
        an_analyze = ai_agent_number_analyze config \<rparr>]"

definition pbx_registry :: "regex \<Rightarrow> RuntimeConfig \<Rightarrow> TrunkRuntimeMirror \<Rightarrow> AnalysisRegistry" where
  "pbx_registry rgx config mirror = register_all (pbx_analyzers rgx config mirror) empty_registry"

section \<open>Which route decides\<close>

lemma pbx_entries:
  "map analyzer (analyzers (pbx_registry rgx config mirror)) =
     [pbx_analyzers rgx config mirror ! 0, pbx_analyzers rgx config mirror ! 1,
      pbx_analyzers rgx config mirror ! 3, pbx_analyzers rgx config mirror ! 2]"
  by (simp add: pbx_registry_def register_all_def register_def reserve_order_def insert_entry_def empty_registry_def
      pbx_analyzers_def sort_position_def less_eq_AnalysisPhase_def less_AnalysisPhase_def)

lemma first_decision_analyzers:
  "first_decision request es = first_decision request (map (\<lambda>a. \<lparr> analyzer = a, registered_order = 0 \<rparr>) (map analyzer es))"
  by (induction es) (auto split: RouteDecision.splits)

text \<open>An outbound route decides when it is the first enabled one that matches and whose transformations apply.\<close>

definition route_applies :: "regex \<Rightarrow> NumberAnalysisRequest \<Rightarrow> OutboundRouteConfig \<Rightarrow> bool" where
  "route_applies rgx request route \<longleftrightarrow>
     or_enabled route \<and> route_matches rgx route (req_caller request) (req_callee request) \<and>
     unat (or_src_strip route) \<le> length (chars (req_caller request)) \<and>
     unat (or_dst_strip route) \<le> length (chars (req_callee request))"

lemma transform_number_None: "transform_number n k p q = None \<longleftrightarrow> length (chars n) < unat k"
  by (auto simp: transform_number_def Let_def)

lemma transform_number_eq:
  "transform_number n k p q =
     (if unat k \<le> length (chars n) then Some (p @ concat (drop (unat k) (chars n)) @ q) else None)"
  by (auto simp: transform_number_def Let_def)

lemma outbound_iteration_Continue:
  "or_enabled route \<Longrightarrow> outbound_iteration rgx mirror domain request route = Continue \<longleftrightarrow> \<not> route_applies rgx request route"
  by (simp add: outbound_iteration_def route_applies_def transform_number_eq Let_def)

lemma outbound_search_first:
  "outbound_search rgx mirror domain request (filter or_enabled routes) =
     (case find (route_applies rgx request) routes of
        None \<Rightarrow> Continue
      | Some route \<Rightarrow> outbound_iteration rgx mirror domain request route)"
proof (induction routes)
  case (Cons route routes)
  then show ?case
    using outbound_iteration_Continue [of route rgx mirror domain request]
    by (cases "route_applies rgx request route")
      (auto simp: route_applies_def split: RouteDecision.splits)
qed simp

text \<open>The decision, without phases or registration: disabled callers, extensions, agents, outbound routes.\<close>

definition route_decision ::
    "regex \<Rightarrow> RuntimeConfig \<Rightarrow> TrunkRuntimeMirror \<Rightarrow> NumberAnalysisRequest \<Rightarrow> RouteDecision" where
  "route_decision rgx config mirror request =
     (case cfg_domains config (req_domain_id request) of
        None \<Rightarrow> Reject (reject_not_found NoSuchExtension)
      | Some domain \<Rightarrow>
          if (case find (\<lambda>e. ext_number e = req_caller request) (dom_extensions domain) of
                None \<Rightarrow> False | Some e \<Rightarrow> \<not> ext_enabled e)
          then Reject (reject_disabled BusinessTargetDisabled)
          else if req_callee request \<in> ext_number ` set (dom_extensions domain)
          then extension_callee_analyze config request
          else if \<exists>a \<in> set (dom_ai_agents domain). agent_enabled a \<and> agent_service_number a = req_callee request
          then ai_agent_number_analyze config request
          else (case find (route_applies rgx request) (dom_outbound_routes domain) of
                  None \<Rightarrow> Reject (reject_not_found NoBusinessModuleMatch)
                | Some route \<Rightarrow> outbound_iteration rgx mirror domain request route))"

lemma outbound_iteration_decides:
  "find (route_applies rgx request) routes = Some route \<Longrightarrow>
     outbound_iteration rgx mirror domain request route \<noteq> Continue"
  using outbound_iteration_Continue [of route rgx mirror domain request]
  by (auto simp: find_Some_iff route_applies_def)

lemma find_SomeD: "find P xs = Some x \<Longrightarrow> x \<in> set xs \<and> P x"
  by (auto simp: find_Some_iff)

lemma extension_callee_Continue:
  assumes "cfg_domains config (req_domain_id request) = Some domain"
  shows "extension_callee_analyze config request = Continue \<longleftrightarrow>
    req_callee request \<notin> ext_number ` set (dom_extensions domain)"
proof (cases "find (\<lambda>e. ext_number e = req_callee request) (dom_extensions domain)")
  case None
  moreover from None have "req_callee request \<notin> ext_number ` set (dom_extensions domain)"
    by (auto simp: find_None_iff)
  ultimately show ?thesis by (simp add: extension_callee_analyze_def assms)
next
  case (Some e)
  have "req_callee request \<in> ext_number ` set (dom_extensions domain)"
    using find_SomeD [OF Some] by (intro image_eqI [of _ _ e]) simp_all
  then show ?thesis by (simp add: extension_callee_analyze_def assms Some split: outcome.splits)
qed

lemma ai_agent_Continue:
  assumes "cfg_domains config (req_domain_id request) = Some domain"
  shows "ai_agent_number_analyze config request = Continue \<longleftrightarrow>
    \<not> (\<exists>a \<in> set (dom_ai_agents domain). agent_enabled a \<and> agent_service_number a = req_callee request)"
  using assms by (auto simp: ai_agent_number_analyze_def find_None_iff dest: find_SomeD split: option.splits)

lemma pbx_analyze:
  "analyze request (pbx_registry rgx config mirror) = route_decision rgx config mirror request"
proof -
  have "registry_sorted (pbx_registry rgx config mirror)"
    unfolding pbx_registry_def
    by (rule registry_sorted_register_all) (simp add: registry_sorted_def empty_registry_def)
  from analyze_single_pass [OF this] have a: "analyze request (pbx_registry rgx config mirror) =
      decide (first_decision request (map (\<lambda>a. \<lparr> analyzer = a, registered_order = 0 \<rparr>)
        [pbx_analyzers rgx config mirror ! 0, pbx_analyzers rgx config mirror ! 1,
         pbx_analyzers rgx config mirror ! 3, pbx_analyzers rgx config mirror ! 2]))"
    unfolding pbx_entries [symmetric] by (simp only: first_decision_analyzers [symmetric])
  show ?thesis
  proof (cases "cfg_domains config (req_domain_id request)")
    case None
    then show ?thesis unfolding a by (simp add: pbx_analyzers_def extension_caller_analyze_def route_decision_def decide_def)
  next
    case (Some domain)
    have caller: "extension_caller_analyze config request =
        (if (case find (\<lambda>e. ext_number e = req_caller request) (dom_extensions domain) of
               None \<Rightarrow> False | Some e \<Rightarrow> \<not> ext_enabled e)
         then Reject (reject_disabled BusinessTargetDisabled) else Continue)"
      by (simp add: extension_caller_analyze_def Some split: option.splits)
    show ?thesis
      unfolding a route_decision_def Some option.case
      using extension_callee_Continue [OF Some] ai_agent_Continue [OF Some] outbound_iteration_decides
      by (auto simp: pbx_analyzers_def caller outbound_route_analyze_def Some outbound_search_first decide_def
          split: RouteDecision.splits option.splits)
  qed
qed


text \<open>What a match says of the number and of the trunks.\<close>

lemma route_decision_extension:
  assumes "route_decision rgx config mirror request = Matched (ExtensionResult r)"
  shows "is_ok (parse_extension_number (ep_number (er_endpoint r)))"
proof -
  have "extension_callee_analyze config request = Matched (ExtensionResult r)"
    using assms by (auto simp: route_decision_def ai_agent_number_analyze_def outbound_iteration_def Let_def
        split: option.splits if_splits)
  then obtain number n where "parse_extension_number number = Ok n" "ep_number (er_endpoint r) = n"
    by (auto simp: extension_callee_analyze_def split: option.splits if_splits outcome.splits)
  then show ?thesis
    by (auto simp: parse_extension_number_def split: if_splits option.splits)
qed

lemma route_decision_trunk:
  assumes "route_decision rgx config mirror request = Matched (TrunkResult r)"
    and "cfg_domains config (req_domain_id request) = Some domain"
  shows "tr_trunks r \<noteq> []" and "list_all (trunk_available mirror domain) (tr_trunks r)"
proof -
  obtain route where "outbound_iteration rgx mirror domain request route = Matched (TrunkResult r)"
    using assms by (auto simp: route_decision_def ai_agent_number_analyze_def extension_callee_analyze_def
        split: option.splits if_splits outcome.splits)
  then have "tr_trunks r = filter (trunk_available mirror domain) (or_trunk_refs route) \<and> tr_trunks r \<noteq> []"
    by (auto simp: outbound_iteration_def Let_def split: option.splits if_splits)
  then show "tr_trunks r \<noteq> []" "list_all (trunk_available mirror domain) (tr_trunks r)"
    by (auto simp: list_all_iff)
qed

end
