(* ===== verification/Call_Admission.thy ===== *)
theory Call_Admission
  imports Actor_Setup Pbx_Routing
begin

text \<open>
  The admission of an invite: \<open>SessionActor::create_call\<close> up to the creation of the actors
  (\<open>crates/voipswitchd/src/runtime/call/mod.rs\<close>).  An invite is answered with a status, or the call is set up.

  Parameters stand for what is not the switch's own logic: the regular expressions, the text of a socket
  address (\<open>std::net\<close>), the answer of the media plane to the offer, whether the AI service is there and
  which of its profiles can run, whether the spool of call records takes a new call, and how the
  analysis worker ended (\<open>tokio::time::timeout\<close> of a blocking task).  Starting the conversation with an AI agent is
  a request to that service; only the identifiers it needs are modelled, since they can fail.
\<close>

section \<open>The invite and the surroundings\<close>

datatype InboundInviteSource = FromEndpoint string | FromTrunk string

record InboundInviteOffered =
  inv_domain_id :: string
  inv_adapter_call_leg_id :: string
  inv_caller_number :: string
  inv_callee_number :: string
  inv_origin :: "InboundInviteSource option"
  inv_route_target :: "string option"
  inv_sdp_offer :: SdpBody

datatype route_wait = AnalysisDone | AnalysisTimeout | AnalysisWorkerFailed string

datatype RouteAnalysisFailure = RouteTimeout | RouteWorker string

record AdmissionServices =
  adm_config :: RuntimeConfig
  adm_analysis :: AnalysisRegistry
  adm_timeouts :: CallTimeouts
  adm_regex :: regex
  adm_socket_addr :: "string \<Rightarrow> u16 \<Rightarrow> string option"
  adm_cdr_admits :: "(string \<Rightarrow> bool) option"
  adm_route_wait :: route_wait
  adm_allocate :: "SdpBody \<Rightarrow> string option \<Rightarrow> string option \<Rightarrow> (SdpBody, string) outcome"
  adm_ai_profiles :: "(string \<Rightarrow> bool) option"
  adm_id_ms :: u64
  adm_sequence :: u64
  adm_started_ms :: u64

text \<open>
  Why no call was created: \<open>Refused status\<close> is \<open>Ok(None)\<close> after \<open>reject_inbound\<close> was called with that status, the
  others are the errors \<open>create_call\<close> returns.
\<close>

datatype admission_end = Refused u16 | SetupError runtime_error | InvalidAiIdentifier

definition analyze_route_with_timeout ::
    "route_wait \<Rightarrow> AnalysisRegistry \<Rightarrow> NumberAnalysisRequest \<Rightarrow> (RouteDecision, RouteAnalysisFailure) outcome" where
  "analyze_route_with_timeout wait analysis request =
     (case wait of
        AnalysisDone \<Rightarrow> Ok (analyze request analysis)
      | AnalysisWorkerFailed msg \<Rightarrow> Err (RouteWorker msg)
      | AnalysisTimeout \<Rightarrow> Err RouteTimeout)"

section \<open>Trunks\<close>

definition trunk_display_name :: "DomainRuntimeConfig \<Rightarrow> string \<Rightarrow> string option" where
  "trunk_display_name domain trunk_ref =
     (case strip_prefix ''peer:'' trunk_ref of
        Some i \<Rightarrow>
          (case parse_u64 i of
             None \<Rightarrow> None
           | Some i \<Rightarrow> map_option pt_name (find (\<lambda>trunk. pt_id trunk = i) (dom_peer_trunks domain)))
      | None \<Rightarrow>
          (case reg_reference trunk_ref of
             None \<Rightarrow> None
           | Some (trunk_id, account_id) \<Rightarrow>
               (case find (\<lambda>trunk. rgt_id trunk = trunk_id) (dom_reg_trunks domain) of
                  None \<Rightarrow> None
                | Some trunk \<Rightarrow>
                    map_option (\<lambda>account. rgt_name trunk @ ''/'' @ acc_auth_name account)
                      (find (\<lambda>account. acc_id account = account_id \<and> acc_reg_trunk_id account = trunk_id)
                         (dom_reg_accounts domain)))))"

definition reg_trunk_id :: "string \<Rightarrow> u64 option" where
  "reg_trunk_id trunk_ref =
     (case strip_prefix ''reg:'' trunk_ref of
        None \<Rightarrow> None
      | Some reference \<Rightarrow> (case split_once CHR ''/'' reference of None \<Rightarrow> None | Some (i, _) \<Rightarrow> parse_u64 i))"

definition unwrap_or :: "'a option \<Rightarrow> 'a \<Rightarrow> 'a" where
  "unwrap_or x d = (case x of None \<Rightarrow> d | Some v \<Rightarrow> v)"

definition trunk_route_target :: "(string \<Rightarrow> u16 \<Rightarrow> string option) \<Rightarrow> DomainRuntimeConfig \<Rightarrow> string \<Rightarrow> string option" where
  "trunk_route_target socket_addr domain trunk_ref =
     (case strip_prefix ''peer:'' trunk_ref of
        Some i \<Rightarrow>
          (case parse_u64 i of
             None \<Rightarrow> None
           | Some i \<Rightarrow>
               (case find (\<lambda>trunk. pt_id trunk = i \<and> pt_enabled trunk) (dom_peer_trunks domain) of
                  None \<Rightarrow> None
                | Some trunk \<Rightarrow>
                    socket_addr (unwrap_or (pt_outbound_proxy_host trunk) (pt_server_host trunk))
                      (unwrap_or (pt_outbound_proxy_port trunk) (pt_server_port trunk))))
      | None \<Rightarrow>
          (case reg_reference trunk_ref of
             None \<Rightarrow> None
           | Some (trunk_id, account_id) \<Rightarrow>
               (case find (\<lambda>account. acc_id account = account_id \<and> acc_reg_trunk_id account = trunk_id \<and>
                        acc_enabled account) (dom_reg_accounts domain) of
                  None \<Rightarrow> None
                | Some _ \<Rightarrow>
                    (case find (\<lambda>trunk. rgt_id trunk = trunk_id \<and> rgt_enabled trunk) (dom_reg_trunks domain) of
                       None \<Rightarrow> None
                     | Some trunk \<Rightarrow>
                         socket_addr (unwrap_or (rgt_outbound_proxy_host trunk) (rgt_server_host trunk))
                           (unwrap_or (rgt_outbound_proxy_port trunk) (rgt_server_port trunk))))))"

section \<open>Policies of a candidate\<close>

fun endpoint_extension_id :: "OutboundTarget \<Rightarrow> u64 option" where
  "endpoint_extension_id (EndpointTarget endpoint_id _) = parse_u64 endpoint_id"
| "endpoint_extension_id _ = None"

fun outbound_trunk_ref_of :: "OutboundTarget \<Rightarrow> string option" where
  "outbound_trunk_ref_of (OutboundTrunk trunk_ref) = Some trunk_ref"
| "outbound_trunk_ref_of _ = None"

definition peer_reference :: "u64 \<Rightarrow> string" where
  "peer_reference i = ''peer:'' @ decimal (unat i)"

definition of_reg_trunk :: "string option \<Rightarrow> u64 \<Rightarrow> bool" where
  "of_reg_trunk trunk_ref i \<longleftrightarrow> (case trunk_ref of None \<Rightarrow> False | Some trunk \<Rightarrow> reg_trunk_id trunk = Some i)"

definition recording_target_matches ::
    "u64 option \<Rightarrow> string option \<Rightarrow> OutboundTarget \<Rightarrow> RecordingDirection \<Rightarrow> RecordingTargetRef \<Rightarrow> bool" where
  "recording_target_matches caller_extension_id inbound_trunk_ref target direction t =
     (let i = tref_target_id t in
      case tref_target_type t of
        ExtensionTargetType \<Rightarrow>
          caller_extension_id = Some i \<and> recording_direction_matches direction RecordOutbound \<or>
          endpoint_extension_id target = Some i \<and> recording_direction_matches direction RecordInbound
      | PeerTrunkTargetType \<Rightarrow>
          inbound_trunk_ref = Some (peer_reference i) \<and> recording_direction_matches direction RecordInbound \<or>
          outbound_trunk_ref_of target = Some (peer_reference i) \<and> recording_direction_matches direction RecordOutbound
      | RegTrunkTargetType \<Rightarrow>
          of_reg_trunk inbound_trunk_ref i \<and> recording_direction_matches direction RecordInbound \<or>
          of_reg_trunk (outbound_trunk_ref_of target) i \<and> recording_direction_matches direction RecordOutbound)"

definition recording_policy_ids_for_candidate ::
    "DomainRuntimeConfig \<Rightarrow> u64 option \<Rightarrow> string option \<Rightarrow> OutboundTarget \<Rightarrow> u64 list" where
  "recording_policy_ids_for_candidate domain caller_extension_id inbound_trunk_ref target =
     map rp_id (filter (\<lambda>policy. rp_enabled policy \<and>
         list_ex (recording_target_matches caller_extension_id inbound_trunk_ref target (rp_direction policy))
           (rp_targets policy))
       (dom_recording_policies domain))"

definition ai_target_matches :: "u64 option \<Rightarrow> string option \<Rightarrow> OutboundTarget \<Rightarrow> RecordingTargetRef \<Rightarrow> bool" where
  "ai_target_matches caller_extension_id inbound_trunk_ref target t =
     (let i = tref_target_id t in
      case tref_target_type t of
        ExtensionTargetType \<Rightarrow> caller_extension_id = Some i \<or> endpoint_extension_id target = Some i
      | PeerTrunkTargetType \<Rightarrow>
          inbound_trunk_ref = Some (peer_reference i) \<or> outbound_trunk_ref_of target = Some (peer_reference i)
      | RegTrunkTargetType \<Rightarrow> of_reg_trunk inbound_trunk_ref i \<or> of_reg_trunk (outbound_trunk_ref_of target) i)"

fun is_ai_agent :: "OutboundTarget \<Rightarrow> bool" where
  "is_ai_agent (OutboundAiAgent _) = True"
| "is_ai_agent _ = False"

definition ai_policy_for_candidate ::
    "DomainRuntimeConfig \<Rightarrow> u64 option \<Rightarrow> string option \<Rightarrow> OutboundTarget \<Rightarrow> AiPolicyDecisionSnapshot option" where
  "ai_policy_for_candidate domain caller_extension_id inbound_trunk_ref target =
     (if is_ai_agent target then None
      else
        map_option (\<lambda>policy. \<lparr> aps_policy_id = aip_id policy, aps_profile_id = aip_ai_profile_id policy \<rparr>)
          (find (\<lambda>policy. aip_enabled policy \<and>
               ai_direction_matches (aip_direction policy) (inbound_trunk_ref \<noteq> None) (outbound_trunk_ref_of target \<noteq> None) \<and>
               list_ex (ai_target_matches caller_extension_id inbound_trunk_ref target) (aip_targets policy))
             (dom_ai_policies domain)))"

section \<open>Resolution of the route\<close>

definition plain_candidate :: "OutboundTarget \<Rightarrow> OutboundCandidate" where
  "plain_candidate target =
     \<lparr> oc_outbound_target = target, oc_callee_route_target = None, oc_outbound_trunk_ref = None,
       oc_outbound_trunk_name = None, oc_recording_requested = False, oc_recording_policy_ids = [],
       oc_ai_policy = None, oc_ai_agent_revision = None, oc_ai_fallback_target = None \<rparr>"

definition agent_route :: "string \<Rightarrow> AiAgentConfig \<Rightarrow> ResolvedRoute" where
  "agent_route signaling_caller agent =
     \<lparr> rr_signaling_caller_number = signaling_caller, rr_signaling_callee_number = agent_service_number agent,
       rr_candidates =
         [(plain_candidate (OutboundAiAgent (agent_agent_id agent)))
            \<lparr>oc_ai_agent_revision := Some (agent_revision agent), oc_ai_fallback_target := agent_fallback_target agent\<rparr>],
       rr_outbound_route_id = None, rr_outbound_route_name = None \<rparr>"

definition trunk_candidate :: "AdmissionServices \<Rightarrow> DomainRuntimeConfig \<Rightarrow> TrunkId \<Rightarrow> OutboundCandidate" where
  "trunk_candidate a domain trunk_ref =
     (plain_candidate (OutboundTrunk trunk_ref))
       \<lparr>oc_callee_route_target := trunk_route_target (adm_socket_addr a) domain trunk_ref,
        oc_outbound_trunk_name := trunk_display_name domain trunk_ref,
        oc_outbound_trunk_ref := Some trunk_ref\<rparr>"

definition inbound_trunk_ref_of :: "InboundInviteOffered \<Rightarrow> string option" where
  "inbound_trunk_ref_of event = (case inv_origin event of Some (FromTrunk trunk_ref) \<Rightarrow> Some trunk_ref | _ \<Rightarrow> None)"

text \<open>What the inbound route of a trunk says: analyze the number, or go straight to an extension or an agent.\<close>

datatype direct_target = NoDirectTarget | DirectExtension string string | DirectAiAgent AiAgentConfig

record InboundAnalysis =
  ia_request :: NumberAnalysisRequest
  ia_route_id :: "string option"
  ia_route_name :: "string option"
  ia_direct :: direct_target

definition request_for :: "InboundInviteOffered \<Rightarrow> string \<Rightarrow> string \<Rightarrow> NumberAnalysisRequest" where
  "request_for event caller callee = \<lparr> req_domain_id = inv_domain_id event, req_caller = caller, req_callee = callee \<rparr>"

definition inbound_analysis ::
    "AdmissionServices \<Rightarrow> DomainRuntimeConfig \<Rightarrow> InboundInviteOffered \<Rightarrow> (InboundAnalysis, admission_end) outcome" where
  "inbound_analysis a domain event =
     (case inbound_trunk_ref_of event of
        None \<Rightarrow>
          Ok \<lparr> ia_request = request_for event (inv_caller_number event) (inv_callee_number event),
               ia_route_id = None, ia_route_name = None, ia_direct = NoDirectTarget \<rparr>
      | Some trunk_ref \<Rightarrow>
          and_then (ok_or (Refused 404)
              (analyze_inbound_route (adm_regex a) domain trunk_ref (inv_caller_number event) (inv_callee_number event)))
            (\<lambda>m. and_then
               (case im_target m of
                  RouteReject_target \<Rightarrow> Err (Refused 403)
                | RouteExtension number \<Rightarrow> Ok (DirectExtension number (im_transformed_caller m))
                | RouteAiAgent wanted \<Rightarrow>
                    ok_or (Refused 404) (map_option DirectAiAgent
                      (find (\<lambda>agent. agent_enabled agent \<and> agent_agent_id agent = wanted) (dom_ai_agents domain)))
                | RouteAuto \<Rightarrow> Ok NoDirectTarget)
               (\<lambda>direct.
                  Ok \<lparr> ia_request = request_for event (im_transformed_caller m) (im_transformed_callee m),
                       ia_route_id = Some (im_route_id m), ia_route_name = Some (im_route_name m),
                       ia_direct = direct \<rparr>)))"

definition resolve_result ::
    "AppView \<Rightarrow> AdmissionServices \<Rightarrow> DomainRuntimeConfig \<Rightarrow> InboundInviteOffered \<Rightarrow> RouteResult \<Rightarrow>
     (ResolvedRoute, admission_end) outcome" where
  "resolve_result app a domain event result =
     (case result of
        ExtensionResult resolved \<Rightarrow>
          ok_or (Refused 480) (endpoint_resolved_route app (inv_domain_id event)
            (ep_endpoint_id (er_endpoint resolved)) (ep_number (er_endpoint resolved))
            (er_transformed_caller resolved) (er_transformed_callee resolved))
      | TrunkResult resolved \<Rightarrow>
          if tr_trunks resolved = [] then Err (Refused 503)
          else Ok \<lparr> rr_signaling_caller_number = tr_transformed_caller resolved,
                    rr_signaling_callee_number = tr_transformed_callee resolved,
                    rr_candidates = map (trunk_candidate a domain) (tr_trunks resolved),
                    rr_outbound_route_id = Some (tr_route_id resolved),
                    rr_outbound_route_name = Some (tr_route_name resolved) \<rparr>
      | BusinessModuleResult resolved \<Rightarrow>
          if bm_module resolved = ''ai_agent''
          then ok_or (Refused 404) (map_option (agent_route (bm_transformed_caller resolved))
                 (find (\<lambda>agent. agent_enabled agent \<and> agent_agent_id agent = bm_target_id resolved) (dom_ai_agents domain)))
          else Err (Refused 501)
      | CalleeSetResult _ \<Rightarrow> Err (Refused 501))"

definition resolve_route ::
    "AppView \<Rightarrow> AdmissionServices \<Rightarrow> DomainRuntimeConfig \<Rightarrow> InboundInviteOffered \<Rightarrow> InboundAnalysis \<Rightarrow>
     (ResolvedRoute, admission_end) outcome" where
  "resolve_route app a domain event ia =
     (case ia_direct ia of
        DirectAiAgent agent \<Rightarrow> Ok (agent_route (inv_caller_number event) agent)
      | DirectExtension number signaling_caller \<Rightarrow>
          and_then (ok_or (Refused 404) (find (\<lambda>e. ext_enabled e \<and> ext_number e = number) (dom_extensions domain)))
            (\<lambda>e. ok_or (Refused 480) (endpoint_resolved_route app (inv_domain_id event) (decimal (unat (ext_id e)))
               (ext_number e) signaling_caller (ext_number e)))
      | NoDirectTarget \<Rightarrow>
          (case analyze_route_with_timeout (adm_route_wait a) (adm_analysis a) (ia_request ia) of
             Err RouteTimeout \<Rightarrow> Err (Refused 408)
           | Err (RouteWorker _) \<Rightarrow> Err (Refused 500)
           | Panic \<Rightarrow> Panic
           | Ok RouteDecision.Continue \<Rightarrow> Err (Refused 404)
           | Ok (Reject r) \<Rightarrow> Err (Refused (rej_sip_status r))
           | Ok (Matched result) \<Rightarrow> resolve_result app a domain event result))"

definition with_policies ::
    "DomainRuntimeConfig \<Rightarrow> InboundInviteOffered \<Rightarrow> OutboundCandidate \<Rightarrow> OutboundCandidate" where
  "with_policies domain event c =
     (let caller_extension_id = map_option ext_id
            (find (\<lambda>e. ext_enabled e \<and> ext_number e = inv_caller_number event) (dom_extensions domain));
          ids = recording_policy_ids_for_candidate domain caller_extension_id (inbound_trunk_ref_of event)
            (oc_outbound_target c)
      in c\<lparr>oc_recording_policy_ids := ids, oc_recording_requested := ids \<noteq> [],
           oc_ai_policy := ai_policy_for_candidate domain caller_extension_id (inbound_trunk_ref_of event)
             (oc_outbound_target c)\<rparr>)"

section \<open>Set-up\<close>

definition admission_snapshot ::
    "AdmissionServices \<Rightarrow> DomainRuntimeConfig \<Rightarrow> InboundInviteOffered \<Rightarrow> InboundAnalysis \<Rightarrow> ResolvedRoute \<Rightarrow>
     OutboundCandidate list \<Rightarrow> OutboundCandidate \<Rightarrow> (CallConfigSnapshot, admission_end) outcome" where
  "admission_snapshot a domain event ia resolved candidates first =
     map_err SetupError (config_snapshot_new (cfg_version (adm_config a)) (dom_version domain) (inv_domain_id event)
       \<lparr> ns_original_caller = inv_caller_number event, ns_original_callee = inv_callee_number event,
         ns_signaling_caller = rr_signaling_caller_number resolved, ns_signaling_callee = rr_signaling_callee_number resolved \<rparr>
       \<lparr> rs_route_id = ia_route_id ia, rs_route_name = ia_route_name ia, rs_trunk_ref = inbound_trunk_ref_of event,
         rs_trunk_name = Option.bind (inbound_trunk_ref_of event) (trunk_display_name domain) \<rparr>
       \<lparr> rs_route_id = rr_outbound_route_id resolved, rs_route_name = rr_outbound_route_name resolved,
         rs_trunk_ref = oc_outbound_trunk_ref first, rs_trunk_name = oc_outbound_trunk_name first \<rparr>
       candidates (adm_timeouts a) (recording_dir_of (adm_config a)))"

text \<open>The identifiers of the conversation an AI agent is started with, made only when it is to start.\<close>

definition ai_identifiers ::
    "AdmissionServices \<Rightarrow> DomainRuntimeConfig \<Rightarrow> InboundInviteOffered \<Rightarrow> CallId \<Rightarrow> OutboundCandidate \<Rightarrow>
     (unit, admission_end) outcome" where
  "ai_identifiers a domain event call first =
     (case (oc_outbound_target first, adm_ai_profiles a) of
        (OutboundAiAgent wanted, Some executable) \<Rightarrow>
          (case find (\<lambda>agent. agent_agent_id agent = wanted) (dom_ai_agents domain) of
             None \<Rightarrow> Ok ()
           | Some agent \<Rightarrow>
               if \<not> executable (agent_profile_id agent) then Ok ()
               else if list_all (\<lambda>i. is_ok (validate_id i)) [''ai-agent-'' @ call, inv_domain_id event, call] then Ok ()
               else Err InvalidAiIdentifier)
      | _ \<Rightarrow> Ok ())"

definition call_setup ::
    "AdmissionServices \<Rightarrow> InboundInviteOffered \<Rightarrow> ResolvedRoute \<Rightarrow> OutboundCandidate \<Rightarrow> CallConfigSnapshot \<Rightarrow> SdpBody \<Rightarrow>
     CallSetup" where
  "call_setup a event resolved first config_snapshot callee_offer =
     \<lparr> cst_call_id = call_id_of (adm_id_ms a) (adm_sequence a), cst_event_domain_id = inv_domain_id event,
       cst_domain_id = inv_domain_id event, cst_adapter_call_leg_id = inv_adapter_call_leg_id event,
       cst_sdp_offer = inv_sdp_offer event, cst_signaling_caller = rr_signaling_caller_number resolved,
       cst_signaling_callee = rr_signaling_callee_number resolved, cst_first_candidate = first,
       cst_config_snapshot = config_snapshot, cst_callee_offer = callee_offer, cst_started_at_ms = adm_started_ms a \<rparr>"

text \<open>The call with its resolved route: policies, snapshot, media, actors.\<close>

definition set_up_call ::
    "Surroundings \<Rightarrow> AdmissionServices \<Rightarrow> DomainRuntimeConfig \<Rightarrow> InboundInviteOffered \<Rightarrow> InboundAnalysis \<Rightarrow> ResolvedRoute \<Rightarrow>
     (CallSetup \<times> SessionActor \<times> CalleeSessionActor, admission_end) outcome" where
  "set_up_call e a domain event ia resolved =
     (case map (with_policies domain event) (rr_candidates resolved) of
        [] \<Rightarrow> Err (Refused 503)
      | first # rest \<Rightarrow>
          and_then (admission_snapshot a domain event ia resolved (first # rest) first) (\<lambda>config_snapshot.
          (case adm_allocate a (inv_sdp_offer event) (inv_route_target event) (oc_callee_route_target first) of
             Err _ \<Rightarrow> Err (Refused 488)
           | Panic \<Rightarrow> Panic
           | Ok callee_offer \<Rightarrow>
               let c = call_setup a event resolved first config_snapshot callee_offer in
               and_then (ai_identifiers a domain event (cst_call_id c) first) (\<lambda>_.
               and_then (map_err SetupError (create_actors e c)) (\<lambda>actors. Ok (c, actors))))))"

definition create_call ::
    "Surroundings \<Rightarrow> AdmissionServices \<Rightarrow> InboundInviteOffered \<Rightarrow>
     (CallSetup \<times> SessionActor \<times> CalleeSessionActor, admission_end) outcome" where
  "create_call e a event =
     (case cfg_domains (adm_config a) (inv_domain_id event) of
        None \<Rightarrow> Err (Refused 404)
      | Some domain \<Rightarrow>
          if \<not> dom_enabled domain then Err (Refused 404)
          else if (case adm_cdr_admits a of None \<Rightarrow> False | Some admits \<Rightarrow> \<not> admits (inv_domain_id event))
          then Err (Refused 503)
          else
            and_then (inbound_analysis a domain event) (\<lambda>ia.
            and_then (resolve_route (su_app e) a domain event ia) (\<lambda>resolved.
            set_up_call e a domain event ia resolved)))"

section \<open>Only what can be reached is called\<close>

text \<open>A registered endpoint, an available trunk, an enabled agent.\<close>

fun reachable :: "AppView \<Rightarrow> TrunkRuntimeMirror \<Rightarrow> DomainRuntimeConfig \<Rightarrow> DomainId \<Rightarrow> OutboundTarget \<Rightarrow> bool" where
  "reachable app mirror domain i (EndpointTarget endpoint _) \<longleftrightarrow>
     rm_ready (app_registrations app) \<and>
     (\<exists>v. rm_items (app_registrations app) (i, endpoint) = Some v \<and> rv_state v = RegRegistered)"
| "reachable app mirror domain i (OutboundTrunk trunk_ref) \<longleftrightarrow> trunk_available mirror domain trunk_ref"
| "reachable app mirror domain i (OutboundAiAgent wanted) \<longleftrightarrow>
     (\<exists>agent. agent \<in> set (dom_ai_agents domain) \<and> agent_enabled agent \<and> agent_agent_id agent = wanted)"

lemma endpoint_route_Some:
  assumes "endpoint_resolved_route app i endpoint number caller callee = Some r"
  shows "map oc_outbound_target (rr_candidates r) = [EndpointTarget endpoint number]"
    and "reachable app mirror domain i (EndpointTarget endpoint number)"
  using assms by (auto simp: endpoint_resolved_route_def split: option.splits if_splits)

lemma ok_or_cases [simp]:
  "ok_or e x = Ok v \<longleftrightarrow> x = Some v" "ok_or e x = Err f \<longleftrightarrow> x = None \<and> f = e" "ok_or e x \<noteq> Panic"
  by (auto simp: ok_or_def split: option.splits)

lemma endpoint_addressable [simp]: "is_ok (session_endpoint (EndpointTarget i n)) = is_ok (parse_extension_number n)"
  by (cases "parse_extension_number n") simp_all

lemma agent_route_targets: "map oc_outbound_target (rr_candidates (agent_route caller agent)) = [OutboundAiAgent (agent_agent_id agent)]"
  by (simp add: agent_route_def plain_candidate_def)

lemma trunk_candidate_target [simp]: "oc_outbound_target (trunk_candidate a domain t) = OutboundTrunk t"
  by (simp add: trunk_candidate_def plain_candidate_def)

lemma with_policies_target [simp]: "oc_outbound_target (with_policies domain event c) = oc_outbound_target c"
  by (simp add: with_policies_def Let_def)

lemma request_for_domain [simp]: "req_domain_id (request_for event x y) = inv_domain_id event"
  by (simp add: request_for_def)

lemma inbound_analysis_Ok:
  assumes "inbound_analysis a domain event = Ok ia"
  shows "req_domain_id (ia_request ia) = inv_domain_id event"
    and "ia_direct ia = DirectAiAgent agent \<Longrightarrow> agent \<in> set (dom_ai_agents domain) \<and> agent_enabled agent"
proof -
  show "req_domain_id (ia_request ia) = inv_domain_id event"
    using assms by (auto simp: inbound_analysis_def split: option.splits)
  assume direct: "ia_direct ia = DirectAiAgent agent"
  then obtain t where t: "inbound_trunk_ref_of event = Some t"
    using assms by (cases "inbound_trunk_ref_of event") (auto simp: inbound_analysis_def)
  then obtain m where m: "analyze_inbound_route (adm_regex a) domain t (inv_caller_number event) (inv_callee_number event) = Some m"
    using assms by (auto simp: inbound_analysis_def)
  obtain wanted where "find (\<lambda>agent. agent_enabled agent \<and> agent_agent_id agent = wanted) (dom_ai_agents domain) = Some agent"
    using assms direct by (cases "im_target m") (auto simp: inbound_analysis_def t m ok_or_def split: option.splits)
  from find_SomeD [OF this] show "agent \<in> set (dom_ai_agents domain) \<and> agent_enabled agent" by simp
qed

text \<open>The targets a resolved route may have.\<close>

lemma resolve_result_targets:
  assumes "resolve_result app a domain event result = Ok r"
    and "\<And>t. result = TrunkResult t \<Longrightarrow> list_all (trunk_available mirror domain) (tr_trunks t)"
    and "\<And>x. result = ExtensionResult x \<Longrightarrow> is_ok (parse_extension_number (ep_number (er_endpoint x)))"
    and "target \<in> set (map oc_outbound_target (rr_candidates r))"
  shows "reachable app mirror domain (inv_domain_id event) target \<and> is_ok (session_endpoint target)"
proof (cases result)
  case (ExtensionResult x)
  have "endpoint_resolved_route app (inv_domain_id event) (ep_endpoint_id (er_endpoint x)) (ep_number (er_endpoint x))
      (er_transformed_caller x) (er_transformed_callee x) = Some r"
    using assms(1) by (simp add: resolve_result_def ExtensionResult)
  from endpoint_route_Some [OF this] assms(3) [OF ExtensionResult] assms(4) show ?thesis
    by (auto simp del: session_endpoint.simps reachable.simps)
next
  case (TrunkResult t)
  then show ?thesis
    using assms(1,4) assms(2) [OF TrunkResult] by (auto simp: resolve_result_def list_all_iff split: if_splits)
next
  case (BusinessModuleResult b)
  then obtain agent where "agent \<in> set (dom_ai_agents domain)" "agent_enabled agent"
      "r = agent_route (bm_transformed_caller b) agent"
    using assms(1) by (auto simp: resolve_result_def dest: find_SomeD split: if_splits)
  then show ?thesis using assms(4) agent_route_targets by auto
qed (use assms(1) in \<open>simp add: resolve_result_def\<close>)

lemma resolve_route_targets:
  assumes "resolve_route app a domain event ia = Ok r" and "inbound_analysis a domain event = Ok ia"
    and "adm_analysis a = pbx_registry rgx config mirror" and "cfg_domains config (inv_domain_id event) = Some domain"
    and "target \<in> set (map oc_outbound_target (rr_candidates r))"
  shows "reachable app mirror domain (inv_domain_id event) target \<and>
    (list_all (\<lambda>e. is_ok (parse_extension_number (ext_number e))) (dom_extensions domain) \<longrightarrow> is_ok (session_endpoint target))"
proof (cases "ia_direct ia")
  case NoDirectTarget
  note domain = inbound_analysis_Ok(1) [OF assms(2)]
  obtain result where "route_decision rgx config mirror (ia_request ia) = Matched result"
    and result: "resolve_result app a domain event result = Ok r"
    using assms(1) NoDirectTarget
    by (auto simp: resolve_route_def analyze_route_with_timeout_def assms(3) pbx_analyze
        split: route_wait.splits RouteDecision.splits)
  then have "reachable app mirror domain (inv_domain_id event) target \<and> is_ok (session_endpoint target)"
    using route_decision_extension route_decision_trunk(2) assms(4) domain
    by (intro resolve_result_targets [OF result _ _ assms(5)]) auto
  then show ?thesis by blast
next
  case (DirectExtension number caller)
  then obtain e where e: "e \<in> set (dom_extensions domain)"
    and "endpoint_resolved_route app (inv_domain_id event) (decimal (unat (ext_id e))) (ext_number e) caller (ext_number e) = Some r"
    using assms(1) by (auto simp: resolve_route_def dest: find_SomeD)
  from endpoint_route_Some [OF this(2)] e assms(5) show ?thesis
    by (auto simp: list_all_iff simp del: session_endpoint.simps reachable.simps)
next
  case (DirectAiAgent agent)
  then have "r = agent_route (inv_caller_number event) agent" using assms(1) by (simp add: resolve_route_def)
  then show ?thesis
    using inbound_analysis_Ok(2) [OF assms(2) DirectAiAgent] assms(5) agent_route_targets by auto
qed

lemma admission_snapshot_Ok:
  obtains x where "admission_snapshot a domain event ia r (c # cs) c = Ok x" "ccs_candidates x = c # cs"
    "mps_audio_only (ccs_media_policy x)" "mps_max_audio_m_lines (ccs_media_policy x) = 1"
  by (simp add: admission_snapshot_def config_snapshot_new_def)

lemma set_up_call_OkD:
  assumes "set_up_call e a domain event ia r = Ok (c, s, callee)"
  shows "create_actors e c = Ok (s, callee)" and "ccs_candidates (cst_config_snapshot c) = map (with_policies domain event) (rr_candidates r)"
    and "ccs_candidates (cst_config_snapshot c) = cst_first_candidate c # drop 1 (ccs_candidates (cst_config_snapshot c))"
proof -
  obtain first rest where m: "map (with_policies domain event) (rr_candidates r) = first # rest"
    using assms by (cases "map (with_policies domain event) (rr_candidates r)") (auto simp: set_up_call_def)
  obtain x where x: "admission_snapshot a domain event ia r (first # rest) first = Ok x" "ccs_candidates x = first # rest"
    by (rule admission_snapshot_Ok)
  obtain offer where "adm_allocate a (inv_sdp_offer event) (inv_route_target event) (oc_callee_route_target first) = Ok offer"
    using assms by (cases "adm_allocate a (inv_sdp_offer event) (inv_route_target event) (oc_callee_route_target first)")
      (auto simp: set_up_call_def m x)
  then have c: "c = call_setup a event r first x offer" "create_actors e c = Ok (s, callee)"
    using assms by (auto simp: set_up_call_def m x Let_def)
  then show "create_actors e c = Ok (s, callee)"
    "ccs_candidates (cst_config_snapshot c) = map (with_policies domain event) (rr_candidates r)"
    "ccs_candidates (cst_config_snapshot c) = cst_first_candidate c # drop 1 (ccs_candidates (cst_config_snapshot c))"
    using x m by (simp_all add: call_setup_def)
qed

lemma create_call_OkD:
  assumes "create_call e a event = Ok (c, s, callee)"
  obtains domain ia r where "cfg_domains (adm_config a) (inv_domain_id event) = Some domain" "dom_enabled domain"
    "inbound_analysis a domain event = Ok ia" "resolve_route (su_app e) a domain event ia = Ok r"
    "set_up_call e a domain event ia r = Ok (c, s, callee)"
  using assms by (auto simp: create_call_def split: option.split_asm if_split_asm)

end
