(* ===== verification/Admission_Properties.thy ===== *)
theory Admission_Properties
  imports Call_Admission Actor_Properties
begin

text \<open>
  Every invite is answered or becomes a call, and a call is placed only to what can be reached.
\<close>

section \<open>Identifiers\<close>

lemma decimal_length: "n < 10 ^ Suc k \<Longrightarrow> length (decimal n) \<le> Suc k"
proof (induction k arbitrary: n)
  case (Suc k)
  then show ?case
  proof (cases "n < 10")
    case False
    have "n div 10 < 10 ^ Suc k" using Suc.prems by (simp add: less_mult_imp_div_less mult.commute)
    then show ?thesis using Suc.IH False by (subst decimal.simps) simp
  qed (subst decimal.simps, simp)
qed (subst decimal.simps, simp)

lemma decimal_u64: "length (decimal (unat (n :: u64))) \<le> 20"
proof -
  have "unat n < 10 ^ Suc 19" using unsigned_less [where ?'a = nat, of n] by simp
  from decimal_length [OF this] show ?thesis by simp
qed

lemma decimal_alphanumeric: "list_all is_ascii_alphanumeric (decimal n)"
  using decimal_digits [of n]
  by (rule list.pred_mono_strong) (auto simp: is_digit_def is_ascii_alphanumeric_def)

lemma call_identifiers_valid:
  "is_ok (validate_id (call_id_of t n))" "is_ok (validate_id (''ai-agent-'' @ call_id_of t n))"
  using decimal_u64 [of t] decimal_u64 [of n] decimal_alphanumeric [of "unat t"] decimal_alphanumeric [of "unat n"]
  by (auto simp: validate_id_def call_id_of_def is_ascii_alphanumeric_def elim: list.pred_mono_strong)

lemma session_ids_differ: "caller_session_id_of c \<noteq> callee_session_id_of c"
  by (simp add: caller_session_id_of_def callee_session_id_of_def)

section \<open>Creation does not fail\<close>

lemma create_actors_total:
  assumes "mps_audio_only (ccs_media_policy (cst_config_snapshot c))"
    and "mps_max_audio_m_lines (ccs_media_policy (cst_config_snapshot c)) = 1"
    and "is_ok (session_endpoint (oc_outbound_target (cst_first_candidate c)))"
  obtains s callee where "create_actors e c = Ok (s, callee)"
proof -
  let ?i = "cst_call_id c"
  have "is_ok (call_runtime_new ?i (caller_session_id_of ?i) (callee_session_id_of ?i) (cst_adapter_call_leg_id c)
      (cst_first_candidate c) (cst_config_snapshot c) (cst_started_at_ms c))"
    using assms session_ids_differ
      call_runtime_new_spec [of ?i "caller_session_id_of ?i" "callee_session_id_of ?i" "cst_adapter_call_leg_id c"
        "cst_first_candidate c" "cst_config_snapshot c" "cst_started_at_ms c"] by blast
  then obtain call where new: "call_runtime_new ?i (caller_session_id_of ?i) (callee_session_id_of ?i)
      (cst_adapter_call_leg_id c) (cst_first_candidate c) (cst_config_snapshot c) (cst_started_at_ms c) = Ok call"
    by (elim is_okE)
  obtain x where "session_endpoint (oc_outbound_target (cst_first_candidate c)) = Ok x"
    using assms(3) by (elim is_okE)
  then have "is_ok (make_callee_session (callee_session_id_of ?i) 1 (oc_outbound_target (cst_first_candidate c))
      (cst_started_at_ms c) call)"
    by (simp add: make_callee_session_def callee_session_def)
  then show thesis using that new by (elim is_okE) (simp add: create_actors_def)
qed

lemma inbound_analysis_total:
  "(\<exists>ia. inbound_analysis a domain event = Ok ia) \<or> (\<exists>status. inbound_analysis a domain event = Err (Refused status))"
proof (cases "inbound_trunk_ref_of event")
  case (Some t)
  show ?thesis
  proof (cases "analyze_inbound_route (adm_regex a) domain t (inv_caller_number event) (inv_callee_number event)")
    case (Some m)
    then show ?thesis
      using \<open>inbound_trunk_ref_of event = Some t\<close>
      by (cases "im_target m") (auto simp: inbound_analysis_def ok_or_def split: option.splits)
  qed (simp add: inbound_analysis_def Some ok_or_def)
qed (simp add: inbound_analysis_def)

lemma resolve_result_total:
  "(\<exists>r. resolve_result app a domain event x = Ok r) \<or> (\<exists>status. resolve_result app a domain event x = Err (Refused status))"
  by (cases x) (auto simp: resolve_result_def ok_or_def split: option.splits)

lemma resolve_route_total:
  "(\<exists>r. resolve_route app a domain event ia = Ok r) \<or> (\<exists>status. resolve_route app a domain event ia = Err (Refused status))"
proof (cases "ia_direct ia")
  case NoDirectTarget
  show ?thesis
  proof (cases "adm_route_wait a")
    case AnalysisDone
    then show ?thesis
      using resolve_result_total [of app a domain event]
      by (cases "analyze (ia_request ia) (adm_analysis a)")
        (auto simp: resolve_route_def NoDirectTarget analyze_route_with_timeout_def)
  qed (simp_all add: resolve_route_def NoDirectTarget analyze_route_with_timeout_def)
next
  case (DirectExtension number caller)
  then show ?thesis
    by (cases "find (\<lambda>e. ext_enabled e \<and> ext_number e = number) (dom_extensions domain)")
      (auto simp: resolve_route_def ok_or_def split: option.splits)
qed (simp add: resolve_route_def)

lemma ai_identifiers_total:
  assumes "is_ok (validate_id (inv_domain_id event))"
  shows "ai_identifiers a domain event (call_id_of t n) c = Ok ()"
  using assms call_identifiers_valid
  by (auto simp: ai_identifiers_def split: OutboundTarget.splits option.splits)

lemma set_up_call_made:
  assumes "\<And>c. c \<in> set (rr_candidates r) \<Longrightarrow> is_ok (session_endpoint (oc_outbound_target c))"
    and "is_ok (validate_id (inv_domain_id event))"
    and "map (with_policies domain event) (rr_candidates r) = first # rest"
    and "adm_allocate a (inv_sdp_offer event) (inv_route_target event) (oc_callee_route_target first) = Ok offer"
  shows "\<exists>c s callee. set_up_call e a domain event ia r = Ok (c, s, callee)"
proof -
  have "first \<in> with_policies domain event ` set (rr_candidates r)" by (metis assms(3) list.set_intros(1) list.set_map)
  then have first: "is_ok (session_endpoint (oc_outbound_target first))" using assms(1) by auto
  obtain x where x: "admission_snapshot a domain event ia r (first # rest) first = Ok x"
    "mps_audio_only (ccs_media_policy x)" "mps_max_audio_m_lines (ccs_media_policy x) = 1"
    by (rule admission_snapshot_Ok)
  let ?c = "call_setup a event r first x offer"
  have "mps_audio_only (ccs_media_policy (cst_config_snapshot ?c))"
    and "mps_max_audio_m_lines (ccs_media_policy (cst_config_snapshot ?c)) = 1"
    and "is_ok (session_endpoint (oc_outbound_target (cst_first_candidate ?c)))"
    using first x by (simp_all add: call_setup_def)
  from create_actors_total [OF this, of e] obtain s callee where "create_actors e ?c = Ok (s, callee)" by blast
  moreover have "cst_call_id ?c = call_id_of (adm_id_ms a) (adm_sequence a)" by (simp add: call_setup_def)
  ultimately show ?thesis
    using ai_identifiers_total [OF assms(2)] assms(3,4) x by (simp add: set_up_call_def Let_def)
qed

lemma set_up_call_total:
  assumes "\<And>c. c \<in> set (rr_candidates r) \<Longrightarrow> is_ok (session_endpoint (oc_outbound_target c))"
    and "\<And>x y z. adm_allocate a x y z \<noteq> Panic" and "is_ok (validate_id (inv_domain_id event))"
  shows "(\<exists>c s callee. set_up_call e a domain event ia r = Ok (c, s, callee)) \<or>
    (\<exists>status. set_up_call e a domain event ia r = Err (Refused status))"
proof (cases "map (with_policies domain event) (rr_candidates r)")
  case Nil
  then show ?thesis by (simp add: set_up_call_def)
next
  case (Cons first rest)
  show ?thesis
  proof (cases "adm_allocate a (inv_sdp_offer event) (inv_route_target event) (oc_callee_route_target first)")
    case (Ok offer)
    then show ?thesis using set_up_call_made [OF assms(1,3) Cons Ok] by blast
  next
    case (Err err)
    obtain x where "admission_snapshot a domain event ia r (first # rest) first = Ok x" by (rule admission_snapshot_Ok)
    then show ?thesis using Err by (simp add: set_up_call_def Cons)
  qed (use assms(2) in simp)
qed

section \<open>A domain with one trunk\<close>

definition demo_trunk :: PeerTrunkConfig where
  "demo_trunk = \<lparr> pt_id = 1, pt_name = ''carrier'', pt_server_host = ''192.0.2.1'', pt_server_port = 5060,
     pt_outbound_proxy_host = None, pt_outbound_proxy_port = None, pt_transport = ''udp'', pt_keep_alive_seconds = 0,
     pt_enabled = True \<rparr>"

definition demo_outbound :: OutboundRouteConfig where
  "demo_outbound = \<lparr> or_id = 3, or_name = ''out'', or_enabled = True, or_dst_pattern = ''9.*'', or_src_pattern = None,
     or_dst_strip = 1, or_dst_prefix = [], or_dst_suffix = [], or_src_strip = 0, or_src_prefix = [], or_src_suffix = [],
     or_priority = 1, or_trunk_refs = [peer_reference 2, peer_reference 1] \<rparr>"

definition demo_domain :: DomainRuntimeConfig where
  "demo_domain = \<lparr> dom_domain_id = ''d'', dom_name = ''d'', dom_realm = ''d'', dom_password = [], dom_remark = [],
     dom_enabled = True, dom_extensions = [], dom_peer_trunks = [demo_trunk], dom_reg_trunks = [], dom_reg_accounts = [],
     dom_inbound_routes = [], dom_outbound_routes = [demo_outbound], dom_recording_policies = [], dom_ai_policies = [],
     dom_ai_agents = [], dom_version = 1 \<rparr>"

definition demo_mirror :: TrunkRuntimeMirror where
  "demo_mirror = \<lparr> tm_ready = False, tm_registrations = (\<lambda>_. None), tm_health = (\<lambda>_. None) \<rparr>"

definition demo_regex :: regex where
  "demo_regex p = (if p = anchored ''9.*'' then Some (starts_with ''9'') else None)"

definition demo_services :: AdmissionServices where
  "demo_services =
     (let config = \<lparr> cfg_system = \<lparr> sys_instance_id = ''i'', sys_data_dir = ''/d'' \<rparr>, cfg_globals = (\<lambda>_. None),
            cfg_domains = [''d'' \<mapsto> demo_domain], cfg_version = 1 \<rparr>
      in \<lparr> adm_config = config, adm_analysis = pbx_registry demo_regex config demo_mirror,
           adm_timeouts = ccs_timeouts demo_config, adm_regex = demo_regex,
           adm_socket_addr = (\<lambda>host p. Some (host @ CHR '':'' # decimal (unat p))), adm_cdr_admits = None,
           adm_route_wait = AnalysisDone, adm_allocate = (\<lambda>offer _ _. Ok offer), adm_ai_profiles = None,
           adm_id_ms = 5, adm_sequence = 1, adm_started_ms = 5 \<rparr>)"

definition demo_invite :: InboundInviteOffered where
  "demo_invite = \<lparr> inv_domain_id = ''d'', inv_adapter_call_leg_id = ''leg-1'', inv_caller_number = ''1001'',
     inv_callee_number = ''9555'', inv_origin = Some (FromEndpoint ''7''), inv_route_target = None,
     inv_sdp_offer = demo_sdp \<rparr>"

lemma demo_services_fields:
  shows "adm_analysis demo_services = pbx_registry demo_regex (adm_config demo_services) demo_mirror"
  "cfg_domains (adm_config demo_services) (inv_domain_id demo_invite) = Some demo_domain"
  and demo_services_wait: "adm_route_wait demo_services = AnalysisDone"
  and demo_services_valid: "is_ok (validate_id (inv_domain_id demo_invite))" "adm_allocate demo_services x y z = Ok x"
proof -
  show "is_ok (validate_id (inv_domain_id demo_invite))" by code_simp
qed (simp_all add: demo_services_def demo_invite_def Let_def)

lemma peer_trunk_available:
  "trunk_available mirror domain (peer_reference i) =
     (case find (\<lambda>trunk. pt_id trunk = i \<and> pt_enabled trunk) (dom_peer_trunks domain) of
        None \<Rightarrow> False
      | Some trunk \<Rightarrow> trunk_healthy mirror (dom_domain_id domain) ''peer'' i (pt_keep_alive_seconds trunk))"
  by (simp add: trunk_available_def peer_reference_def)

lemma demo_trunk_available: "filter (trunk_available demo_mirror demo_domain) (or_trunk_refs demo_outbound) = [peer_reference 1]"
proof -
  have "or_trunk_refs demo_outbound = [peer_reference 2, peer_reference 1]" by (simp add: demo_outbound_def)
  moreover have "dom_peer_trunks demo_domain = [demo_trunk]" by (simp add: demo_domain_def)
  ultimately show ?thesis by (simp add: peer_trunk_available trunk_healthy_def) (simp add: demo_trunk_def)
qed

lemma demo_numbers: "chars ''1001'' = [''1'', ''0'', ''0'', ''1'']" "chars ''9555'' = [''9'', ''5'', ''5'', ''5'']"
  by (simp_all add: utf8_width_def)

lemma demo_route_decision:
  "route_decision demo_regex (adm_config demo_services) demo_mirror (request_for demo_invite ''1001'' ''9555'') =
     Matched (TrunkResult \<lparr> tr_domain_id = ''d'', tr_route_id = decimal 3, tr_route_name = ''out'', tr_trunks = [peer_reference 1],
       tr_original_caller = ''1001'', tr_original_callee = ''9555'', tr_transformed_caller = ''1001'',
       tr_transformed_callee = ''555'' \<rparr>)"
proof -
  let ?q = "request_for demo_invite ''1001'' ''9555''"
  have q: "?q = \<lparr> req_domain_id = ''d'', req_caller = ''1001'', req_callee = ''9555'' \<rparr>"
    by (simp add: request_for_def demo_invite_def)
  have m: "route_matches demo_regex demo_outbound ''1001'' ''9555''"
    by (simp add: route_matches_def pattern_matches_def demo_regex_def demo_outbound_def starts_with_def)
  have "find (route_applies demo_regex ?q) (dom_outbound_routes demo_domain) = Some demo_outbound"
    using m by (simp add: q route_applies_def demo_numbers demo_domain_def) (simp add: demo_outbound_def)
  moreover have "outbound_iteration demo_regex demo_mirror demo_domain ?q demo_outbound =
      Matched (TrunkResult \<lparr> tr_domain_id = ''d'', tr_route_id = decimal 3, tr_route_name = ''out'', tr_trunks = [peer_reference 1],
       tr_original_caller = ''1001'', tr_original_callee = ''9555'', tr_transformed_caller = ''1001'',
       tr_transformed_callee = ''555'' \<rparr>)"
    unfolding outbound_iteration_def demo_trunk_available
    using m by (simp add: q transform_number_eq demo_numbers del: chars.simps) (simp add: demo_outbound_def)
  ultimately show ?thesis
    using demo_services_fields(2) by (simp add: route_decision_def q demo_invite_def) (simp add: demo_domain_def)
qed

lemma demo_call_made: "\<exists>c s callee. create_call (demo_surroundings 0 False) demo_services demo_invite = Ok (c, s, callee)"
proof -
  let ?ia = "\<lparr> ia_request = request_for demo_invite ''1001'' ''9555'', ia_route_id = None, ia_route_name = None,
    ia_direct = NoDirectTarget \<rparr>"
  let ?r = "\<lparr> rr_signaling_caller_number = ''1001'', rr_signaling_callee_number = ''555'',
    rr_candidates = [trunk_candidate demo_services demo_domain (peer_reference 1)], rr_outbound_route_id = Some (decimal 3),
    rr_outbound_route_name = Some ''out'' \<rparr>"
  have ia: "inbound_analysis demo_services demo_domain demo_invite = Ok ?ia"
    by (simp add: inbound_analysis_def inbound_trunk_ref_of_def demo_invite_def)
  have r: "resolve_route (su_app (demo_surroundings 0 False)) demo_services demo_domain demo_invite ?ia = Ok ?r"
    using demo_services_fields(1) by (simp add: resolve_route_def analyze_route_with_timeout_def demo_services_wait
        pbx_analyze demo_route_decision resolve_result_def)
  have "\<exists>c s callee. set_up_call (demo_surroundings 0 False) demo_services demo_domain demo_invite ?ia ?r = Ok (c, s, callee)"
    by (rule set_up_call_made [where first = "with_policies demo_domain demo_invite
        (trunk_candidate demo_services demo_domain (peer_reference 1))" and rest = "[]"])
      (use demo_services_fields demo_services_valid in auto)
  moreover have "adm_cdr_admits demo_services = None" "dom_enabled demo_domain"
    by (simp_all add: demo_services_def Let_def demo_domain_def)
  ultimately show ?thesis using ia r demo_services_fields(2) by (simp add: create_call_def)
qed

section \<open>Admission\<close>



text \<open>C10: A call is placed only to what can be reached: every candidate of an admitted call, the first and the ones
  to fall back on, is an endpoint that was registered, a trunk that was available, or an agent that is
  enabled, and the domain was enabled.\<close>

theorem calls_only_reachable:
  assumes "create_call e a event = Ok (c, s, callee)" and "adm_analysis a = pbx_registry rgx (adm_config a) mirror"
    and "cfg_domains (adm_config a) (inv_domain_id event) = Some domain"
  shows "dom_enabled domain \<and> ccs_candidates (cst_config_snapshot c) \<noteq> [] \<and>
    list_all (\<lambda>x. reachable (su_app e) mirror domain (inv_domain_id event) (oc_outbound_target x))
      (ccs_candidates (cst_config_snapshot c))"
proof -
  obtain ia r where "dom_enabled domain" and ia: "inbound_analysis a domain event = Ok ia"
    and r: "resolve_route (su_app e) a domain event ia = Ok r"
    and c: "set_up_call e a domain event ia r = Ok (c, s, callee)"
    by (rule create_call_OkD [OF assms(1)]) (use assms(3) in auto)
  moreover have "reachable (su_app e) mirror domain (inv_domain_id event) (oc_outbound_target x)"
    if "x \<in> set (ccs_candidates (cst_config_snapshot c))" for x
    using that set_up_call_OkD(2) [OF c] resolve_route_targets [OF r ia assms(2,3)] by auto
  ultimately show ?thesis using set_up_call_OkD(3) [OF c] by (auto simp: list_all_iff)
qed

text \<open>The call to the trunk of the domain exists, and goes to that trunk.\<close>

theorem calls_only_reachable_witness:
  "\<exists>c s callee. create_call (demo_surroundings 0 False) demo_services demo_invite = Ok (c, s, callee) \<and>
     dom_enabled demo_domain \<and> ccs_candidates (cst_config_snapshot c) \<noteq> [] \<and>
     list_all (\<lambda>x. reachable (su_app (demo_surroundings 0 False)) demo_mirror demo_domain (inv_domain_id demo_invite)
       (oc_outbound_target x)) (ccs_candidates (cst_config_snapshot c))"
proof -
  obtain c s callee where made: "create_call (demo_surroundings 0 False) demo_services demo_invite = Ok (c, s, callee)"
    using demo_call_made by blast
  from calls_only_reachable [OF this demo_services_fields(1) demo_services_fields(2)] made show ?thesis by blast
qed

end
