(* ===== verification/Cdr_Spool.thy ===== *)
theory Cdr_Spool
  imports Call_Records Byte_Codec BTree_Map
begin

text \<open>
  The durable spool of call detail records (\<open>crates/voipswitchd/src/runtime/call/cdr_spool.rs\<close>): a log of
  checksummed frames in numbered segment files, with a checkpoint up to which the frames have been
  persisted.

  The state is the directory of the spool: the bytes of the checkpoint file, the bytes of each segment by
  its number, and what was put aside.  The directory holds no other segment files than those the
  spool creates.  \<open>serde_json\<close> and \<open>crc32fast\<close> are parameters.  Of the input and output only the write of a frame
  can fail; opening, reading, renaming, removing and synchronising are taken to succeed.
\<close>

definition SPOOL_SCHEMA_VERSION :: u16 where
  "SPOOL_SCHEMA_VERSION = 1"

definition SEGMENT_SIZE_LIMIT :: u64 where
  "SEGMENT_SIZE_LIMIT = 16 * 1024 * 1024"

definition MAX_FRAME_SIZE :: nat where
  "MAX_FRAME_SIZE = 64 * 1024 * 1024"

definition FRAME_HEADER_SIZE :: nat where
  "FRAME_HEADER_SIZE = 8"

record SpoolFrame =
  sf_schema_version :: u16
  sf_command :: CdrWriteCommand

record SpoolPosition =
  pos_segment :: u64
  pos_offset :: u64

datatype ReplayEntry = WriteEntry SpoolPosition CdrWriteCommand | QuarantinedEntry SpoolPosition string

fun entry_end :: "ReplayEntry \<Rightarrow> SpoolPosition" where
  "entry_end (WriteEntry e _) = e"
| "entry_end (QuarantinedEntry e _) = e"

text \<open>The derived order of positions: by segment, then by offset.\<close>

definition pos_less :: "SpoolPosition \<Rightarrow> SpoolPosition \<Rightarrow> bool" where
  "pos_less p q \<longleftrightarrow> pos_segment p < pos_segment q \<or> pos_segment p = pos_segment q \<and> pos_offset p < pos_offset q"

record SpoolCodec =
  sc_to_vec :: "SpoolFrame \<Rightarrow> bytes option"
  sc_from_slice :: "bytes \<Rightarrow> string + SpoolFrame"
  sc_crc32 :: "bytes \<Rightarrow> u32"
  sc_position_to_vec :: "SpoolPosition \<Rightarrow> bytes option"
  sc_position_from_slice :: "bytes \<Rightarrow> SpoolPosition option"

record CdrSpool =
  sp_checkpoint :: "bytes option"
  sp_segments :: "(u64, bytes) BTreeMap"
  sp_quarantine :: "(u64 \<times> nat) \<rightharpoonup> (bytes \<times> string)"

datatype spool_error =
    SpoolEncodeFailed
  | SpoolFrameTooLarge nat
  | DurableAppendFailed
  | InvalidCheckpoint
  | CheckpointOutOfSegment nat u64 nat
  | CheckpointBackwards

section \<open>The directory\<close>

text \<open>\<open>to_le_bytes\<close> and \<open>from_le_bytes\<close> of a \<open>u32\<close>.\<close>

definition to_le32 :: "u32 \<Rightarrow> bytes" where
  "to_le32 w = rev (to_be32 w)"

definition from_le32 :: "bytes \<Rightarrow> nat \<Rightarrow> u32" where
  "from_le32 b i = from_be32 (b ! (i + 3)) (b ! (i + 2)) (b ! (i + 1)) (b ! i)"

definition read_checkpoint :: "SpoolCodec \<Rightarrow> CdrSpool \<Rightarrow> (SpoolPosition, spool_error) outcome" where
  "read_checkpoint sc d =
     (case sp_checkpoint d of
        None \<Rightarrow> Ok \<lparr> pos_segment = 0, pos_offset = 0 \<rparr>
      | Some b \<Rightarrow> ok_or InvalidCheckpoint (sc_position_from_slice sc b))"

definition segment_numbers :: "CdrSpool \<Rightarrow> u64 list" where
  "segment_numbers d = bt_keys (sp_segments d)"

definition segment_file :: "CdrSpool \<Rightarrow> u64 \<Rightarrow> bytes" where
  "segment_file d n = (case bt_get (sp_segments d) n of None \<Rightarrow> [] | Some b \<Rightarrow> b)"

definition write_segment :: "u64 \<Rightarrow> bytes \<Rightarrow> CdrSpool \<Rightarrow> CdrSpool" where
  "write_segment n b d = d\<lparr>sp_segments := bt_insert n b (sp_segments d)\<rparr>"

definition truncate_file :: "u64 \<Rightarrow> nat \<Rightarrow> CdrSpool \<Rightarrow> CdrSpool" where
  "truncate_file n len d = write_segment n (take len (segment_file d n)) d"

definition quarantine_suffix :: "u64 \<Rightarrow> nat \<Rightarrow> bytes \<Rightarrow> string \<Rightarrow> CdrSpool \<Rightarrow> CdrSpool" where
  "quarantine_suffix n offset b reason d = d\<lparr>sp_quarantine := (sp_quarantine d)((n, offset) \<mapsto> (b, reason))\<rparr>"

definition quarantine_frame :: "u64 \<Rightarrow> nat \<Rightarrow> bytes \<Rightarrow> string \<Rightarrow> CdrSpool \<Rightarrow> CdrSpool" where
  "quarantine_frame = quarantine_suffix"

definition recover_incomplete_tail :: "u64 \<Rightarrow> nat \<Rightarrow> u64 option \<Rightarrow> CdrSpool \<Rightarrow> CdrSpool" where
  "recover_incomplete_tail n offset latest d =
     truncate_file n offset
       (if latest \<noteq> Some n
        then quarantine_suffix n offset (drop offset (segment_file d n)) ''incomplete frame in closed segment'' d
        else d)"

section \<open>Append\<close>

definition encode_frame :: "SpoolCodec \<Rightarrow> CdrWriteCommand \<Rightarrow> (bytes, spool_error) outcome" where
  "encode_frame sc command =
     (case sc_to_vec sc \<lparr> sf_schema_version = SPOOL_SCHEMA_VERSION, sf_command = command \<rparr> of
        None \<Rightarrow> Err SpoolEncodeFailed
      | Some payload \<Rightarrow>
          if length payload > MAX_FRAME_SIZE then Err (SpoolFrameTooLarge (length payload))
          else if length payload \<ge> 2 ^ 32 then Err (SpoolFrameTooLarge (length payload))
          else Ok (to_le32 (of_nat (length payload)) @ to_le32 (sc_crc32 sc payload) @ payload))"

definition append_target :: "SpoolPosition \<Rightarrow> nat \<Rightarrow> CdrSpool \<Rightarrow> u64 \<times> u64" where
  "append_target checkpoint frame_len d =
     (let ns = segment_numbers d;
          segment = (if ns = [] then max (saturating_add (pos_segment checkpoint) 1) 1 else last ns);
          offset = of_nat (length (segment_file d segment))
      in if offset > 0 \<and> saturating_add offset (of_nat frame_len) > SEGMENT_SIZE_LIMIT
         then (saturating_add segment 1, 0)
         else (segment, offset))"

text \<open>
  How the write of a frame ends: durably; in an error after which the file was cut back; or torn after
  some bytes, when the cut failed or the machine stopped.
\<close>

datatype append_io = AppendDurable | AppendUndone | AppendTorn nat

definition spool_append ::
    "SpoolCodec \<Rightarrow> append_io \<Rightarrow> CdrWriteCommand \<Rightarrow> (CdrSpool, SpoolPosition, spool_error) stateful" where
  "spool_append sc io command d =
     (case and_then (encode_frame sc command) (\<lambda>frame. and_then (read_checkpoint sc d) (\<lambda>cp. Ok (frame, cp))) of
        Err e \<Rightarrow> (Err e, d)
      | Panic \<Rightarrow> (Panic, d)
      | Ok (frame, checkpoint) \<Rightarrow>
          let (segment, offset) = append_target checkpoint (length frame) d;
              before = segment_file d segment
          in (case io of
                AppendDurable \<Rightarrow>
                  (Ok \<lparr> pos_segment = segment, pos_offset = saturating_add offset (of_nat (length frame)) \<rparr>,
                   write_segment segment (before @ frame) d)
              | AppendUndone \<Rightarrow> (Err DurableAppendFailed, write_segment segment before d)
              | AppendTorn k \<Rightarrow> (Err DurableAppendFailed, write_segment segment (before @ take k frame) d)))"

section \<open>Replay\<close>

definition decode_payload :: "SpoolCodec \<Rightarrow> bytes \<Rightarrow> u32 \<Rightarrow> string + CdrWriteCommand" where
  "decode_payload sc payload expected_crc =
     (if sc_crc32 sc payload \<noteq> expected_crc then Inl ''CRC mismatch''
      else
        (case sc_from_slice sc payload of
           Inr frame \<Rightarrow>
             if sf_schema_version frame = SPOOL_SCHEMA_VERSION then Inr (sf_command frame)
             else Inl (''unsupported schema version '' @ decimal (unat (sf_schema_version frame)) @ '' (expected '' @
                    decimal (unat SPOOL_SCHEMA_VERSION) @ '')'')
         | Inl e \<Rightarrow> Inl (''invalid JSON payload: '' @ e)))"

text \<open>The loop over the frames of one segment, whose bytes were read before it.\<close>

function replay_frames ::
    "SpoolCodec \<Rightarrow> u64 \<Rightarrow> u64 option \<Rightarrow> bytes \<Rightarrow> nat \<Rightarrow> CdrSpool \<Rightarrow> ReplayEntry list \<times> CdrSpool" where
  "replay_frames sc n latest b start d =
     (if start < length b then
        if length b - start < FRAME_HEADER_SIZE then ([], recover_incomplete_tail n start latest d)
        else
          (let payload_len = unat (from_le32 b start);
               expected_crc = from_le32 b (start + 4);
               body = start + FRAME_HEADER_SIZE
           in if payload_len > MAX_FRAME_SIZE
              then ([], truncate_file n start
                     (quarantine_suffix n start (drop start b) ''frame length exceeds maximum'' d))
              else if length b - body < payload_len then ([], recover_incomplete_tail n start latest d)
              else
                (let payload = take payload_len (drop body b);
                     stop = body + payload_len;
                     e = \<lparr> pos_segment = n, pos_offset = of_nat stop \<rparr>;
                     raw_frame = take (stop - start) (drop start b)
                 in case decode_payload sc payload expected_crc of
                      Inr command \<Rightarrow>
                        (let (entries, d1) = replay_frames sc n latest b stop d
                         in (WriteEntry e command # entries, d1))
                    | Inl reason \<Rightarrow>
                        (let (entries, d1) =
                               replay_frames sc n latest b stop (quarantine_frame n start raw_frame reason d)
                         in (QuarantinedEntry e reason # entries, d1))))
      else ([], d))"
  by pat_completeness auto

termination
  by (relation "measure (\<lambda>(sc, n, latest, b, start, d). length b - start)") (auto simp: FRAME_HEADER_SIZE_def)

declare replay_frames.simps [simp del]

fun replay_segments ::
    "SpoolCodec \<Rightarrow> SpoolPosition \<Rightarrow> u64 option \<Rightarrow> u64 list \<Rightarrow> (CdrSpool, ReplayEntry list, spool_error) stateful" where
  "replay_segments sc checkpoint latest [] d = (Ok [], d)"
| "replay_segments sc checkpoint latest (n # ns) d =
     (if n < pos_segment checkpoint then replay_segments sc checkpoint latest ns d
      else
        let b = segment_file d n;
            offset = (if n = pos_segment checkpoint then unat (pos_offset checkpoint) else 0)
        in if offset > length b then (Err (CheckpointOutOfSegment offset n (length b)), d)
           else
             let (entries, d1) = replay_frames sc n latest b offset d in
             bind_st (replay_segments sc checkpoint latest ns) (\<lambda>rest. return_st (entries @ rest)) d1)"

definition replay :: "SpoolCodec \<Rightarrow> (CdrSpool, ReplayEntry list, spool_error) stateful" where
  "replay sc d =
     (case read_checkpoint sc d of
        Err e \<Rightarrow> (Err e, d)
      | Panic \<Rightarrow> (Panic, d)
      | Ok checkpoint \<Rightarrow>
          let ns = segment_numbers d
          in replay_segments sc checkpoint (if ns = [] then None else Some (last ns)) ns d)"

section \<open>Acknowledgement and backlog\<close>

definition acknowledge :: "SpoolCodec \<Rightarrow> SpoolPosition \<Rightarrow> (CdrSpool, unit, spool_error) stateful" where
  "acknowledge sc position d =
     (case read_checkpoint sc d of
        Err e \<Rightarrow> (Err e, d)
      | Panic \<Rightarrow> (Panic, d)
      | Ok current \<Rightarrow>
          if pos_less position current then (Err CheckpointBackwards, d)
          else
            (case sc_position_to_vec sc position of
               None \<Rightarrow> (Err SpoolEncodeFailed, d)
             | Some b \<Rightarrow>
                 (Ok (), d\<lparr>sp_checkpoint := Some b,
                           sp_segments := filter (\<lambda>(n, _). \<not> n < pos_segment position) (sp_segments d)\<rparr>)))"

definition backlog_bytes :: "SpoolCodec \<Rightarrow> CdrSpool \<Rightarrow> (u64, spool_error) outcome" where
  "backlog_bytes sc d =
     and_then (read_checkpoint sc d) (\<lambda>checkpoint.
       Ok (foldl (\<lambda>total n.
             if n < pos_segment checkpoint then total
             else
               let len = of_nat (length (segment_file d n))
               in saturating_add total
                    (if n = pos_segment checkpoint then saturating_sub len (pos_offset checkpoint) else len))
           0 (segment_numbers d)))"

section \<open>Frames\<close>

text \<open>What the spool relies on of \<open>serde_json\<close>: frames and positions decode to what was encoded.\<close>

definition spool_serde :: "SpoolCodec \<Rightarrow> bool" where
  "spool_serde sc \<longleftrightarrow>
     (\<forall>f b. sc_to_vec sc f = Some b \<longrightarrow> sc_from_slice sc b = Inr f) \<and>
     (\<forall>p. \<exists>b. sc_position_to_vec sc p = Some b \<and> sc_position_from_slice sc b = Some p)"

definition encodable :: "SpoolCodec \<Rightarrow> CdrWriteCommand \<Rightarrow> bool" where
  "encodable sc c \<longleftrightarrow> is_ok (encode_frame sc c)"

definition frame_of :: "SpoolCodec \<Rightarrow> CdrWriteCommand \<Rightarrow> bytes" where
  "frame_of sc c = (case encode_frame sc c of Ok f \<Rightarrow> f | _ \<Rightarrow> [])"

definition segment_bytes :: "SpoolCodec \<Rightarrow> CdrWriteCommand list \<Rightarrow> bytes" where
  "segment_bytes sc cs = concat (map (frame_of sc) cs)"

fun log_entries :: "SpoolCodec \<Rightarrow> u64 \<Rightarrow> nat \<Rightarrow> CdrWriteCommand list \<Rightarrow> ReplayEntry list" where
  "log_entries sc n start [] = []"
| "log_entries sc n start (c # cs) =
     (let stop = start + length (frame_of sc c)
      in WriteEntry \<lparr> pos_segment = n, pos_offset = of_nat stop \<rparr> c # log_entries sc n stop cs)"

lemma segment_bytes_simps [simp]:
  "segment_bytes sc [] = []" "segment_bytes sc (c # cs) = frame_of sc c @ segment_bytes sc cs"
  "segment_bytes sc (cs @ ds) = segment_bytes sc cs @ segment_bytes sc ds"
  by (simp_all add: segment_bytes_def)

lemma frame_shape:
  assumes "encodable sc c"
  obtains p where "sc_to_vec sc \<lparr> sf_schema_version = SPOOL_SCHEMA_VERSION, sf_command = c \<rparr> = Some p"
    "length p \<le> MAX_FRAME_SIZE" "frame_of sc c = to_le32 (of_nat (length p)) @ to_le32 (sc_crc32 sc p) @ p"
    "encode_frame sc c = Ok (frame_of sc c)"
proof -
  obtain f where f: "encode_frame sc c = Ok f" using assms by (auto simp: encodable_def elim: is_okE)
  then have e: "frame_of sc c = f" by (simp add: frame_of_def)
  from f that show thesis
    unfolding e by (auto simp: encode_frame_def split: option.split_asm if_split_asm)
qed

lemma length_to_le32 [simp]: "length (to_le32 w) = 4"
  by (simp add: to_le32_def)

lemma to_le32_not_Nil [simp]: "to_le32 w \<noteq> []"
  using length_to_le32 [of w] by fastforce

lemma from_le32_at [simp]: "from_le32 (pre @ to_le32 w @ rest) (length pre) = w"
  by (simp add: from_le32_def to_le32_def to_be32_def nth_append from_to_be32)

lemma from_le32_at' [simp]: "i = length pre \<Longrightarrow> from_le32 (pre @ to_le32 w @ rest) i = w"
  by simp

lemma frame_length: "encodable sc c \<Longrightarrow> 8 \<le> length (frame_of sc c) \<and> length (frame_of sc c) \<le> 8 + MAX_FRAME_SIZE"
  by (erule frame_shape) simp

lemma payload_len_word: "k \<le> MAX_FRAME_SIZE \<Longrightarrow> unat (of_nat k :: u32) = k"
  by (simp add: MAX_FRAME_SIZE_def unat_of_nat take_bit_nat_eq_self)

text \<open>One frame of the log is one entry.\<close>

lemma replay_frame:
  assumes "spool_serde sc" and "encodable sc c"
  shows "replay_frames sc n latest (pre @ frame_of sc c @ rest) (length pre) d =
    (let (es, d1) = replay_frames sc n latest (pre @ frame_of sc c @ rest) (length pre + length (frame_of sc c)) d
     in (WriteEntry \<lparr> pos_segment = n, pos_offset = of_nat (length pre + length (frame_of sc c)) \<rparr> c # es, d1))"
proof -
  obtain p where p: "sc_to_vec sc \<lparr> sf_schema_version = SPOOL_SCHEMA_VERSION, sf_command = c \<rparr> = Some p"
    "length p \<le> MAX_FRAME_SIZE" and f: "frame_of sc c = to_le32 (of_nat (length p)) @ to_le32 (sc_crc32 sc p) @ p"
    using assms(2) by (rule frame_shape)
  let ?b = "pre @ frame_of sc c @ rest"
  have len: "unat (from_le32 ?b (length pre)) = length p" using p(2) by (simp add: f payload_len_word)
  have crc: "from_le32 ?b (length pre + 4) = sc_crc32 sc p"
    using from_le32_at' [of "length pre + 4" "pre @ to_le32 (of_nat (length p))" "sc_crc32 sc p" "p @ rest"]
    by (simp add: f del: from_le32_at')
  have body: "take (length p) (drop (length pre + FRAME_HEADER_SIZE) ?b) = p" by (simp add: f FRAME_HEADER_SIZE_def)
  have "decode_payload sc p (sc_crc32 sc p) = Inr c"
    using assms(1) p(1) by (simp add: decode_payload_def spool_serde_def)
  moreover have stop: "length pre + FRAME_HEADER_SIZE + length p = length pre + length (frame_of sc c)"
    by (simp add: f FRAME_HEADER_SIZE_def)
  moreover have "length pre < length ?b" "\<not> length ?b - length pre < FRAME_HEADER_SIZE"
    "\<not> length ?b - (length pre + FRAME_HEADER_SIZE) < length p"
    by (simp_all add: f FRAME_HEADER_SIZE_def)
  ultimately show ?thesis
    using p(2) unfolding replay_frames.simps [of sc n latest ?b "length pre"] len crc body Let_def stop by simp
qed

lemma replay_frames_log:
  assumes "spool_serde sc" and "list_all (encodable sc) cs"
  shows "replay_frames sc n latest (pre @ segment_bytes sc cs @ rest) (length pre) d =
    (let (es, d1) = replay_frames sc n latest (pre @ segment_bytes sc cs @ rest) (length pre + length (segment_bytes sc cs)) d
     in (log_entries sc n (length pre) cs @ es, d1))"
  using assms(2)
proof (induction cs arbitrary: pre)
  case (Cons c cs)
  have "encodable sc c" using Cons.prems by simp
  note replay_frame [OF assms(1) this, of n latest pre "segment_bytes sc cs @ rest" d]
  moreover note Cons.IH [of "pre @ frame_of sc c"]
  ultimately show ?case using Cons.prems by (simp add: Let_def split: prod.splits) (simp add: add.assoc)
qed simp

lemma replay_frames_done [simp]: "length b \<le> start \<Longrightarrow> replay_frames sc n latest b start d = ([], d)"
  by (subst replay_frames.simps) simp

text \<open>Bytes that are no frame yet: too short for a header, or for the payload the header announces.\<close>

definition incomplete :: "bytes \<Rightarrow> bool" where
  "incomplete t \<longleftrightarrow>
     t \<noteq> [] \<and>
     (length t < FRAME_HEADER_SIZE \<or>
      unat (from_le32 t 0) \<le> MAX_FRAME_SIZE \<and> length t < FRAME_HEADER_SIZE + unat (from_le32 t 0))"

lemma from_le32_shift: "from_le32 (pre @ t) (length pre) = from_le32 t 0"
  by (simp add: from_le32_def nth_append numeral_2_eq_2)

lemma replay_frames_incomplete:
  "incomplete t \<Longrightarrow>
     replay_frames sc n latest (pre @ t) (length pre) d = ([], recover_incomplete_tail n (length pre) latest d)"
  by (subst replay_frames.simps) (auto simp: incomplete_def from_le32_shift Let_def)

lemma torn_incomplete:
  assumes "encodable sc c" and "0 < k" and "k < length (frame_of sc c)"
  shows "incomplete (take k (frame_of sc c))"
proof -
  obtain p where p: "length p \<le> MAX_FRAME_SIZE" "frame_of sc c = to_le32 (of_nat (length p)) @ to_le32 (sc_crc32 sc p) @ p"
    using assms(1) by (rule frame_shape)
  show ?thesis
  proof (cases "k < 8")
    case False
    have "take k (frame_of sc c) = to_le32 (of_nat (length p)) @ to_le32 (sc_crc32 sc p) @ take (k - 8) p"
      using False by (simp add: p(2))
    then have "from_le32 (take k (frame_of sc c)) 0 = of_nat (length p)"
      using from_le32_at [of "[]"] by simp
    then show ?thesis using assms p False by (simp add: incomplete_def FRAME_HEADER_SIZE_def payload_len_word)
  qed (use assms in \<open>auto simp: incomplete_def FRAME_HEADER_SIZE_def\<close>)
qed

section \<open>The log\<close>

definition all_entries :: "SpoolCodec \<Rightarrow> (u64 \<times> CdrWriteCommand list) list \<Rightarrow> ReplayEntry list" where
  "all_entries sc journal = concat (map (\<lambda>(n, cs). log_entries sc n 0 cs) journal)"

definition checkpoint_at :: "SpoolCodec \<Rightarrow> SpoolPosition \<Rightarrow> (u64 \<times> CdrWriteCommand list) list \<Rightarrow> bool" where
  "checkpoint_at sc cp journal \<longleftrightarrow>
     (journal \<noteq> [] \<longrightarrow> pos_segment cp \<le> fst (last journal)) \<and>
     (\<forall>cs. (pos_segment cp, cs) \<in> set journal \<longrightarrow> (\<exists>k. unat (pos_offset cp) = length (segment_bytes sc (take k cs))))"

text \<open>The directory holds the log: each segment the frames of its commands, the checkpoint at the end of a frame.\<close>

definition segments_hold :: "SpoolCodec \<Rightarrow> (u64 \<times> CdrWriteCommand list) list \<Rightarrow> bool" where
  "segments_hold sc journal \<longleftrightarrow>
     bt_wf journal \<and>
     (\<forall>(n, cs) \<in> set journal. list_all (encodable sc) cs \<and> length (segment_bytes sc cs) \<le> FRAME_HEADER_SIZE + MAX_FRAME_SIZE)"

definition files_of :: "SpoolCodec \<Rightarrow> (u64 \<times> CdrWriteCommand list) list \<Rightarrow> (u64, bytes) BTreeMap" where
  "files_of sc journal = map (\<lambda>(n, cs). (n, segment_bytes sc cs)) journal"

definition holds_log :: "SpoolCodec \<Rightarrow> (u64 \<times> CdrWriteCommand list) list \<Rightarrow> SpoolPosition \<Rightarrow> CdrSpool \<Rightarrow> bool" where
  "holds_log sc journal cp d \<longleftrightarrow>
     segments_hold sc journal \<and> sp_segments d = files_of sc journal \<and>
     read_checkpoint sc d = Ok cp \<and> checkpoint_at sc cp journal"

definition pending :: "SpoolCodec \<Rightarrow> (u64 \<times> CdrWriteCommand list) list \<Rightarrow> SpoolPosition \<Rightarrow> ReplayEntry list" where
  "pending sc journal cp = filter (\<lambda>e. pos_less cp (entry_end e)) (all_entries sc journal)"

lemma log_entries_append:
  "log_entries sc n start (cs @ ds) = log_entries sc n start cs @ log_entries sc n (start + length (segment_bytes sc cs)) ds"
  by (induction cs arbitrary: start) (simp_all add: Let_def add.assoc)

lemma size_fits: "k \<le> FRAME_HEADER_SIZE + MAX_FRAME_SIZE \<Longrightarrow> unat (of_nat k :: u64) = k"
  by (simp add: MAX_FRAME_SIZE_def FRAME_HEADER_SIZE_def unat_of_nat take_bit_nat_eq_self)

lemma log_entries_ends:
  assumes "list_all (encodable sc) cs" and "start + length (segment_bytes sc cs) \<le> FRAME_HEADER_SIZE + MAX_FRAME_SIZE"
    and "e \<in> set (log_entries sc n start cs)"
  shows "pos_segment (entry_end e) = n \<and> start < unat (pos_offset (entry_end e)) \<and>
    unat (pos_offset (entry_end e)) \<le> start + length (segment_bytes sc cs)"
  using assms
proof (induction cs arbitrary: start)
  case (Cons c cs)
  have c: "8 \<le> length (frame_of sc c)" using Cons.prems(1) frame_length [of sc c] by simp
  show ?case
  proof (cases "e \<in> set (log_entries sc n (start + length (frame_of sc c)) cs)")
    case True
    then show ?thesis using Cons.IH [of "start + length (frame_of sc c)"] Cons.prems c by (simp add: add.assoc)
  next
    case False
    then have "entry_end e = \<lparr> pos_segment = n, pos_offset = of_nat (start + length (frame_of sc c)) \<rparr>"
      using Cons.prems(3) by (auto simp: Let_def)
    moreover have "unat (of_nat (start + length (frame_of sc c)) :: u64) = start + length (frame_of sc c)"
      using Cons.prems(2) by (intro size_fits) simp
    ultimately show ?thesis using c by auto
  qed
qed simp

lemma filter_all: "(\<And>x. x \<in> set xs \<Longrightarrow> P x) \<Longrightarrow> filter P xs = xs"
  by simp

lemma filter_none: "(\<And>x. x \<in> set xs \<Longrightarrow> \<not> P x) \<Longrightarrow> filter P xs = []"
  by simp

text \<open>Replaying one segment from the checkpoint gives its entries after the checkpoint.\<close>

lemma segment_pending:
  assumes "list_all (encodable sc) cs" and "length (segment_bytes sc cs) \<le> FRAME_HEADER_SIZE + MAX_FRAME_SIZE"
    and "unat (pos_offset cp) = length (segment_bytes sc (take k cs))" and "pos_segment cp = n"
  shows "filter (\<lambda>e. pos_less cp (entry_end e)) (log_entries sc n 0 cs) =
    log_entries sc n (unat (pos_offset cp)) (drop k cs)"
proof -
  have split: "segment_bytes sc cs = segment_bytes sc (take k cs) @ segment_bytes sc (drop k cs)"
    by (metis append_take_drop_id segment_bytes_simps(3))
  have enc: "list_all (encodable sc) (take k cs)" "list_all (encodable sc) (drop k cs)"
    using assms(1) by (auto simp: list_all_iff dest: in_set_takeD in_set_dropD)
  have "log_entries sc n 0 cs = log_entries sc n 0 (take k cs) @ log_entries sc n (unat (pos_offset cp)) (drop k cs)"
    using log_entries_append [of sc n 0 "take k cs" "drop k cs"] assms(3) by simp
  moreover have "filter (\<lambda>e. pos_less cp (entry_end e)) (log_entries sc n 0 (take k cs)) = []"
  proof (rule filter_none)
    fix e assume "e \<in> set (log_entries sc n 0 (take k cs))"
    from log_entries_ends [OF enc(1) _ this] split assms show "\<not> pos_less cp (entry_end e)"
      by (simp add: pos_less_def word_less_nat_alt)
  qed
  moreover have "filter (\<lambda>e. pos_less cp (entry_end e)) (log_entries sc n (unat (pos_offset cp)) (drop k cs)) =
      log_entries sc n (unat (pos_offset cp)) (drop k cs)"
  proof (rule filter_all)
    fix e assume "e \<in> set (log_entries sc n (unat (pos_offset cp)) (drop k cs))"
    from log_entries_ends [OF enc(2) _ this] split assms show "pos_less cp (entry_end e)"
      by (simp add: pos_less_def word_less_nat_alt)
  qed
  ultimately show ?thesis by simp
qed

text \<open>What the loop needs of a segment.\<close>

definition segment_good :: "SpoolCodec \<Rightarrow> SpoolPosition \<Rightarrow> u64 \<times> CdrWriteCommand list \<Rightarrow> bool" where
  "segment_good sc cp = (\<lambda>(n, cs).
     list_all (encodable sc) cs \<and> length (segment_bytes sc cs) \<le> FRAME_HEADER_SIZE + MAX_FRAME_SIZE \<and>
     (n = pos_segment cp \<longrightarrow> (\<exists>k. unat (pos_offset cp) = length (segment_bytes sc (take k cs)))))"

lemma log_entries_other:
  assumes "segment_good sc cp (n, cs)" and "n \<noteq> pos_segment cp"
  shows "filter (\<lambda>e. pos_less cp (entry_end e)) (log_entries sc n 0 cs) =
    (if n < pos_segment cp then [] else log_entries sc n 0 cs)"
proof -
  have "pos_segment (entry_end e) = n" if "e \<in> set (log_entries sc n 0 cs)" for e
    using log_entries_ends [of sc cs 0 e n] assms(1) that by (simp add: segment_good_def)
  then show ?thesis using assms(2) by (auto simp: pos_less_def intro!: filter_all filter_none)
qed

text \<open>\<open>rest\<close> is what follows the frames of the segment in its file.\<close>

lemma replay_one_segment:
  fixes n cp
  defines "start \<equiv> (if n = pos_segment cp then unat (pos_offset cp) else 0)"
  assumes "spool_serde sc" and good: "segment_good sc cp (n, cs)" and "\<not> n < pos_segment cp"
  shows "start \<le> length (segment_bytes sc cs @ rest)"
    and "replay_frames sc n latest (segment_bytes sc cs @ rest) start d =
      (let (es, d1) = replay_frames sc n latest (segment_bytes sc cs @ rest) (length (segment_bytes sc cs)) d
       in (filter (\<lambda>e. pos_less cp (entry_end e)) (log_entries sc n 0 cs) @ es, d1))"
proof -
  obtain k where k: "start = length (segment_bytes sc (take k cs))"
    and es: "filter (\<lambda>e. pos_less cp (entry_end e)) (log_entries sc n 0 cs) = log_entries sc n start (drop k cs)"
  proof (cases "n = pos_segment cp")
    case True
    then obtain k where k: "unat (pos_offset cp) = length (segment_bytes sc (take k cs))"
      using good by (auto simp: segment_good_def)
    then show thesis using that segment_pending [of sc cs cp k n] good True by (simp add: segment_good_def start_def)
  next
    case False
    then show thesis using that [of 0] log_entries_other [OF good False] assms(4) by (simp add: start_def)
  qed
  have split: "segment_bytes sc cs = segment_bytes sc (take k cs) @ segment_bytes sc (drop k cs)"
    by (metis append_take_drop_id segment_bytes_simps(3))
  then show "start \<le> length (segment_bytes sc cs @ rest)" by (simp add: k)
  have "list_all (encodable sc) (drop k cs)"
    using good by (auto simp: segment_good_def list_all_iff dest: in_set_dropD)
  from replay_frames_log [OF assms(2) this, of n latest "segment_bytes sc (take k cs)" rest d]
  show "replay_frames sc n latest (segment_bytes sc cs @ rest) start d =
      (let (es, d1) = replay_frames sc n latest (segment_bytes sc cs @ rest) (length (segment_bytes sc cs)) d
       in (filter (\<lambda>e. pos_less cp (entry_end e)) (log_entries sc n 0 cs) @ es, d1))"
    by (simp add: es k split)
qed

lemma replay_segments_log:
  assumes "spool_serde sc" and "list_all (segment_good sc cp) journal"
    and "\<And>n cs. (n, cs) \<in> set journal \<Longrightarrow> segment_file d n = segment_bytes sc cs"
  shows "replay_segments sc cp latest (map fst journal) d = (Ok (pending sc journal cp), d)"
  using assms(2,3)
proof (induction journal)
  case (Cons x journal)
  obtain n cs where x: "x = (n, cs)" by fastforce
  have IH: "replay_segments sc cp latest (map fst journal) d = (Ok (pending sc journal cp), d)"
    using Cons.IH Cons.prems by simp
  have good: "segment_good sc cp (n, cs)" and held: "segment_file d n = segment_bytes sc cs"
    using Cons.prems by (simp_all add: x)
  show ?case
  proof (cases "n < pos_segment cp")
    case True
    then show ?thesis
      using IH log_entries_other [OF good] by (simp add: x pending_def all_entries_def)
  next
    case False
    note one = replay_one_segment(1) [OF assms(1) good False, of "[]"]
      replay_one_segment(2) [OF assms(1) good False, of latest "[]" d]
    show ?thesis
      using False one IH by (simp add: x held pending_def all_entries_def Let_def bind_st_def)
  qed
qed (simp add: pending_def all_entries_def)

end
