(* ===== verification/Spool_Properties.thy ===== *)
theory Spool_Properties
  imports Cdr_Spool
begin

text \<open>
  The spool is a queue: what was appended durably is replayed in order until it is acknowledged, over
  every sequence of operations, and a torn write is undone by the next replay.
\<close>

section \<open>Files of a log\<close>

definition commands_in :: "(u64 \<times> CdrWriteCommand list) list \<Rightarrow> u64 \<Rightarrow> CdrWriteCommand list" where
  "commands_in journal n = (case bt_get journal n of None \<Rightarrow> [] | Some cs \<Rightarrow> cs)"

lemma bt_get_files: "bt_get (files_of sc journal) n = map_option (segment_bytes sc) (bt_get journal n)"
  by (induction journal) (auto simp: files_of_def bt_get_def)

lemma bt_keys_files [simp]: "bt_keys (files_of sc journal) = bt_keys journal"
  by (simp add: files_of_def bt_keys_def case_prod_beta comp_def)

lemma files_insert: "bt_insert n (segment_bytes sc cs) (files_of sc journal) = files_of sc (bt_insert n cs journal)"
  by (induction n cs journal rule: bt_insert.induct) (auto simp: files_of_def)

lemma held_file:
  assumes "holds_log sc journal cp d"
  shows "segment_file d n = segment_bytes sc (commands_in journal n)"
  using assms by (cases "bt_get journal n") (simp_all add: holds_log_def segment_file_def commands_in_def bt_get_files)

lemma in_journal: "bt_wf journal \<Longrightarrow> (n, cs) \<in> set journal \<Longrightarrow> bt_get journal n = Some cs"
  using bt_wf_distinct [of journal] by (simp add: bt_get_def)

lemma good_segments:
  assumes "holds_log sc journal cp d"
  shows "list_all (segment_good sc cp) journal"
  using assms by (auto simp: holds_log_def segments_hold_def checkpoint_at_def segment_good_def list_all_iff)

text \<open>Replay returns what is pending and leaves the directory as it is.\<close>

lemma replay_pending:
  assumes "spool_serde sc" and "holds_log sc journal cp d"
  shows "replay sc d = (Ok (pending sc journal cp), d)"
proof -
  have "segment_file d n = segment_bytes sc cs" if "(n, cs) \<in> set journal" for n cs
    using held_file [OF assms(2), of n] in_journal [OF _ that] assms(2)
    by (simp add: commands_in_def holds_log_def segments_hold_def)
  then have "replay_segments sc cp latest (map fst journal) d = (Ok (pending sc journal cp), d)" for latest
    by (rule replay_segments_log [OF assms(1) good_segments [OF assms(2)]])
  then show ?thesis
    using assms(2) by (simp add: replay_def holds_log_def segment_numbers_def bt_keys_def [of journal] Let_def)
qed

section \<open>Extending the newest segment\<close>

lemma bt_insert_above:
  "(\<And>k. k \<in> fst ` set m \<Longrightarrow> k < n) \<Longrightarrow> bt_insert n v (m @ m') = m @ bt_insert n v m'"
proof (induction m)
  case (Cons x m)
  then show ?case by (cases x) force
qed simp

lemma bt_insert_top:
  assumes "bt_wf m" and "\<And>k. k \<in> fst ` set m \<Longrightarrow> k \<le> n"
  obtains (fresh) "bt_get m n = None" "bt_insert n v m = m @ [(n, v)]"
  | (top) m0 w where "m = m0 @ [(n, w)]" "bt_get m n = Some w" "bt_insert n v m = m0 @ [(n, v)]"
proof (cases m rule: rev_exhaust)
  case Nil
  then show thesis using fresh by simp
next
  case (snoc m0 x)
  obtain k w where x: "x = (k, w)" by fastforce
  have below: "j < k" if "j \<in> fst ` set m0" for j
    using assms(1) that by (auto simp: bt_wf_def snoc x sorted_wrt_append)
  have "k \<le> n" using assms(2) [of k] by (simp add: snoc x)
  then have m0: "j < n" if "j \<in> fst ` set m0" for j using below [OF that] by simp
  then have n: "n \<notin> fst ` set m0" by blast
  show thesis
  proof (cases "k = n")
    case True
    then show thesis
      using top [of m0 w] bt_insert_above [of m0 n v "[x]", OF m0] n
      by (simp add: snoc x bt_get_def map_add_dom_app_simps dom_map_of_conv_image_fst)
  next
    case False
    then have k: "k < n" "\<not> n < k" "n \<noteq> k" using \<open>k \<le> n\<close> by auto
    then have "map_of m n = None" using n by (auto simp: snoc x map_of_eq_None_iff)
    then show thesis using fresh bt_insert_above [of m0 n v "[x]", OF m0] k by (auto simp: snoc x bt_get_def)
  qed
qed

lemma all_entries_append: "all_entries sc (xs @ ys) = all_entries sc xs @ all_entries sc ys"
  by (simp add: all_entries_def)

lemma all_entries_one [simp]: "all_entries sc [(n, cs)] = log_entries sc n 0 cs"
  by (simp add: all_entries_def)

lemma entries_insert_top:
  assumes "bt_wf journal" and "\<And>k. k \<in> fst ` set journal \<Longrightarrow> k \<le> n"
  shows "all_entries sc (bt_insert n (commands_in journal n @ cs) journal) =
    all_entries sc journal @ log_entries sc n (length (segment_bytes sc (commands_in journal n))) cs"
  by (rule bt_insert_top [OF assms, where v = "commands_in journal n @ cs"])
    (simp_all add: commands_in_def all_entries_append log_entries_append)

text \<open>Where frames may be added: at or above the newest segment and the checkpoint.\<close>

definition top_segment :: "(u64 \<times> CdrWriteCommand list) list \<Rightarrow> SpoolPosition \<Rightarrow> u64 \<Rightarrow> bool" where
  "top_segment journal cp n \<longleftrightarrow>
     (\<forall>k \<in> fst ` set journal. k \<le> n) \<and> pos_segment cp \<le> n \<and> (pos_segment cp = n \<longrightarrow> n \<in> fst ` set journal)"

lemma checkpoint_below:
  assumes "holds_log sc journal cp d" and "top_segment journal cp n"
  shows "pos_segment cp < n \<or>
    pos_segment cp = n \<and> (\<exists>k. unat (pos_offset cp) = length (segment_bytes sc (take k (commands_in journal n))))"
proof (cases "pos_segment cp = n")
  case True
  then obtain cs where "(n, cs) \<in> set journal" using assms(2) by (auto simp: top_segment_def)
  then show ?thesis
    using assms(1) True in_journal [of journal n cs]
    by (auto simp: holds_log_def segments_hold_def checkpoint_at_def commands_in_def)
qed (use assms(2) in \<open>auto simp: top_segment_def\<close>)

lemma take_bytes_le: "length (segment_bytes sc (take k cs)) \<le> length (segment_bytes sc cs)"
  by (metis append_take_drop_id length_append le_add1 segment_bytes_simps(3))

lemma extend_log:
  assumes held: "holds_log sc journal cp d" and top: "top_segment journal cp n"
    and "list_all (encodable sc) cs"
    and fits: "length (segment_file d n @ segment_bytes sc cs) \<le> FRAME_HEADER_SIZE + MAX_FRAME_SIZE"
  defines "extended \<equiv> bt_insert n (commands_in journal n @ cs) journal"
  shows "holds_log sc extended cp (write_segment n (segment_file d n @ segment_bytes sc cs) d)"
    and "pending sc extended cp = pending sc journal cp @ log_entries sc n (length (segment_file d n)) cs"
proof -
  note held_bytes = held_file [OF held, of n]
  have wf: "bt_wf journal" and keys: "\<And>k. k \<in> fst ` set journal \<Longrightarrow> k \<le> n"
    and segs: "\<And>m ds. (m, ds) \<in> set journal \<Longrightarrow>
      list_all (encodable sc) ds \<and> length (segment_bytes sc ds) \<le> FRAME_HEADER_SIZE + MAX_FRAME_SIZE"
    using held top by (auto simp: holds_log_def segments_hold_def top_segment_def)
  have old: "list_all (encodable sc) (commands_in journal n)"
    using segs by (auto simp: commands_in_def bt_get_def split: option.split dest: map_of_SomeD)
  have members: "(m, ds) \<in> set extended \<Longrightarrow> (m, ds) \<in> set journal \<or> (m, ds) = (n, commands_in journal n @ cs)" for m ds
    unfolding extended_def
    by (rule bt_insert_top [OF wf keys, where v = "commands_in journal n @ cs"]) auto
  have last: "last extended = (n, commands_in journal n @ cs)"
    unfolding extended_def
    by (rule bt_insert_top [OF wf keys, where v = "commands_in journal n @ cs"]) auto
  have aligned: "\<exists>k. unat (pos_offset cp) = length (segment_bytes sc (take k ds))"
    if "(pos_segment cp, ds) \<in> set extended" for ds
  proof (cases "(pos_segment cp, ds) \<in> set journal")
    case False
    then have ds: "pos_segment cp = n" "ds = commands_in journal n @ cs" using members [OF that] by auto
    then obtain k where "unat (pos_offset cp) = length (segment_bytes sc (take k (commands_in journal n)))"
      using checkpoint_below [OF held top] by auto
    then show ?thesis
      by (intro exI [of _ "min k (length (commands_in journal n))"]) (simp add: ds min_def)
  qed (use held in \<open>auto simp: holds_log_def checkpoint_at_def\<close>)
  have "list_all (encodable sc) ds \<and> length (segment_bytes sc ds) \<le> FRAME_HEADER_SIZE + MAX_FRAME_SIZE"
    if "(m, ds) \<in> set extended" for m ds
    using members [OF that] segs old assms(3) fits by (auto simp: held_bytes)
  then have "segments_hold sc extended"
    using bt_wf_insert [OF wf] by (auto simp: segments_hold_def extended_def)
  moreover have "checkpoint_at sc cp extended"
    using aligned last top by (auto simp: checkpoint_at_def top_segment_def)
  moreover have "bt_insert n (segment_file d n @ segment_bytes sc cs) (files_of sc journal) = files_of sc extended"
    using files_insert [of n sc "commands_in journal n @ cs" journal] by (simp add: held_bytes extended_def)
  ultimately show "holds_log sc extended cp (write_segment n (segment_file d n @ segment_bytes sc cs) d)"
    using held by (simp add: holds_log_def write_segment_def read_checkpoint_def)
  have "pos_segment cp < n \<or> pos_segment cp = n \<and> unat (pos_offset cp) \<le> length (segment_file d n)"
    using checkpoint_below [OF held top] take_bytes_le [of sc _ "commands_in journal n"] by (metis held_bytes)
  then have "pos_less cp (entry_end e)" if "e \<in> set (log_entries sc n (length (segment_file d n)) cs)" for e
    using log_entries_ends [OF assms(3) _ that] fits by (auto simp: pos_less_def word_less_nat_alt)
  then show "pending sc extended cp = pending sc journal cp @ log_entries sc n (length (segment_file d n)) cs"
    using entries_insert_top [OF wf keys, of sc cs] by (simp add: pending_def extended_def held_bytes)
qed

section \<open>Append\<close>

definition newest :: "SpoolPosition \<Rightarrow> CdrSpool \<Rightarrow> u64" where
  "newest cp d = (if segment_numbers d = [] then pos_segment cp else last (segment_numbers d))"

lemma saturating_add_of_nat:
  assumes "a + b \<le> FRAME_HEADER_SIZE + MAX_FRAME_SIZE"
  shows "saturating_add (of_nat a :: u64) (of_nat b) = of_nat (a + b)"
proof -
  have "unat (of_nat a :: u64) = a" "unat (of_nat b :: u64) = b" "unat (of_nat (a + b) :: u64) = a + b"
    using assms size_fits [of a] size_fits [of b] size_fits [of "a + b"] by (simp_all del: of_nat_add)
  moreover have "a + b < 2 ^ 64" using assms by (simp add: MAX_FRAME_SIZE_def FRAME_HEADER_SIZE_def)
  ultimately show ?thesis by (simp add: word_unat_eq_iff unat_saturating_add del: of_nat_add)
qed

lemma below_limit:
  assumes "a \<le> FRAME_HEADER_SIZE + MAX_FRAME_SIZE" and "b \<le> FRAME_HEADER_SIZE + MAX_FRAME_SIZE"
    and "\<not> saturating_add (of_nat a :: u64) (of_nat b) > SEGMENT_SIZE_LIMIT"
  shows "a + b \<le> FRAME_HEADER_SIZE + MAX_FRAME_SIZE"
proof -
  have "unat (of_nat a :: u64) = a" "unat (of_nat b :: u64) = b" using assms by (auto intro!: size_fits)
  then have "unat (saturating_add (of_nat a :: u64) (of_nat b)) = min (a + b) (2 ^ 64 - 1)"
    by (simp add: unat_saturating_add)
  moreover have "unat SEGMENT_SIZE_LIMIT = 16777216" by (simp add: SEGMENT_SIZE_LIMIT_def)
  ultimately have "min (a + b) (2 ^ 64 - 1) \<le> 16777216" using assms(3) by (simp add: word_less_nat_alt not_less)
  then show ?thesis by (simp add: MAX_FRAME_SIZE_def FRAME_HEADER_SIZE_def)
qed

lemma saturating_step:
  fixes n :: u64
  assumes "n \<noteq> - 1"
  shows "n < saturating_add n 1" and "unat (saturating_add n 1) \<le> unat n + 1"
    and "max (saturating_add n 1) 1 = saturating_add n 1"
proof -
  show less: "n < saturating_add n 1" using assms by (rule saturating_add_less)
  show "unat (saturating_add n 1) \<le> unat n + 1" by (simp add: unat_saturating_add)
  have "1 \<le> unat (saturating_add n 1)" using less by (simp add: word_less_nat_alt)
  then have "1 \<le> saturating_add n 1" by (simp add: word_le_nat_alt)
  then show "max (saturating_add n 1) 1 = saturating_add n 1" by (simp add: max_def)
qed

lemma held_size:
  assumes "holds_log sc journal cp d"
  shows "length (segment_file d n) \<le> FRAME_HEADER_SIZE + MAX_FRAME_SIZE"
  unfolding held_file [OF assms] using assms
  by (auto simp: commands_in_def bt_get_def holds_log_def segments_hold_def split: option.split dest: map_of_SomeD)

lemma append_target_top:
  assumes held: "holds_log sc journal cp d" and room: "newest cp d \<noteq> - 1"
    and len: "len \<le> FRAME_HEADER_SIZE + MAX_FRAME_SIZE"
  obtains n where "append_target cp len d = (n, of_nat (length (segment_file d n)))" "top_segment journal cp n"
    "length (segment_file d n) + len \<le> FRAME_HEADER_SIZE + MAX_FRAME_SIZE" "unat n \<le> unat (newest cp d) + 1"
proof -
  have ns: "segment_numbers d = map fst journal"
    using held by (simp add: holds_log_def segment_numbers_def) (simp add: bt_keys_def)
  have outside: "segment_file d n = []" if "n \<notin> fst ` set journal" for n
  proof -
    have "map_of journal n = None" using that by (simp add: map_of_eq_None_iff)
    then show ?thesis by (simp add: held_file [OF held] commands_in_def bt_get_def)
  qed
  show thesis
  proof (cases journal rule: rev_exhaust)
    case Nil
    let ?n = "saturating_add (pos_segment cp) 1"
    have "pos_segment cp \<noteq> - 1" using room by (simp add: newest_def ns Nil)
    note step = saturating_step [OF this]
    show thesis
      using that [of ?n] outside [of ?n] step len
      by (simp add: Nil ns append_target_def newest_def top_segment_def Let_def less_imp_le less_not_refl2)
  next
    case (snoc j0 x)
    let ?m = "fst x"
    have m: "\<And>k. k \<in> fst ` set journal \<Longrightarrow> k \<le> ?m" "?m \<in> fst ` set journal" "pos_segment cp \<le> ?m"
      using held by (auto simp: holds_log_def segments_hold_def checkpoint_at_def bt_wf_def snoc sorted_wrt_append)
    have new: "newest cp d = ?m" by (simp add: newest_def ns snoc)
    then have target: "append_target cp len d =
        (let off = of_nat (length (segment_file d ?m)) in
         if off > 0 \<and> saturating_add off (of_nat len) > SEGMENT_SIZE_LIMIT then (saturating_add ?m 1, 0) else (?m, off))"
      by (simp add: append_target_def newest_def ns snoc Let_def)
    show thesis
    proof (cases "of_nat (length (segment_file d ?m)) > (0 :: u64) \<and>
        saturating_add (of_nat (length (segment_file d ?m))) (of_nat len) > SEGMENT_SIZE_LIMIT")
      case True
      let ?n = "saturating_add ?m 1"
      note step = saturating_step [OF room [unfolded new]]
      have "?n \<notin> fst ` set journal" using m(1) step(1) by force
      moreover have "top_segment journal cp ?n" using m step(1) by (force simp: top_segment_def)
      ultimately show thesis using that [of ?n] outside [of ?n] step(2) True len by (simp add: target new Let_def)
    next
      case False
      have "length (segment_file d ?m) + len \<le> FRAME_HEADER_SIZE + MAX_FRAME_SIZE"
      proof (cases "of_nat (length (segment_file d ?m)) > (0 :: u64)")
        case True
        then show ?thesis using below_limit [OF held_size [OF held] len] False by blast
      next
        case zero: False
        then have "unat (of_nat (length (segment_file d ?m)) :: u64) = 0" by (simp add: word_gt_0)
        then show ?thesis using size_fits [OF held_size [OF held]] len by simp
      qed
      moreover have "top_segment journal cp ?m" using m by (auto simp: top_segment_def)
      moreover have "append_target cp len d = (?m, of_nat (length (segment_file d ?m)))"
        using False unfolding target Let_def by (rule if_not_P)
      ultimately show thesis using that [of ?m] by (simp add: new)
    qed
  qed
qed

lemma encoded_size: "encodable sc c \<Longrightarrow> length (frame_of sc c) \<le> FRAME_HEADER_SIZE + MAX_FRAME_SIZE"
  using frame_length by (simp add: FRAME_HEADER_SIZE_def)

text \<open>The write of a frame, however it ends.\<close>

lemma spool_append_held:
  assumes held: "holds_log sc journal cp d" and room: "newest cp d \<noteq> - 1" and "encodable sc c"
  obtains n where "top_segment journal cp n" "unat n \<le> unat (newest cp d) + 1"
    "length (segment_file d n) + length (frame_of sc c) \<le> FRAME_HEADER_SIZE + MAX_FRAME_SIZE"
    "spool_append sc io c d =
       (case io of
          AppendDurable \<Rightarrow>
            (Ok \<lparr> pos_segment = n, pos_offset = of_nat (length (segment_file d n) + length (frame_of sc c)) \<rparr>,
             write_segment n (segment_file d n @ frame_of sc c) d)
        | AppendUndone \<Rightarrow> (Err DurableAppendFailed, write_segment n (segment_file d n) d)
        | AppendTorn k \<Rightarrow> (Err DurableAppendFailed, write_segment n (segment_file d n @ take k (frame_of sc c)) d))"
proof -
  have frame: "encode_frame sc c = Ok (frame_of sc c)" using frame_shape [OF assms(3)] by blast
  have cp: "read_checkpoint sc d = Ok cp" using held by (simp add: holds_log_def)
  obtain n where n: "append_target cp (length (frame_of sc c)) d = (n, of_nat (length (segment_file d n)))"
    "top_segment journal cp n" "unat n \<le> unat (newest cp d) + 1"
    and fits: "length (segment_file d n) + length (frame_of sc c) \<le> FRAME_HEADER_SIZE + MAX_FRAME_SIZE"
    by (rule append_target_top [OF held room encoded_size [OF assms(3)]])
  show thesis
    using that [OF n(2,3) fits] saturating_add_of_nat [OF fits]
    by (cases io) (simp_all add: spool_append_def frame cp n(1) Let_def del: of_nat_add)
qed

text \<open>How far the numbers of segments have come.\<close>

lemma newest_insert:
  assumes "holds_log sc journal cp d" and "top_segment journal cp n"
  shows "newest cp (write_segment n b d) = n"
proof -
  have wf: "bt_wf journal" and keys: "\<And>k. k \<in> fst ` set journal \<Longrightarrow> k \<le> n"
    and files: "sp_segments d = files_of sc journal"
    using assms by (auto simp: holds_log_def segments_hold_def top_segment_def)
  have wf': "bt_wf (files_of sc journal)" using wf by (simp add: bt_wf_def flip: bt_keys_def)
  have keys': "k \<le> n" if "k \<in> fst ` set (files_of sc journal)" for k
    using keys that by (force simp: files_of_def)
  obtain m where "bt_insert n b (files_of sc journal) = m @ [(n, b)]"
    by (rule bt_insert_top [OF wf' keys', where v = b]) auto
  then show ?thesis
    by (simp add: newest_def segment_numbers_def write_segment_def files bt_keys_def)
qed

lemma append_durable:
  assumes held: "holds_log sc journal cp d" and room: "newest cp d \<noteq> - 1" and "encodable sc c"
  obtains journal' p d' where "spool_append sc AppendDurable c d = (Ok p, d')" "holds_log sc journal' cp d'"
    "pending sc journal' cp = pending sc journal cp @ [WriteEntry p c]" "unat (newest cp d') \<le> unat (newest cp d) + 1"
proof -
  obtain n where top: "top_segment journal cp n" "unat n \<le> unat (newest cp d) + 1"
    "length (segment_file d n) + length (frame_of sc c) \<le> FRAME_HEADER_SIZE + MAX_FRAME_SIZE"
    and eq: "spool_append sc AppendDurable c d =
      (Ok \<lparr> pos_segment = n, pos_offset = of_nat (length (segment_file d n) + length (frame_of sc c)) \<rparr>,
       write_segment n (segment_file d n @ frame_of sc c) d)"
    by (rule spool_append_held [OF assms, of AppendDurable]) (simp del: of_nat_add)
  have "list_all (encodable sc) [c]" using assms(3) by simp
  note ext = extend_log [OF held top(1) this]
  show thesis
    using that [OF eq] ext newest_insert [OF held top(1)] top(2,3) by (simp add: Let_def)
qed

lemma append_undone:
  assumes held: "holds_log sc journal cp d" and room: "newest cp d \<noteq> - 1" and "encodable sc c"
  obtains journal' where "fst (spool_append sc AppendUndone c d) = Err DurableAppendFailed"
    "holds_log sc journal' cp (snd (spool_append sc AppendUndone c d))"
    "pending sc journal' cp = pending sc journal cp"
    "unat (newest cp (snd (spool_append sc AppendUndone c d))) \<le> unat (newest cp d) + 1"
proof -
  obtain n where top: "top_segment journal cp n" "unat n \<le> unat (newest cp d) + 1"
    and eq: "spool_append sc AppendUndone c d = (Err DurableAppendFailed, write_segment n (segment_file d n) d)"
    by (rule spool_append_held [OF assms, of AppendUndone]) simp
  note ext = extend_log [OF held top(1), of "[]"]
  show thesis
    using that ext held_size [OF held] newest_insert [OF held top(1)] top(2) by (simp add: eq)
qed

section \<open>Recovery\<close>

lemma replay_segments_append:
  "replay_segments sc cp latest (ns @ ms) d =
     bind_st (replay_segments sc cp latest ns)
       (\<lambda>es. bind_st (replay_segments sc cp latest ms) (\<lambda>fs. return_st (es @ fs))) d"
proof (induction ns arbitrary: d)
  case (Cons n ns)
  then show ?case
    by (simp add: Let_def bind_st_def return_st_def split: prod.splits outcome.splits)
qed (simp add: bind_st_def return_st_def split: prod.splits outcome.splits)

lemma keys_insert_any: "map fst (bt_insert n a m) = map fst (bt_insert n b m)"
  by (induction n a m rule: bt_insert.induct) auto

lemma segment_file_write: "segment_file (write_segment n b d) m = (if m = n then b else segment_file d m)"
  by (simp add: segment_file_def write_segment_def bt.get_put)

lemma write_segment_twice:
  "bt_wf (sp_segments d) \<Longrightarrow> write_segment n b (write_segment n a d) = write_segment n b d"
  by (simp add: write_segment_def bt.put_put_same)

lemma held_wf: "holds_log sc journal cp d \<Longrightarrow> bt_wf (sp_segments d)"
  by (simp add: holds_log_def segments_hold_def bt_wf_def flip: bt_keys_def)

text \<open>A torn write at the end of the newest segment is cut off by the next replay, which finds what was pending.\<close>

lemma replay_cuts_tail:
  assumes serde: "spool_serde sc" and held: "holds_log sc journal cp d" and top: "top_segment journal cp n"
    and tail: "incomplete t"
  shows "replay sc (write_segment n (segment_file d n @ t) d) = (Ok (pending sc journal cp), write_segment n (segment_file d n) d)"
proof -
  let ?torn = "write_segment n (segment_file d n @ t) d" and ?cut = "write_segment n (segment_file d n) d"
  let ?old = "commands_in journal n"
  define j where "j = bt_insert n ?old journal"
  have "length (segment_file d n) \<le> FRAME_HEADER_SIZE + MAX_FRAME_SIZE" by (rule held_size [OF held])
  then have cut: "holds_log sc j cp ?cut" and same: "pending sc j cp = pending sc journal cp"
    using extend_log [OF held top, of "[]"] by (simp_all add: j_def)
  have wf: "bt_wf journal" and keys: "\<And>k. k \<in> fst ` set journal \<Longrightarrow> k \<le> n"
    using held top by (auto simp: holds_log_def segments_hold_def top_segment_def)
  obtain j0 where j0: "j = j0 @ [(n, ?old)]"
    unfolding j_def by (rule bt_insert_top [OF wf keys, where v = ?old]) auto
  have numbers: "segment_numbers ?torn = map fst j0 @ [n]"
    using cut keys_insert_any [of n "segment_file d n @ t" "sp_segments d" "segment_file d n"]
    by (simp add: holds_log_def segment_numbers_def write_segment_def bt_keys_def files_of_def j0 case_prod_beta comp_def)
  have good: "list_all (segment_good sc cp) j0" "segment_good sc cp (n, ?old)"
    using good_segments [OF cut] by (simp_all add: j0)
  have "segment_file ?torn m = segment_bytes sc cs" if "(m, cs) \<in> set j0" for m cs
  proof -
    have "bt_wf j" using cut by (simp add: holds_log_def segments_hold_def)
    then have "bt_get j m = Some cs" "m \<noteq> n"
      using that in_journal [of j m cs] by (auto simp: j0 bt_wf_def sorted_wrt_append)
    then show ?thesis using held_file [OF cut, of m] by (simp add: segment_file_write commands_in_def)
  qed
  then have first: "replay_segments sc cp (Some n) (map fst j0) ?torn = (Ok (pending sc j0 cp), ?torn)"
    by (rule replay_segments_log [OF serde good(1)])
  let ?b = "segment_bytes sc ?old" and ?start = "if n = pos_segment cp then unat (pos_offset cp) else 0"
  have notless: "\<not> n < pos_segment cp" using top by (simp add: top_segment_def not_less)
  have b: "segment_file d n = ?b" by (rule held_file [OF held])
  have "recover_incomplete_tail n (length ?b) (Some n) ?torn = ?cut"
    using write_segment_twice [OF held_wf [OF held]]
    by (simp add: recover_incomplete_tail_def truncate_file_def segment_file_write b)
  then have "replay_frames sc n (Some n) (?b @ t) ?start ?torn =
      (filter (\<lambda>e. pos_less cp (entry_end e)) (log_entries sc n 0 ?old), ?cut)"
    using replay_one_segment(2) [OF serde good(2) notless, of "Some n" t ?torn] replay_frames_incomplete [OF tail] by simp
  then have "replay_segments sc cp (Some n) [n] ?torn =
      (Ok (filter (\<lambda>e. pos_less cp (entry_end e)) (log_entries sc n 0 ?old)), ?cut)"
    using notless replay_one_segment(1) [OF serde good(2) notless, of t]
    by (simp add: segment_file_write b Let_def bind_st_def return_st_def)
  moreover have "read_checkpoint sc ?torn = Ok cp"
    using held by (simp add: holds_log_def read_checkpoint_def write_segment_def)
  ultimately show ?thesis
    using first same
    by (simp add: replay_def numbers Let_def replay_segments_append bind_st_def return_st_def j0 pending_def
        all_entries_append del: replay_segments.simps)
qed

section \<open>Acknowledgement\<close>

lemma pos_less_trans: "pos_less p q \<Longrightarrow> pos_less q r \<Longrightarrow> pos_less p r"
  by (auto simp: pos_less_def)

lemma pos_less_asym: "pos_less p q \<Longrightarrow> \<not> pos_less q p"
  by (auto simp: pos_less_def)

lemma log_entries_sorted:
  assumes "list_all (encodable sc) cs" and "start + length (segment_bytes sc cs) \<le> FRAME_HEADER_SIZE + MAX_FRAME_SIZE"
  shows "sorted_wrt pos_less (map entry_end (log_entries sc n start cs))"
  using assms
proof (induction cs arbitrary: start)
  case (Cons c cs)
  let ?stop = "start + length (frame_of sc c)"
  have "pos_less \<lparr> pos_segment = n, pos_offset = of_nat ?stop \<rparr> (entry_end e)" if "e \<in> set (log_entries sc n ?stop cs)" for e
  proof -
    have "unat (of_nat ?stop :: u64) = ?stop" using Cons.prems(2) by (intro size_fits) simp
    then show ?thesis
      using log_entries_ends [of sc cs ?stop e n] that Cons.prems
      by (simp add: pos_less_def word_less_nat_alt add.assoc del: of_nat_add)
  qed
  then show ?case using Cons.IH [of ?stop] Cons.prems by (simp add: Let_def add.assoc del: of_nat_add)
qed simp

lemma all_entries_sorted:
  assumes "segments_hold sc journal"
  shows "sorted_wrt pos_less (map entry_end (all_entries sc journal))"
  using assms
proof (induction journal)
  case (Cons x journal)
  obtain n cs where x: "x = (n, cs)" by fastforce
  have segs: "segments_hold sc journal" "list_all (encodable sc) cs" "length (segment_bytes sc cs) \<le> FRAME_HEADER_SIZE + MAX_FRAME_SIZE"
    and above: "\<And>m. m \<in> fst ` set journal \<Longrightarrow> n < m"
    using Cons.prems by (auto simp: segments_hold_def bt_wf_def x)
  have "pos_segment (entry_end e) = n" if "e \<in> set (log_entries sc n 0 cs)" for e
    using log_entries_ends [of sc cs 0 e n] segs that by simp
  moreover have "n < pos_segment (entry_end e)" if e: "e \<in> set (all_entries sc journal)" for e
  proof -
    obtain m ds where m: "(m, ds) \<in> set journal" "e \<in> set (log_entries sc m 0 ds)"
      using e by (auto simp: all_entries_def)
    then have "pos_segment (entry_end e) = m"
      using log_entries_ends [of sc ds 0 e m] segs(1) by (force simp: segments_hold_def)
    moreover have "m \<in> fst ` set journal" using m(1) by force
    ultimately show ?thesis using above by simp
  qed
  ultimately have "pos_less (entry_end a) (entry_end b)"
    if "a \<in> set (log_entries sc n 0 cs)" "b \<in> set (all_entries sc journal)" for a b
    using that by (simp add: pos_less_def)
  moreover have "all_entries sc (x # journal) = log_entries sc n 0 cs @ all_entries sc journal"
    by (simp add: x all_entries_def)
  ultimately show ?case
    using Cons.IH [OF segs(1)] log_entries_sorted [of sc cs 0 n] segs by (auto simp: sorted_wrt_append)
qed (simp add: all_entries_def)

lemma entry_boundary:
  assumes "list_all (encodable sc) cs" and "start + length (segment_bytes sc cs) \<le> FRAME_HEADER_SIZE + MAX_FRAME_SIZE"
    and "e \<in> set (log_entries sc n start cs)"
  shows "\<exists>k. unat (pos_offset (entry_end e)) = start + length (segment_bytes sc (take k cs))"
  using assms
proof (induction cs arbitrary: start)
  case (Cons c cs)
  let ?stop = "start + length (frame_of sc c)"
  show ?case
  proof (cases "e \<in> set (log_entries sc n ?stop cs)")
    case True
    then obtain k where "unat (pos_offset (entry_end e)) = ?stop + length (segment_bytes sc (take k cs))"
      using Cons.IH [of ?stop] Cons.prems by (auto simp: add.assoc)
    then show ?thesis by (intro exI [of _ "Suc k"]) simp
  next
    case False
    then have "entry_end e = \<lparr> pos_segment = n, pos_offset = of_nat ?stop \<rparr>"
      using Cons.prems(3) by (auto simp: Let_def)
    moreover have "unat (of_nat ?stop :: u64) = ?stop" using Cons.prems(2) by (intro size_fits) simp
    ultimately show ?thesis by (intro exI [of _ 1]) (simp del: of_nat_add)
  qed
qed simp

lemma pending_member:
  assumes "segments_hold sc journal" and "e \<in> set (pending sc journal cp)"
  obtains cs where "(pos_segment (entry_end e), cs) \<in> set journal"
    "\<exists>k. unat (pos_offset (entry_end e)) = length (segment_bytes sc (take k cs))"
proof -
  obtain m cs where m: "(m, cs) \<in> set journal" "e \<in> set (log_entries sc m 0 cs)"
    using assms(2) by (auto simp: pending_def all_entries_def)
  then have ok: "list_all (encodable sc) cs" "0 + length (segment_bytes sc cs) \<le> FRAME_HEADER_SIZE + MAX_FRAME_SIZE"
    using assms(1) by (auto simp: segments_hold_def)
  show thesis using that [of cs] m log_entries_ends [OF ok m(2)] entry_boundary [OF ok m(2)] by simp
qed

text \<open>Removing the segments below a position keeps what is pending after it.\<close>

lemma pending_removed:
  assumes "segments_hold sc journal"
  shows "pending sc (filter (\<lambda>(n, _). \<not> n < pos_segment p) journal) p = pending sc journal p"
  using assms
proof (induction journal)
  case (Cons x journal)
  obtain n cs where x: "x = (n, cs)" by fastforce
  have hold: "segments_hold sc journal" and ok: "list_all (encodable sc) cs" "length (segment_bytes sc cs) \<le> FRAME_HEADER_SIZE + MAX_FRAME_SIZE"
    using Cons.prems by (auto simp: segments_hold_def bt_wf_def x)
  have "filter (\<lambda>e. pos_less p (entry_end e)) (log_entries sc n 0 cs) = []" if "n < pos_segment p"
    using that log_entries_ends [OF ok(1), of 0 _ n] ok(2)
    by (intro filter_none) (auto simp: pos_less_def)
  then show ?case using Cons.IH [OF hold] by (auto simp: x pending_def all_entries_def)
qed simp

lemma filter_after:
  assumes "sorted_wrt pos_less (map entry_end (xs @ e # ys))"
  shows "filter (\<lambda>x. pos_less (entry_end e) (entry_end x)) (xs @ e # ys) = ys"
  using assms by (auto simp: sorted_wrt_append dest: pos_less_asym intro!: filter_none filter_all)

lemma sorted_filter: "sorted_wrt R (map f xs) \<Longrightarrow> sorted_wrt R (map f (filter P xs))"
  by (simp add: sorted_wrt_map sorted_wrt_filter)

lemma acknowledge_held:
  assumes serde: "spool_serde sc" and held: "holds_log sc journal cp d" and split: "pending sc journal cp = xs @ e # ys"
  obtains journal' d' where "acknowledge sc (entry_end e) d = (Ok (), d')" "holds_log sc journal' (entry_end e) d'"
    "pending sc journal' (entry_end e) = ys" "newest (entry_end e) d' = newest cp d"
proof -
  let ?p = "entry_end e" and ?keep = "\<lambda>(n, _). \<not> n < pos_segment (entry_end e)"
  define j where "j = filter ?keep journal"
  have hold: "segments_hold sc journal" and files: "sp_segments d = files_of sc journal"
    and cp: "read_checkpoint sc d = Ok cp" using held by (simp_all add: holds_log_def)
  have e: "e \<in> set (pending sc journal cp)" using split by simp
  then have less: "pos_less cp ?p" by (simp add: pending_def)
  obtain b where b: "sc_position_to_vec sc ?p = Some b" "sc_position_from_slice sc b = Some ?p"
    using serde unfolding spool_serde_def by blast
  obtain cs where cs: "(pos_segment ?p, cs) \<in> set journal"
    "\<exists>k. unat (pos_offset ?p) = length (segment_bytes sc (take k cs))"
    by (rule pending_member [OF hold e])
  let ?d = "d\<lparr>sp_checkpoint := Some b, sp_segments := filter ?keep (sp_segments d)\<rparr>"
  have ack: "acknowledge sc ?p d = (Ok (), ?d)"
    using less pos_less_asym [OF less] by (simp add: acknowledge_def cp b(1))
  have wf: "bt_wf journal" using hold by (simp add: segments_hold_def)
  have last: "journal \<noteq> [] \<and> j \<noteq> [] \<and> last j = last journal \<and> pos_segment ?p \<le> fst (last journal)"
  proof -
    obtain j1 y where y: "journal = j1 @ [y]" using cs(1) by (cases journal rule: rev_exhaust) auto
    then have "\<not> fst y < pos_segment ?p"
      using cs(1) wf by (auto simp: bt_wf_def sorted_wrt_append)
    then show ?thesis by (simp add: j_def y case_prod_unfold not_less)
  qed
  have "files_of sc j = filter ?keep (files_of sc journal)"
    by (simp add: j_def files_of_def filter_map comp_def case_prod_unfold)
  moreover have "segments_hold sc j"
    using hold by (auto simp: segments_hold_def bt_wf_def j_def sorted_wrt_map sorted_wrt_filter)
  moreover have "checkpoint_at sc ?p j"
    using cs last wf in_journal [OF wf] bt_wf_distinct [OF wf]
    by (auto simp: checkpoint_at_def j_def bt_wf_def dest: eq_key_imp_eq_value)
  ultimately have "holds_log sc j ?p ?d" by (simp add: holds_log_def files read_checkpoint_def b(2))
  moreover have "pending sc j ?p = ys"
  proof -
    have "sorted_wrt pos_less (map entry_end (pending sc journal cp))"
      unfolding pending_def by (rule sorted_filter [OF all_entries_sorted [OF hold]])
    then have "filter (\<lambda>x. pos_less ?p (entry_end x)) (pending sc journal cp) = ys"
      unfolding split by (rule filter_after)
    moreover have "filter (\<lambda>x. pos_less ?p (entry_end x)) (pending sc journal cp) = pending sc journal ?p"
      using pos_less_trans [OF less] by (auto simp: pending_def intro!: filter_cong)
    ultimately show ?thesis using pending_removed [OF hold, of ?p] by (simp add: j_def)
  qed
  moreover have "newest ?p ?d = newest cp d"
    using last by (simp add: newest_def segment_numbers_def files bt_keys_def files_of_def last_map filter_map comp_def
        case_prod_unfold j_def)
  ultimately show thesis using that [OF ack] by blast
qed

section \<open>The spool as a queue\<close>

text \<open>
  The operations of the writer and of the worker on one spool.  A write may end durably or be undone; a
  write torn in the middle is followed by the replay of the restarted worker; an acknowledgement is
  for an entry that a replay returned, and stands for all entries up to it.
\<close>

datatype spool_op = OpAppend bool CdrWriteCommand | OpTorn nat CdrWriteCommand | OpReplay | OpAcknowledge nat

record spool_run =
  run_spool :: CdrSpool
  run_appended :: "CdrWriteCommand list"
  run_acknowledged :: "CdrWriteCommand list"

fun entry_command :: "ReplayEntry \<Rightarrow> CdrWriteCommand option" where
  "entry_command (WriteEntry _ c) = Some c"
| "entry_command (QuarantinedEntry _ _) = None"

definition spool_step :: "SpoolCodec \<Rightarrow> spool_run \<Rightarrow> spool_op \<Rightarrow> spool_run" where
  "spool_step sc s op =
     (case op of
        OpAppend durable c \<Rightarrow>
          (case spool_append sc (if durable then AppendDurable else AppendUndone) c (run_spool s) of
             (Ok _, d) \<Rightarrow> s\<lparr>run_spool := d, run_appended := run_appended s @ [c]\<rparr>
           | (_, d) \<Rightarrow> s\<lparr>run_spool := d\<rparr>)
      | OpTorn k c \<Rightarrow>
          s\<lparr>run_spool := snd (replay sc (snd (spool_append sc (AppendTorn (min k (length (frame_of sc c) - 1))) c
              (run_spool s))))\<rparr>
      | OpReplay \<Rightarrow> s\<lparr>run_spool := snd (replay sc (run_spool s))\<rparr>
      | OpAcknowledge i \<Rightarrow>
          (case replay sc (run_spool s) of
             (Ok es, d) \<Rightarrow>
               if i < length es
               then s\<lparr>run_spool := snd (acknowledge sc (entry_end (es ! i)) d),
                      run_acknowledged := run_acknowledged s @ List.map_filter entry_command (take (Suc i) es)\<rparr>
               else s\<lparr>run_spool := d\<rparr>
           | (_, d) \<Rightarrow> s\<lparr>run_spool := d\<rparr>))"

definition empty_spool :: CdrSpool where
  "empty_spool = \<lparr> sp_checkpoint = None, sp_segments = [], sp_quarantine = Map.empty \<rparr>"

definition spool_start :: spool_run where
  "spool_start = \<lparr> run_spool = empty_spool, run_appended = [], run_acknowledged = [] \<rparr>"

text \<open>The queue: what was appended is what was acknowledged followed by what is pending.  \<open>m\<close> bounds the segments.\<close>

definition queue_ok :: "SpoolCodec \<Rightarrow> nat \<Rightarrow> spool_run \<Rightarrow> bool" where
  "queue_ok sc m s \<longleftrightarrow>
     (\<exists>journal cp. holds_log sc journal cp (run_spool s) \<and> unat (newest cp (run_spool s)) \<le> m \<and>
        run_appended s = run_acknowledged s @ List.map_filter entry_command (pending sc journal cp))"

lemma append_refused: "\<not> encodable sc c \<Longrightarrow> \<exists>r. spool_append sc io c d = (r, d) \<and> \<not> is_ok r"
  by (cases "encode_frame sc c") (auto simp: encodable_def spool_append_def)

lemma map_filter_append: "List.map_filter f (xs @ ys) = List.map_filter f xs @ List.map_filter f ys"
  by (simp add: List.map_filter_def)

lemma map_filter_one: "List.map_filter f [x] = (case f x of None \<Rightarrow> [] | Some y \<Rightarrow> [y])"
  by (simp add: List.map_filter_def split: option.split)

lemma queue_append:
  assumes "queue_ok sc m s" and "m < 2 ^ 64 - 1"
  shows "queue_ok sc (Suc m) (spool_step sc s (OpAppend durable c))"
proof -
  obtain journal cp where held: "holds_log sc journal cp (run_spool s)" and m: "unat (newest cp (run_spool s)) \<le> m"
    and q: "run_appended s = run_acknowledged s @ List.map_filter entry_command (pending sc journal cp)"
    using assms(1) by (auto simp: queue_ok_def)
  have room: "newest cp (run_spool s) \<noteq> - 1"
    using m assms(2) unat_max_word [where ?'a = 64] by auto
  show ?thesis
  proof (cases "encodable sc c")
    case False
    obtain r where "spool_append sc (if durable then AppendDurable else AppendUndone) c (run_spool s) = (r, run_spool s)" "\<not> is_ok r"
      using append_refused [OF False] by blast
    then show ?thesis
      using held m q by (cases r) (auto simp: spool_step_def queue_ok_def intro!: exI [of _ journal] exI [of _ cp])
  next
    case enc: True
    show ?thesis
    proof (cases durable)
      case True
      obtain journal' p d' where "spool_append sc AppendDurable c (run_spool s) = (Ok p, d')" "holds_log sc journal' cp d'"
        "pending sc journal' cp = pending sc journal cp @ [WriteEntry p c]" "unat (newest cp d') \<le> unat (newest cp (run_spool s)) + 1"
        by (rule append_durable [OF held room enc])
      then show ?thesis
        using m q by (auto simp: True spool_step_def queue_ok_def map_filter_append map_filter_one
            intro!: exI [of _ journal'] exI [of _ cp])
    next
      case False
      obtain journal' where u: "fst (spool_append sc AppendUndone c (run_spool s)) = Err DurableAppendFailed"
        "holds_log sc journal' cp (snd (spool_append sc AppendUndone c (run_spool s)))"
        "pending sc journal' cp = pending sc journal cp"
        "unat (newest cp (snd (spool_append sc AppendUndone c (run_spool s)))) \<le> unat (newest cp (run_spool s)) + 1"
        by (rule append_undone [OF held room enc])
      then show ?thesis
        using m q by (cases "spool_append sc AppendUndone c (run_spool s)")
          (auto simp: False spool_step_def queue_ok_def intro!: exI [of _ journal'] exI [of _ cp])
    qed
  qed
qed

lemma queue_torn:
  assumes serde: "spool_serde sc" and "queue_ok sc m s" and "m < 2 ^ 64 - 1"
  shows "queue_ok sc (Suc m) (spool_step sc s (OpTorn k c))"
proof -
  obtain journal cp where held: "holds_log sc journal cp (run_spool s)" and m: "unat (newest cp (run_spool s)) \<le> m"
    and q: "run_appended s = run_acknowledged s @ List.map_filter entry_command (pending sc journal cp)"
    using assms(2) by (auto simp: queue_ok_def)
  have room: "newest cp (run_spool s) \<noteq> - 1"
    using m assms(3) unat_max_word [where ?'a = 64] by auto
  show ?thesis
  proof (cases "encodable sc c")
    case False
    then show ?thesis
      using append_refused [OF False, of "AppendTorn (min k (length (frame_of sc c) - 1))" "run_spool s"]
        replay_pending [OF serde held] held m q
      by (auto simp: spool_step_def queue_ok_def intro!: exI [of _ journal] exI [of _ cp])
  next
    case enc: True
    let ?k = "min k (length (frame_of sc c) - 1)" and ?d = "run_spool s"
    obtain n where top: "top_segment journal cp n" "unat n \<le> unat (newest cp ?d) + 1"
      and eq: "snd (spool_append sc (AppendTorn ?k) c ?d) = write_segment n (segment_file ?d n @ take ?k (frame_of sc c)) ?d"
      by (rule spool_append_held [OF held room enc, of "AppendTorn ?k"]) simp
    have ext: "holds_log sc (bt_insert n (commands_in journal n) journal) cp (write_segment n (segment_file ?d n) ?d)"
      "pending sc (bt_insert n (commands_in journal n) journal) cp = pending sc journal cp"
      using extend_log [OF held top(1), of "[]"] held_size [OF held] by simp_all
    have "snd (replay sc (snd (spool_append sc (AppendTorn ?k) c ?d))) = write_segment n (segment_file ?d n) ?d"
    proof (cases "?k = 0")
      case True
      then show ?thesis using replay_pending [OF serde ext(1)] eq unfolding True by simp
    next
      case False
      have "?k < length (frame_of sc c)" using frame_length [OF enc] by linarith
      then have "incomplete (take ?k (frame_of sc c))" using False by (intro torn_incomplete [OF enc]) simp_all
      from replay_cuts_tail [OF serde held top(1) this] show ?thesis unfolding eq by simp
    qed
    then show ?thesis
      using ext m q top(2) newest_insert [OF held top(1)]
      by (auto simp: spool_step_def queue_ok_def
          intro!: exI [of _ "bt_insert n (commands_in journal n) journal"] exI [of _ cp])
  qed
qed

lemma queue_acknowledge:
  assumes serde: "spool_serde sc" and "queue_ok sc m s"
  shows "queue_ok sc m (spool_step sc s (OpAcknowledge i))"
proof -
  obtain journal cp where held: "holds_log sc journal cp (run_spool s)" and m: "unat (newest cp (run_spool s)) \<le> m"
    and q: "run_appended s = run_acknowledged s @ List.map_filter entry_command (pending sc journal cp)"
    using assms(2) by (auto simp: queue_ok_def)
  let ?es = "pending sc journal cp"
  have r: "replay sc (run_spool s) = (Ok ?es, run_spool s)" by (rule replay_pending [OF serde held])
  show ?thesis
  proof (cases "i < length ?es")
    case True
    then have split: "?es = take i ?es @ ?es ! i # drop (Suc i) ?es" by (rule id_take_nth_drop)
    obtain journal' d' where "acknowledge sc (entry_end (?es ! i)) (run_spool s) = (Ok (), d')"
      "holds_log sc journal' (entry_end (?es ! i)) d'" "pending sc journal' (entry_end (?es ! i)) = drop (Suc i) ?es"
      "newest (entry_end (?es ! i)) d' = newest cp (run_spool s)"
      by (rule acknowledge_held [OF serde held split])
    moreover have "List.map_filter entry_command ?es =
        List.map_filter entry_command (take (Suc i) ?es) @ List.map_filter entry_command (drop (Suc i) ?es)"
      by (metis append_take_drop_id map_filter_append)
    ultimately show ?thesis
      using m q True
      by (auto simp: spool_step_def r queue_ok_def intro!: exI [of _ journal'] exI [of _ "entry_end (?es ! i)"])
  next
    case False
    then show ?thesis using held m q by (auto simp: spool_step_def r queue_ok_def intro!: exI [of _ journal] exI [of _ cp])
  qed
qed

lemma queue_replay:
  assumes "spool_serde sc" and "queue_ok sc m s"
  shows "queue_ok sc m (spool_step sc s OpReplay)"
proof -
  obtain journal cp where "holds_log sc journal cp (run_spool s)" using assms(2) by (auto simp: queue_ok_def)
  from replay_pending [OF assms(1) this] assms(2) show ?thesis by (simp add: spool_step_def)
qed

lemma queue_step:
  assumes "spool_serde sc" and "queue_ok sc m s" and "m < 2 ^ 64 - 1"
  shows "queue_ok sc (Suc m) (spool_step sc s op)"
proof -
  have weaken: "queue_ok sc m t \<Longrightarrow> queue_ok sc (Suc m) t" for t by (force simp: queue_ok_def intro: le_SucI)
  show ?thesis
    using assms queue_append queue_torn queue_acknowledge queue_replay weaken by (cases op) blast+
qed

lemma queue_run:
  assumes "spool_serde sc" and "length ops < 2 ^ 64"
  shows "queue_ok sc (length ops) (foldl (spool_step sc) spool_start ops)"
  using assms(2)
proof (induction ops rule: rev_induct)
  case Nil
  have "holds_log sc [] \<lparr> pos_segment = 0, pos_offset = 0 \<rparr> empty_spool"
    by (simp add: holds_log_def segments_hold_def empty_spool_def files_of_def read_checkpoint_def checkpoint_at_def)
  then show ?case
    by (auto simp: queue_ok_def spool_start_def pending_def all_entries_def newest_def segment_numbers_def bt_keys_def
        empty_spool_def List.map_filter_def intro!: exI [of _ "[]"] exI [of _ "\<lparr> pos_segment = 0, pos_offset = 0 \<rparr>"])
next
  case (snoc op ops)
  then show ?case using queue_step [OF assms(1), of "length ops"] by simp
qed

lemma pending_writes: "list_all (\<lambda>e. entry_command e \<noteq> None) (pending sc journal cp)"
proof -
  have "list_all (\<lambda>e. entry_command e \<noteq> None) (log_entries sc n start cs)" for n start cs
    by (induction cs arbitrary: start) (simp_all add: Let_def)
  then show ?thesis by (auto simp: pending_def all_entries_def list_all_iff)
qed



section \<open>An append onto a torn tail\<close>

lemma empty_target: "append_target \<lparr> pos_segment = 0, pos_offset = 0 \<rparr> len empty_spool = (1, 0)"
proof -
  have "saturating_add 0 1 = (1 :: u64)" by (simp add: word_unat_eq_iff unat_saturating_add)
  then show ?thesis
    by (simp add: append_target_def empty_spool_def segment_numbers_def bt_keys_def segment_file_def)
qed

lemma torn_empty:
  assumes "encodable sc c"
  shows "snd (spool_append sc (AppendTorn k) c empty_spool) = write_segment 1 (take k (frame_of sc c)) empty_spool"
proof -
  have "encode_frame sc c = Ok (frame_of sc c)" using frame_shape [OF assms] by blast
  moreover have "read_checkpoint sc empty_spool = Ok \<lparr> pos_segment = 0, pos_offset = 0 \<rparr>"
    by (simp add: read_checkpoint_def empty_spool_def)
  moreover have "segment_file empty_spool 1 = []" by (simp add: segment_file_def empty_spool_def)
  ultimately show ?thesis by (simp add: spool_append_def empty_target)
qed

lemma swallowed_incomplete:
  assumes "encodable sc c" and "8 \<le> k" and "k + length t < length (frame_of sc c)"
  shows "incomplete (take k (frame_of sc c) @ t)"
proof -
  obtain p where p: "length p \<le> MAX_FRAME_SIZE" "frame_of sc c = to_le32 (of_nat (length p)) @ to_le32 (sc_crc32 sc p) @ p"
    using assms(1) by (rule frame_shape)
  have "take k (frame_of sc c) @ t = to_le32 (of_nat (length p)) @ to_le32 (sc_crc32 sc p) @ take (k - 8) p @ t"
    using assms(2) by (simp add: p(2))
  then have "from_le32 (take k (frame_of sc c) @ t) 0 = of_nat (length p)" using from_le32_at [of "[]"] by simp
  then show ?thesis using assms p by (simp add: incomplete_def FRAME_HEADER_SIZE_def payload_len_word)
qed


section \<open>Concrete records\<close>

definition demo_record :: "string \<Rightarrow> CdrWriteCommand" where
  "demo_record i =
     \<lparr> cw_call_cdr = \<lparr> cdr_call_id = i, cdr_domain_id = ''d'', cdr_caller_number = ''1001'', cdr_callee_number = ''1002'',
         cdr_inbound_route_id = None, cdr_inbound_route_name = None, cdr_inbound_trunk_ref = None,
         cdr_inbound_trunk_name = None, cdr_outbound_route_id = None, cdr_outbound_route_name = None,
         cdr_outbound_trunk_ref = None, cdr_outbound_trunk_name = None, cdr_started_at_ms = 1, cdr_answered_at_ms = None,
         cdr_ended_at_ms = 2, cdr_duration_ms = 1, cdr_billable_ms = 0, cdr_answered = False, cdr_final_status = Some 480,
         cdr_hangup_cause = ''unavailable'', cdr_media_forwarding_mode = None, cdr_media_stats = media_stats_default,
         cdr_trace_available = False, cdr_trace_incomplete = False, cdr_incomplete = False, cdr_incomplete_reason = None,
         cdr_recording_status = None, cdr_recording_available = False \<rparr>,
       cw_leg_cdrs = [], cw_recording = None, cw_trace_call_id = i, cw_trace_domain_id = ''d'', cw_trace_ended_at_ms = 2 \<rparr>"

text \<open>A codec for two records, a short and a long one.\<close>

definition demo_frame :: "string \<Rightarrow> SpoolFrame" where
  "demo_frame i = \<lparr> sf_schema_version = 1, sf_command = demo_record i \<rparr>"

definition demo_codec :: SpoolCodec where
  "demo_codec =
     \<lparr> sc_to_vec = (\<lambda>f. if f = demo_frame ''a'' then Some [1] else if f = demo_frame ''b'' then Some (replicate 20 2) else None),
       sc_from_slice = (\<lambda>b. if b = [1] then Inr (demo_frame ''a'') else if b = replicate 20 2 then Inr (demo_frame ''b'')
         else Inl ''expected value''),
       sc_crc32 = (\<lambda>b. of_nat (length b)),
       sc_position_to_vec = (\<lambda>p. Some (replicate (unat (pos_segment p)) 0 @ 1 # replicate (unat (pos_offset p)) 0)),
       sc_position_from_slice = (\<lambda>b. let k = length (takeWhile ((=) 0) b) in
         Some \<lparr> pos_segment = of_nat k, pos_offset = of_nat (length b - k - 1) \<rparr>) \<rparr>"

lemma demo_frames_differ: "demo_frame ''a'' \<noteq> demo_frame ''b''"
  by (simp add: demo_frame_def demo_record_def)

lemma demo_serde: "spool_serde demo_codec"
proof -
  have "sc_position_from_slice demo_codec (replicate (unat (pos_segment p)) 0 @ 1 # replicate (unat (pos_offset p)) 0) = Some p" for p
  proof -
    have "takeWhile ((=) 0) (replicate i 0 @ 1 # xs) = replicate i (0 :: u8)" for i xs by (induction i) simp_all
    then show ?thesis by (simp add: demo_codec_def Let_def)
  qed
  moreover have "replicate 20 (2 :: u8) \<noteq> [1]" by (auto dest: arg_cong [of _ _ length])
  ultimately show ?thesis
    using demo_frames_differ by (auto simp: spool_serde_def) (auto simp: demo_codec_def split: if_splits)
qed

lemma demo_encoded:
  "encodable demo_codec (demo_record ''a'')" "encodable demo_codec (demo_record ''b'')"
  "length (frame_of demo_codec (demo_record ''a'')) = 9" "length (frame_of demo_codec (demo_record ''b'')) = 28"
proof -
  have "sc_to_vec demo_codec \<lparr> sf_schema_version = SPOOL_SCHEMA_VERSION, sf_command = demo_record ''a'' \<rparr> = Some [1]"
    "sc_to_vec demo_codec \<lparr> sf_schema_version = SPOOL_SCHEMA_VERSION, sf_command = demo_record ''b'' \<rparr> = Some (replicate 20 2)"
    using demo_frames_differ by (auto simp: demo_codec_def demo_frame_def SPOOL_SCHEMA_VERSION_def)
  then show "encodable demo_codec (demo_record ''a'')" "encodable demo_codec (demo_record ''b'')"
    "length (frame_of demo_codec (demo_record ''a'')) = 9" "length (frame_of demo_codec (demo_record ''b'')) = 28"
    by (simp_all add: encodable_def frame_of_def encode_frame_def MAX_FRAME_SIZE_def)
qed




end
