(* ===== verification/Cdr_Writer.thy ===== *)
theory Cdr_Writer
  imports Spool_Properties Pbx_Config Hash_Map
begin

text \<open>
  The writer of call detail records (\<open>crates/voipswitchd/src/runtime/call/cdr_writer.rs\<close>): the admission of new
  calls by the backlog of a domain's spool, the queue of records to append, and the worker of a domain
  that persists what the spool holds.

  The spool of a domain is protected by a lock; a step below is what happens under it.  Steps of the
  writer and of the workers may be interleaved in any order.  Whether an append is durable and whether
  the database takes a batch are arguments of the steps.  The permits that bound the queue, the wake-up
  channel of a worker and the pauses between retries only delay steps.
\<close>

section \<open>Admission by backlog\<close>

definition MIB :: u64 where
  "MIB = 1024 * 1024"

record DomainSpoolStatus =
  dss_backlog_bytes :: u64
  dss_rejecting_new_calls :: bool
  dss_warning_active :: bool
  dss_append_failed :: bool

definition status_default :: DomainSpoolStatus where
  "status_default =
     \<lparr> dss_backlog_bytes = 0, dss_rejecting_new_calls = False, dss_warning_active = False, dss_append_failed = False \<rparr>"

record SpoolAdmission =
  sa_domains :: "(string, DomainSpoolStatus) HashMap"
  sa_limits :: CdrSpoolLimits

definition admission_new :: "CdrSpoolLimits \<Rightarrow> SpoolAdmission" where
  "admission_new limits = \<lparr> sa_domains = [], sa_limits = limits \<rparr>"

definition status_of :: "string \<Rightarrow> SpoolAdmission \<Rightarrow> DomainSpoolStatus" where
  "status_of i a = (case hm_get (sa_domains a) i of None \<Rightarrow> status_default | Some s \<Rightarrow> s)"

definition update_warning :: "u64 \<Rightarrow> u64 \<Rightarrow> DomainSpoolStatus \<Rightarrow> DomainSpoolStatus" where
  "update_warning warning_bytes backlog s =
     (if \<not> dss_warning_active s \<and> backlog \<ge> warning_bytes then s\<lparr>dss_warning_active := True\<rparr>
      else if dss_warning_active s \<and> backlog < warning_bytes then s\<lparr>dss_warning_active := False\<rparr>
      else s)"

definition update_rejecting :: "u64 \<Rightarrow> u64 \<Rightarrow> u64 \<Rightarrow> DomainSpoolStatus \<Rightarrow> DomainSpoolStatus" where
  "update_rejecting reject_bytes resume_bytes backlog s =
     (if \<not> dss_rejecting_new_calls s \<and> backlog \<ge> reject_bytes then s\<lparr>dss_rejecting_new_calls := True\<rparr>
      else if dss_rejecting_new_calls s \<and> backlog < resume_bytes then s\<lparr>dss_rejecting_new_calls := False\<rparr>
      else s)"

definition admission_update :: "string \<Rightarrow> u64 \<Rightarrow> SpoolAdmission \<Rightarrow> SpoolAdmission" where
  "admission_update i backlog a =
     (let limits = sa_limits a;
          warning_bytes = saturating_mul (csl_warning_mb limits) MIB;
          reject_bytes = saturating_mul (csl_reject_mb limits) MIB;
          resume_bytes = saturating_mul (csl_resume_mb limits) MIB;
          s = (status_of i a)\<lparr>dss_backlog_bytes := backlog\<rparr>
      in a\<lparr>sa_domains := hm_insert i
             (update_rejecting reject_bytes resume_bytes backlog (update_warning warning_bytes backlog s)) (sa_domains a)\<rparr>)"

definition admits_new_call :: "SpoolAdmission \<Rightarrow> string \<Rightarrow> bool" where
  "admits_new_call a i =
     (case hm_get (sa_domains a) i of
        None \<Rightarrow> True
      | Some s \<Rightarrow> \<not> dss_rejecting_new_calls s \<and> \<not> dss_append_failed s)"

definition append_failure :: "string \<Rightarrow> bool \<Rightarrow> SpoolAdmission \<Rightarrow> SpoolAdmission" where
  "append_failure i failed a = a\<lparr>sa_domains := hm_insert i ((status_of i a)\<lparr>dss_append_failed := failed\<rparr>) (sa_domains a)\<rparr>"

text \<open>New limits are applied to the backlogs known so far, in the order of the hash map.\<close>

definition set_limits ::
    "(string, DomainSpoolStatus) hash_order \<Rightarrow> CdrSpoolLimits \<Rightarrow> SpoolAdmission \<Rightarrow> SpoolAdmission" where
  "set_limits order limits a =
     foldl (\<lambda>x (i, backlog). admission_update i backlog x) (a\<lparr>sa_limits := limits\<rparr>)
       (map (\<lambda>(i, s). (i, dss_backlog_bytes s)) (order (sa_domains a)))"

section \<open>The writer\<close>

record PendingAppend =
  pa_command :: CdrWriteCommand
  pa_reply :: nat

text \<open>What a worker has replayed and not yet checkpointed; the flag says that the first entry has been persisted.\<close>

record worker =
  wk_entries :: "ReplayEntry list"
  wk_persisted :: bool

record CdrWriterSystem =
  sys_spools :: "string \<Rightarrow> CdrSpool"
  sys_admission :: SpoolAdmission
  sys_pending :: "(string, PendingAppend list) HashMap"
  sys_replies :: "(nat \<times> CdrWriteCommand) list"
  sys_workers :: "string \<Rightarrow> worker"
  sys_database :: "CdrWriteCommand list"

definition domain_of :: "CdrWriteCommand \<Rightarrow> string" where
  "domain_of c = cdr_domain_id (cw_call_cdr c)"

definition put_spool :: "string \<Rightarrow> CdrSpool \<Rightarrow> CdrWriterSystem \<Rightarrow> CdrWriterSystem" where
  "put_spool i d y = y\<lparr>sys_spools := (sys_spools y)(i := d)\<rparr>"

definition append_and_wake :: "SpoolCodec \<Rightarrow> append_io \<Rightarrow> CdrWriteCommand \<Rightarrow> (CdrWriterSystem, unit, spool_error) stateful" where
  "append_and_wake sc io command y =
     (let i = domain_of command in
      case spool_append sc io command (sys_spools y i) of
        (Ok _, d) \<Rightarrow>
          (let y1 = put_spool i d y in
           case backlog_bytes sc d of
             Ok backlog \<Rightarrow> (Ok (), y1\<lparr>sys_admission := admission_update i backlog (sys_admission y1)\<rparr>)
           | Err e \<Rightarrow> (Err e, y1)
           | Panic \<Rightarrow> (Panic, y1))
      | (Err e, d) \<Rightarrow> (Err e, put_spool i d y)
      | (Panic, d) \<Rightarrow> (Panic, put_spool i d y))"

text \<open>A message for the writer: the record joins the queue of its domain.\<close>

definition enqueue :: "nat \<Rightarrow> CdrWriteCommand \<Rightarrow> CdrWriterSystem \<Rightarrow> CdrWriterSystem" where
  "enqueue reply command y =
     (let i = domain_of command;
          queue = (case hm_get (sys_pending y) i of None \<Rightarrow> [] | Some q \<Rightarrow> q)
      in y\<lparr>sys_pending := hm_insert i (queue @ [\<lparr> pa_command = command, pa_reply = reply \<rparr>]) (sys_pending y)\<rparr>)"

text \<open>One iteration of the loop of \<open>flush_pending_domain\<close>: the first record of the queue is appended, and the
  sender is told; the value says whether the loop goes on.\<close>

definition flush_front :: "SpoolCodec \<Rightarrow> string \<Rightarrow> append_io \<Rightarrow> CdrWriterSystem \<Rightarrow> bool \<times> CdrWriterSystem" where
  "flush_front sc i io y =
     (case hm_get (sys_pending y) i of
        None \<Rightarrow> (False, y)
      | Some [] \<Rightarrow> (False, y\<lparr>sys_pending := hm_remove i (sys_pending y)\<rparr>)
      | Some (item # queue) \<Rightarrow>
          (case append_and_wake sc io (pa_command item) y of
             (Ok _, y1) \<Rightarrow>
               (True, y1\<lparr>sys_admission := append_failure i False (sys_admission y1),
                         sys_pending := hm_insert i queue (sys_pending y1),
                         sys_replies := sys_replies y1 @ [(pa_reply item, pa_command item)]\<rparr>)
           | (_, y1) \<Rightarrow> (False, y1\<lparr>sys_admission := append_failure i True (sys_admission y1)\<rparr>)))"

text \<open>The loop; each iteration that goes on shortens the queue, so as many as the queue is long and one more are
  enough.\<close>

fun flush_iterate :: "SpoolCodec \<Rightarrow> string \<Rightarrow> (nat \<Rightarrow> append_io) \<Rightarrow> nat \<Rightarrow> CdrWriterSystem \<Rightarrow> CdrWriterSystem" where
  "flush_iterate sc i io 0 y = y"
| "flush_iterate sc i io (Suc k) y =
     (case flush_front sc i (io 0) y of
        (True, y1) \<Rightarrow> flush_iterate sc i (\<lambda>j. io (Suc j)) k y1
      | (False, y1) \<Rightarrow> y1)"

definition flush_pending_domain :: "SpoolCodec \<Rightarrow> string \<Rightarrow> (nat \<Rightarrow> append_io) \<Rightarrow> CdrWriterSystem \<Rightarrow> CdrWriterSystem" where
  "flush_pending_domain sc i io y =
     (case hm_get (sys_pending y) i of
        None \<Rightarrow> y
      | Some queue \<Rightarrow> flush_iterate sc i io (Suc (length queue)) y)"

section \<open>The worker of a domain\<close>

definition MAX_RETRY_ATTEMPTS :: nat where
  "MAX_RETRY_ATTEMPTS = 5"

definition BASE_RETRY_DELAY_MS :: u64 where
  "BASE_RETRY_DELAY_MS = 200"

definition MAX_RETRY_DELAY_MS :: u64 where
  "MAX_RETRY_DELAY_MS = 10000"

definition retry_delay_ms :: "nat \<Rightarrow> u64" where
  "retry_delay_ms attempt = min (saturating_mul BASE_RETRY_DELAY_MS (push_bit (min attempt 6) 1)) MAX_RETRY_DELAY_MS"

text \<open>The answers of the database to the attempts; a task that fails is not retried.\<close>

datatype persist_result = Persisted | PersistFailed string | PersistTaskFailed string

text \<open>The result, and the pauses before each further attempt.\<close>

function persist_loop :: "(nat \<Rightarrow> persist_result) \<Rightarrow> nat \<Rightarrow> (unit, string) outcome \<times> u64 list" where
  "persist_loop r attempt =
     (case r attempt of
        Persisted \<Rightarrow> (Ok (), [])
      | PersistTaskFailed e \<Rightarrow> (Err e, [])
      | PersistFailed e \<Rightarrow>
          if attempt + 1 \<ge> MAX_RETRY_ATTEMPTS then (Err e, [])
          else (let (result, pauses) = persist_loop r (attempt + 1) in (result, retry_delay_ms (attempt + 1) # pauses)))"
  by pat_completeness auto

termination
  by (relation "measure (\<lambda>(r, attempt). MAX_RETRY_ATTEMPTS - attempt)") auto

declare persist_loop.simps [simp del]

definition persist_with_retry :: "(nat \<Rightarrow> persist_result) \<Rightarrow> (unit, string) outcome \<times> u64 list" where
  "persist_with_retry r = persist_loop r 0"

definition put_worker :: "string \<Rightarrow> worker \<Rightarrow> CdrWriterSystem \<Rightarrow> CdrWriterSystem" where
  "put_worker i w y = y\<lparr>sys_workers := (sys_workers y)(i := w)\<rparr>"

definition idle_worker :: worker where
  "idle_worker = \<lparr> wk_entries = [], wk_persisted = False \<rparr>"

definition load_replay_entries :: "SpoolCodec \<Rightarrow> string \<Rightarrow> CdrWriterSystem \<Rightarrow> CdrWriterSystem" where
  "load_replay_entries sc i y =
     (case replay sc (sys_spools y i) of
        (Ok es, d) \<Rightarrow> put_worker i \<lparr> wk_entries = es, wk_persisted = False \<rparr> (put_spool i d y)
      | (_, d) \<Rightarrow> put_spool i d y)"

definition refresh_backlog :: "SpoolCodec \<Rightarrow> string \<Rightarrow> CdrWriterSystem \<Rightarrow> CdrWriterSystem" where
  "refresh_backlog sc i y =
     (case backlog_bytes sc (sys_spools y i) of
        Ok backlog \<Rightarrow> y\<lparr>sys_admission := admission_update i backlog (sys_admission y)\<rparr>
      | _ \<Rightarrow> y)"

text \<open>The first entry is persisted; when that fails the worker starts over with a new replay.\<close>

definition worker_persist :: "string \<Rightarrow> (nat \<Rightarrow> persist_result) \<Rightarrow> CdrWriterSystem \<Rightarrow> CdrWriterSystem" where
  "worker_persist i r y =
     (case wk_entries (sys_workers y i) of
        WriteEntry e command # rest \<Rightarrow>
          if wk_persisted (sys_workers y i) then y
          else
            (case fst (persist_with_retry r) of
               Ok _ \<Rightarrow> put_worker i ((sys_workers y i)\<lparr>wk_persisted := True\<rparr>) (y\<lparr>sys_database := sys_database y @ [command]\<rparr>)
             | _ \<Rightarrow> put_worker i idle_worker y)
      | _ \<Rightarrow> y)"

definition worker_acknowledge :: "SpoolCodec \<Rightarrow> string \<Rightarrow> CdrWriterSystem \<Rightarrow> CdrWriterSystem" where
  "worker_acknowledge sc i y =
     (case wk_entries (sys_workers y i) of
        [] \<Rightarrow> y
      | entry # rest \<Rightarrow>
          if (case entry of WriteEntry _ _ \<Rightarrow> \<not> wk_persisted (sys_workers y i) | _ \<Rightarrow> False) then y
          else
            (case acknowledge sc (entry_end entry) (sys_spools y i) of
               (Ok _, d) \<Rightarrow> refresh_backlog sc i (put_worker i \<lparr> wk_entries = rest, wk_persisted = False \<rparr> (put_spool i d y))
             | (_, d) \<Rightarrow> put_worker i idle_worker (put_spool i d y)))"

section \<open>All of it\<close>

text \<open>
  The inputs of the writer and of its workers.  \<open>Restart\<close> is the end of the process and a new start: what was only
  in memory is gone.
\<close>

datatype writer_event =
    EnqueueDurable nat CdrWriteCommand
  | FlushFront string append_io
  | LoadReplay string
  | PersistFirst string "nat \<Rightarrow> persist_result"
  | AcknowledgeFirst string
  | RefreshLimits "(string, DomainSpoolStatus) hash_order" CdrSpoolLimits
  | Restart CdrSpoolLimits

definition writer_step :: "SpoolCodec \<Rightarrow> CdrWriterSystem \<Rightarrow> writer_event \<Rightarrow> CdrWriterSystem" where
  "writer_step sc y e =
     (case e of
        EnqueueDurable reply command \<Rightarrow> enqueue reply command y
      | FlushFront i io \<Rightarrow> snd (flush_front sc i io y)
      | LoadReplay i \<Rightarrow> if wk_entries (sys_workers y i) = [] then load_replay_entries sc i y else y
      | PersistFirst i r \<Rightarrow> worker_persist i r y
      | AcknowledgeFirst i \<Rightarrow> worker_acknowledge sc i y
      | RefreshLimits order limits \<Rightarrow> y\<lparr>sys_admission := set_limits order limits (sys_admission y)\<rparr>
      | Restart limits \<Rightarrow>
          y\<lparr>sys_admission := admission_new limits, sys_pending := [], sys_workers := (\<lambda>_. idle_worker)\<rparr>)"

definition writer_start :: "CdrSpoolLimits \<Rightarrow> CdrWriterSystem" where
  "writer_start limits =
     \<lparr> sys_spools = (\<lambda>_. empty_spool), sys_admission = admission_new limits, sys_pending = [], sys_replies = [],
       sys_workers = (\<lambda>_. idle_worker), sys_database = [] \<rparr>"

end
