(* ===== verification/Writer_Properties.thy ===== *)
theory Writer_Properties
  imports Cdr_Writer
begin

text \<open>
  A record whose sender was told it is durable is in the database or in the spool, whatever happens; and
  the backlog of a domain decides its admission with hysteresis.
\<close>

section \<open>Durable records\<close>

text \<open>What holds of the spool and the worker of a domain; \<open>m\<close> bounds the number of segments.\<close>

definition domain_ok :: "SpoolCodec \<Rightarrow> nat \<Rightarrow> CdrWriterSystem \<Rightarrow> string \<Rightarrow> bool" where
  "domain_ok sc m y i \<longleftrightarrow>
     (\<exists>journal cp rest. holds_log sc journal cp (sys_spools y i) \<and> unat (newest cp (sys_spools y i)) \<le> m \<and>
        pending sc journal cp = wk_entries (sys_workers y i) @ rest \<and>
        (wk_persisted (sys_workers y i) \<longrightarrow>
           (\<exists>e c es. wk_entries (sys_workers y i) = WriteEntry e c # es \<and> c \<in> set (sys_database y))) \<and>
        (\<forall>r c. (r, c) \<in> set (sys_replies y) \<longrightarrow> domain_of c = i \<longrightarrow>
           c \<in> set (sys_database y) \<or> c \<in> set (List.map_filter entry_command (pending sc journal cp))))"

lemma domain_okE:
  assumes "domain_ok sc m y i"
  obtains journal cp rest where "holds_log sc journal cp (sys_spools y i)" "unat (newest cp (sys_spools y i)) \<le> m"
    "pending sc journal cp = wk_entries (sys_workers y i) @ rest"
    "wk_persisted (sys_workers y i) \<Longrightarrow>
       \<exists>e c es. wk_entries (sys_workers y i) = WriteEntry e c # es \<and> c \<in> set (sys_database y)"
    "\<And>r c. (r, c) \<in> set (sys_replies y) \<Longrightarrow> domain_of c = i \<Longrightarrow>
       c \<in> set (sys_database y) \<or> c \<in> set (List.map_filter entry_command (pending sc journal cp))"
  using assms unfolding domain_ok_def by blast

lemma domain_okI:
  assumes "holds_log sc journal cp (sys_spools y i)" "unat (newest cp (sys_spools y i)) \<le> m"
    "pending sc journal cp = wk_entries (sys_workers y i) @ rest"
    "wk_persisted (sys_workers y i) \<Longrightarrow>
       \<exists>e c es. wk_entries (sys_workers y i) = WriteEntry e c # es \<and> c \<in> set (sys_database y)"
    "\<And>r c. (r, c) \<in> set (sys_replies y) \<Longrightarrow> domain_of c = i \<Longrightarrow>
       c \<in> set (sys_database y) \<or> c \<in> set (List.map_filter entry_command (pending sc journal cp))"
  shows "domain_ok sc m y i"
  using assms unfolding domain_ok_def by blast

text \<open>A step that leaves a domain alone keeps what holds of it.\<close>

lemma domain_ok_frame:
  assumes "domain_ok sc m y i" and "sys_spools y' i = sys_spools y i" and "sys_workers y' i = sys_workers y i"
    and "set (sys_database y) \<subseteq> set (sys_database y')" and "m \<le> m'"
    and "\<And>r c. (r, c) \<in> set (sys_replies y') \<Longrightarrow> domain_of c = i \<Longrightarrow> (r, c) \<in> set (sys_replies y)"
  shows "domain_ok sc m' y' i"
proof -
  obtain journal cp rest where h: "holds_log sc journal cp (sys_spools y i)" "unat (newest cp (sys_spools y i)) \<le> m"
    "pending sc journal cp = wk_entries (sys_workers y i) @ rest"
    and p: "wk_persisted (sys_workers y i) \<Longrightarrow>
       \<exists>e c es. wk_entries (sys_workers y i) = WriteEntry e c # es \<and> c \<in> set (sys_database y)"
    and r: "\<And>r c. (r, c) \<in> set (sys_replies y) \<Longrightarrow> domain_of c = i \<Longrightarrow>
       c \<in> set (sys_database y) \<or> c \<in> set (List.map_filter entry_command (pending sc journal cp))"
    by (rule domain_okE [OF assms(1)]) blast
  show ?thesis
  proof (rule domain_okI [of sc journal cp _ _ _ rest])
    show "\<exists>e c es. wk_entries (sys_workers y' i) = WriteEntry e c # es \<and> c \<in> set (sys_database y')"
      if "wk_persisted (sys_workers y' i)" using p that assms(3,4) by auto
    show "c \<in> set (sys_database y') \<or> c \<in> set (List.map_filter entry_command (pending sc journal cp))"
      if "(r, c) \<in> set (sys_replies y')" "domain_of c = i" for r c using r [OF assms(6) [OF that] that(2)] assms(4) by blast
  qed (use h assms(2,3,5) in simp_all)
qed

lemma domain_ok_mono: "domain_ok sc m y i \<Longrightarrow> m \<le> m' \<Longrightarrow> domain_ok sc m' y i"
  by (rule domain_ok_frame) auto

text \<open>A domain whose worker does nothing is kept by any change of the worker to idle.\<close>

lemma domain_ok_idle:
  assumes "domain_ok sc m y i"
  shows "domain_ok sc m (put_worker i idle_worker y) i"
proof -
  obtain journal cp where h: "holds_log sc journal cp (sys_spools y i)" "unat (newest cp (sys_spools y i)) \<le> m"
    and r: "\<And>r c. (r, c) \<in> set (sys_replies y) \<Longrightarrow> domain_of c = i \<Longrightarrow>
       c \<in> set (sys_database y) \<or> c \<in> set (List.map_filter entry_command (pending sc journal cp))"
    by (rule domain_okE [OF assms]) blast
  show ?thesis
    by (rule domain_okI [of sc journal cp _ _ _ "pending sc journal cp"])
      (use h r in \<open>auto simp: put_worker_def idle_worker_def\<close>)
qed

lemma backlog_held: "holds_log sc journal cp d \<Longrightarrow> \<exists>b. backlog_bytes sc d = Ok b"
  by (simp add: holds_log_def backlog_bytes_def)

text \<open>An append to the spool of the record's domain, with what it adds to the pending entries.\<close>

lemma append_and_wake_held:
  assumes held: "holds_log sc journal cp (sys_spools y (domain_of c))" and "unat (newest cp (sys_spools y (domain_of c))) \<le> m"
    and "m < 2 ^ 64 - 1" and "io = AppendDurable \<or> io = AppendUndone"
  obtains d a journal' added where "snd (append_and_wake sc io c y) = put_spool (domain_of c) d (y\<lparr>sys_admission := a\<rparr>)"
    "holds_log sc journal' cp d" "unat (newest cp d) \<le> Suc m" "pending sc journal' cp = pending sc journal cp @ added"
    "is_ok (fst (append_and_wake sc io c y)) \<Longrightarrow> c \<in> set (List.map_filter entry_command added)"
proof (cases "encodable sc c")
  case False
  obtain r where "spool_append sc io c (sys_spools y (domain_of c)) = (r, sys_spools y (domain_of c))" "\<not> is_ok r"
    using append_refused [OF False] by blast
  then show thesis
    using that [of "sys_spools y (domain_of c)" "sys_admission y" journal "[]"] assms
    by (cases r) (simp_all add: append_and_wake_def Let_def put_spool_def)
next
  case enc: True
  have room: "newest cp (sys_spools y (domain_of c)) \<noteq> - 1"
    using assms(2,3) unat_max_word [where ?'a = 64] by auto
  show thesis
  proof (cases "io = AppendDurable")
    case True
    obtain journal' p d' where d': "spool_append sc AppendDurable c (sys_spools y (domain_of c)) = (Ok p, d')"
      and h: "holds_log sc journal' cp d'" and p: "pending sc journal' cp = pending sc journal cp @ [WriteEntry p c]"
      and n: "unat (newest cp d') \<le> unat (newest cp (sys_spools y (domain_of c))) + 1"
      by (rule append_durable [OF held room enc])
    obtain b where "backlog_bytes sc d' = Ok b" using backlog_held [OF h] by blast
    then show thesis
      using that [of d' "admission_update (domain_of c) b (sys_admission y)" journal' "[WriteEntry p c]"] d' h p n assms(2)
      by (simp add: True append_and_wake_def Let_def put_spool_def map_filter_one)
  next
    case False
    then have io: "io = AppendUndone" using assms(4) by simp
    obtain journal' where u: "fst (spool_append sc AppendUndone c (sys_spools y (domain_of c))) = Err DurableAppendFailed"
      "holds_log sc journal' cp (snd (spool_append sc AppendUndone c (sys_spools y (domain_of c))))"
      "pending sc journal' cp = pending sc journal cp"
      "unat (newest cp (snd (spool_append sc AppendUndone c (sys_spools y (domain_of c))))) \<le> unat (newest cp (sys_spools y (domain_of c))) + 1"
      by (rule append_undone [OF held room enc])
    then show thesis
      using that [of "snd (spool_append sc AppendUndone c (sys_spools y (domain_of c)))" "sys_admission y" journal' "[]"] assms(2)
      by (cases "spool_append sc AppendUndone c (sys_spools y (domain_of c))")
        (simp add: io append_and_wake_def Let_def put_spool_def)
  qed
qed

lemma flush_front_ok:
  assumes "\<And>i. domain_ok sc m y i" and "m < 2 ^ 64 - 1" and "io = AppendDurable \<or> io = AppendUndone"
  shows "domain_ok sc (Suc m) (snd (flush_front sc k io y)) i"
proof -
  have same: "domain_ok sc (Suc m) y' i" if "sys_spools y' = sys_spools y" "sys_workers y' = sys_workers y"
    "sys_database y' = sys_database y" "sys_replies y' = sys_replies y" for y'
    by (rule domain_ok_frame [OF assms(1) [of i]]) (use that in auto)
  show ?thesis
  proof (cases "\<exists>item queue. hm_get (sys_pending y) k = Some (item # queue)")
    case False
    then show ?thesis using same by (auto simp: flush_front_def split: option.splits list.splits)
  next
    case True
    then obtain item queue where q: "hm_get (sys_pending y) k = Some (item # queue)" by blast
    let ?c = "pa_command item" and ?r = "append_and_wake sc io (pa_command item) y"
    let ?y = "snd (flush_front sc k io y)"
    obtain journal cp rest where held: "holds_log sc journal cp (sys_spools y (domain_of ?c))"
      and m: "unat (newest cp (sys_spools y (domain_of ?c))) \<le> m"
      and w: "pending sc journal cp = wk_entries (sys_workers y (domain_of ?c)) @ rest"
      and p: "wk_persisted (sys_workers y (domain_of ?c)) \<Longrightarrow>
         \<exists>e c es. wk_entries (sys_workers y (domain_of ?c)) = WriteEntry e c # es \<and> c \<in> set (sys_database y)"
      and r: "\<And>r c. (r, c) \<in> set (sys_replies y) \<Longrightarrow> domain_of c = domain_of ?c \<Longrightarrow>
         c \<in> set (sys_database y) \<or> c \<in> set (List.map_filter entry_command (pending sc journal cp))"
      by (rule domain_okE [OF assms(1) [of "domain_of ?c"]]) blast
    obtain d a journal' added where y1: "snd ?r = put_spool (domain_of ?c) d (y\<lparr>sys_admission := a\<rparr>)"
      and h: "holds_log sc journal' cp d" "unat (newest cp d) \<le> Suc m" "pending sc journal' cp = pending sc journal cp @ added"
      and ok: "is_ok (fst ?r) \<Longrightarrow> ?c \<in> set (List.map_filter entry_command added)"
      by (rule append_and_wake_held [OF held m assms(2,3)]) blast
    have y: "sys_spools ?y = (sys_spools y)(domain_of ?c := d)" "sys_workers ?y = sys_workers y"
      "sys_database ?y = sys_database y"
      "sys_replies ?y = (if is_ok (fst ?r) then sys_replies y @ [(pa_reply item, ?c)] else sys_replies y)"
      using y1 by (cases ?r; cases "fst ?r"; simp add: flush_front_def q put_spool_def)+
    show ?thesis
    proof (cases "i = domain_of ?c")
      case True
      show ?thesis
      proof (rule domain_okI [of sc journal' cp _ _ _ "rest @ added"])
        show "c \<in> set (sys_database ?y) \<or> c \<in> set (List.map_filter entry_command (pending sc journal' cp))"
          if "(n, c) \<in> set (sys_replies ?y)" "domain_of c = i" for n c
          using that r [of n c] ok True unfolding y h(3) map_filter_append by (auto split: if_splits)
      qed (use h w p True y in simp_all)
    next
      case False
      then show ?thesis by (intro domain_ok_frame [OF assms(1) [of i]]) (auto simp: y split: if_splits)
    qed
  qed
qed

lemma load_ok:
  assumes serde: "spool_serde sc" and "\<And>i. domain_ok sc m y i"
  shows "domain_ok sc m (load_replay_entries sc k y) i"
proof (cases "i = k")
  case True
  obtain journal cp where h: "holds_log sc journal cp (sys_spools y k)" "unat (newest cp (sys_spools y k)) \<le> m"
    and r: "\<And>r c. (r, c) \<in> set (sys_replies y) \<Longrightarrow> domain_of c = k \<Longrightarrow>
       c \<in> set (sys_database y) \<or> c \<in> set (List.map_filter entry_command (pending sc journal cp))"
    by (rule domain_okE [OF assms(2) [of k]]) blast
  show ?thesis
    unfolding True
    by (rule domain_okI [of sc journal cp _ _ _ "[]"])
      (use h r replay_pending [OF serde h(1)] in \<open>auto simp: load_replay_entries_def put_worker_def put_spool_def\<close>)
next
  case False
  show ?thesis
    by (rule domain_ok_frame [OF assms(2) [of i]])
      (use False in \<open>auto simp: load_replay_entries_def put_worker_def put_spool_def split: prod.splits outcome.splits\<close>)
qed

lemma persist_ok:
  assumes "\<And>i. domain_ok sc m y i"
  shows "domain_ok sc m (worker_persist k r y) i"
proof (cases "\<exists>e c rest. wk_entries (sys_workers y k) = WriteEntry e c # rest \<and> \<not> wk_persisted (sys_workers y k)")
  case False
  then have "worker_persist k r y = y" by (auto simp: worker_persist_def split: list.splits ReplayEntry.splits)
  then show ?thesis using assms by simp
next
  case True
  then obtain e c rest where w: "wk_entries (sys_workers y k) = WriteEntry e c # rest" "\<not> wk_persisted (sys_workers y k)"
    by blast
  show ?thesis
  proof (cases "is_ok (fst (persist_with_retry r))")
    case True
    then have y': "worker_persist k r y =
        put_worker k ((sys_workers y k)\<lparr>wk_persisted := True\<rparr>) (y\<lparr>sys_database := sys_database y @ [c]\<rparr>)"
      using w by (auto simp: worker_persist_def elim: is_okE)
    show ?thesis
    proof (cases "i = k")
      case True
      obtain journal cp more where h: "holds_log sc journal cp (sys_spools y k)" "unat (newest cp (sys_spools y k)) \<le> m"
        "pending sc journal cp = wk_entries (sys_workers y k) @ more"
        and r: "\<And>r c. (r, c) \<in> set (sys_replies y) \<Longrightarrow> domain_of c = k \<Longrightarrow>
           c \<in> set (sys_database y) \<or> c \<in> set (List.map_filter entry_command (pending sc journal cp))"
        by (rule domain_okE [OF assms [of k]]) blast
      show ?thesis
        unfolding True y' by (rule domain_okI [of sc journal cp _ _ _ more]) (use h r w in \<open>auto simp: put_worker_def\<close>)
    next
      case False
      then show ?thesis unfolding y' by (intro domain_ok_frame [OF assms [of i]]) (auto simp: put_worker_def)
    qed
  next
    case False
    then have y': "worker_persist k r y = put_worker k idle_worker y"
      using w by (cases "fst (persist_with_retry r)") (auto simp: worker_persist_def)
    show ?thesis
    proof (cases "i = k")
      case False
      then show ?thesis unfolding y' by (intro domain_ok_frame [OF assms [of i]]) (auto simp: put_worker_def)
    qed (use domain_ok_idle [OF assms [of k]] y' in simp)
  qed
qed

lemma refresh_frame:
  "sys_spools (refresh_backlog sc i y) = sys_spools y" "sys_workers (refresh_backlog sc i y) = sys_workers y"
  "sys_database (refresh_backlog sc i y) = sys_database y" "sys_replies (refresh_backlog sc i y) = sys_replies y"
  by (simp_all add: refresh_backlog_def split: outcome.split)

lemma acknowledge_ok:
  assumes serde: "spool_serde sc" and "\<And>i. domain_ok sc m y i"
  shows "domain_ok sc m (worker_acknowledge sc k y) i"
proof (cases "wk_entries (sys_workers y k)")
  case Nil
  then show ?thesis using assms(2) by (simp add: worker_acknowledge_def)
next
  case (Cons entry rest)
  obtain journal cp more where h: "holds_log sc journal cp (sys_spools y k)" "unat (newest cp (sys_spools y k)) \<le> m"
    and w: "pending sc journal cp = wk_entries (sys_workers y k) @ more"
    and p: "wk_persisted (sys_workers y k) \<Longrightarrow>
       \<exists>e c es. wk_entries (sys_workers y k) = WriteEntry e c # es \<and> c \<in> set (sys_database y)"
    and r: "\<And>r c. (r, c) \<in> set (sys_replies y) \<Longrightarrow> domain_of c = k \<Longrightarrow>
       c \<in> set (sys_database y) \<or> c \<in> set (List.map_filter entry_command (pending sc journal cp))"
    by (rule domain_okE [OF assms(2) [of k]]) blast
  have split: "pending sc journal cp = [] @ entry # rest @ more" using w Cons by simp
  obtain e c where entry: "entry = WriteEntry e c"
    using pending_writes [of sc journal cp] unfolding split by (cases entry) simp_all
  show ?thesis
  proof (cases "wk_persisted (sys_workers y k)")
    case False
    then show ?thesis using assms(2) by (simp add: worker_acknowledge_def Cons entry)
  next
    case True
    then have c: "c \<in> set (sys_database y)" using p Cons entry by simp
    obtain journal' d' where a: "acknowledge sc (entry_end entry) (sys_spools y k) = (Ok (), d')"
      and h': "holds_log sc journal' (entry_end entry) d'" "pending sc journal' (entry_end entry) = rest @ more"
        "newest (entry_end entry) d' = newest cp (sys_spools y k)"
      by (rule acknowledge_held [OF serde h(1) split])
    have y': "worker_acknowledge sc k y =
        refresh_backlog sc k (put_worker k \<lparr> wk_entries = rest, wk_persisted = False \<rparr> (put_spool k d' y))"
      using True a by (simp add: worker_acknowledge_def Cons entry)
    have kept: "x \<in> set (sys_database y) \<or> x \<in> set (List.map_filter entry_command (rest @ more))"
      if "(n, x) \<in> set (sys_replies y)" "domain_of x = k" for n x
      using r [OF that] c unfolding split by (auto simp: List.map_filter_def entry)
    show ?thesis
    proof (cases "i = k")
      case True
      show ?thesis
        unfolding True y'
        by (rule domain_okI [of sc journal' "entry_end entry" _ _ _ more])
          (use h h' kept in \<open>auto simp: refresh_frame put_worker_def put_spool_def\<close>)
    next
      case False
      then show ?thesis
        unfolding y' by (intro domain_ok_frame [OF assms(2) [of i]]) (auto simp: refresh_frame put_worker_def put_spool_def)
    qed
  qed
qed

text \<open>No append of an event is torn.\<close>

fun untorn :: "writer_event \<Rightarrow> bool" where
  "untorn (FlushFront _ io) \<longleftrightarrow> io = AppendDurable \<or> io = AppendUndone"
| "untorn _ \<longleftrightarrow> True"

lemma writer_step_ok:
  assumes serde: "spool_serde sc" and ok: "\<And>i. domain_ok sc m y i" and "m < 2 ^ 64 - 1" and "untorn e"
  shows "domain_ok sc (Suc m) (writer_step sc y e) i"
proof (cases e)
  case (Restart limits)
  have "domain_ok sc m (put_worker i idle_worker y) i" by (rule domain_ok_idle [OF ok])
  then show ?thesis
    by (rule domain_ok_frame) (simp_all add: writer_step_def Restart put_worker_def)
next
  case (FlushFront k io)
  then show ?thesis using flush_front_ok [OF ok assms(3), of io] assms(4) by (simp add: writer_step_def)
next
  case (LoadReplay k)
  have "domain_ok sc m (writer_step sc y e) i"
    using load_ok [OF serde ok] ok by (simp add: writer_step_def LoadReplay)
  then show ?thesis by (rule domain_ok_mono) simp
next
  case (PersistFirst k r)
  have "domain_ok sc m (writer_step sc y e) i" using persist_ok [OF ok] by (simp add: writer_step_def PersistFirst)
  then show ?thesis by (rule domain_ok_mono) simp
next
  case (AcknowledgeFirst k)
  have "domain_ok sc m (writer_step sc y e) i"
    using acknowledge_ok [OF serde ok] by (simp add: writer_step_def AcknowledgeFirst)
  then show ?thesis by (rule domain_ok_mono) simp
next
  case (EnqueueDurable reply c)
  show ?thesis by (rule domain_ok_frame [OF ok]) (simp_all add: writer_step_def EnqueueDurable enqueue_def Let_def)
next
  case (RefreshLimits order limits)
  show ?thesis by (rule domain_ok_frame [OF ok]) (simp_all add: writer_step_def RefreshLimits)
qed

lemma writer_run_ok:
  assumes "spool_serde sc" and "length es < 2 ^ 64" and "list_all untorn es"
  shows "domain_ok sc (length es) (foldl (writer_step sc) (writer_start limits) es) i"
  using assms(2,3)
proof (induction es arbitrary: i rule: rev_induct)
  case Nil
  let ?cp = "\<lparr> pos_segment = 0, pos_offset = 0 \<rparr>"
  have "holds_log sc [] ?cp empty_spool"
    by (simp add: holds_log_def segments_hold_def empty_spool_def files_of_def read_checkpoint_def checkpoint_at_def)
  then show ?case
    by (intro domain_okI [of sc "[]" ?cp _ _ _ "[]"])
      (simp_all add: writer_start_def idle_worker_def pending_def all_entries_def newest_def segment_numbers_def bt_keys_def
        empty_spool_def)
next
  case (snoc e es)
  then have "domain_ok sc (length es) (foldl (writer_step sc) (writer_start limits) es) j" for j by simp
  from writer_step_ok [OF assms(1) this, of e] snoc.prems show ?case by simp
qed


text \<open>A record is sent and appended, and the process restarts.\<close>

definition demo_limits :: CdrSpoolLimits where
  "demo_limits = \<lparr> csl_warning_mb = 512, csl_reject_mb = 1024, csl_resume_mb = 800 \<rparr>"

definition demo_writes :: "writer_event list" where
  "demo_writes = [EnqueueDurable 1 (demo_record ''a''), FlushFront ''d'' AppendDurable, Restart demo_limits]"

lemma demo_reply:
  "sys_replies (foldl (writer_step demo_codec) (writer_start demo_limits) demo_writes) = [(1, demo_record ''a'')]"
proof -
  let ?cp = "\<lparr> pos_segment = 0, pos_offset = 0 \<rparr>" and ?c = "demo_record ''a''"
  have d: "domain_of ?c = ''d''" by (simp add: domain_of_def demo_record_def)
  have held: "holds_log demo_codec [] ?cp empty_spool"
    by (simp add: holds_log_def segments_hold_def empty_spool_def files_of_def read_checkpoint_def checkpoint_at_def)
  have room: "newest ?cp empty_spool \<noteq> - 1" by (simp add: newest_def segment_numbers_def bt_keys_def empty_spool_def)
  obtain journal' p d' where a: "spool_append demo_codec AppendDurable ?c empty_spool = (Ok p, d')"
    and h: "holds_log demo_codec journal' ?cp d'"
    by (rule append_durable [OF held room demo_encoded(1)])
  obtain b where "backlog_bytes demo_codec d' = Ok b" using backlog_held [OF h] by blast
  then show ?thesis
    using a by (simp add: demo_writes_def writer_step_def writer_start_def enqueue_def d Let_def flush_front_def hm_get_def
        append_and_wake_def put_spool_def)
qed


text \<open>The database is asked at most five times, with pauses of six seconds in all, and is asked again only after a failure.\<close>

lemma persist_bounded:
  "length (snd (persist_with_retry r)) \<le> 4 \<and> sum_list (map unat (snd (persist_with_retry r))) \<le> 6000"
proof -
  have "retry_delay_ms 1 = 400" "retry_delay_ms 2 = 800" "retry_delay_ms 3 = 1600" "retry_delay_ms 4 = 3200"
    by code_simp+
  then show ?thesis
    by (simp add: persist_with_retry_def MAX_RETRY_ATTEMPTS_def persist_loop.simps [of r 0]
        persist_loop.simps [of r "Suc 0"] persist_loop.simps [of r 2] persist_loop.simps [of r 3] persist_loop.simps [of r 4]
        case_prod_beta numeral_2_eq_2 [symmetric] split: persist_result.split)
qed

section \<open>Admission follows the backlog\<close>

text \<open>Calls are refused after a report at or above the upper mark until a report below the lower one.\<close>

definition rejecting_after :: "u64 \<Rightarrow> u64 \<Rightarrow> u64 list \<Rightarrow> bool" where
  "rejecting_after reject resume bs \<longleftrightarrow>
     (\<exists>i < length bs. reject \<le> bs ! i \<and> (\<forall>j < length bs. i < j \<longrightarrow> resume \<le> bs ! j))"

lemma rejecting_after_Nil [simp]: "\<not> rejecting_after reject resume []"
  by (simp add: rejecting_after_def)

lemma rejecting_after_snoc:
  "rejecting_after reject resume (bs @ [b]) \<longleftrightarrow> reject \<le> b \<or> resume \<le> b \<and> rejecting_after reject resume bs"
  by (force simp: rejecting_after_def nth_append less_Suc_eq)

definition mib :: "u64 \<Rightarrow> u64" where
  "mib n = saturating_mul n MIB"

lemma unat_saturating_mul:
  fixes a b :: "'a::len word"
  shows "unat (saturating_mul a b) = min (unat a * unat b) (2 ^ LENGTH('a) - 1)"
proof -
  have iff: "uint a * uint b < 2 ^ LENGTH('a) \<longleftrightarrow> unat a * unat b < 2 ^ LENGTH('a)"
  proof -
    have "uint a * uint b = int (unat a * unat b)" by simp
    moreover have "(2 :: int) ^ LENGTH('a) = int (2 ^ LENGTH('a))" by simp
    ultimately show ?thesis by (simp only: of_nat_less_iff)
  qed
  show ?thesis
  proof (cases "unat a * unat b < 2 ^ LENGTH('a)")
    case True
    then have "unat a * unat b \<le> 2 ^ LENGTH('a) - 1" by linarith
    then show ?thesis using True by (simp add: saturating_mul_def iff unat_word_ariths min_absorb1)
  next
    case False
    then have "2 ^ LENGTH('a) - 1 \<le> unat a * unat b" by linarith
    then show ?thesis using False by (simp add: saturating_mul_def iff unat_max_word min_absorb2)
  qed
qed

lemma mib_mono: "a \<le> b \<Longrightarrow> mib a \<le> mib b"
  by (simp add: mib_def word_le_nat_alt unat_saturating_mul min.coboundedI1 min_le_iff_disj)

definition report :: "SpoolAdmission \<Rightarrow> string \<times> u64 \<Rightarrow> SpoolAdmission" where
  "report a = (\<lambda>(i, backlog). admission_update i backlog a)"

lemma report_limits [simp]: "sa_limits (report a x) = sa_limits a"
  by (cases x) (simp add: report_def admission_update_def Let_def)

lemma reports_limits [simp]: "sa_limits (foldl report a xs) = sa_limits a"
  by (induction xs rule: rev_induct) simp_all

lemma update_rejecting_flag:
  "resume \<le> reject \<Longrightarrow> dss_rejecting_new_calls (update_rejecting reject resume b s) \<longleftrightarrow>
     reject \<le> b \<or> resume \<le> b \<and> dss_rejecting_new_calls s"
  by (auto simp: update_rejecting_def)

lemma update_other_flags [simp]:
  "dss_append_failed (update_rejecting reject resume b s) = dss_append_failed s"
  "dss_append_failed (update_warning w b s) = dss_append_failed s"
  "dss_rejecting_new_calls (update_warning w b s) = dss_rejecting_new_calls s"
  by (simp_all add: update_rejecting_def update_warning_def)

lemma status_report:
  "status_of i (report a (k, b)) =
     (if i = k
      then update_rejecting (mib (csl_reject_mb (sa_limits a))) (mib (csl_resume_mb (sa_limits a))) b
        (update_warning (mib (csl_warning_mb (sa_limits a))) b ((status_of i a)\<lparr>dss_backlog_bytes := b\<rparr>))
      else status_of i a)"
  by (simp add: status_of_def report_def admission_update_def Let_def mib_def)

lemma admits_status: "admits_new_call a i \<longleftrightarrow> \<not> dss_rejecting_new_calls (status_of i a) \<and> \<not> dss_append_failed (status_of i a)"
  by (simp add: admits_new_call_def status_of_def status_default_def split: option.split)

lemma reports_status:
  assumes "csl_resume_mb limits \<le> csl_reject_mb limits"
  shows "\<not> dss_append_failed (status_of i (foldl report (admission_new limits) xs))"
    and "dss_rejecting_new_calls (status_of i (foldl report (admission_new limits) xs)) \<longleftrightarrow>
      rejecting_after (mib (csl_reject_mb limits)) (mib (csl_resume_mb limits)) (map snd (filter (\<lambda>x. fst x = i) xs))"
proof (induction xs rule: rev_induct)
  case Nil
  { case 1 then show ?case by (simp add: admission_new_def status_of_def hm_get_def status_default_def) }
  { case 2 then show ?case by (simp add: admission_new_def status_of_def hm_get_def status_default_def) }
next
  case (snoc x xs)
  have limits: "sa_limits (admission_new limits) = limits" by (simp add: admission_new_def)
  obtain k b where x: "x = (k, b)" by fastforce
  { case 1 show ?case using snoc(1) by (auto simp: x status_report) }
  { case 2 show ?case
      using snoc(2) mib_mono [OF assms] by (auto simp: x status_report update_rejecting_flag rejecting_after_snoc limits) }
qed



end
