(* ===== verification/Spec2Isabelle.thy ===== *)
theory Spec2Isabelle
  imports Runtime_Topology Wire_Frames Rtp_Roundtrip Dtmf_Source Call_Services Collector_Timers Runtime_Handoff
    Admission_Properties Writer_Properties
begin

text \<open>
  A verification development for the core of a telephone switch written in Rust
  (\<open>src/crates\<close>): calls with their legs, attempts and bridges, route analysis, digits dialled during a
  call, and the wire formats between the processes.

  \<^bold>\<open>How the program is put together.\<close>  An adapter process speaks SIP and reports events over an IPC
  socket; the switch process keeps one actor per call, which owns the runtime state of the call; a
  media plane relays RTP and hands the packets of telephone events to a parser; an AI process is
  attached over two framed channels.  The crate \<open>voipswitch-core\<close> holds the pure state machines,
  \<open>ai-protocol\<close> the AI wire format, \<open>voipswitchd\<close> the running switch.

  \<^bold>\<open>Theories and what they model.\<close>

  \<^item> \<open>Prelude\<close>, \<open>BTree_Map\<close>, \<open>Hash_Map\<close>, \<open>Machines\<close>, \<open>Channels\<close>, \<open>Decimal\<close>, \<open>Texts\<close>, \<open>Byte_Codec\<close>: the language.  Machine
    integers at their width with checked and saturating operations, outcomes with panics made
    visible, stateful operations composed as \<open>?\<close> composes them, ordered maps (locale \<open>ordered_map\<close>),
    hash maps whose iteration order is an argument, bounded channels, decimal and big-endian text,
    and the functions on UTF-8 strings the program uses.
    The locale \<open>invariant_machine\<close> carries every invariant over runs; \<open>runtime_binding\<close> is the contract of
    a service that a runtime attaches to and detaches from by generation.
  \<^item> \<open>Call_Types\<close> (\<open>types/call.rs\<close>, \<open>types/number.rs\<close>), \<open>Media_Stats\<close> (\<open>media/mod.rs\<close>), \<open>Session_Leg\<close>
    (\<open>session/mod.rs\<close>), \<open>Route_Analysis\<close> (\<open>analysis/mod.rs\<close>): states and their transition tables (locale
    \<open>lifecycle\<close>), statistics, legs, and the registry of number analyzers.
  \<^item> \<open>Call_Aggregate\<close> (\<open>call/mod.rs\<close>) with \<open>Call_Invariants\<close>, \<open>Call_Properties\<close>, \<open>Call_Lifecycles\<close>: the aggregate of a
    call with every mutator, its invariant over all runs, winner selection, the coordinator
    generation as a fencing token, hand-off candidates, life cycles of bridges and attempts.
  \<^item> \<open>Call_Config\<close> (\<open>runtime/call/config_snapshot.rs\<close>, \<open>timer.rs\<close>), \<open>Call_Runtime\<close> (\<open>runtime/call/model.rs\<close>) with
    \<open>Runtime_Properties\<close> and \<open>Runtime_Topology\<close>: the state the actor of a call keeps beside the aggregate;
    creation, answering, transfer and release, each characterised exactly.
  \<^item> \<open>Dtmf_Types\<close> (\<open>dtmf/mod.rs\<close>), \<open>Rfc4733_Parser\<close> (\<open>runtime/dtmf.rs\<close>) with \<open>Rfc4733_Properties\<close> and
    \<open>Rtp_Roundtrip\<close>: telephone events in RTP, reported once, with exact deadlines.
  \<^item> \<open>Dtmf_Source\<close>, \<open>Dtmf_Collectors\<close> (\<open>runtime/call/dtmf.rs\<close>, \<open>media_action.rs\<close>) with \<open>Collector_Invariants\<close> and
    \<open>Collector_Timers\<close>: which source a call listens to, where digits go, and the collectors that owe
    their two replies and share one timer.
  \<^item> \<open>Dtmf_Operations\<close> (\<open>dtmf_operation.rs\<close>), \<open>Call_Services\<close> (\<open>registry.rs\<close>, \<open>handoff.rs\<close>): the services other
    tasks talk to.
  \<^item> \<open>Weakest_Pre\<close>: a weakest-precondition calculus for stateful operations that return, fail or panic, in
    which the handlers of the actor are proved.
  \<^item> \<open>Media_Actions\<close>, \<open>Call_Events\<close> (\<open>event.rs\<close>, \<open>action.rs\<close>, \<open>adapter/writer.rs\<close>, \<open>ai-protocol/control.rs\<close>), \<open>Call_Records\<close>
    (\<open>cdr.rs\<close>, \<open>data_store/mod.rs\<close>): the messages between the tasks, the actions for the adapter, what an AI
    agent may ask for, and the records written when a call has ended.
  \<^item> \<open>Call_Actor\<close>, \<open>Actor_Attempts\<close> (\<open>attempt.rs\<close>), \<open>Actor_Calls\<close> (\<open>call/mod.rs\<close>, \<open>timer.rs\<close>), \<open>Actor_Control\<close> (\<open>actor.rs\<close>),
    \<open>Actor_Setup\<close> (\<open>create_call\<close>): the actor that coordinates a call, with all its handlers.
    \<open>Actor_Rules\<close> and \<open>Actor_Invariants\<close> prove of each handler the contract \<open>handler_contract\<close>: the actor stays
    well formed and, where asked for, a terminating call keeps its cleanup timer.  \<open>Actor_Loop\<close> is the
    loop of the actor, in which other tasks may change the queues and the application between two
    rounds; \<open>Actor_Properties\<close> states what holds over every run.
  \<^item> \<open>Session_Manager\<close> (\<open>session.rs\<close>), \<open>Runtime_Handoff\<close> (\<open>runtime/adapter.rs\<close>): the index of the running actors, the
    hand-off of the coordinator role in two phases, and the agreement of index and actor.
  \<^item> \<open>Pbx_Config\<close> (\<open>pbx/*/model.rs\<close>, \<open>config_service/runtime.rs\<close>, \<open>config_service/store.rs\<close>, \<open>app.rs\<close>): the configuration of
    a domain, the versioned store, and the mirrors of registrations and of trunk health.
  \<^item> \<open>Pbx_Routing\<close> (\<open>pbx/route/analysis.rs\<close>, \<open>pbx/extension/analysis.rs\<close>, \<open>pbx/ai_agent.rs\<close>, \<open>pbx/mod.rs\<close>): inbound
    routes and the number analyzers of the modules.  The registry with its phases and priorities is
    proved to decide as a plan that is written without it.
  \<^item> \<open>Call_Admission\<close> (\<open>runtime/call/mod.rs\<close>) with \<open>Admission_Properties\<close>: \<open>create_call\<close> from the invite to the two
    actors; every invite is refused with a status or becomes a call, and only to what can be reached.
  \<^item> \<open>Cdr_Spool\<close> (\<open>runtime/call/cdr_spool.rs\<close>) with \<open>Spool_Properties\<close>: the durable log of call detail records in segment
    files.  The state is the bytes of the files; over every run the log is a queue, a torn write is cut
    off by the next replay, and an append before that replay loses its record.
  \<^item> \<open>Cdr_Writer\<close> (\<open>runtime/call/cdr_writer.rs\<close>) with \<open>Writer_Properties\<close>: the writer and its workers as interleaved
    steps.  What was reported durable is in the database or in the spool, and the backlog of a domain
    decides with hysteresis whether it takes new calls; below, that reaches \<open>create_call\<close>.
  \<^item> \<open>Wire_Frames\<close> (\<open>ipc/frame.rs\<close>, \<open>ai-protocol\<close>): framed messages (locale \<open>message_codec\<close>), media frames,
    identifiers.

  \<^bold>\<open>Conventions.\<close>  A struct is a record whose fields carry a short prefix, an enum a datatype with the
  source's constructors, a method on \<open>&mut self\<close> a function to an outcome and the next state; the state
  an early return leaves behind is part of the value.  Clocks, environment variables, hash iteration
  orders and \<open>serde_json\<close> are arguments; the one law assumed of \<open>serde_json\<close> (decoding what it encoded) is a
  named hypothesis with a concrete instance.  A mutex-protected state is the state between two
  critical sections.  An \<open>Instant\<close> and a \<open>Duration\<close> are milliseconds.  Every loop is a total function: the
  loops that trim a queue recurse on the queue, the loops over maps on the list of entries, so no
  fuel is needed.

  Executors and services the actor shares with other tasks are the bounded queues behind them; a
  spawned task, a trace or a call on the media bridge is an entry in the list of effects of the actor.
  A \<open>select!\<close> is a choice of input: the properties hold for every order of messages and timers, so they
  do not depend on the bias of the source.

  \<^bold>\<open>Parameters of admission.\<close>  The \<open>regex\<close> crate, the text of a socket address (\<open>std::net\<close>), the media plane's
  answer to an offer, the executable profiles of the AI service, the spool's word on a new call, and
  the way the analysis worker ends are arguments; no law is assumed of them but that the media plane
  does not panic.  Of \<open>serde_json\<close> the spool assumes that frames and positions decode to what was encoded;
  of \<open>crc32fast\<close> nothing.

  \<^bold>\<open>Not modelled.\<close>  The handlers of the actor of an outbound leg, the conversation with an AI agent and
  the AI job services, the shutdown and the permits of the record writer, and the commands that edit the configuration
  in the database; sockets, files, the database, the kernel fast path, built-in prompts and process
  start-up are input and output around the state machines above.
\<close>

section \<open>Backlog and admission\<close>



end
